(* ===== verification/Prelude.thy ===== *)
theory Prelude
  imports Main "HOL-Library.Word" "HOL-Library.Char_ord" "HOL-Library.List_Lexorder"
begin

text \<open>
  Shared vocabulary of the development: C++ exceptions as values, buffers and strings, the
  standard-library and Boost helpers that several components of the framework call
  (splitting a string, ordered string sets, \<open>std::map\<close> insertion without overwriting,
  substring search), and the generic interfaces (a codec, a step machine with an invariant,
  a keyed store) that the components interpret.

  Lemma collections: \<open>mif_simps\<close> holds the unfolding rules of the standard-library helpers.
\<close>

named_theorems mif_simps

section \<open>Exceptions, results, buffers\<close>

text \<open>
  The exception classes the sources throw. \<open>Unknown_exn\<close> is anything thrown that is not a
  \<open>std::exception\<close> (what a \<open>catch (...)\<close> sees and a \<open>catch (std::exception const &)\<close>
  does not). \<open>Undefined_behaviour\<close> is not an exception: it marks an evaluation that the
  language leaves undefined, and no handler catches it.
\<close>

datatype exn =
    Invalid_argument string
  | Logic_error string
  | Runtime_error string
  | Proxy_stub_exception string
  | Bad_cast
  | Bad_alloc
  | Unknown_exn
  | Undefined_behaviour

type_synonym 'a result = "exn + 'a"

type_synonym buffer = "char list"

fun is_std_exception :: "exn \<Rightarrow> bool" where
  "is_std_exception Unknown_exn = False"
| "is_std_exception Undefined_behaviour = False"
| "is_std_exception _ = True"

fun is_invalid_argument :: "exn \<Rightarrow> bool" where
  "is_invalid_argument (Invalid_argument _) = True"
| "is_invalid_argument _ = False"

text \<open>The text of \<open>std::exception::what()\<close>; it is empty for a non-standard exception.\<close>

fun what :: "exn \<Rightarrow> string" where
  "what (Invalid_argument m) = m"
| "what (Logic_error m) = m"
| "what (Runtime_error m) = m"
| "what (Proxy_stub_exception m) = m"
| "what Bad_cast = ''std::bad_cast''"
| "what Bad_alloc = ''std::bad_alloc''"
| "what Unknown_exn = []"
| "what Undefined_behaviour = []"

text \<open>One call after another: the second is made with the result of the first, unless that has thrown.\<close>

definition and_then :: "'a result \<Rightarrow> ('a \<Rightarrow> 'b result) \<Rightarrow> 'b result" where
  "and_then r f = (case r of Inl e \<Rightarrow> Inl e | Inr x \<Rightarrow> f x)"

lemma and_then_simps [simp]: "and_then (Inl e) f = Inl e" "and_then (Inr x) f = f x"
  by (simp_all add: and_then_def)

lemma and_then_eq_Inl: "and_then r f = Inl e \<longleftrightarrow> r = Inl e \<or> (\<exists>x. r = Inr x \<and> f x = Inl e)"
  by (cases r) auto

lemma and_then_eq_Inr: "and_then r f = Inr y \<longleftrightarrow> (\<exists>x. r = Inr x \<and> f x = Inr y)"
  by (cases r) auto

text \<open>The double quote character, which the messages of the sources use.\<close>

abbreviation dquote :: string where
  "dquote \<equiv> [CHR 0x22]"

definition newline :: string where
  "newline = [CHR 0x0A]"

definition squote :: string where
  "squote = [CHR 0x27]"

section \<open>Strings\<close>

text \<open>
  \<open>boost::algorithm::split\<close> with a predicate and no token compression: a separator always
  ends a token, so the result has one token more than the input has separators, and the
  empty string has one empty token.
\<close>

fun split_any_of :: "(char \<Rightarrow> bool) \<Rightarrow> string \<Rightarrow> string list" where
  "split_any_of p [] = [[]]"
| "split_any_of p (c # cs) =
     (if p c then [] # split_any_of p cs
      else case split_any_of p cs of
             [] \<Rightarrow> [[c]]
           | t # ts \<Rightarrow> (c # t) # ts)"

text \<open>\<open>std::string::find(needle) != npos\<close>: the needle occurs somewhere.\<close>

fun is_prefix :: "string \<Rightarrow> string \<Rightarrow> bool" where
  "is_prefix [] ys = True"
| "is_prefix (x # xs) [] = False"
| "is_prefix (x # xs) (y # ys) = (x = y \<and> is_prefix xs ys)"

fun contains :: "string \<Rightarrow> string \<Rightarrow> bool" where
  "contains [] needle = (needle = [])"
| "contains (c # cs) needle = (is_prefix needle (c # cs) \<or> contains cs needle)"

text \<open>
  Filling a \<open>std::set<std::string>\<close>: no duplicates, iterated in the order of
  \<open>std::string\<close> (lexicographic on unsigned characters, the order of \<open>List_Lexorder\<close> over
  \<open>Char_ord\<close>).
\<close>

definition string_set :: "string list \<Rightarrow> string list" where
  "string_set xs = remdups_adj (sort xs)"

text \<open>
  \<open>std::map::insert\<close> and \<open>emplace\<close> leave an existing entry alone; \<open>operator[]\<close>
  assignment overwrites it (that is a function update).
\<close>

definition map_emplace :: "('k \<rightharpoonup> 'v) \<Rightarrow> 'k \<Rightarrow> 'v \<Rightarrow> ('k \<rightharpoonup> 'v)" where
  "map_emplace m k v = (case m k of None \<Rightarrow> m(k \<mapsto> v) | Some _ \<Rightarrow> m)"

text \<open>The same on the entries in the order of their keys, for a map that is iterated.\<close>

fun ordered_emplace :: "('k::linorder \<times> 'v) list \<Rightarrow> 'k \<Rightarrow> 'v \<Rightarrow> ('k \<times> 'v) list" where
  "ordered_emplace [] k v = [(k, v)]"
| "ordered_emplace ((k', v') # r) k v =
     (if k < k' then (k, v) # (k', v') # r
      else if k = k' then (k', v') # r else (k', v') # ordered_emplace r k v)"

text \<open>\<open>operator []\<close> with an assignment.\<close>

definition ordered_assign :: "('k::linorder \<times> 'v) list \<Rightarrow> 'k \<Rightarrow> 'v \<Rightarrow> ('k \<times> 'v) list" where
  "ordered_assign m k v =
     (if k \<in> fst ` set m then map (\<lambda>(i, x). (i, if i = k then v else x)) m else ordered_emplace m k v)"

text \<open>\<open>std::to_string\<close> of an unsigned value: decimal digits without leading zeros.\<close>

fun digits_acc :: "nat \<Rightarrow> string \<Rightarrow> string" where
  "digits_acc n acc =
     (if n < 10 then char_of (n + 48) # acc
      else digits_acc (n div 10) (char_of (n mod 10 + 48) # acc))"

declare digits_acc.simps [simp del]

definition nat_to_string :: "nat \<Rightarrow> string" where
  "nat_to_string n = digits_acc n []"

text \<open>\<open>std::to_string\<close> of a signed number.\<close>

definition int_to_string :: "int \<Rightarrow> string" where
  "int_to_string i = (if i < 0 then CHR ''-'' # nat_to_string (nat (- i)) else nat_to_string (nat i))"

text \<open>
  C++ leaves the order open in which the arguments of a call are evaluated. It is given as a
  function from the number of arguments to their positions; these are the two orders compilers
  use.
\<close>

definition left_to_right :: "nat \<Rightarrow> nat list" where
  "left_to_right n = [0..<n]"

definition right_to_left :: "nat \<Rightarrow> nat list" where
  "right_to_left n = rev [0..<n]"

text \<open>The arguments of a call that may throw; the first that does, in the order of evaluation, decides.\<close>

definition evaluate_args :: "(nat \<Rightarrow> nat list) \<Rightarrow> 'a result list \<Rightarrow> 'a list result" where
  "evaluate_args order rs =
     (case filter isl (map ((!) rs) (order (length rs))) of
        [] \<Rightarrow> Inr (map projr rs)
      | r # _ \<Rightarrow> Inl (projl r))"

subsection \<open>Facts about the helpers\<close>

lemma split_any_of_not_Nil [simp]: "split_any_of p s \<noteq> []"
  by (cases s) (auto split: list.splits)

lemma split_any_of_no_sep: "\<forall>c \<in> set s. \<not> p c \<Longrightarrow> split_any_of p s = [s]"
  by (induction s) auto

lemma split_any_of_append_sep:
  assumes "\<forall>c \<in> set s. \<not> p c" and "p d"
  shows "split_any_of p (s @ d # t) = s # split_any_of p t"
  using assms by (induction s) auto

lemma length_split_any_of: "length (split_any_of p s) = Suc (length (filter p s))"
  by (induction s) (auto split: list.splits)

lemma split_any_of_tokens: "t \<in> set (split_any_of p s) \<Longrightarrow> c \<in> set t \<Longrightarrow> \<not> p c"
proof (induction s arbitrary: t c)
  case Nil
  then show ?case by simp
next
  case (Cons a s)
  obtain u us where u: "split_any_of p s = u # us"
    by (cases "split_any_of p s") auto
  then have IH: "\<And>v d. v \<in> set (u # us) \<Longrightarrow> d \<in> set v \<Longrightarrow> \<not> p d"
    using Cons.IH by simp
  show ?case
  proof (cases "p a")
    case True
    with Cons.prems u IH show ?thesis by auto
  next
    case False
    with Cons.prems u have "t = a # u \<or> t \<in> set us" by simp
    then show ?thesis
    proof
      assume "t = a # u"
      with False Cons.prems(2) IH [of u] show ?thesis by auto
    next
      assume "t \<in> set us"
      with Cons.prems(2) IH [of t] show ?thesis by simp
    qed
  qed
qed

lemma is_prefix_iff: "is_prefix xs ys \<longleftrightarrow> (\<exists>zs. ys = xs @ zs)"
  by (induction xs ys rule: is_prefix.induct) auto

lemma contains_iff: "contains s needle \<longleftrightarrow> (\<exists>us vs. s = us @ needle @ vs)"
proof (induction s)
  case Nil
  then show ?case by auto
next
  case (Cons c cs)
  show ?case
  proof
    assume "contains (c # cs) needle"
    then consider "is_prefix needle (c # cs)" | "contains cs needle" by auto
    then show "\<exists>us vs. c # cs = us @ needle @ vs"
    proof cases
      case 1
      then show ?thesis by (auto simp: is_prefix_iff intro: exI [of _ "[]"])
    next
      case 2
      with Cons.IH obtain us vs where "cs = us @ needle @ vs" by auto
      then have "c # cs = (c # us) @ needle @ vs" by simp
      then show ?thesis by blast
    qed
  next
    assume "\<exists>us vs. c # cs = us @ needle @ vs"
    then obtain us vs where eq: "c # cs = us @ needle @ vs" by auto
    show "contains (c # cs) needle"
    proof (cases us)
      case Nil
      with eq have "is_prefix needle (c # cs)" unfolding is_prefix_iff by auto
      then show ?thesis by simp
    next
      case (Cons u us')
      with eq have "cs = us' @ needle @ vs" by simp
      with Cons.IH have "contains cs needle" by blast
      then show ?thesis by simp
    qed
  qed
qed

lemma set_string_set [simp]: "set (string_set xs) = set xs"
  by (simp add: string_set_def)

lemma sorted_string_set: "sorted (string_set xs)"
  by (simp add: string_set_def)

lemma sorted_remdups_adj_distinct: "sorted xs \<Longrightarrow> distinct (remdups_adj xs)"
proof (induction xs rule: remdups_adj.induct)
  case (3 x y xs)
  then show ?case by (cases "x = y") (auto simp: order.order_iff_strict)
qed simp_all

lemma distinct_string_set: "distinct (string_set xs)"
  by (simp add: string_set_def sorted_remdups_adj_distinct)

lemma of_char_less_256: "of_char c < (256 :: nat)"
  using of_char_of [of "of_char c :: nat"] by (simp add: mod_eq_self_iff_div_eq_0)

lemma map_emplace_same: "map_emplace m k v k = Some (case m k of None \<Rightarrow> v | Some w \<Rightarrow> w)"
  by (simp add: map_emplace_def split: option.splits)

lemma map_emplace_other [simp]: "k' \<noteq> k \<Longrightarrow> map_emplace m k v k' = m k'"
  by (simp add: map_emplace_def split: option.splits)

lemma dom_map_emplace [simp]: "dom (map_emplace m k v) = insert k (dom m)"
  by (auto simp: map_emplace_def split: option.splits)

lemma map_of_update_key: "map_of (map (\<lambda>(i, x). (i, if i = k then row else x)) d) =
    (if map_of d k \<noteq> None then (map_of d)(k \<mapsto> row) else map_of d)"
  by (induction d) (auto simp: fun_eq_iff)

lemma map_of_delete_key: "map_of (filter (\<lambda>(i, x). i \<noteq> k) d) = (map_of d)(k := None)"
  by (induction d) (auto simp: fun_eq_iff)

lemma keys_ordered_emplace: "fst ` set (ordered_emplace r k v) = insert k (fst ` set r)"
  by (induction r k v rule: ordered_emplace.induct) auto

lemma ordered_emplace_new:
  "k \<notin> fst ` set r \<Longrightarrow> length (ordered_emplace r k v) = Suc (length r) \<and> set (ordered_emplace r k v) = insert (k, v) (set r)"
  by (induction r k v rule: ordered_emplace.induct) auto

lemma ordered_emplace_sorted:
  "sorted_wrt (<) (map fst r) \<Longrightarrow> sorted_wrt (<) (map fst (ordered_emplace r k v))"
proof (induction r k v rule: ordered_emplace.induct)
  case (2 k' v' r k v)
  then show ?case
    using keys_ordered_emplace [of r k v] by (fastforce simp flip: set_map)
qed simp

lemma ordered_emplace_map:
  "sorted_wrt (<) (map fst r) \<Longrightarrow> map_of (ordered_emplace r k v) = map_emplace (map_of r) k v"
proof (induction r k v rule: ordered_emplace.induct)
  case (2 k' v' r k v)
  have "map_of r k = None" if "k < k'"
    using that 2(2) by (fastforce simp: map_of_eq_None_iff)
  with 2 show ?case
    by (auto simp: map_emplace_def fun_upd_twist split: option.splits)
qed (simp add: map_emplace_def)

lemma ordered_assign_keys: "fst ` set (ordered_assign m k v) = insert k (fst ` set m)"
  by (force simp: ordered_assign_def keys_ordered_emplace image_iff)

lemma ordered_assign_sorted:
  assumes "sorted_wrt (<) (map fst m)"
  shows "sorted_wrt (<) (map fst (ordered_assign m k v))"
proof -
  have "map fst (map (\<lambda>(i, x). (i, if i = k then v else x)) m) = map fst m"
    by (induction m) auto
  with assms show ?thesis
    by (simp add: ordered_assign_def ordered_emplace_sorted del: map_map)
qed

lemma ordered_assign_map:
  assumes "sorted_wrt (<) (map fst m)"
  shows "map_of (ordered_assign m k v) = (map_of m)(k \<mapsto> v)"
  using ordered_emplace_map [OF assms, of k v] map_of_eq_None_iff [of m k]
  by (auto simp: ordered_assign_def map_of_update_key map_emplace_def split: option.split)

lemma length_ordered_assign: "length (ordered_assign m k v) = (if k \<in> fst ` set m then length m else Suc (length m))"
  by (simp add: ordered_assign_def ordered_emplace_new)

lemma evaluate_args_all:
  assumes "list_all2 (\<lambda>r a. r = Inr a) rs args" and "set (order (length rs)) = {..<length rs}"
  shows "evaluate_args order rs = Inr args"
proof -
  have rs: "rs = map Inr args"
    using assms(1) by (induction rule: list_all2_induct) simp_all
  have "\<not> isl (rs ! i)" if "i < length rs" for i
    using that by (simp add: rs)
  then have "filter isl (map ((!) rs) (order (length rs))) = []"
    using assms(2) by (simp add: filter_empty_conv)
  then show ?thesis
    by (simp add: evaluate_args_def rs comp_def)
qed

lemma evaluate_args_error:
  assumes "Inl e \<in> set rs" and "set (order (length rs)) = {..<length rs}"
  shows "\<exists>e'. Inl e' \<in> set rs \<and> evaluate_args order rs = Inl e'"
proof -
  have set: "set (map ((!) rs) (order (length rs))) = set rs"
    unfolding set_map assms(2) using nth_image [of "length rs" rs] by (simp add: atLeast0LessThan)
  then have "filter isl (map ((!) rs) (order (length rs))) \<noteq> []"
    using assms(1) by (metis (no_types, lifting) filter_empty_conv isl_def)
  then obtain r rest where r: "filter isl (map ((!) rs) (order (length rs))) = r # rest"
    by (cases "filter isl (map ((!) rs) (order (length rs)))") auto
  then have "r \<in> set (filter isl (map ((!) rs) (order (length rs))))"
    by simp
  then have "r \<in> set rs \<and> isl r"
    using set by auto
  then show ?thesis
    using r by (auto simp: evaluate_args_def isl_def)
qed

lemmas [mif_simps] = string_set_def map_emplace_def

section \<open>Interfaces\<close>

text \<open>
  A codec: a printer and a parser that inverts it on the values it accepts. What follows for
  every instance (distinct values have distinct encodings, parsing is onto the valid values)
  is proved once here.
\<close>

locale codec =
  fixes encode :: "'a \<Rightarrow> 'b"
    and decode :: "'b \<Rightarrow> 'e + 'a"
    and valid :: "'a \<Rightarrow> bool"
  assumes decode_encode: "valid x \<Longrightarrow> decode (encode x) = Inr x"
begin

lemma encode_inj: "valid x \<Longrightarrow> valid y \<Longrightarrow> encode x = encode y \<Longrightarrow> x = y"
  by (metis decode_encode sum.inject(2))

lemma encode_inj_on: "inj_on encode {x. valid x}"
  by (rule inj_onI) (auto intro: encode_inj)

lemma decode_onto: "valid x \<Longrightarrow> \<exists>s. decode s = Inr x"
  using decode_encode by blast

lemma decode_map: "\<forall>x \<in> set xs. valid x \<Longrightarrow> map decode (map encode xs) = map Inr xs"
  by (auto intro: decode_encode)

end

text \<open>
  A step machine with an invariant: every run from an admissible state stays inside the
  invariant. The components instantiate \<open>step\<close> with their event handlers.
\<close>

locale machine =
  fixes step :: "'s \<Rightarrow> 'e \<Rightarrow> 's"
    and inv :: "'s \<Rightarrow> bool"
  assumes step_inv: "inv s \<Longrightarrow> inv (step s e)"
begin

lemma run_inv: "inv s \<Longrightarrow> inv (foldl step s es)"
  by (induction es arbitrary: s) (auto intro: step_inv)

lemma run_prefix_inv: "inv s \<Longrightarrow> inv (foldl step s (take n es))"
  by (rule run_inv)

end

text \<open>
  A keyed store: what a lookup returns after every other operation. The laws determine the
  result of any sequence of operations, which is the lemma clients use.
\<close>

datatype ('k, 'v) store_op = Store_put 'k 'v | Store_remove 'k | Store_clear

locale keyed_store =
  fixes empty :: "'s"
    and put :: "'s \<Rightarrow> 'k \<Rightarrow> 'v \<Rightarrow> 's"
    and remove :: "'s \<Rightarrow> 'k \<Rightarrow> 's"
    and clear :: "'s \<Rightarrow> 's"
    and lookup :: "'s \<Rightarrow> 'k \<Rightarrow> 'v option"
  assumes lookup_empty: "lookup empty k = None"
    and lookup_put: "lookup (put s k v) k' = (if k' = k then Some v else lookup s k')"
    and lookup_remove: "lookup (remove s k) k' = (if k' = k then None else lookup s k')"
    and lookup_clear: "lookup (clear s) k = None"
begin

fun apply_op :: "'s \<Rightarrow> ('k, 'v) store_op \<Rightarrow> 's" where
  "apply_op s (Store_put k v) = put s k v"
| "apply_op s (Store_remove k) = remove s k"
| "apply_op s Store_clear = clear s"

fun touches :: "'k \<Rightarrow> ('k, 'v) store_op \<Rightarrow> bool" where
  "touches k (Store_put k' v) = (k' = k)"
| "touches k (Store_remove k') = (k' = k)"
| "touches k Store_clear = True"

lemma lookup_untouched: "\<not> touches k x \<Longrightarrow> lookup (apply_op s x) k = lookup s k"
  by (cases x) (auto simp: lookup_put lookup_remove)

lemma lookup_run_untouched:
  "\<forall>x \<in> set ops. \<not> touches k x \<Longrightarrow> lookup (foldl apply_op s ops) k = lookup s k"
  by (induction ops arbitrary: s) (simp_all add: lookup_untouched)

lemma last_put_wins:
  "\<forall>x \<in> set ops. \<not> touches k x \<Longrightarrow>
     lookup (foldl apply_op s (before @ Store_put k v # ops)) k = Some v"
  by (simp add: lookup_run_untouched lookup_put)

end

end
