(* ===== verification/Framing.thy ===== *)
theory Framing
  imports Prelude
begin

text \<open>
  The length-prefixed framing of \<open>src/mif/net/clients\<close>: \<open>FrameWriter\<close> puts a 32-bit
  big-endian length in front of a packet, \<open>FrameReader\<close> collects the bytes of a stream and
  hands the packets on. The length is a signed 32-bit integer in both; the reader's bound
  check mixes it with \<open>std::size_t\<close>, so its sign extension to 64 bits is written out.
\<close>

unbundle bit_operations_syntax

section \<open>The frame header\<close>

text \<open>The four bytes of a 32-bit value, most significant first, and their reading back.\<close>

definition be_bytes :: "32 word \<Rightarrow> char list" where
  "be_bytes w =
     [char_of (unat w div 2 ^ 24), char_of (unat w div 2 ^ 16),
      char_of (unat w div 2 ^ 8), char_of (unat w)]"

definition be_value :: "char list \<Rightarrow> 32 word" where
  "be_value bs =
     word_of_nat (foldl (\<lambda>n b. n * 256 + of_char b) 0 bs)"

section \<open>Writer and reader\<close>

text \<open>\<open>FrameWriter::ProcessData\<close>: the frame that is posted for a buffer.\<close>

definition FrameWriter_ProcessData :: "buffer \<Rightarrow> buffer" where
  "FrameWriter_ProcessData buf =
     (let frameBytes = (word_of_nat (length buf) :: 32 word)
      in be_bytes frameBytes @ buf)"

text \<open>
  \<open>FrameReader::Impl::OnData\<close> on the pending bytes \<open>m_buffer\<close>: the new pending bytes and
  what happens. Advancing an iterator by a negative length and copying that range is
  undefined.
\<close>

datatype frame_outcome = Need_more | Frame buffer | Undefined_range

definition FrameReader_OnData :: "buffer \<Rightarrow> buffer \<Rightarrow> buffer \<times> frame_outcome" where
  "FrameReader_OnData m_buffer buf =
     (let m_buffer = (if length m_buffer = 0 then buf else m_buffer @ buf);
          size = (word_of_nat (length m_buffer) :: 64 word)
      in if size < 4 then (m_buffer, Need_more)
         else let frameBytes = be_value (take 4 m_buffer)
              in if size < signed frameBytes + 4 then (m_buffer, Need_more)
                 else if sint frameBytes < 0 then (m_buffer, Undefined_range)
                 else let end = 4 + unat frameBytes;
                          packet = take (unat frameBytes) (drop 4 m_buffer)
                      in if end = length m_buffer then ([], Frame packet)
                         else (drop end m_buffer, Frame packet))"

text \<open>Feeding a sequence of received chunks: pending bytes and the packets handed on.\<close>

fun read_chunks :: "buffer \<Rightarrow> buffer list \<Rightarrow> buffer \<times> frame_outcome list" where
  "read_chunks m [] = (m, [])"
| "read_chunks m (c # cs) =
     (let (m', out) = FrameReader_OnData m c; (m'', outs) = read_chunks m' cs
      in (m'', out # outs))"

fun packets :: "frame_outcome list \<Rightarrow> buffer list" where
  "packets [] = []"
| "packets (Frame p # outs) = p # packets outs"
| "packets (_ # outs) = packets outs"

section \<open>Facts\<close>

lemma length_be_bytes [simp]: "length (be_bytes w) = 4"
  by (simp add: be_bytes_def)

lemma be_value_be_bytes [simp]: "be_value (be_bytes w) = w"
proof -
  let ?n = "unat w"
  have "?n < 2 ^ LENGTH(32)" by (rule unsigned_less)
  then have bound: "?n < 4294967296" by simp
  have 1: "?n div 16777216 mod 256 = ?n div 16777216"
    using bound by (simp add: div_less_iff_less_mult)
  have 2: "?n div 16777216 * 256 + ?n div 65536 mod 256 = ?n div 65536"
    using div_mult_mod_eq [of "?n div 65536" 256] by (simp flip: div_mult2_eq)
  have 3: "?n div 65536 * 256 + ?n div 256 mod 256 = ?n div 256"
    using div_mult_mod_eq [of "?n div 256" 256] by (simp flip: div_mult2_eq)
  have 4: "?n div 256 * 256 + ?n mod 256 = ?n" by (rule div_mult_mod_eq)
  have "(((?n div 16777216) mod 256 * 256 + (?n div 65536) mod 256) * 256 +
      (?n div 256) mod 256) * 256 + ?n mod 256 = ?n"
    by (simp only: 1 2 3 4)
  then have "foldl (\<lambda>n b. n * 256 + of_char b) 0 (be_bytes w) = ?n"
    using 1 by (simp add: be_bytes_def)
  then show ?thesis by (simp add: be_value_def)
qed

text \<open>A packet that fits: its length is a non-negative signed 32-bit number.\<close>

definition fits :: "buffer \<Rightarrow> bool" where
  "fits p \<longleftrightarrow> length p < 2 ^ 31"

lemma sint_small: "n < 2 ^ 31 \<Longrightarrow> sint (word_of_nat n :: 32 word) = int n"
  by (simp add: sint_uint signed_take_bit_int_eq_self unsigned_of_nat take_bit_nat_eq_self)

lemma unat_small: "n < 2 ^ 31 \<Longrightarrow> unat (word_of_nat n :: 32 word) = n"
  by (simp add: unsigned_of_nat take_bit_nat_eq_self)

lemma signed_small:
  assumes "n < 2 ^ 31"
  shows "(signed (word_of_nat n :: 32 word) :: 64 word) = word_of_nat n"
proof -
  have "(signed (word_of_nat n :: 32 word) :: 64 word) = word_of_int (sint (word_of_nat n :: 32 word))"
    by simp
  then show ?thesis using sint_small [OF assms] by simp
qed

lemma size_less:
  assumes "m < 2 ^ 64" and "n < 2 ^ 64"
  shows "(word_of_nat m :: 64 word) < word_of_nat n \<longleftrightarrow> m < n"
  using assms by (simp add: word_less_nat_alt unsigned_of_nat take_bit_nat_eq_self)

lemma FrameReader_unfold:
  assumes "m @ c = b"
  shows "FrameReader_OnData m c =
    (let size = (word_of_nat (length b) :: 64 word); frameBytes = be_value (take 4 b)
     in if size < 4 then (b, Need_more)
        else if size < signed frameBytes + 4 then (b, Need_more)
        else if sint frameBytes < 0 then (b, Undefined_range)
        else (drop (4 + unat frameBytes) b, Frame (take (unat frameBytes) (drop 4 b))))"
  unfolding FrameReader_OnData_def Let_def assms [symmetric] by auto

text \<open>The reader on a buffer that starts with a complete frame, and on a part of a frame.\<close>

lemma FrameReader_complete:
  assumes "fits p" and b: "m @ c = FrameWriter_ProcessData p @ r" and "length (m @ c) < 2 ^ 64"
  shows "FrameReader_OnData m c = (r, Frame p)"
proof -
  let ?w = "word_of_nat (length p) :: 32 word"
  let ?b = "FrameWriter_ProcessData p @ r"
  have n: "length p < 2 ^ 31" using assms(1) by (simp add: fits_def)
  have eq: "?b = be_bytes ?w @ p @ r"
    by (simp add: FrameWriter_ProcessData_def Let_def)
  then have len: "length ?b = 4 + length p + length r" by simp
  have hdr: "be_value (take 4 ?b) = ?w" unfolding eq by simp
  have lt: "length ?b < 2 ^ 64" using assms(3) b by simp
  have "\<not> (word_of_nat (length ?b) :: 64 word) < word_of_nat (length p + 4)"
    using lt len n by (subst size_less) auto
  then have not_short: "\<not> (word_of_nat (length ?b) :: 64 word) < signed ?w + 4"
    by (simp add: signed_small [OF n])
  have "\<not> (word_of_nat (length ?b) :: 64 word) < word_of_nat 4"
    using lt len by (subst size_less) auto
  then have not_tiny: "\<not> (word_of_nat (length ?b) :: 64 word) < 4" by simp
  have "drop (4 + length p) ?b = r" "take (length p) (drop 4 ?b) = p"
    unfolding eq by simp_all
  then show ?thesis
    using not_short not_tiny sint_small [OF n] unat_small [OF n] hdr
    by (simp only: FrameReader_unfold [OF b] Let_def) simp
qed

lemma FrameReader_partial:
  assumes "fits p" and "m @ c @ r = FrameWriter_ProcessData p" and "r \<noteq> []"
  shows "FrameReader_OnData m c = (m @ c, Need_more)"
proof (cases "length (m @ c) < 4")
  case True
  then have "(word_of_nat (length (m @ c)) :: 64 word) < word_of_nat 4"
    by (subst size_less) auto
  then have "(word_of_nat (length (m @ c)) :: 64 word) < 4" by (simp only: of_nat_numeral)
  then show ?thesis
    by (simp only: FrameReader_unfold [OF refl] Let_def if_True)
next
  case False
  let ?w = "word_of_nat (length p) :: 32 word"
  have n: "length p < 2 ^ 31" using assms(1) by (simp add: fits_def)
  have b: "(m @ c) @ r = be_bytes ?w @ p"
    using assms(2) by (simp add: FrameWriter_ProcessData_def Let_def)
  then have len: "length (m @ c) + length r = 4 + length p"
    by (metis length_append length_be_bytes)
  have "take 4 (m @ c) = take 4 ((m @ c) @ r)"
    using False by (simp only: take_append [of 4 "m @ c" r]) simp
  also have "\<dots> = be_bytes ?w" unfolding b by simp
  finally have hdr: "be_value (take 4 (m @ c)) = ?w" by (simp only: be_value_be_bytes)
  have "length r > 0" using assms(3) by simp
  with len have lt: "length (m @ c) < length p + 4" by linarith
  then have "(word_of_nat (length (m @ c)) :: 64 word) < word_of_nat (length p + 4)"
    using n by (subst size_less) auto
  then have short: "(word_of_nat (length (m @ c)) :: 64 word) < signed ?w + 4"
    by (simp only: signed_small [OF n] of_nat_add of_nat_numeral)
  then show ?thesis
    by (simp only: FrameReader_unfold [OF refl] Let_def hdr if_True if_cancel)
qed

text \<open>
  Streams of frames. The bytes received so far are the frames already delivered followed by
  the pending bytes, as long as the stream consists of frames that fit.
\<close>

definition stream_of :: "buffer list \<Rightarrow> buffer" where
  "stream_of ps = concat (map FrameWriter_ProcessData ps)"

lemma stream_of_Nil [simp]: "stream_of [] = []"
  and stream_of_Cons [simp]: "stream_of (p # ps) = FrameWriter_ProcessData p @ stream_of ps"
  and stream_of_append [simp]: "stream_of (ps @ qs) = stream_of ps @ stream_of qs"
  by (simp_all add: stream_of_def)

lemma FrameWriter_not_Nil [simp]: "FrameWriter_ProcessData p \<noteq> []"
  by (simp add: FrameWriter_ProcessData_def Let_def be_bytes_def)

lemma FrameReader_step:
  assumes "\<forall>p \<in> set ps. fits p" and "m @ c @ r = stream_of ps" and "length (stream_of ps) < 2 ^ 64"
  shows "(FrameReader_OnData m c = (m @ c, Need_more) \<and>
           (ps = [] \<or> length (m @ c) < length (FrameWriter_ProcessData (hd ps)))) \<or>
    (\<exists>p qs m'. ps = p # qs \<and> FrameReader_OnData m c = (m', Frame p) \<and> m' @ r = stream_of qs)"
proof (cases ps)
  case Nil
  with assms(2) have "m @ c = []" by simp
  then show ?thesis using Nil by (simp add: FrameReader_OnData_def)
next
  case (Cons p qs)
  have fit: "fits p" using assms(1) Cons by simp
  have eq: "(m @ c) @ r = FrameWriter_ProcessData p @ stream_of qs"
    using assms(2) Cons by simp
  from append_eq_append_conv2 [THEN iffD1, OF eq] consider
      (short) us where "FrameWriter_ProcessData p = (m @ c) @ us" "r = us @ stream_of qs"
    | (full) us where "m @ c = FrameWriter_ProcessData p @ us" "us @ r = stream_of qs"
    by metis
  then show ?thesis
  proof cases
    case full
    have "length (m @ c) \<le> length (stream_of ps)"
      using arg_cong [OF eq, of length] Cons by simp
    then have "length (m @ c) < 2 ^ 64" using assms(3) by linarith
    from FrameReader_complete [OF fit full(1) this] full(2) Cons show ?thesis by blast
  next
    case short
    show ?thesis
    proof (cases "us = []")
      case True
      have "length (m @ c) \<le> length (stream_of ps)"
        using arg_cong [OF eq, of length] Cons by simp
      then have "length (m @ c) < 2 ^ 64" using assms(3) by linarith
      moreover have "m @ c = FrameWriter_ProcessData p @ []" using short True by simp
      ultimately have "FrameReader_OnData m c = ([], Frame p)"
        using FrameReader_complete [OF fit] by blast
      then show ?thesis using short True Cons by simp
    next
      case False
      with short have "FrameReader_OnData m c = (m @ c, Need_more)"
        by (intro FrameReader_partial [OF fit, of m c us]) auto
      moreover have "length (m @ c) < length (FrameWriter_ProcessData p)"
        using short(1) False by simp
      ultimately show ?thesis using Cons by simp
    qed
  qed
qed

lemma read_chunks_stream:
  assumes "\<forall>p \<in> set ps. fits p" and "m @ concat cs @ r = stream_of ps"
    and "length (stream_of ps) < 2 ^ 64"
  shows "\<exists>qs m' outs. read_chunks m cs = (m', outs) \<and> ps = packets outs @ qs \<and>
    m' @ r = stream_of qs \<and> Undefined_range \<notin> set outs"
  using assms
proof (induction cs arbitrary: m ps)
  case Nil
  then show ?case by simp
next
  case (Cons c cs)
  have "m @ c @ (concat cs @ r) = stream_of ps" using Cons.prems(2) by simp
  from FrameReader_step [OF Cons.prems(1) this Cons.prems(3)] consider
      (more) "FrameReader_OnData m c = (m @ c, Need_more)"
    | (frame) p ps' m1 where "ps = p # ps'" "FrameReader_OnData m c = (m1, Frame p)"
        "m1 @ concat cs @ r = stream_of ps'"
    by blast
  then show ?case
  proof cases
    case rd: more
    from Cons.IH [of ps "m @ c"] Cons.prems obtain qs m' outs where
      "read_chunks (m @ c) cs = (m', outs)" "ps = packets outs @ qs" "m' @ r = stream_of qs"
      "Undefined_range \<notin> set outs"
      by auto
    with rd show ?thesis by simp
  next
    case frame
    from Cons.IH [of ps' m1] frame Cons.prems obtain qs m' outs where
      "read_chunks m1 cs = (m', outs)" "ps' = packets outs @ qs" "m' @ r = stream_of qs"
      "Undefined_range \<notin> set outs"
      by auto
    with frame show ?thesis by simp
  qed
qed

lemma length_read_chunks: "read_chunks m cs = (m', outs) \<Longrightarrow> length outs = length cs"
  by (induction cs arbitrary: m m' outs) (auto split: prod.splits)

lemma length_packets: "length (packets outs) \<le> length outs"
  by (induction outs rule: packets.induct) auto

lemma packets_append: "packets (a @ b) = packets a @ packets b"
  by (induction a rule: packets.induct) auto

text \<open>The framing is a codec: one chunk that is exactly one frame gives the packet back.\<close>

definition read_single :: "buffer \<Rightarrow> frame_outcome + buffer" where
  "read_single chunk =
     (case FrameReader_OnData [] chunk of
        ([], Frame p) \<Rightarrow> Inr p
      | (_, out) \<Rightarrow> Inl out)"

interpretation frames: codec FrameWriter_ProcessData read_single fits
proof unfold_locales
  fix p assume "fits p"
  then have "FrameReader_OnData [] (FrameWriter_ProcessData p) = ([], Frame p)"
    by (intro FrameReader_complete) (auto simp: fits_def FrameWriter_ProcessData_def Let_def)
  then show "read_single (FrameWriter_ProcessData p) = Inr p"
    by (simp add: read_single_def)
qed

lemma packets_Need_more: "packets (replicate n Need_more) = []"
  by (induction n) auto

lemma read_pieces:
  assumes "fits p" and "m @ concat cs @ piece = FrameWriter_ProcessData p" and "piece \<noteq> []"
  shows "read_chunks m (cs @ [piece]) = ([], replicate (length cs) Need_more @ [Frame p])"
  using assms
proof (induction cs arbitrary: m)
  case Nil
  then have "FrameReader_OnData m piece = ([], Frame p)"
    by (intro FrameReader_complete) (auto simp: fits_def FrameWriter_ProcessData_def Let_def)
  then show ?case by simp
next
  case (Cons c cs)
  have "FrameReader_OnData m c = (m @ c, Need_more)"
    using Cons.prems by (intro FrameReader_partial [of p m c "concat cs @ piece"]) auto
  with Cons show ?case by simp
qed

text \<open>The 64-bit bound check on a negative 32-bit length.\<close>

lemma negative_bound:
  fixes w :: "32 word"
  assumes "sint w < 0" and "4 \<le> n" and "n < 2 ^ 63"
  shows "(word_of_nat n :: 64 word) < signed w + 4 \<longleftrightarrow> sint w < - 4"
proof -
  have lo: "- (2 ^ 31) \<le> sint w" using sint_greater_eq [of w] by simp
  have eq: "(signed w + 4 :: 64 word) = word_of_int (sint w + 4)" by simp
  have un: "uint (word_of_nat n :: 64 word) = int n"
    using assms(3) by (simp add: unsigned_of_nat take_bit_nat_eq_self)
  show ?thesis
  proof (cases "sint w < - 4")
    case True
    have "(sint w + 4) mod 2 ^ 64 = (sint w + 4 + 2 ^ 64) mod (2 ^ 64 :: int)"
      by (rule mod_add_self2 [symmetric])
    also have "\<dots> = sint w + 4 + 2 ^ 64"
      using True lo by (intro mod_pos_pos_trivial) simp_all
    finally have "uint (signed w + 4 :: 64 word) = sint w + 4 + 2 ^ 64"
      unfolding eq uint_word_of_int by simp
    then show ?thesis using True lo assms un by (simp add: word_less_def)
  next
    case False
    then have "uint (signed w + 4 :: 64 word) = sint w + 4"
      using assms(1) unfolding eq uint_word_of_int by simp
    then show ?thesis using False assms un by (simp add: word_less_def)
  qed
qed

section \<open>Properties\<close>

text \<open>
  Property C1: however the stream of frames is cut into chunks, the reader hands on the
  packets in the order they were written, none twice, none changed and none out of thin air,
  and the pending bytes followed by what is still to come are exactly the frames not yet
  handed on.
\<close>

theorem frame_stream_order:
  assumes "\<forall>p \<in> set ps. fits p" and "concat cs @ rest = stream_of ps"
    and "length (stream_of ps) < 2 ^ 64"
  shows "\<exists>qs pending outs. read_chunks [] cs = (pending, outs) \<and>
    ps = packets outs @ qs \<and> pending @ rest = stream_of qs \<and> Undefined_range \<notin> set outs"
  using read_chunks_stream [of ps "[]" cs rest] assms by simp

theorem frame_stream_order_witness:
  "fits ''ab'' \<and>
   concat [be_bytes 2, ''a'', ''b''] @ [] = stream_of [''ab''] \<and>
   length (stream_of [''ab'']) < 2 ^ 64 \<and>
   (\<exists>qs pending outs. read_chunks [] [be_bytes 2, ''a'', ''b''] = (pending, outs) \<and>
      [''ab''] = packets outs @ qs \<and> pending @ [] = stream_of qs \<and> Undefined_range \<notin> set outs)"
proof -
  have 0: "fits ''ab''" by (simp add: fits_def)
  then have 1: "\<forall>p \<in> set [''ab'']. fits p" by simp
  have 2: "concat [be_bytes 2, ''a'', ''b''] @ [] = stream_of [''ab'']"
    by (simp add: stream_of_def FrameWriter_ProcessData_def)
  have 3: "length (stream_of [''ab'']) < 2 ^ 64"
    by (simp add: stream_of_def FrameWriter_ProcessData_def)
  show ?thesis using 0 2 3 frame_stream_order [OF 1 2 3] by blast
qed

text \<open>
  A packet is handed on by the very call that brings the last byte of its
  frame, whatever the segmentation, provided no byte of a later frame came before: a frame
  received in pieces is delivered once, by the last piece, and leaves nothing pending.
\<close>

lemma frame_reassembled_by_last_piece:
  assumes "fits p" and "concat cs @ last_piece = FrameWriter_ProcessData p" and "last_piece \<noteq> []"
  shows "\<exists>outs. read_chunks [] (cs @ [last_piece]) = ([], outs @ [Frame p]) \<and> packets outs = []"
  using read_pieces [of p "[]" cs last_piece] assms packets_Need_more by auto

lemma frame_reassembled_by_last_piece_example:
  "fits ''ab'' \<and> concat [be_bytes 2, ''a''] @ ''b'' = FrameWriter_ProcessData ''ab'' \<and>
   ''b'' \<noteq> [] \<and>
   (\<exists>outs. read_chunks [] ([be_bytes 2, ''a''] @ [''b'']) = ([], outs @ [Frame ''ab'']) \<and>
      packets outs = [])"
proof -
  have 1: "fits ''ab''" by (simp add: fits_def)
  have 2: "concat [be_bytes 2, ''a''] @ ''b'' = FrameWriter_ProcessData ''ab''"
    by (simp add: FrameWriter_ProcessData_def)
  have 3: "''b'' \<noteq> []" by simp
  show ?thesis using 1 2 3 frame_reassembled_by_last_piece [OF 1 2 3] by blast
qed

text \<open>
  One call hands on at most one packet, so when frames arrive faster than
  calls, the rest of them stays in the buffer: a chunk that holds \<open>n + 1\<close> frames delivers the
  first and keeps the other \<open>n\<close> complete frames pending until more data arrives.
\<close>

lemma frame_backlog:
  assumes "fits p" and "length (stream_of (p # ps)) < 2 ^ 64"
  shows "FrameReader_OnData [] (stream_of (p # ps)) = (stream_of ps, Frame p)"
  using assms by (intro FrameReader_complete) simp_all

lemma frame_backlog_example:
  "fits ''a'' \<and> length (stream_of [''a'', ''b'']) < 2 ^ 64 \<and>
   FrameReader_OnData [] (stream_of [''a'', ''b'']) = (stream_of [''b''], Frame ''a'')"
proof -
  have 1: "fits ''a''" by (simp add: fits_def)
  have 2: "length (stream_of [''a'', ''b'']) < 2 ^ 64"
    by (simp add: stream_of_def FrameWriter_ProcessData_def Let_def)
  show ?thesis using 1 2 frame_backlog [OF 1 2] by blast
qed

text \<open>
  A header with a negative length is never rejected. For \<open>-4\<close> to \<open>-1\<close> the
  bound check wraps around and passes, and the range that is copied is undefined; for any
  smaller value the reader waits for bytes that cannot come, on every further chunk.
\<close>

lemma frame_negative_length:
  assumes "sint w < 0" and "length (m @ c) < 2 ^ 63" and "m @ c = be_bytes w @ r"
  shows "FrameReader_OnData m c =
    (m @ c, if - 4 \<le> sint w then Undefined_range else Need_more)"
proof -
  let ?b = "be_bytes w @ r"
  have len: "length ?b < 2 ^ 63" "4 \<le> length ?b" using assms(2,3) by simp_all
  have "\<not> (word_of_nat (length ?b) :: 64 word) < word_of_nat 4"
    using len by (subst size_less) auto
  then have tiny: "\<not> (word_of_nat (length ?b) :: 64 word) < 4" by simp
  have hdr: "be_value (take 4 ?b) = w" by simp
  have short: "(word_of_nat (length ?b) :: 64 word) < signed w + 4 \<longleftrightarrow> sint w < - 4"
    using assms(1) len by (intro negative_bound) auto
  show ?thesis
    using tiny short assms(1)
    by (simp only: FrameReader_unfold [OF assms(3)] Let_def hdr assms(3)) auto
qed

lemma frame_negative_length_example:
  "sint (- 1 :: 32 word) < 0 \<and> length ([] @ be_bytes (- 1)) < 2 ^ 63 \<and>
   FrameReader_OnData [] (be_bytes (- 1)) = ([] @ be_bytes (- 1), Undefined_range)"
proof -
  have 1: "sint (- 1 :: 32 word) < 0" by simp
  have 2: "length ([] @ be_bytes (- 1)) < 2 ^ 63" by simp
  have 3: "[] @ be_bytes (- 1) = be_bytes (- 1) @ []" by simp
  show ?thesis using 1 2 frame_negative_length [OF 1 2 3] by simp
qed

end
