(* ===== verification/Meta.thy ===== *)
theory Meta
  imports Prelude
begin

text \<open>
  The compile-time layer of the framework: index sequences, tuple algebra, compile-time
  strings, the argument-binding creator, the list of inherited interfaces and the interface
  lookup over an inheritance hierarchy. Template parameter packs are lists, template
  recursion is recursion, partial specialisations are equations.
\<close>

section \<open>Index sequences and bound arguments\<close>

text \<open>\<open>IndexSequenceGenerator\<close> counts down and pushes to the front of the pack.\<close>

fun IndexSequenceGenerator :: "nat \<Rightarrow> nat list \<Rightarrow> nat list" where
  "IndexSequenceGenerator 0 Indexes = Indexes"
| "IndexSequenceGenerator (Suc N) Indexes = IndexSequenceGenerator N (N # Indexes)"

definition MakeIndexSequence :: "nat \<Rightarrow> nat list" where
  "MakeIndexSequence N = IndexSequenceGenerator N []"

text \<open>
  \<open>Creator::Create\<close>: the constructor arguments it passes, the call's own arguments before or
  after the bound ones; the bound ones are unpacked by index.
\<close>

definition Creator_CreateObject :: "bool \<Rightarrow> nat list \<Rightarrow> 'a list \<Rightarrow> 'a list \<Rightarrow> 'a list" where
  "Creator_CreateObject ArgsToHead Indexes m_args args =
     (if ArgsToHead then args @ map (\<lambda>i. m_args ! i) Indexes
      else map (\<lambda>i. m_args ! i) Indexes @ args)"

definition Creator_Create :: "bool \<Rightarrow> 'a list \<Rightarrow> 'a list \<Rightarrow> 'a list" where
  "Creator_Create ArgsToHead m_args args =
     Creator_CreateObject ArgsToHead (MakeIndexSequence (length m_args)) m_args args"

section \<open>Tuple algebra\<close>

text \<open>\<open>TupleCat\<close> over a non-empty pack of tuples; two tuples are concatenated.\<close>

fun TupleCat :: "'a list list \<Rightarrow> 'a list" where
  "TupleCat [] = []"
| "TupleCat [X] = X"
| "TupleCat [X, Y] = X @ Y"
| "TupleCat (H # T) = H @ TupleCat T"

fun Disjunction :: "bool list \<Rightarrow> bool" where
  "Disjunction [] = False"
| "Disjunction [B1] = B1"
| "Disjunction (B1 # Bn) = (if B1 then B1 else Disjunction Bn)"

definition TupleContains :: "'a \<Rightarrow> 'a list \<Rightarrow> bool" where
  "TupleContains T Types = Disjunction (map (\<lambda>U. T = U) Types)"

fun UniqueTuple :: "'a list \<Rightarrow> 'a list \<Rightarrow> 'a list" where
  "UniqueTuple (H # T) TRes = UniqueTuple T (if TupleContains H TRes then TRes else H # TRes)"
| "UniqueTuple [] TRes = TRes"

definition MakeUniqueTuple :: "'a list \<Rightarrow> 'a list" where
  "MakeUniqueTuple T = UniqueTuple T []"

fun DiffTuple :: "'a list \<Rightarrow> 'a list \<Rightarrow> 'a list \<Rightarrow> 'a list" where
  "DiffTuple (H # T) TWithOut TRes =
     (if TupleContains H TWithOut then DiffTuple T TWithOut TRes
      else DiffTuple T TWithOut (TupleCat [[H], TRes]))"
| "DiffTuple [] TWithOut TRes = TRes"

definition TupleDifference :: "'a list \<Rightarrow> 'a list \<Rightarrow> 'a list" where
  "TupleDifference TTuple TWithOut = DiffTuple TTuple TWithOut []"

section \<open>Compile-time strings\<close>

abbreviation NUL :: char where
  "NUL \<equiv> CHR 0x00"

text \<open>
  \<open>MIF_STR\<close> expands a literal to its first 64 characters (the array of the literal ends in
  a zero, positions behind it are zero too) and one zero more; \<open>MakeStaticString\<close> keeps the
  characters up to and including the first zero.
\<close>

definition MIF_STR_IMPL_1 :: "string \<Rightarrow> nat \<Rightarrow> char" where
  "MIF_STR_IMPL_1 str i =
     (let arr = str @ [NUL] in if length arr > i then arr ! i else NUL)"

definition MIF_STR_IMPL_64 :: "string \<Rightarrow> nat \<Rightarrow> char list" where
  "MIF_STR_IMPL_64 str i = map (\<lambda>k. MIF_STR_IMPL_1 str (i + k)) [0..<64]"

definition MIF_STR :: "string \<Rightarrow> char list" where
  "MIF_STR str = MIF_STR_IMPL_64 str 0 @ [NUL]"

fun CharArraySize :: "char list \<Rightarrow> nat" where
  "CharArraySize [] = 0"
| "CharArraySize (Ch # Str) = (if Ch = NUL then 1 else CharArraySize Str + 1)"

definition MakeStaticString :: "char list \<Rightarrow> char list" where
  "MakeStaticString Str =
     map (\<lambda>i. Str ! i) (MakeIndexSequence (CharArraySize (Str @ [NUL])))"

definition MIF_STATIC_STR :: "string \<Rightarrow> char list" where
  "MIF_STATIC_STR str = MakeStaticString (MIF_STR str)"

definition StringCat :: "char list \<Rightarrow> char list \<Rightarrow> char list" where
  "StringCat Str1 Str2 =
     map (\<lambda>i. Str1 ! i) (MakeIndexSequence (CharArraySize (Str1 @ [NUL]) - 1)) @
     map (\<lambda>i. Str2 ! i) (MakeIndexSequence (CharArraySize (Str2 @ [NUL]) - 1)) @ [NUL]"

text \<open>
  \<open>Detail::ToString<I, Str...>\<close>: digits are pushed to the front until the number is zero;
  the number zero with no digits yet is its own specialisation.
\<close>

fun ToString_detail :: "nat \<Rightarrow> char list \<Rightarrow> char list" where
  "ToString_detail I Str =
     (if I = 0 then (if Str = [] then [CHR ''0'', NUL] else Str @ [NUL])
      else ToString_detail (I div 10) (char_of (I mod 10 + 48) # Str))"

declare ToString_detail.simps [simp del]

definition ToString :: "64 word \<Rightarrow> char list" where
  "ToString I = ToString_detail (unat I) []"

text \<open>The C string that an array of characters holds.\<close>

definition c_str :: "char list \<Rightarrow> string" where
  "c_str arr = takeWhile (\<lambda>c. c \<noteq> NUL) arr"

section \<open>Interfaces and their bases\<close>

text \<open>
  An interface is \<open>IService\<close> or a named structure derived from \<open>Inherit<bases>\<close>; the tuple
  \<open>TBaseTypeTuple\<close> of the latter is its list of bases, that of \<open>IService\<close> is empty.
\<close>

datatype iface = IService | Iface string "iface list"

fun TBaseTypeTuple :: "iface \<Rightarrow> iface list" where
  "TBaseTypeTuple IService = []"
| "TBaseTypeTuple (Iface _ bases) = bases"

lemma size_base [termination_simp]: "b \<in> set (TBaseTypeTuple i) \<Longrightarrow> size b < size i"
  by (cases i) (auto simp: less_Suc_eq_le intro: order_trans [OF size_list_estimation'])

text \<open>
  \<open>ExpandInterfaceBase\<close> on an interface and on a tuple of interfaces; the extra pack
  \<open>TList\<close> is empty in every instantiation the library makes.
\<close>

function (sequential) ExpandInterfaceBase :: "iface \<Rightarrow> iface list" where
  "ExpandInterfaceBase IService = []"
| "ExpandInterfaceBase (Iface nm bases) =
     MakeUniqueTuple
       (if bases = [IService] then []
        else MakeUniqueTuple (TupleCat (bases # map ExpandInterfaceBase bases)))"
  by pat_completeness auto
termination
  by (relation "measure size") (auto simp: less_Suc_eq_le intro: size_list_estimation')

definition MakeInheritedIist :: "iface \<Rightarrow> iface list" where
  "MakeInheritedIist T = ExpandInterfaceBase T"

text \<open>
  \<open>QueryInterface<std::tuple<...>>::Query\<close>: depth-first search through the bases for the
  requested type; the result is the interface whose pointer is stored.
\<close>

function QueryInterface :: "iface list \<Rightarrow> iface \<Rightarrow> iface option" where
  "QueryInterface [] typeInfo = None"
| "QueryInterface (H # T) typeInfo =
     (if H = typeInfo then Some H
      else case QueryInterface (TBaseTypeTuple H) typeInfo of
             Some r \<Rightarrow> Some r
           | None \<Rightarrow> QueryInterface T typeInfo)"
  by pat_completeness auto
termination
proof (relation "measure (\<lambda>(tuple, typeInfo). size_list size tuple)")
  fix H :: iface and T :: "iface list" and typeInfo :: iface
  show "((TBaseTypeTuple H, typeInfo), (H # T, typeInfo)) \<in>
      measure (\<lambda>(tuple, typeInfo). size_list size tuple)"
    by (cases H) auto
qed auto

text \<open>An interface inherits from itself, its bases and what they inherit from.\<close>

inductive inherits :: "iface \<Rightarrow> iface \<Rightarrow> bool" where
  self: "inherits i i"
| base: "b \<in> set (TBaseTypeTuple i) \<Longrightarrow> inherits b j \<Longrightarrow> inherits i j"

inductive_cases inherits_IService: "inherits IService j"

section \<open>Facts\<close>

lemma IndexSequenceGenerator_eq: "IndexSequenceGenerator N xs = [0..<N] @ xs"
  by (induction N arbitrary: xs) (auto simp: upt_conv_Cons)

lemma MakeIndexSequence_eq [simp]: "MakeIndexSequence N = [0..<N]"
  by (simp add: MakeIndexSequence_def IndexSequenceGenerator_eq)

lemma Creator_Create_eq:
  "Creator_Create ArgsToHead m_args args = (if ArgsToHead then args @ m_args else m_args @ args)"
  by (simp add: Creator_Create_def Creator_CreateObject_def map_nth)

lemma TupleCat_eq [simp]: "TupleCat ts = concat ts"
  by (induction ts rule: TupleCat.induct) auto

lemma Disjunction_eq: "Disjunction bs \<longleftrightarrow> True \<in> set bs"
  by (induction bs rule: Disjunction.induct) auto

lemma TupleContains_iff [simp]: "TupleContains T Types \<longleftrightarrow> T \<in> set Types"
  by (auto simp: TupleContains_def Disjunction_eq)

lemma UniqueTuple_eq: "UniqueTuple T TRes = remdups (rev (filter (\<lambda>x. x \<notin> set TRes) T)) @ TRes"
proof (induction T TRes rule: UniqueTuple.induct)
  case (1 H T TRes)
  show ?case
  proof (cases "H \<in> set TRes")
    case True
    with 1 show ?thesis by simp
  next
    case False
    have "filter (\<lambda>x. x \<notin> set (H # TRes)) T = filter (\<lambda>x. x \<noteq> H) (filter (\<lambda>x. x \<notin> set TRes) T)"
      by (simp add: conj_commute)
    moreover have "remdups (xs @ [H]) = remdups (filter (\<lambda>x. x \<noteq> H) xs) @ [H]" for xs
      by (induction xs) auto
    ultimately show ?thesis
      using False 1 by (simp add: rev_filter)
  qed
qed simp

lemma MakeUniqueTuple_eq: "MakeUniqueTuple T = remdups (rev T)"
  by (simp add: MakeUniqueTuple_def UniqueTuple_eq)

lemma set_MakeUniqueTuple [simp]: "set (MakeUniqueTuple T) = set T"
  and distinct_MakeUniqueTuple [simp]: "distinct (MakeUniqueTuple T)"
  by (simp_all add: MakeUniqueTuple_eq)

lemma DiffTuple_eq: "DiffTuple T W R = rev (filter (\<lambda>x. x \<notin> set W) T) @ R"
  by (induction T W R rule: DiffTuple.induct) auto

lemma TupleDifference_eq: "TupleDifference T W = rev (filter (\<lambda>x. x \<notin> set W) T)"
  by (simp add: TupleDifference_def DiffTuple_eq)

subsection \<open>Compile-time strings\<close>

lemma CharArraySize_eq: "CharArraySize (Str @ [NUL]) = Suc (length (c_str Str))"
  by (induction Str) (auto simp: c_str_def)

lemma map_nth_take: "n \<le> length xs \<Longrightarrow> map (\<lambda>i. xs ! i) [0..<n] = take n xs"
  by (rule nth_equalityI) auto

lemma take_Suc_length_append: "take (Suc (length xs)) (xs @ ys) = xs @ take 1 ys"
  by simp

lemma take_length_c_str: "take (length (c_str Str)) Str = c_str Str"
  unfolding c_str_def by (rule takeWhile_eq_take [symmetric])

lemma length_c_str_le: "length (c_str Str) \<le> length Str"
  unfolding c_str_def by (rule length_takeWhile_le)

lemma c_str_no_NUL: "NUL \<notin> set (c_str Str)"
  unfolding c_str_def by (auto dest: set_takeWhileD)

lemma c_str_append_NUL: "NUL \<notin> set xs \<Longrightarrow> c_str (xs @ NUL # ys) = xs"
  unfolding c_str_def by (induction xs) auto

lemma StringCat_eq: "StringCat Str1 Str2 = c_str Str1 @ c_str Str2 @ [NUL]"
  by (simp add: StringCat_def CharArraySize_eq map_nth_take take_length_c_str length_c_str_le)

lemma MIF_STR_eq: "MIF_STR str = take 64 str @ replicate (64 - length str) NUL @ [NUL]"
proof -
  have "map (\<lambda>k. MIF_STR_IMPL_1 str k) [0..<64] = take 64 str @ replicate (64 - length str) NUL"
    by (rule nth_equalityI) (auto simp: MIF_STR_IMPL_1_def nth_append Let_def)
  then show ?thesis
    by (simp add: MIF_STR_def MIF_STR_IMPL_64_def)
qed

lemma c_str_MIF_STR: "NUL \<notin> set str \<Longrightarrow> c_str (MIF_STR str) = take 64 str"
proof -
  assume "NUL \<notin> set str"
  then have "NUL \<notin> set (take 64 str)" by (auto dest: in_set_takeD)
  then show ?thesis
    by (cases "64 - length str") (auto simp: MIF_STR_eq c_str_append_NUL)
qed

lemma MIF_STATIC_STR_eq:
  assumes "NUL \<notin> set str"
  shows "MIF_STATIC_STR str = take 64 str @ [NUL]"
proof -
  have len: "length (take 64 str) < length (MIF_STR str)"
    by (simp add: MIF_STR_eq)
  have "MIF_STATIC_STR str = take (Suc (length (take 64 str))) (MIF_STR str)"
    using len
    by (simp add: MIF_STATIC_STR_def MakeStaticString_def CharArraySize_eq
        c_str_MIF_STR [OF assms] map_nth_take Suc_leI del: upt_Suc)
  also have "\<dots> = take 64 str @ take 1 (replicate (64 - length str) NUL @ [NUL])"
    unfolding MIF_STR_eq by (rule take_Suc_length_append)
  also have "take 1 (replicate (64 - length str) NUL @ [NUL]) = [NUL]"
    by (cases "64 - length str") auto
  finally show ?thesis .
qed

lemma ToString_detail_eq:
  "ToString_detail I Str =
     (if I = 0 then (if Str = [] then [CHR ''0'', NUL] else Str @ [NUL])
      else digits_acc I Str @ [NUL])"
proof (induction I Str rule: ToString_detail.induct)
  case (1 I Str)
  show ?case
  proof (cases "I = 0")
    case True
    then show ?thesis by (simp add: ToString_detail.simps)
  next
    case False
    then have "ToString_detail I Str = ToString_detail (I div 10) (char_of (I mod 10 + 48) # Str)"
      by (subst ToString_detail.simps) simp
    with False 1 show ?thesis
      by (simp add: digits_acc.simps [of I Str] div_eq_0_iff)
  qed
qed

subsection \<open>Interfaces\<close>

lemma inherits_IService_iff [simp]: "inherits IService j \<longleftrightarrow> j = IService"
  by (auto elim: inherits_IService intro: inherits.self)

lemma inherits_unfold:
  "inherits i j \<longleftrightarrow> i = j \<or> (\<exists>b \<in> set (TBaseTypeTuple i). inherits b j)"
  by (auto elim: inherits.cases intro: inherits.intros)

lemma QueryInterface_Some: "QueryInterface tuple t = Some r \<Longrightarrow> r = t"
  by (induction tuple t rule: QueryInterface.induct) (auto split: if_splits option.splits)

lemma QueryInterface_None:
  "QueryInterface tuple t = None \<longleftrightarrow> (\<forall>H \<in> set tuple. \<not> inherits H t)"
proof (induction tuple t rule: QueryInterface.induct)
  case (2 H T t)
  show ?case
  proof (cases "H = t")
    case True
    then show ?thesis by (auto intro: inherits.self)
  next
    case False
    with 2 show ?thesis
      by (auto simp: inherits_unfold [of H t] split: option.splits)
  qed
qed simp

lemma set_ExpandInterfaceBase:
  assumes "j \<in> set (ExpandInterfaceBase i)"
  shows "\<exists>b \<in> set (TBaseTypeTuple i). inherits b j"
  using assms
proof (induction i arbitrary: j rule: ExpandInterfaceBase.induct)
  case (2 nm bases)
  then consider "j \<in> set bases" | b where "b \<in> set bases" "j \<in> set (ExpandInterfaceBase b)"
    by (auto split: if_splits)
  then show ?case
  proof cases
    case 1
    then show ?thesis by (auto intro: inherits.self)
  next
    case 2
    with "2.IH" [of b j] have "inherits b j"
      using "2.prems" by (auto intro: inherits.base split: if_splits)
    with 2 show ?thesis by auto
  qed
qed simp

lemma ExpandInterfaceBase_complete:
  assumes "b \<in> set (TBaseTypeTuple i)" and "inherits b j" and "j \<noteq> IService"
  shows "j \<in> set (ExpandInterfaceBase i)"
  using assms
proof (induction i arbitrary: b j rule: ExpandInterfaceBase.induct)
  case (2 nm bases)
  have ne: "bases \<noteq> [IService]"
    using 2 by auto
  show ?case
  proof (cases "b = j")
    case True
    with 2 ne show ?thesis by auto
  next
    case False
    with "2.prems"(2) obtain c where "c \<in> set (TBaseTypeTuple b)" "inherits c j"
      by (auto simp: inherits_unfold [of b j])
    with 2 ne have "j \<in> set (ExpandInterfaceBase b)" by auto
    with 2 ne show ?thesis by auto
  qed
qed simp

section \<open>Properties\<close>

text \<open>
  The interface search over an inheritance hierarchy finds the requested
  interface exactly when some member of the tuple is it or inherits from it, directly or
  through any number of bases, and it never stores a pointer to another interface.
\<close>

lemma QueryInterface_complete:
  "QueryInterface tuple t = (if \<exists>H \<in> set tuple. inherits H t then Some t else None)"
  using QueryInterface_None [of tuple t] QueryInterface_Some [of tuple t]
  by (cases "QueryInterface tuple t") auto

text \<open>
  The list of inherited interfaces that the proxy and stub classes are built
  from names no interface twice, contains only interfaces the type inherits from through one
  of its bases, and contains every such interface but \<open>IService\<close>.
\<close>

lemma MakeInheritedIist_correct:
  "distinct (MakeInheritedIist T) \<and>
   (\<forall>j. j \<in> set (MakeInheritedIist T) \<longrightarrow> (\<exists>b \<in> set (TBaseTypeTuple T). inherits b j)) \<and>
   (\<forall>j. j \<noteq> IService \<longrightarrow> (\<exists>b \<in> set (TBaseTypeTuple T). inherits b j) \<longrightarrow>
      j \<in> set (MakeInheritedIist T))"
proof (intro conjI allI impI)
  show "distinct (MakeInheritedIist T)"
    by (cases T) (simp_all add: MakeInheritedIist_def)
qed (auto simp only: MakeInheritedIist_def
       dest: set_ExpandInterfaceBase intro: ExpandInterfaceBase_complete)

lemma MakeInheritedIist_correct_example:
  "MakeInheritedIist
     (Iface ''C'' [Iface ''A'' [IService], Iface ''B'' [Iface ''A'' [IService]]]) =
   [Iface ''A'' [IService], Iface ''B'' [Iface ''A'' [IService]]] \<and>
   Iface ''A'' [IService] \<in> set (MakeInheritedIist
     (Iface ''C'' [Iface ''A'' [IService], Iface ''B'' [Iface ''A'' [IService]]]))"
proof -
  let ?A = "Iface ''A'' [IService]"
  let ?C = "Iface ''C'' [?A, Iface ''B'' [?A]]"
  have "inherits ?A ?A" by (rule inherits.self)
  then have "?A \<in> set (MakeInheritedIist ?C)"
    using MakeInheritedIist_correct [of ?C] by auto
  then show ?thesis
    by (simp add: MakeInheritedIist_def MakeUniqueTuple_eq)
qed

text \<open>
  a compile-time string holds the literal up to its 64th character and a
  terminating zero (longer literals are cut off silently), and concatenation of compile-time
  strings is concatenation of the C strings they hold.
\<close>

lemma static_string_correct:
  assumes "NUL \<notin> set str"
  shows "MIF_STATIC_STR str = take 64 str @ [NUL] \<and>
    c_str (StringCat (MIF_STATIC_STR str) Str2) = take 64 str @ c_str Str2"
proof -
  have "NUL \<notin> set (take 64 str)" using assms by (auto dest: in_set_takeD)
  moreover have "c_str (StringCat (MIF_STATIC_STR str) Str2) =
      c_str (MIF_STATIC_STR str) @ c_str Str2"
    using c_str_no_NUL [of "MIF_STATIC_STR str"] c_str_no_NUL [of Str2]
      c_str_append_NUL [of "c_str (MIF_STATIC_STR str) @ c_str Str2" "[]"]
    by (simp add: StringCat_eq)
  ultimately show ?thesis
    by (simp add: MIF_STATIC_STR_eq [OF assms] c_str_append_NUL)
qed

theorem static_string_correct_witness:
  "NUL \<notin> set ''server'' \<and> MIF_STATIC_STR ''server'' = ''server'' @ [NUL] \<and>
   c_str (StringCat (MIF_STATIC_STR ''server'') (''.http'' @ [NUL])) = ''server.http''"
proof -
  have h: "NUL \<notin> set ''server''" by simp
  have c: "c_str (''.http'' @ [NUL]) = ''.http''" by (simp add: c_str_def)
  have t: "take 64 ''server'' = ''server''" by simp
  have app: "''server'' @ ''.http'' = ''server.http''" by simp
  show ?thesis
    using h static_string_correct [OF h, of "''.http'' @ [NUL]"]
    unfolding c t app by (intro conjI) (elim conjE, assumption)+
qed

text \<open>
  the compile-time number-to-string conversion gives the same characters as
  \<open>std::to_string\<close> at run time, zero included, followed by the terminating zero.
\<close>

lemma ToString_decimal: "ToString I = nat_to_string (unat I) @ [NUL]"
proof (cases "unat I = 0")
  case True
  moreover have "char_of (48 :: nat) = CHR ''0''" by code_simp
  ultimately show ?thesis
    by (simp add: ToString_def ToString_detail.simps nat_to_string_def digits_acc.simps)
next
  case False
  then show ?thesis
    by (simp add: ToString_def ToString_detail_eq nat_to_string_def)
qed

end
