(* ===== verification/Net_Chain.thy ===== *)
theory Net_Chain
  imports Framing Meta
begin

text \<open>
  The clients of a connection and their composition (\<open>net/client.cpp\<close>,
  \<open>net/clients/*.cpp\<close>, \<open>net/clients_chain.h\<close>, \<open>net/client_factory.h\<close>). A
  \<open>ClientsChain\<close> pushes received data through its clients: each client's \<open>Post\<close> is
  the next client's \<open>OnData\<close>, and the last one posts through the owner to the transport.

  The gzip filter of Boost.Iostreams and the application's own client \<open>TClient\<close> are
  arguments (\<open>chain_env\<close>). An application client handles one buffer by changing its state,
  posting at most one buffer and possibly throwing; it does not catch what its \<open>Post\<close>
  throws.
\<close>

section \<open>Client\<close>

text \<open>
  \<open>Client\<close>: the atomic flag \<open>m_makredAsClosed\<close> and what \<open>lock()\<close> of the two weak
  pointers finds.
\<close>

record client =
  m_makredAsClosed :: bool
  control_alive :: bool
  publisher_alive :: bool

datatype client_action = Dropped | Throws exn | Process buffer

definition Client_OnData :: "client \<Rightarrow> buffer \<Rightarrow> client_action" where
  "Client_OnData c b =
     (if m_makredAsClosed c then Dropped
      else if b = [] then Throws (Invalid_argument ''[Mif::Net::Client::OnData] No data.'')
      else Process b)"

text \<open>The second component tells whether the virtual \<open>Close\<close> is called.\<close>

definition Client_OnClose :: "client \<Rightarrow> client \<times> bool" where
  "Client_OnClose c =
     (let needToClose = m_makredAsClosed c
      in (c\<lparr>m_makredAsClosed := True\<rparr>, needToClose))"

text \<open>\<open>CloseMe\<close> and \<open>Post\<close>: whether the control or the publisher is called.\<close>

definition Client_CloseMe :: "client \<Rightarrow> bool" where
  "Client_CloseMe c = (\<not> m_makredAsClosed c \<and> control_alive c)"

definition Client_Post :: "client \<Rightarrow> bool" where
  "Client_Post c = (\<not> m_makredAsClosed c \<and> publisher_alive c)"

section \<open>The clients of the library\<close>

datatype kind = KFrameReader | KFrameWriter | KGZipCompressor | KGZipDecompressor
  | KParallelHandler | KTClient

text \<open>
  The state of a client beside its flag: the reader's pending bytes, the buffers the parallel
  handler has given to the workers and that no worker has taken yet, the application's state.
\<close>

datatype 'a impl = FrameReader buffer | FrameWriter | GZipCompressor | GZipDecompressor
  | ParallelHandler "buffer list" | TClient 'a

fun kind_of :: "'a impl \<Rightarrow> kind" where
  "kind_of (FrameReader _) = KFrameReader"
| "kind_of FrameWriter = KFrameWriter"
| "kind_of GZipCompressor = KGZipCompressor"
| "kind_of GZipDecompressor = KGZipDecompressor"
| "kind_of (ParallelHandler _) = KParallelHandler"
| "kind_of (TClient _) = KTClient"

record 'a chain_env =
  gzip :: "buffer \<Rightarrow> buffer result"
  gunzip :: "buffer \<Rightarrow> buffer result"
  app :: "'a \<Rightarrow> buffer \<Rightarrow> 'a \<times> buffer option \<times> exn option"

text \<open>
  \<open>ProcessData\<close> of each client: the new state, the buffer it posts and the exception that
  leaves it.
\<close>

fun GZipCompressor_ProcessData :: "'a chain_env \<Rightarrow> buffer \<Rightarrow> buffer option \<times> exn option" where
  "GZipCompressor_ProcessData env b =
     (case gzip env b of Inr r \<Rightarrow> (Some r, None) | Inl e \<Rightarrow> (None, Some e))"

fun GZipDecompressor_ProcessData :: "'a chain_env \<Rightarrow> buffer \<Rightarrow> buffer option \<times> exn option" where
  "GZipDecompressor_ProcessData env b =
     (case gunzip env b of Inr r \<Rightarrow> (Some r, None) | Inl e \<Rightarrow> (None, Some e))"

fun ParallelHandler_OnData :: "buffer list \<Rightarrow> buffer \<Rightarrow> buffer list" where
  "ParallelHandler_OnData q b = q @ [b]"

fun FrameReader_ProcessData :: "buffer \<Rightarrow> buffer \<Rightarrow> buffer \<times> buffer option \<times> exn option" where
  "FrameReader_ProcessData m b =
     (case FrameReader_OnData m b of
        (m', Need_more) \<Rightarrow> (m', None, None)
      | (m', Frame p) \<Rightarrow> (m', Some p, None)
      | (m', Undefined_range) \<Rightarrow> (m', None, Some Undefined_behaviour))"

fun process_data :: "'a chain_env \<Rightarrow> 'a impl \<Rightarrow> buffer \<Rightarrow> 'a impl \<times> buffer option \<times> exn option" where
  "process_data env (FrameReader m) b =
     (case FrameReader_ProcessData m b of (m', out) \<Rightarrow> (FrameReader m', out))"
| "process_data env FrameWriter b = (FrameWriter, Some (FrameWriter_ProcessData b), None)"
| "process_data env GZipCompressor b = (GZipCompressor, GZipCompressor_ProcessData env b)"
| "process_data env GZipDecompressor b = (GZipDecompressor, GZipDecompressor_ProcessData env b)"
| "process_data env (ParallelHandler q) b =
     (ParallelHandler (ParallelHandler_OnData q b), None, None)"
| "process_data env (TClient a) b = (case app env a b of (a', out) \<Rightarrow> (TClient a', out))"

section \<open>ClientsChain\<close>

text \<open>
  A \<open>Holder\<close>: its client. The client's control and publisher are the holder itself, which
  lives as long as the client does, so both weak pointers can always be locked.
\<close>

record 'a stage =
  s_client :: client
  s_impl :: "'a impl"

definition Holder_Init :: "'a impl \<Rightarrow> 'a stage" where
  "Holder_Init i =
     \<lparr>s_client = \<lparr>m_makredAsClosed = False, control_alive = True, publisher_alive = True\<rparr>, s_impl = i\<rparr>"

text \<open>
  \<open>CreateClient\<close>: the first creator whose type is the client's, otherwise the client is
  default-constructed.
\<close>

fun CreateClient :: "(kind \<Rightarrow> 'a impl) \<Rightarrow> kind \<Rightarrow> (kind \<times> 'a impl) list \<Rightarrow> 'a impl" where
  "CreateClient dflt t [] = dflt t"
| "CreateClient dflt t ((u, i) # creators) = (if t = u then i else CreateClient dflt t creators)"

fun CreateChain :: "(kind \<Rightarrow> 'a impl) \<Rightarrow> kind list \<Rightarrow> (kind \<times> 'a impl) list \<Rightarrow> 'a stage list" where
  "CreateChain dflt [] creators = []"
| "CreateChain dflt (t # ts) creators =
     (let nxt = CreateChain dflt ts creators in Holder_Init (CreateClient dflt t creators) # nxt)"

text \<open>
  \<open>Holder::OnData\<close>, \<open>Client::OnData\<close>, \<open>ProcessData\<close>, \<open>Client::Post\<close> and
  \<open>Holder::Publish\<close> along the chain. The end of the chain is \<open>ChainClient::OnData\<close>,
  which calls the owner's \<open>Post\<close>: the second component is the buffer handed to it.
\<close>

fun Holder_OnData :: "'a chain_env \<Rightarrow> 'a stage list \<Rightarrow> buffer \<Rightarrow> 'a stage list \<times> buffer option \<times> exn option" where
  "Holder_OnData env [] b = ([], Some b, None)"
| "Holder_OnData env (s # ss) b =
     (case Client_OnData (s_client s) b of
        Dropped \<Rightarrow> (s # ss, None, None)
      | Throws e \<Rightarrow> (s # ss, None, Some e)
      | Process d \<Rightarrow>
          (case process_data env (s_impl s) d of
             (i, None, e) \<Rightarrow> (s\<lparr>s_impl := i\<rparr> # ss, None, e)
           | (i, Some p, e) \<Rightarrow>
               if Client_Post (s_client s) then
                 (case Holder_OnData env ss p of
                    (ss', out, None) \<Rightarrow> (s\<lparr>s_impl := i\<rparr> # ss', out, e)
                  | (ss', out, Some e') \<Rightarrow> (s\<lparr>s_impl := i\<rparr> # ss', out, Some e'))
               else (s\<lparr>s_impl := i\<rparr> # ss, None, e)))"

fun Holder_OnClose :: "'a stage list \<Rightarrow> 'a stage list" where
  "Holder_OnClose [] = []"
| "Holder_OnClose (s # ss) = s\<lparr>s_client := fst (Client_OnClose (s_client s))\<rparr> # Holder_OnClose ss"

fun GetClient :: "'a stage list \<Rightarrow> kind \<Rightarrow> 'a stage result" where
  "GetClient [] t =
     Inl (Runtime_error ''[Mif::Net::ClientsChain::ChainClient::GetClient] Client item not found.'')"
| "GetClient (s # ss) t = (if kind_of (s_impl s) = t then Inr s else GetClient ss t)"

text \<open>
  The chain: the owner is a client too. What it does to the transport is collected: the
  buffers published and the requests to close.
\<close>

datatype chain_effect = Published buffer | Close_requested

record 'a chain =
  c_owner :: client
  c_stages :: "'a stage list"

definition owner_publish :: "client \<Rightarrow> buffer option \<Rightarrow> chain_effect list" where
  "owner_publish c out =
     (case out of None \<Rightarrow> [] | Some b \<Rightarrow> if Client_Post c then [Published b] else [])"

definition ClientsChain_OnData ::
    "'a chain_env \<Rightarrow> 'a chain \<Rightarrow> buffer \<Rightarrow> 'a chain \<times> chain_effect list \<times> exn option" where
  "ClientsChain_OnData env c b =
     (case Client_OnData (c_owner c) b of
        Dropped \<Rightarrow> (c, [], None)
      | Throws e \<Rightarrow> (c, [], Some e)
      | Process d \<Rightarrow>
          (case Holder_OnData env (c_stages c) d of
             (ss, out, e) \<Rightarrow> (c\<lparr>c_stages := ss\<rparr>, owner_publish (c_owner c) out, e)))"

definition ClientsChain_OnClose :: "'a chain \<Rightarrow> 'a chain" where
  "ClientsChain_OnClose c =
     (case Client_OnClose (c_owner c) of
        (o', call) \<Rightarrow>
          if call then c\<lparr>c_owner := o', c_stages := Holder_OnClose (c_stages c)\<rparr>
          else c\<lparr>c_owner := o'\<rparr>)"

text \<open>
  A worker runs the \<open>j\<close>-th waiting task of the parallel handler at position \<open>k\<close>: the
  handler posts the buffer; an exception of the standard library ends in \<open>CloseMe\<close>, which
  travels down the chain of controls to the owner.
\<close>

definition ParallelHandler_task ::
    "'a chain_env \<Rightarrow> 'a chain \<Rightarrow> nat \<Rightarrow> nat \<Rightarrow> 'a chain \<times> chain_effect list \<times> exn option" where
  "ParallelHandler_task env c k j =
     (if length (c_stages c) \<le> k then (c, [], None)
      else let s = c_stages c ! k in
        (case s_impl s of
           ParallelHandler q \<Rightarrow>
             if length q \<le> j then (c, [], None)
             else let pre = take k (c_stages c);
                      s' = s\<lparr>s_impl := ParallelHandler (take j q @ drop (Suc j) q)\<rparr>;
                      post = drop (Suc k) (c_stages c)
                  in if Client_Post (s_client s) then
                       (case Holder_OnData env post (q ! j) of
                          (ss, out, None) \<Rightarrow>
                            (c\<lparr>c_stages := pre @ s' # ss\<rparr>, owner_publish (c_owner c) out, None)
                        | (ss, out, Some e) \<Rightarrow>
                            (c\<lparr>c_stages := pre @ s' # ss\<rparr>,
                             owner_publish (c_owner c) out @
                               (if is_std_exception e \<and> Client_CloseMe (s_client s) \<and>
                                   Client_CloseMe (c_owner c) then [Close_requested] else []),
                             if is_std_exception e then None else Some e))
                     else (c\<lparr>c_stages := pre @ s' # post\<rparr>, [], None)
         | _ \<Rightarrow> (c, [], None)))"

definition GetClientItem :: "'a chain \<Rightarrow> kind \<Rightarrow> 'a stage result" where
  "GetClientItem c t = GetClient (c_stages c) t"

definition ClientsChain_new ::
    "(kind \<Rightarrow> 'a impl) \<Rightarrow> kind list \<Rightarrow> (kind \<times> 'a impl) list \<Rightarrow> bool \<Rightarrow> bool \<Rightarrow> 'a chain" where
  "ClientsChain_new dflt ts creators ctl pub =
     \<lparr>c_owner = \<lparr>m_makredAsClosed = False, control_alive = ctl, publisher_alive = pub\<rparr>,
      c_stages = CreateChain dflt ts creators\<rparr>"

text \<open>\<open>ClientFactory::Impl::Create\<close>: the arguments of the client's constructor, in order.\<close>

definition ClientFactory_Create :: "'x \<Rightarrow> 'x \<Rightarrow> 'x list \<Rightarrow> 'x list" where
  "ClientFactory_Create control publisher args =
     control # publisher # map (\<lambda>i. args ! i) (MakeIndexSequence (length args))"

text \<open>The two predefined protocols.\<close>

definition SimpleFrame :: "kind list" where
  "SimpleFrame = [KFrameReader, KParallelHandler, KTClient, KFrameWriter]"

definition ArchivedFrame :: "kind list" where
  "ArchivedFrame =
     [KFrameReader, KParallelHandler, KGZipDecompressor, KTClient, KGZipCompressor, KFrameWriter]"

section \<open>Facts\<close>

text \<open>Data arriving in several reads; the connection stops at the first exception.\<close>

fun receive :: "'a chain_env \<Rightarrow> 'a chain \<Rightarrow> buffer list \<Rightarrow> 'a chain \<times> chain_effect list \<times> exn option" where
  "receive env c [] = (c, [], None)"
| "receive env c (b # bs) =
     (case ClientsChain_OnData env c b of
        (c', eff, Some e) \<Rightarrow> (c', eff, Some e)
      | (c', eff, None) \<Rightarrow> (case receive env c' bs of (c'', eff', e) \<Rightarrow> (c'', eff @ eff', e)))"

text \<open>The chain as the transport sees it: data, closing, and the workers' turns.\<close>

datatype chain_event = Data buffer | Closed | Task nat nat

fun chain_step :: "'a chain_env \<Rightarrow> 'a chain \<Rightarrow> chain_event \<Rightarrow> 'a chain" where
  "chain_step env c (Data b) = fst (ClientsChain_OnData env c b)"
| "chain_step env c Closed = ClientsChain_OnClose c"
| "chain_step env c (Task k j) = fst (ParallelHandler_task env c k j)"

fun chain_effects :: "'a chain_env \<Rightarrow> 'a chain \<Rightarrow> chain_event list \<Rightarrow> chain_effect list" where
  "chain_effects env c [] = []"
| "chain_effects env c (Data b # es) =
     fst (snd (ClientsChain_OnData env c b)) @ chain_effects env (chain_step env c (Data b)) es"
| "chain_effects env c (Closed # es) = chain_effects env (chain_step env c Closed) es"
| "chain_effects env c (Task k j # es) =
     fst (snd (ParallelHandler_task env c k j)) @ chain_effects env (chain_step env c (Task k j)) es"

abbreviation opened :: "'a impl \<Rightarrow> 'a stage" where
  "opened \<equiv> Holder_Init"

lemmas client_defs = Client_OnData_def Client_OnClose_def Client_CloseMe_def Client_Post_def

lemma opened_simps [simp]:
  "s_impl (opened i) = i" "m_makredAsClosed (s_client (opened i)) = False"
  "control_alive (s_client (opened i))" "publisher_alive (s_client (opened i))"
  "(opened i)\<lparr>s_impl := j\<rparr> = opened j"
  by (simp_all add: Holder_Init_def)

lemma kind_process_data: "process_data env i b = (i', r) \<Longrightarrow> kind_of i' = kind_of i"
  by (cases i) (auto split: prod.splits)

text \<open>What every operation keeps: the clients of the chain, and their flags.\<close>

definition shape :: "'a stage list \<Rightarrow> (kind \<times> client) list" where
  "shape ss = map (\<lambda>s. (kind_of (s_impl s), s_client s)) ss"

lemma shape_Nil [simp]: "shape [] = []"
  by (simp add: shape_def)

lemma shape_Cons [simp]: "shape (s # ss) = (kind_of (s_impl s), s_client s) # shape ss"
  by (simp add: shape_def)

lemma shape_append [simp]: "shape (a @ b) = shape a @ shape b"
  by (simp add: shape_def)

lemma shape_Holder_OnData: "Holder_OnData env ss b = (ss', r) \<Longrightarrow> shape ss' = shape ss"
proof (induction ss arbitrary: b ss' r)
  case Nil
  then show ?case by simp
next
  case (Cons s ss)
  show ?case
  proof (cases "Client_OnData (s_client s) b")
    case (Process d)
    obtain i o1 e where pd: "process_data env (s_impl s) d = (i, o1, e)" by (metis prod_cases3)
    then have k: "kind_of i = kind_of (s_impl s)" by (rule kind_process_data)
    show ?thesis
    proof (cases "o1 = None \<or> \<not> Client_Post (s_client s)")
      case True
      with Cons.prems Process pd k show ?thesis by (auto split: option.splits)
    next
      case False
      then obtain p where p: "o1 = Some p" by auto
      obtain ss1 o2 e2 where nx: "Holder_OnData env ss p = (ss1, o2, e2)" by (metis prod_cases3)
      from Cons.IH [OF nx] have "shape ss1 = shape ss" .
      with Cons.prems Process pd k p nx False show ?thesis by (auto split: option.splits)
    qed
  qed (use Cons.prems in auto)
qed

lemma shape_OnData: "shape (c_stages (fst (ClientsChain_OnData env c b))) = shape (c_stages c)"
  by (auto simp: ClientsChain_OnData_def dest: shape_Holder_OnData
      split: client_action.splits prod.splits)

lemma shape_task: "shape (c_stages (fst (ParallelHandler_task env c k j))) = shape (c_stages c)"
proof (cases "k < length (c_stages c)")
  case True
  obtain s where s: "s = c_stages c ! k" by simp
  have split: "c_stages c = take k (c_stages c) @ s # drop (Suc k) (c_stages c)"
    using True s by (simp add: id_take_nth_drop)
  have eq: "shape (c_stages c) =
      shape (take k (c_stages c)) @ (kind_of (s_impl s), s_client s) # shape (drop (Suc k) (c_stages c))"
    by (subst split) simp
  show ?thesis
  proof (cases "\<exists>q. s_impl s = ParallelHandler q \<and> j < length q")
    case True': True
    then obtain q where q: "s_impl s = ParallelHandler q" "j < length q" by auto
    obtain ss' out e where nx: "Holder_OnData env (drop (Suc k) (c_stages c)) (q ! j) = (ss', out, e)"
      by (metis prod_cases3)
    from shape_Holder_OnData [OF nx] show ?thesis
      using True q nx s eq
      by (simp add: ParallelHandler_task_def Let_def split: option.splits)
  next
    case False
    then show ?thesis using s
      by (cases "s_impl s") (auto simp: ParallelHandler_task_def Let_def)
  qed
qed (simp add: ParallelHandler_task_def)

lemma owner_OnData [simp]: "c_owner (fst (ClientsChain_OnData env c b)) = c_owner c"
  by (simp add: ClientsChain_OnData_def split: client_action.splits prod.splits)

lemma owner_task [simp]: "c_owner (fst (ParallelHandler_task env c k j)) = c_owner c"
  by (simp add: ParallelHandler_task_def Let_def split: impl.splits prod.splits option.splits)

lemma shape_OnClose_all:
  "shape (Holder_OnClose ss) = map (\<lambda>(k, c). (k, c\<lparr>m_makredAsClosed := True\<rparr>)) (shape ss)"
  by (induction ss) (simp_all add: Client_OnClose_def)

text \<open>
  The invariant: the clients are the ones the chain was built of, and they are closed all
  together and only behind a closed owner.
\<close>

definition chain_inv :: "kind list \<Rightarrow> 'a chain \<Rightarrow> bool" where
  "chain_inv ks c \<longleftrightarrow> map fst (shape (c_stages c)) = ks \<and>
     ((\<forall>x \<in> set (shape (c_stages c)). \<not> m_makredAsClosed (snd x)) \<or>
      m_makredAsClosed (c_owner c) \<and> (\<forall>x \<in> set (shape (c_stages c)). m_makredAsClosed (snd x)))"

lemma chain_inv_close: "chain_inv ks c \<Longrightarrow> chain_inv ks (ClientsChain_OnClose c)"
  unfolding chain_inv_def ClientsChain_OnClose_def Client_OnClose_def Let_def
  by (auto simp: shape_OnClose_all comp_def split_def)

lemma chain_inv_step: "chain_inv ks c \<Longrightarrow> chain_inv ks (chain_step env c e)"
proof (cases e)
  case (Data b)
  assume "chain_inv ks c"
  with Data show ?thesis by (simp add: chain_inv_def shape_OnData)
next
  case (Task k j)
  assume "chain_inv ks c"
  with Task show ?thesis by (simp add: chain_inv_def shape_task)
qed (simp add: chain_inv_close)

interpretation chains: machine "chain_step env" "chain_inv ks" for env ks
  by unfold_locales (rule chain_inv_step)

lemma shape_CreateChain:
  assumes "\<And>t. kind_of (dflt t) = t" and "\<forall>x \<in> set creators. kind_of (snd x) = fst x"
  shows "shape (CreateChain dflt ts creators) =
    map (\<lambda>t. (t, \<lparr>m_makredAsClosed = False, control_alive = True, publisher_alive = True\<rparr>)) ts"
proof -
  have "kind_of (CreateClient dflt t creators) = t" for t
    using assms(2) by (induction creators) (auto simp: assms(1))
  then show ?thesis by (induction ts) (simp_all add: Holder_Init_def)
qed

lemma chain_inv_new:
  assumes "\<And>t. kind_of (dflt t) = t" and "\<forall>x \<in> set creators. kind_of (snd x) = fst x"
  shows "chain_inv ts (ClientsChain_new dflt ts creators ctl pub)"
  using shape_CreateChain [OF assms]
  by (simp add: chain_inv_def ClientsChain_new_def comp_def)

lemma owner_closed_step:
  "m_makredAsClosed (c_owner c) \<Longrightarrow> m_makredAsClosed (c_owner (chain_step env c e))"
  by (cases e) (auto simp: ClientsChain_OnClose_def Client_OnClose_def Let_def)

lemma owner_closed_silent:
  assumes "m_makredAsClosed (c_owner c)"
  shows "fst (snd (ClientsChain_OnData env c b)) = []"
    and "fst (snd (ParallelHandler_task env c k j)) = []"
  using assms
  by (auto simp: ClientsChain_OnData_def ParallelHandler_task_def owner_publish_def client_defs Let_def
      split: impl.splits option.splits prod.splits)

lemma chain_effects_closed: "m_makredAsClosed (c_owner c) \<Longrightarrow> chain_effects env c es = []"
proof (induction es arbitrary: c)
  case (Cons e es)
  then show ?case using owner_closed_step [of c env e] owner_closed_silent [of c env]
    by (cases e) auto
qed simp

subsection \<open>Reading frames through a chain\<close>

text \<open>An open chain whose first two clients are the frame reader and the parallel handler.\<close>

definition framed :: "client \<Rightarrow> buffer \<Rightarrow> buffer list \<Rightarrow> 'a stage list \<Rightarrow> 'a chain" where
  "framed ow m q ss =
     \<lparr>c_owner = ow, c_stages = opened (FrameReader m) # opened (ParallelHandler q) # ss\<rparr>"

lemma framed_OnData:
  assumes "\<not> m_makredAsClosed ow" and "b \<noteq> []"
  shows "ClientsChain_OnData env (framed ow m q ss) b =
    (case FrameReader_OnData m b of
       (m', Need_more) \<Rightarrow> (framed ow m' q ss, [], None)
     | (m', Frame p) \<Rightarrow>
         if p = [] then (framed ow m' q ss, [],
                          Some (Invalid_argument ''[Mif::Net::Client::OnData] No data.''))
         else (framed ow m' (q @ [p]) ss, [], None)
     | (m', Undefined_range) \<Rightarrow> (framed ow m' q ss, [], Some Undefined_behaviour))"
  using assms
  by (simp add: ClientsChain_OnData_def framed_def client_defs owner_publish_def
      split: prod.splits frame_outcome.splits)

lemma framed_receive:
  assumes "\<not> m_makredAsClosed ow" and "[] \<notin> set cs" and "read_chunks m cs = (m', outs)"
    and "Undefined_range \<notin> set outs" and "[] \<notin> set (packets outs)"
  shows "receive env (framed ow m q ss) cs = (framed ow m' (q @ packets outs) ss, [], None)"
  using assms(2-)
proof (induction cs arbitrary: m q outs)
  case Nil
  then show ?case by simp
next
  case (Cons b cs)
  obtain m1 o1 where rd: "FrameReader_OnData m b = (m1, o1)" by force
  obtain outs1 where outs: "outs = o1 # outs1" "read_chunks m1 cs = (m', outs1)"
    using Cons.prems(2) rd by (auto split: prod.splits)
  have b: "b \<noteq> []" using Cons.prems(1) by auto
  show ?case
  proof (cases o1)
    case Need_more
    with Cons outs rd show ?thesis by (simp add: framed_OnData [OF assms(1) b])
  next
    case (Frame p)
    with Cons.prems(4) outs(1) have "p \<noteq> []" by auto
    with Frame Cons outs rd show ?thesis by (simp add: framed_OnData [OF assms(1) b])
  next
    case Undefined_range
    with Cons.prems(3) outs(1) show ?thesis by simp
  qed
qed

lemma framed_task:
  assumes "q = p # q'"
  shows "ParallelHandler_task env (framed ow m q ss) 1 0 =
    (case Holder_OnData env ss p of
       (ss', out, None) \<Rightarrow> (framed ow m q' ss', owner_publish ow out, None)
     | (ss', out, Some e) \<Rightarrow>
         (framed ow m q' ss',
          owner_publish ow out @
            (if is_std_exception e \<and> Client_CloseMe ow then [Close_requested] else []),
          if is_std_exception e then None else Some e))"
  using assms
  by (simp add: ParallelHandler_task_def framed_def client_defs Let_def split: prod.splits option.splits)

lemma receive_stream:
  assumes "\<not> m_makredAsClosed ow" and "[] \<notin> set cs"
    and "\<forall>p \<in> set ps. fits p \<and> p \<noteq> []" and "concat cs @ rest = stream_of ps"
    and "length (stream_of ps) < 2 ^ 64"
  shows "\<exists>delivered later pending.
    receive env (framed ow [] [] ss) cs = (framed ow pending delivered ss, [], None) \<and>
    ps = delivered @ later \<and> pending @ rest = stream_of later"
proof -
  from read_chunks_stream [of ps "[]" cs rest] assms obtain qs m' outs where
    rd: "read_chunks [] cs = (m', outs)" "ps = packets outs @ qs" "m' @ rest = stream_of qs"
      "Undefined_range \<notin> set outs"
    by auto
  moreover have "[] \<notin> set (packets outs)" using assms(3) rd(2) by auto
  ultimately have "receive env (framed ow [] [] ss) cs = (framed ow m' ([] @ packets outs) ss, [], None)"
    using framed_receive [OF assms(1,2)] by blast
  with rd show ?thesis by auto
qed

subsection \<open>The predefined protocols\<close>

text \<open>A client as its constructor leaves it.\<close>

fun fresh :: "'a \<Rightarrow> kind \<Rightarrow> 'a impl" where
  "fresh a KFrameReader = FrameReader []"
| "fresh a KFrameWriter = FrameWriter"
| "fresh a KGZipCompressor = GZipCompressor"
| "fresh a KGZipDecompressor = GZipDecompressor"
| "fresh a KParallelHandler = ParallelHandler []"
| "fresh a KTClient = TClient a"

lemma kind_of_fresh [simp]: "kind_of (fresh a t) = t"
  by (cases t) simp_all

abbreviation open_owner :: client where
  "open_owner \<equiv> \<lparr>m_makredAsClosed = False, control_alive = True, publisher_alive = True\<rparr>"

abbreviation new_chain :: "'a \<Rightarrow> kind list \<Rightarrow> 'a chain" where
  "new_chain a ts \<equiv> ClientsChain_new (fresh a) ts [(KTClient, TClient a)] True True"

lemma new_ArchivedFrame:
  "new_chain a ArchivedFrame = framed open_owner [] []
     [opened GZipDecompressor, opened (TClient a), opened GZipCompressor, opened FrameWriter]"
  by (simp add: ClientsChain_new_def ArchivedFrame_def framed_def)

lemma new_SimpleFrame:
  "new_chain a SimpleFrame = framed open_owner [] [] [opened (TClient a), opened FrameWriter]"
  by (simp add: ClientsChain_new_def SimpleFrame_def framed_def)

lemma framed_receive_pieces:
  assumes "\<not> m_makredAsClosed ow" and "fits z" and "z \<noteq> []"
    and "concat cs = FrameWriter_ProcessData z" and "[] \<notin> set cs"
  shows "receive env (framed ow [] [] ss) cs = (framed ow [] [z] ss, [], None)"
proof -
  have "cs \<noteq> []" using assms(4) FrameWriter_not_Nil [of z] by (metis concat.simps(1))
  then obtain cs' piece where cs: "cs = cs' @ [piece]" by (metis rev_exhaust)
  have "read_chunks [] cs = ([], replicate (length cs') Need_more @ [Frame z])"
    using assms cs by (auto intro!: read_pieces)
  from framed_receive [OF assms(1,5) this, where env = env and q = "[]" and ss = ss] assms(3)
  show ?thesis
    by (simp add: packets_append packets_Need_more)
qed

lemma send_ArchivedFrame:
  assumes "gzip env p = Inr z" and "p \<noteq> []" and "z \<noteq> []"
  shows "Holder_OnData env [opened GZipCompressor, opened FrameWriter] p =
    ([opened GZipCompressor, opened FrameWriter], Some (FrameWriter_ProcessData z), None)"
  using assms by (simp add: client_defs)

lemma task_ArchivedFrame:
  assumes "gunzip env z = Inr p" and "p \<noteq> []" and "z \<noteq> []"
    and "app env a p = (a', Some r, None)" and "gzip env r = Inr zr" and "r \<noteq> []" and "zr \<noteq> []"
  shows "Holder_OnData env
      [opened GZipDecompressor, opened (TClient a), opened GZipCompressor, opened FrameWriter] z =
    ([opened GZipDecompressor, opened (TClient a'), opened GZipCompressor, opened FrameWriter],
     Some (FrameWriter_ProcessData zr), None)"
  using assms by (simp add: client_defs)

text \<open>Running the waiting tasks one after the other, oldest first.\<close>

fun drain :: "'a chain_env \<Rightarrow> 'a chain \<Rightarrow> nat \<Rightarrow> 'a chain" where
  "drain env c 0 = c"
| "drain env c (Suc n) = drain env (fst (ParallelHandler_task env c 1 0)) n"

lemma drain_SimpleFrame:
  assumes "\<And>a p. p \<noteq> [] \<Longrightarrow> snd (snd (app env a p)) = None \<and> fst (snd (app env a p)) \<noteq> Some []"
    and "[] \<notin> set q"
  shows "drain env (framed ow m (q @ r) [opened (TClient a), opened FrameWriter]) (length q) =
    framed ow m r [opened (TClient (foldl (\<lambda>a p. fst (app env a p)) a q)), opened FrameWriter]"
  using assms(2)
proof (induction q arbitrary: a)
  case (Cons p q)
  obtain a' out where ap: "app env a p = (a', out, None)" "out \<noteq> Some []"
    using assms(1) [of p a] Cons.prems by (metis fst_conv list.set_intros(1) prod.collapse snd_conv)
  have "Holder_OnData env [opened (TClient a), opened FrameWriter] p =
      ([opened (TClient a'), opened FrameWriter], map_option FrameWriter_ProcessData out, None)"
    using ap Cons.prems by (cases out) (auto simp: client_defs)
  then have "fst (ParallelHandler_task env
        (framed ow m (p # q @ r) [opened (TClient a), opened FrameWriter]) 1 0) =
      framed ow m (q @ r) [opened (TClient a'), opened FrameWriter]"
    unfolding framed_task [OF refl] by simp
  with Cons ap show ?case by simp
qed simp

lemma GetClient_shape:
  "t \<in> fst ` set (shape ss) \<Longrightarrow> \<exists>s. GetClient ss t = Inr s \<and> kind_of (s_impl s) = t"
  by (induction ss) auto

lemma GetClient_none: "t \<notin> fst ` set (shape ss) \<Longrightarrow> GetClient ss t = GetClient [] t"
  by (induction ss) auto

section \<open>Properties\<close>

text \<open>
  Property C7: a request sent through the archived frame protocol reaches the application of
  the peer unchanged and its answer goes back as a frame. The sender's chain compresses and
  frames \<open>p\<close>; however the transport cuts the frame into reads, the receiving chain throws
  nothing, and when a worker runs the waiting task the application gets \<open>p\<close>, its state
  becomes \<open>a'\<close> and its answer is published compressed and framed.
\<close>

theorem archived_frame_request_reply:
  assumes "gzip env p = Inr z" and "gunzip env z = Inr p" and "p \<noteq> []" and "z \<noteq> []" and "fits z"
    and "app env a p = (a', Some r, None)" and "gzip env r = Inr zr" and "r \<noteq> []" and "zr \<noteq> []"
    and "snd (Holder_OnData env [opened GZipCompressor, opened FrameWriter] p) = (Some (concat cs), None)"
    and "[] \<notin> set cs"
  shows "\<exists>c1 c2. receive env (new_chain a ArchivedFrame) cs = (c1, [], None) \<and>
    ParallelHandler_task env c1 1 0 = (c2, [Published (FrameWriter_ProcessData zr)], None) \<and>
    GetClientItem c2 KTClient = Inr (opened (TClient a'))"
proof -
  have frame: "concat cs = FrameWriter_ProcessData z"
    using assms(10) send_ArchivedFrame [OF assms(1,3,4)] by simp
  let ?rest = "\<lambda>x. [opened GZipDecompressor, opened (TClient x), opened GZipCompressor, opened FrameWriter]"
  have "receive env (new_chain a ArchivedFrame) cs = (framed open_owner [] [z] (?rest a), [], None)"
    unfolding new_ArchivedFrame
    by (rule framed_receive_pieces [OF _ assms(5,4) frame assms(11)]) simp
  moreover have "ParallelHandler_task env (framed open_owner [] [z] (?rest a)) 1 0 =
      (framed open_owner [] [] (?rest a'), [Published (FrameWriter_ProcessData zr)], None)"
    unfolding framed_task [OF refl] task_ArchivedFrame [OF assms(2,3,4,6-9)]
    by (simp add: owner_publish_def client_defs)
  moreover have "GetClientItem (framed open_owner [] [] (?rest a')) KTClient = Inr (opened (TClient a'))"
    by (simp add: GetClientItem_def framed_def)
  ultimately show ?thesis by blast
qed

definition toy_env :: "nat chain_env" where
  "toy_env = \<lparr>gzip = (\<lambda>b. Inr (CHR ''z'' # b)), gunzip = (\<lambda>b. Inr (tl b)),
     app = (\<lambda>n b. (n + length b, Some b, None))\<rparr>"

theorem archived_frame_request_reply_witness:
  "snd (Holder_OnData toy_env [opened GZipCompressor, opened FrameWriter] ''hi'') =
     (Some (concat [be_bytes 3, ''zhi'']), None) \<and>
   (\<exists>c1 c2. receive toy_env (new_chain 40 ArchivedFrame) [be_bytes 3, ''zhi''] = (c1, [], None) \<and>
     ParallelHandler_task toy_env c1 1 0 = (c2, [Published (FrameWriter_ProcessData ''zhi'')], None) \<and>
     GetClientItem c2 KTClient = Inr (opened (TClient 42)))"
proof -
  have fit: "fits ''zhi''" by (simp add: fits_def)
  have ne: "[] \<notin> set [be_bytes 3, ''zhi'']" by (simp add: be_bytes_def)
  have snt: "snd (Holder_OnData toy_env [opened GZipCompressor, opened FrameWriter] ''hi'') =
      (Some (concat [be_bytes 3, ''zhi'']), None)"
    by (simp add: toy_env_def client_defs FrameWriter_ProcessData_def)
  show ?thesis
    using archived_frame_request_reply [of toy_env "''hi''" "''zhi''" 40 42 "''hi''" "''zhi''"
        "[be_bytes 3, ''zhi'']", OF _ _ _ _ fit _ _ _ _ snt ne] snt
    by (simp add: toy_env_def)
qed



text \<open>
  Property C18: once the transport has closed the chain, no sequence of events makes it
  publish anything or ask for closing again. The first \<open>OnClose\<close> leaves the inner clients as
  they are: the virtual \<open>Close\<close>, which passes the news on, runs only from the second call,
  and then every client is closed.
\<close>

theorem chain_close:
  assumes "\<not> m_makredAsClosed (c_owner c)"
  shows "chain_effects env (ClientsChain_OnClose c) es = [] \<and>
    c_stages (ClientsChain_OnClose c) = c_stages c \<and>
    (\<forall>s \<in> set (c_stages (ClientsChain_OnClose (ClientsChain_OnClose c))). m_makredAsClosed (s_client s))"
proof -
  have "m_makredAsClosed (c_owner (ClientsChain_OnClose c))"
    by (simp add: ClientsChain_OnClose_def Client_OnClose_def Let_def)
  moreover have "\<forall>s \<in> set (Holder_OnClose ss). m_makredAsClosed (s_client s)" for ss :: "'a stage list"
    by (induction ss) (simp_all add: Client_OnClose_def)
  ultimately show ?thesis using assms chain_effects_closed [of "ClientsChain_OnClose c"]
    by (simp add: ClientsChain_OnClose_def Client_OnClose_def Let_def)
qed

theorem chain_close_witness:
  "\<not> m_makredAsClosed (c_owner (new_chain 0 SimpleFrame)) \<and>
   chain_effects toy_env (ClientsChain_OnClose (new_chain 0 SimpleFrame)) [Data ''x'', Closed, Task 1 0] = [] \<and>
   c_stages (ClientsChain_OnClose (new_chain 0 SimpleFrame)) = c_stages (new_chain (0 :: nat) SimpleFrame)"
proof -
  have "\<not> m_makredAsClosed (c_owner (new_chain 0 SimpleFrame))"
    by (simp add: new_SimpleFrame framed_def)
  from chain_close [OF this, of toy_env] this show ?thesis by blast
qed

text \<open>
  A frame of length zero is accepted by the reader and refused by the next
  client: \<open>std::invalid_argument\<close> leaves the chain's \<open>OnData\<close>, nothing is queued and the frame is
  consumed.
\<close>

lemma empty_frame_throws:
  assumes "\<not> m_makredAsClosed ow" and "length rest < 2 ^ 63"
  shows "ClientsChain_OnData env (framed ow [] q ss) (FrameWriter_ProcessData [] @ rest) =
    (framed ow rest q ss, [], Some (Invalid_argument ''[Mif::Net::Client::OnData] No data.''))"
proof -
  have "FrameReader_OnData [] (FrameWriter_ProcessData [] @ rest) = (rest, Frame [])"
    using assms(2) by (intro FrameReader_complete) (auto simp: fits_def FrameWriter_ProcessData_def)
  then show ?thesis using assms(1) by (simp add: framed_OnData)
qed

lemma empty_frame_throws_example:
  "\<not> m_makredAsClosed open_owner \<and> length ''abc'' < 2 ^ 63 \<and>
   ClientsChain_OnData toy_env (framed open_owner [] [] []) (FrameWriter_ProcessData [] @ ''abc'') =
    (framed open_owner ''abc'' [] [], [],
     Some (Invalid_argument ''[Mif::Net::Client::OnData] No data.''))"
proof -
  have 1: "\<not> m_makredAsClosed open_owner" by simp
  have 2: "length ''abc'' < 2 ^ 63" by simp
  show ?thesis using 1 2 empty_frame_throws [OF 1 2] by blast
qed

text \<open>
  \<open>GetClientItem\<close> finds a client of every type the chain is made of, after any
  history of data, closing and worker turns, and throws for every other type.
\<close>

lemma GetClientItem_after_any_run:
  assumes "\<And>t. kind_of (dflt t) = t" and "\<forall>x \<in> set creators. kind_of (snd x) = fst x"
    and "c = foldl (chain_step env) (ClientsChain_new dflt ts creators ctl pub) es"
  shows "if t \<in> set ts then \<exists>s. GetClientItem c t = Inr s \<and> kind_of (s_impl s) = t
    else GetClientItem c t =
      Inl (Runtime_error ''[Mif::Net::ClientsChain::ChainClient::GetClient] Client item not found.'')"
proof -
  have "chain_inv ts c"
    unfolding assms(3) by (rule chains.run_inv) (rule chain_inv_new [OF assms(1,2)])
  then have "map fst (shape (c_stages c)) = ts" by (simp add: chain_inv_def)
  then have "fst ` set (shape (c_stages c)) = set ts" by (metis set_map)
  then show ?thesis
    using GetClient_shape [of t "c_stages c"] GetClient_none [of t "c_stages c"]
    by (simp add: GetClientItem_def)
qed

theorem GetClientItem_after_any_run_witness:
  "\<exists>s. GetClientItem (foldl (chain_step toy_env)
     (ClientsChain_new (fresh 0) SimpleFrame [(KTClient, TClient 7)] True True) [Data ''x'', Closed]) KTClient = Inr s \<and>
     kind_of (s_impl s) = KTClient"
  using GetClientItem_after_any_run [of "fresh 0" "[(KTClient, TClient 7)]", OF _ _ refl, of KTClient SimpleFrame
      toy_env True True "[Data ''x'', Closed]"]
  by (simp add: SimpleFrame_def)

end
