(* ===== verification/Crc32.thy ===== *)
theory Crc32
  imports Prelude
begin

text \<open>
  The checksum of \<open>include/mif/common/crc32.h\<close>, which the framework uses for service
  identifiers (at compile time, from string literals, and at run time, from strings) and for
  the identifiers of web-service parameters: the table computed by template recursion, the
  compile-time and the run-time routines, and their equivalence with the bit-serial CRC-32.
\<close>

unbundle bit_operations_syntax

section \<open>The table and the two routines\<close>

text \<open>One round of \<open>CalcCrc32K\<close> and its recursion over the eight bits of a byte.\<close>

definition crc32_round :: "32 word \<Rightarrow> 32 word" where
  "crc32_round c = (if c AND 1 \<noteq> 0 then 0xedb88320 XOR drop_bit 1 c else drop_bit 1 c)"

function CalcCrc32K :: "32 word \<Rightarrow> nat \<Rightarrow> 32 word" where
  "CalcCrc32K c k = (if k < 8 then CalcCrc32K (crc32_round c) (k + 1) else c)"
  by pat_completeness auto
termination
  by (relation "measure (\<lambda>(c, k). 8 - k)") auto

declare CalcCrc32K.simps [simp del]

text \<open>
  The table is a parameter pack that grows by one entry per template instantiation until it
  holds 256 of them (there is no overload for a longer pack).
\<close>

function CalcCrc32Table :: "nat \<Rightarrow> 32 word list \<Rightarrow> 32 word list" where
  "CalcCrc32Table n t =
     (if length t \<le> 255 then CalcCrc32Table (n + 1) (t @ [CalcCrc32K (of_nat n) 0]) else t)"
  by pat_completeness auto
termination
  by (relation "measure (\<lambda>(n, t). 256 - length t)") auto

declare CalcCrc32Table.simps [simp del]

definition crc32_table :: "32 word list" where
  "crc32_table = CalcCrc32Table 0 []"

text \<open>
  The compile-time routine reads \<open>char\<close>, which is signed: the promotion to 32 bits extends
  the sign. The run-time routine reads \<open>std::uint8_t\<close>.
\<close>

definition char_promoted :: "char \<Rightarrow> 32 word" where
  "char_promoted c = signed (of_char c :: 8 word)"

definition byte_promoted :: "char \<Rightarrow> 32 word" where
  "byte_promoted c = of_char c"

fun Crc32_detail :: "string \<Rightarrow> 32 word \<Rightarrow> 32 word" where
  "Crc32_detail [] crc = crc XOR 0xFFFFFFFF"
| "Crc32_detail (c # cs) crc =
     Crc32_detail cs
       (drop_bit 8 crc XOR crc32_table ! unat ((crc XOR char_promoted c) AND 0xFF))"

text \<open>\<open>Crc32\<close> of a string literal: its characters without the terminating zero.\<close>

definition Crc32_literal :: "string \<Rightarrow> 32 word" where
  "Crc32_literal s = Crc32_detail s 0xFFFFFFFF"

text \<open>\<open>Crc32(void const *, std::uint32_t)\<close>: the loop over \<open>bytes\<close> bytes of the buffer.\<close>

fun crc32_loop :: "nat \<Rightarrow> char list \<Rightarrow> 32 word \<Rightarrow> 32 word" where
  "crc32_loop 0 buf crc = crc"
| "crc32_loop (Suc bytes) (b # buf) crc =
     crc32_loop bytes buf
       (crc32_table ! unat ((crc XOR byte_promoted b) AND 0xFF) XOR drop_bit 8 crc)"
| "crc32_loop (Suc bytes) [] crc = crc"

definition Crc32_runtime :: "char list \<Rightarrow> 32 word \<Rightarrow> 32 word" where
  "Crc32_runtime buf bytes =
     (let crc = (0 :: 32 word); crc = crc XOR NOT 0; crc = crc32_loop (unat bytes) buf crc
      in crc XOR NOT 0)"

text \<open>
  \<open>Crc32str(std::string const &)\<close>: the length is a \<open>std::size_t\<close> that the call narrows
  to 32 bits. \<open>Crc32str(char const *)\<close> stops at the first zero character.
\<close>

definition Crc32str :: "string \<Rightarrow> 32 word" where
  "Crc32str s = Crc32_runtime s (word_of_nat (length s))"

definition Crc32str_c :: "string \<Rightarrow> 32 word" where
  "Crc32str_c s =
     (let t = takeWhile (\<lambda>c. c \<noteq> CHR 0x00) s
      in Crc32_runtime t (word_of_nat (length t)))"

section \<open>The bit-serial reference\<close>

text \<open>
  CRC-32 as usually specified (reflected, polynomial \<open>0xEDB88320\<close>): the register is XORed
  with each byte and shifted eight times.
\<close>

fun crc32_bits :: "char list \<Rightarrow> 32 word \<Rightarrow> 32 word" where
  "crc32_bits [] crc = crc"
| "crc32_bits (b # bs) crc = crc32_bits bs ((crc32_round ^^ 8) (crc XOR byte_promoted b))"

definition crc32_reference :: "char list \<Rightarrow> 32 word" where
  "crc32_reference bs = NOT (crc32_bits bs (NOT 0))"

section \<open>Facts\<close>

lemma and_1_neq_0_iff: "c AND 1 \<noteq> 0 \<longleftrightarrow> bit c 0" for c :: "32 word"
  by (simp add: and_one_eq bit_0 odd_iff_mod_2_eq_one)

lemma crc32_round_eq:
  "crc32_round c = (if bit c 0 then 0xedb88320 else 0) XOR drop_bit 1 c"
  by (simp add: crc32_round_def and_1_neq_0_iff)

lemma crc32_round_xor: "crc32_round (x XOR y) = crc32_round x XOR crc32_round y"
  unfolding crc32_round_eq by (rule bit_eqI) (auto simp: bit_xor_iff bit_drop_bit_eq)

lemma crc32_rounds_xor: "(crc32_round ^^ n) (x XOR y) = (crc32_round ^^ n) x XOR (crc32_round ^^ n) y"
  by (induction n) (simp_all add: crc32_round_xor)

lemma CalcCrc32K_rounds: "k \<le> 8 \<Longrightarrow> CalcCrc32K c k = (crc32_round ^^ (8 - k)) c"
proof (induction c k rule: CalcCrc32K.induct)
  case (1 c k)
  show ?case
  proof (cases "k < 8")
    case True
    then have "8 - k = Suc (8 - (k + 1))" by simp
    with True 1 show ?thesis
      by (simp add: CalcCrc32K.simps [of c k] funpow_Suc_right del: funpow.simps)
  next
    case False
    with "1.prems" have "k = 8" by simp
    then show ?thesis by (subst CalcCrc32K.simps) simp
  qed
qed

lemma crc32_rounds_low_zero: "take_bit n c = 0 \<Longrightarrow> (crc32_round ^^ n) c = drop_bit n c"
proof (induction n arbitrary: c)
  case 0
  then show ?case by simp
next
  case (Suc n)
  from Suc.prems have low: "\<not> bit c 0"
    by (metis bit_take_bit_iff bit_0_eq bot_apply bot_bool_def zero_less_Suc)
  have "take_bit n (drop_bit 1 c) = drop_bit 1 (take_bit (Suc n) c)"
    by (simp add: take_bit_drop_bit)
  with Suc.prems have "take_bit n (drop_bit 1 c) = 0" by simp
  then have "(crc32_round ^^ n) (drop_bit 1 c) = drop_bit (Suc n) c"
    using Suc.IH by simp
  moreover from low have "crc32_round c = drop_bit 1 c"
    by (simp add: crc32_round_eq)
  ultimately show ?case
    by (simp add: funpow_Suc_right del: funpow.simps)
qed

text \<open>
  The table step: linearity splits the register into its low byte, which the table looks up,
  and the rest, which eight rounds only shift.
\<close>

lemma crc32_rounds_split:
  "(crc32_round ^^ 8) c = (crc32_round ^^ 8) (c AND 0xFF) XOR drop_bit 8 c"
proof -
  have mask: "c AND 0xFF = take_bit 8 c"
    by (simp add: take_bit_eq_mask mask_eq_exp_minus_1)
  have split: "c = take_bit 8 c XOR (c AND NOT (mask 8))"
    by (rule bit_eqI) (auto simp: bit_simps)
  have low: "take_bit 8 (c AND NOT (mask 8)) = 0"
    by (rule bit_eqI) (auto simp: bit_simps)
  have high: "drop_bit 8 (c AND NOT (mask 8)) = drop_bit 8 c"
    by (rule bit_eqI) (auto simp: bit_simps dest: bit_imp_le_length)
  have "(crc32_round ^^ 8) c =
      (crc32_round ^^ 8) (take_bit 8 c) XOR (crc32_round ^^ 8) (c AND NOT (mask 8))"
    by (subst split, rule crc32_rounds_xor)
  then show ?thesis
    by (simp only: crc32_rounds_low_zero [OF low] high mask)
qed

lemma CalcCrc32Table_eq:
  assumes "n = length t" and "length t \<le> 256"
    and "\<forall>i < length t. t ! i = CalcCrc32K (of_nat i) 0"
  shows "length (CalcCrc32Table n t) = 256 \<and>
    (\<forall>i < 256. CalcCrc32Table n t ! i = CalcCrc32K (of_nat i) 0)"
  using assms
proof (induction n t rule: CalcCrc32Table.induct)
  case (1 n t)
  show ?case
  proof (cases "length t \<le> 255")
    case True
    have "\<forall>i < length (t @ [CalcCrc32K (of_nat n) 0]).
        (t @ [CalcCrc32K (of_nat n) 0]) ! i = CalcCrc32K (of_nat i) 0"
      using "1.prems" by (auto simp: nth_append less_Suc_eq)
    with True 1 have "length (CalcCrc32Table (n + 1) (t @ [CalcCrc32K (of_nat n) 0])) = 256 \<and>
        (\<forall>i < 256. CalcCrc32Table (n + 1) (t @ [CalcCrc32K (of_nat n) 0]) ! i =
           CalcCrc32K (of_nat i) 0)"
      by simp
    moreover from True
    have "CalcCrc32Table n t = CalcCrc32Table (n + 1) (t @ [CalcCrc32K (of_nat n) 0])"
      by (subst CalcCrc32Table.simps) simp
    ultimately show ?thesis by metis
  next
    case False
    with "1.prems" have "length t = 256" by simp
    moreover from False have "CalcCrc32Table n t = t"
      by (subst CalcCrc32Table.simps) simp
    ultimately show ?thesis using "1.prems" by simp
  qed
qed

lemma crc32_table_nth: "i < 256 \<Longrightarrow> crc32_table ! i = (crc32_round ^^ 8) (of_nat i)"
  using CalcCrc32Table_eq [of 0 "[]"] CalcCrc32K_rounds [of 0]
  by (simp add: crc32_table_def)

lemma unat_and_255: "unat (c AND 0xFF) < 256" for c :: "32 word"
proof -
  have "c AND 0xFF \<le> 0xFF" by (rule word_and_le1)
  then have "unat (c AND 0xFF) \<le> unat (0xFF :: 32 word)" by (simp add: word_le_nat_alt)
  then show ?thesis by simp
qed

lemma crc32_table_step:
  "crc32_table ! unat (c AND 0xFF) XOR drop_bit 8 c = (crc32_round ^^ 8) c"
  by (simp add: crc32_table_nth unat_and_255 crc32_rounds_split [of c] del: funpow.simps)

lemma byte_promoted_nat: "byte_promoted c = word_of_nat (of_char c)"
  by (simp add: byte_promoted_def of_nat_of_char)

lemma byte_promoted_ucast: "byte_promoted c = ucast (of_char c :: 8 word)"
proof -
  have "(of_char c :: 8 word) = word_of_nat (of_char c)"
    by (simp add: of_nat_of_char)
  moreover have "take_bit 8 (of_char c :: nat) = of_char c"
    using of_char_less_256 [of c] by (simp add: take_bit_eq_mod)
  ultimately show ?thesis
    by (simp add: byte_promoted_nat unsigned_of_nat)
qed

text \<open>Only the low byte of the promoted character is used, so the sign does not matter.\<close>

lemma char_promoted_low: "take_bit 8 (char_promoted c) = byte_promoted c"
  unfolding char_promoted_def byte_promoted_ucast
proof (rule bit_word_eqI)
  fix n
  assume "n < LENGTH(32)"
  moreover have "min 7 n = n" if "n < 8" using that by simp
  moreover have "n < 8" if "bit (of_char c :: 8 word) n" using that by (auto dest: bit_imp_le_length)
  ultimately show "bit (take_bit 8 (signed (of_char c :: 8 word) :: 32 word)) n \<longleftrightarrow>
      bit (ucast (of_char c :: 8 word) :: 32 word) n"
    by (auto simp: bit_take_bit_iff bit_signed_iff bit_unsigned_iff)
qed

lemma word_ones_eq: "(0xFFFFFFFF :: 32 word) = - 1"
  by simp

lemma xor_and_255: "(c XOR char_promoted x) AND 0xFF = (c XOR byte_promoted x) AND 0xFF"
proof -
  have mask: "w AND 0xFF = take_bit 8 w" for w :: "32 word"
    by (simp add: take_bit_eq_mask mask_eq_exp_minus_1)
  have "take_bit 8 (byte_promoted x) = byte_promoted x"
    by (metis char_promoted_low take_bit_take_bit min.idem)
  then show ?thesis
    by (simp add: mask char_promoted_low)
qed

lemma byte_drop_8: "drop_bit 8 (byte_promoted x) = 0"
  unfolding byte_promoted_ucast
  by (rule bit_word_eqI) (auto simp: bit_drop_bit_eq bit_unsigned_iff dest: bit_imp_le_length)

lemma crc32_byte_step:
  "drop_bit 8 crc XOR crc32_table ! unat ((crc XOR byte_promoted b) AND 0xFF) =
     (crc32_round ^^ 8) (crc XOR byte_promoted b)"
  using crc32_table_step [of "crc XOR byte_promoted b"]
  by (simp add: byte_drop_8 xor.commute del: funpow.simps)

lemma crc32_loop_bits: "n \<le> length buf \<Longrightarrow> crc32_loop n buf crc = crc32_bits (take n buf) crc"
proof (induction n buf crc rule: crc32_loop.induct)
  case (2 bytes b buf crc)
  have "crc32_table ! unat ((crc XOR byte_promoted b) AND 0xFF) XOR drop_bit 8 crc =
      (crc32_round ^^ 8) (crc XOR byte_promoted b)"
    by (subst xor.commute) (rule crc32_byte_step)
  with 2 show ?case by (simp del: funpow.simps)
qed simp_all

lemma Crc32_detail_bits: "Crc32_detail s crc = NOT (crc32_bits s crc)"
proof (induction s arbitrary: crc)
  case Nil
  show ?case by (simp add: word_ones_eq)
next
  case (Cons c cs)
  then show ?case
    by (simp add: xor_and_255 crc32_byte_step del: funpow.simps)
qed

lemma Crc32_runtime_bits:
  "unat n \<le> length buf \<Longrightarrow> Crc32_runtime buf n = crc32_reference (take (unat n) buf)"
  by (simp add: Crc32_runtime_def crc32_reference_def crc32_loop_bits)

lemma Crc32_literal_bits: "Crc32_literal s = crc32_reference s"
  by (simp add: Crc32_literal_def crc32_reference_def Crc32_detail_bits word_ones_eq)

lemma Crc32str_bits: "length s < 2 ^ 32 \<Longrightarrow> Crc32str s = crc32_reference s"
  by (simp add: Crc32str_def Crc32_runtime_bits unat_of_nat)

text \<open>Rules that evaluate the reference on a closed string.\<close>

lemma funpow_8: "(f ^^ 8) x = f (f (f (f (f (f (f (f x)))))))"
  by (simp add: numeral_eq_Suc)

lemmas crc32_eval = crc32_reference_def funpow_8 byte_promoted_def crc32_round_def

section \<open>Properties\<close>

text \<open>
  Property C17: the run-time table-driven checksum of the first \<open>n\<close> bytes of a buffer is
  the bit-serial CRC-32 of those bytes, for every 32-bit count within the buffer.
\<close>

theorem crc32_table_driven_correct:
  assumes "unat n \<le> length buf"
  shows "Crc32_runtime buf n = crc32_reference (take (unat n) buf)"
  using assms by (rule Crc32_runtime_bits)

theorem crc32_table_driven_correct_witness:
  "unat (9 :: 32 word) \<le> length ''123456789'' \<and>
   Crc32_runtime ''123456789'' 9 = crc32_reference ''123456789'' \<and>
   crc32_reference ''123456789'' = 0xCBF43926"
proof -
  have le: "unat (9 :: 32 word) \<le> length ''123456789''" by simp
  have ref: "crc32_reference ''123456789'' = 0xCBF43926" by (simp add: crc32_eval)
  show ?thesis using le crc32_table_driven_correct [OF le] ref by simp
qed

text \<open>
  The identifier that the compiler computes from a literal equals the one that
  is computed at run time from the same string, negative characters included, as long as the
  length fits the 32-bit count; the C-string variant agrees when there is no zero character.
\<close>

lemma crc32_literal_eq_runtime:
  assumes "length s < 2 ^ 32"
  shows "Crc32_literal s = Crc32str s \<and>
    (CHR 0x00 \<notin> set s \<longrightarrow> Crc32str_c s = Crc32_literal s)"
proof (intro conjI impI)
  show eq: "Crc32_literal s = Crc32str s"
    using assms by (simp add: Crc32_literal_bits Crc32str_bits)
  assume "CHR 0x00 \<notin> set s"
  then have "takeWhile (\<lambda>c. c \<noteq> CHR 0x00) s = s"
    by (induction s) auto
  then show "Crc32str_c s = Crc32_literal s"
    by (simp only: Crc32str_c_def eq Crc32str_def Let_def)
qed

lemma crc32_literal_eq_runtime_example:
  "length ''Mif.Service.Locator'' < 2 ^ 32 \<and> CHR 0x00 \<notin> set ''Mif.Service.Locator'' \<and>
   Crc32_literal ''Mif.Service.Locator'' = Crc32str ''Mif.Service.Locator'' \<and>
   Crc32str_c ''Mif.Service.Locator'' = Crc32_literal ''Mif.Service.Locator''"
proof -
  have len: "length ''Mif.Service.Locator'' < 2 ^ 32" by simp
  have nul: "CHR 0x00 \<notin> set ''Mif.Service.Locator''" by simp
  show ?thesis
    using len nul crc32_literal_eq_runtime [OF len] by blast
qed

end
