(* ===== verification/Service_Locator.thy ===== *)
theory Service_Locator
  imports Crc32
begin

text \<open>
  The service locator and the service factory (\<open>service/locator.cpp\<close>,
  \<open>service/factory.h\<close>, \<open>service/ifactory.h\<close>, \<open>service/ilocator.h\<close>,
  \<open>service/id/service.h\<close>). Every operation holds the object's mutex from beginning to end,
  so a concurrent history is a sequence of operations.

  A service pointer is an argument type \<open>'s\<close>; an empty \<open>IServicePtr\<close> is one of its values.
\<close>

type_synonym ServiceId = "32 word"

definition id_string :: "ServiceId \<Rightarrow> string" where
  "id_string i = nat_to_string (unat i)"

section \<open>Locator\<close>

record 's locator =
  m_services :: "ServiceId \<rightharpoonup> 's"

definition Locator_new :: "'s locator" where
  "Locator_new = \<lparr>m_services = Map.empty\<rparr>"

definition Locator_Get :: "'s locator \<Rightarrow> ServiceId \<Rightarrow> 's result" where
  "Locator_Get l i =
     (case m_services l i of
        None \<Rightarrow> Inl (Invalid_argument (''[Mif::Service::Detail::Locator::Get] Failed to get service. '' @
          ''Service with id '' @ dquote @ id_string i @ dquote @ '' not found.''))
      | Some s \<Rightarrow> Inr s)"

definition Locator_Exists :: "'s locator \<Rightarrow> ServiceId \<Rightarrow> bool" where
  "Locator_Exists l i = (m_services l i \<noteq> None)"

definition Locator_Put :: "'s locator \<Rightarrow> ServiceId \<Rightarrow> 's \<Rightarrow> 's locator" where
  "Locator_Put l i s = l\<lparr>m_services := (m_services l)(i \<mapsto> s)\<rparr>"

definition Locator_Remove :: "'s locator \<Rightarrow> ServiceId \<Rightarrow> 's locator \<times> unit result" where
  "Locator_Remove l i =
     (case m_services l i of
        None \<Rightarrow> (l, Inl (Invalid_argument (''[Mif::Service::Detail::Locator::Remove] Failed to remove service. '' @
          ''Service with id '' @ dquote @ id_string i @ dquote @ '' not found.'')))
      | Some s \<Rightarrow> (l\<lparr>m_services := (m_services l)(i := None)\<rparr>, Inr ()))"

definition Locator_Clear :: "'s locator \<Rightarrow> 's locator" where
  "Locator_Clear l = l\<lparr>m_services := Map.empty\<rparr>"

text \<open>The identifiers of the library's own services.\<close>

definition Id_Locator :: ServiceId where
  "Id_Locator = Crc32_literal ''Mif.Service.Locator''"

definition Id_Pool :: ServiceId where
  "Id_Pool = Crc32_literal ''Mif.Service.Pool''"

definition Id_PerThreadPool :: ServiceId where
  "Id_PerThreadPool = Crc32_literal ''Mif.Service.PerThreadPool''"

section \<open>Factory\<close>

text \<open>
  A registered creator: a bound class, whose construction is an argument of the model and may
  throw, or a given instance.
\<close>

datatype 's service_creator = Class "unit \<Rightarrow> 's result" | Instance 's

record 's factory =
  m_creators :: "ServiceId \<rightharpoonup> 's service_creator"

definition Factory_new :: "'s factory" where
  "Factory_new = \<lparr>m_creators = Map.empty\<rparr>"

definition Factory_AddClass :: "'s factory \<Rightarrow> ServiceId \<Rightarrow> (unit \<Rightarrow> 's result) \<Rightarrow> 's factory" where
  "Factory_AddClass f i mk = f\<lparr>m_creators := map_emplace (m_creators f) i (Class mk)\<rparr>"

definition Factory_AddInstance :: "'s factory \<Rightarrow> ServiceId \<Rightarrow> 's \<Rightarrow> 's factory" where
  "Factory_AddInstance f i s = f\<lparr>m_creators := map_emplace (m_creators f) i (Instance s)\<rparr>"

definition Factory_Create :: "'s factory \<Rightarrow> ServiceId \<Rightarrow> 's result" where
  "Factory_Create f i =
     (case m_creators f i of
        None \<Rightarrow> Inl (Runtime_error (''[Mif::Service::Factory::Create] Failed to create service '' @
          ''with id '' @ dquote @ id_string i @ dquote @ ''. Creator not found.''))
      | Some (Class mk) \<Rightarrow> mk ()
      | Some (Instance s) \<Rightarrow> Inr s)"

text \<open>\<open>IFactory::Create<T>(std::string const &)\<close>: the identifier is the checksum of the name.\<close>

definition IFactory_Create_named :: "'s factory \<Rightarrow> ('s \<Rightarrow> 't result) \<Rightarrow> string \<Rightarrow> 't result" where
  "IFactory_Create_named f cast name =
     (case Factory_Create f (Crc32str name) of Inl e \<Rightarrow> Inl e | Inr s \<Rightarrow> cast s)"

section \<open>Facts\<close>

interpretation locators: keyed_store Locator_new Locator_Put "\<lambda>l i. fst (Locator_Remove l i)"
  Locator_Clear m_services
  by unfold_locales
    (auto simp: Locator_new_def Locator_Put_def Locator_Remove_def Locator_Clear_def split: option.splits)

lemmas locator_defs = Locator_Get_def Locator_Exists_def Locator_Put_def Locator_Remove_def

lemma Locator_Remove_reports: "(\<exists>u. snd (Locator_Remove l i) = Inr u) \<longleftrightarrow> Locator_Exists l i"
  by (auto simp: locator_defs split: option.splits)

text \<open>Registrations of a factory, in the order they are made.\<close>

fun register :: "'s factory \<Rightarrow> (ServiceId \<times> 's service_creator) list \<Rightarrow> 's factory" where
  "register f [] = f"
| "register f ((i, Class mk) # rs) = register (Factory_AddClass f i mk) rs"
| "register f ((i, Instance s) # rs) = register (Factory_AddInstance f i s) rs"

lemma register_keeps: "m_creators f i = Some c \<Longrightarrow> m_creators (register f rs) i = Some c"
proof (induction f rs rule: register.induct)
  case (2 f j mk rs)
  then show ?case
    by (cases "j = i") (auto simp: Factory_AddClass_def map_emplace_same)
next
  case (3 f j s rs)
  then show ?case
    by (cases "j = i") (auto simp: Factory_AddInstance_def map_emplace_same)
qed simp

lemma register_lookup:
  "m_creators (register f rs) i =
     (case m_creators f i of Some c \<Rightarrow> Some c | None \<Rightarrow> map_of rs i)"
proof (induction f rs rule: register.induct)
  case (1 f)
  then show ?case by (simp split: option.splits)
next
  case (2 f j mk rs)
  then show ?case
    by (cases "j = i") (auto simp: Factory_AddClass_def map_emplace_same split: option.splits)
next
  case (3 f j s rs)
  then show ?case
    by (cases "j = i") (auto simp: Factory_AddInstance_def map_emplace_same split: option.splits)
qed

section \<open>Properties\<close>

text \<open>
  Property C19: the locator returns the last service put under an identifier that no later
  operation removed or cleared, however long the history and whatever happens to other
  identifiers; \<open>Exists\<close> agrees with it, and after a \<open>Remove\<close> the identifier is gone.
\<close>

theorem locator_last_put_wins:
  assumes "\<forall>x \<in> set later. \<not> locators.touches i x"
    and "l = foldl locators.apply_op Locator_new (earlier @ Store_put i s # later)"
  shows "Locator_Get l i = Inr s \<and> Locator_Exists l i \<and>
    snd (Locator_Remove l i) = Inr () \<and> \<not> Locator_Exists (fst (Locator_Remove l i)) i"
  using locators.last_put_wins [OF assms(1), of Locator_new earlier s] assms(2)
  by (auto simp: locator_defs)

theorem locator_last_put_wins_witness:
  "Locator_Get (foldl locators.apply_op Locator_new
     ([Store_put 1 ''a'', Store_clear] @ Store_put 2 ''b'' # [Store_remove 1, Store_put 1 ''c''])) 2 = Inr ''b''"
  using locator_last_put_wins [of "[Store_remove 1, Store_put 1 ''c'']" 2, OF _ refl,
      of "[Store_put 1 ''a'', Store_clear]" "''b''"]
  by simp

text \<open>
  a factory creates by the first registration made under an identifier: later
  ones are ignored, an instance is handed out as it is, every time, and an identifier that
  was never registered throws.
\<close>

lemma factory_first_registration_wins:
  "Factory_Create (register Factory_new rs) i =
    (case map_of rs i of
       Some (Class mk) \<Rightarrow> mk ()
     | Some (Instance s) \<Rightarrow> Inr s
     | None \<Rightarrow> Inl (Runtime_error (''[Mif::Service::Factory::Create] Failed to create service '' @
         ''with id '' @ dquote @ id_string i @ dquote @ ''. Creator not found.'')))"
  by (simp add: Factory_Create_def register_lookup Factory_new_def)

end
