(* ===== verification/Service_Pool.thy ===== *)
theory Service_Pool
  imports Prelude
begin

text \<open>
  The two service pools (\<open>service/pool.cpp\<close>, \<open>service/per_thread_pool.cpp\<close>).

  A service is known by its address; address 0 is the empty \<open>IServicePtr\<close>. What a service
  answers to \<open>Query<ICheckable>\<close> and \<open>IsGood\<close>, and what \<open>m_factory->Create\<close> returns or
  throws, depend on code outside the pools and are arguments of each call.
\<close>

type_synonym addr = nat

datatype check = Not_checkable | Good | Bad | Check_throws exn

section \<open>Pool\<close>

text \<open>\<open>std::map<IServicePtr, bool>\<close>: ordered by address, with the busy flag.\<close>

record pool =
  m_limit :: "32 word"
  m_busy :: "(addr \<times> bool) list"

definition Pool_new :: "32 word \<Rightarrow> bool \<Rightarrow> pool result" where
  "Pool_new limit has_factory =
     (if limit = 0 then
        Inl (Invalid_argument ''[Mif::Service::Detail::Pool] The limit must be greater than 0.'')
      else if \<not> has_factory then
        Inl (Invalid_argument ''[Mif::Service::Detail::Pool] The factory pointer must not be empty.'')
      else Inr \<lparr>m_limit = limit, m_busy = []\<rparr>)"

text \<open>\<open>emplace\<close> into the ordered map, and the assignment through \<open>find\<close>.\<close>

fun pool_emplace :: "(addr \<times> bool) list \<Rightarrow> addr \<Rightarrow> bool \<Rightarrow> (addr \<times> bool) list" where
  "pool_emplace [] a b = [(a, b)]"
| "pool_emplace ((x, v) # r) a b =
     (if a < x then (a, b) # (x, v) # r
      else if a = x then (x, v) # r
      else (x, v) # pool_emplace r a b)"

fun set_busy :: "(addr \<times> bool) list \<Rightarrow> addr \<Rightarrow> bool \<Rightarrow> (addr \<times> bool) list" where
  "set_busy [] a b = []"
| "set_busy ((x, v) # r) a b = (if x = a then (x, b) # r else (x, v) # set_busy r a b)"

text \<open>The loop of \<open>GetService\<close>: bad services are erased on the way.\<close>

datatype scan = Scan_found addr | Scan_throws exn | Scan_end

fun pool_scan :: "(addr \<Rightarrow> check) \<Rightarrow> (addr \<times> bool) list \<Rightarrow> (addr \<times> bool) list \<times> scan" where
  "pool_scan chk [] = ([], Scan_end)"
| "pool_scan chk ((a, busy) # r) =
     (if a = 0 then
        ((a, busy) # r, Scan_throws (Invalid_argument
           ''[Mif::Service::Query] You can't query interface from empty pointer.''))
      else case chk a of
        Check_throws e \<Rightarrow> ((a, busy) # r, Scan_throws e)
      | Bad \<Rightarrow> pool_scan chk r
      | _ \<Rightarrow> if \<not> busy then ((a, busy) # r, Scan_found a)
             else (case pool_scan chk r of (r', out) \<Rightarrow> ((a, busy) # r', out)))"

text \<open>The constructor of \<open>Holder\<close>, which marks its service busy.\<close>

definition Holder_lock :: "(addr \<times> bool) list \<Rightarrow> addr \<Rightarrow> (addr \<times> bool) list \<times> addr result" where
  "Holder_lock m a =
     (if a \<in> fst ` set m then (set_busy m a True, Inr a)
      else (m, Inl (Logic_error ''Service for lock not found.'')))"

definition Pool_GetService :: "(addr \<Rightarrow> check) \<Rightarrow> addr result \<Rightarrow> pool \<Rightarrow> pool \<times> addr result" where
  "Pool_GetService chk created p =
     (case pool_scan chk (m_busy p) of
        (m, Scan_throws e) \<Rightarrow> (p\<lparr>m_busy := m\<rparr>, Inl e)
      | (m, Scan_found a) \<Rightarrow> (case Holder_lock m a of (m', r) \<Rightarrow> (p\<lparr>m_busy := m'\<rparr>, r))
      | (m, Scan_end) \<Rightarrow>
          if unat (m_limit p) \<le> length m then
            (p\<lparr>m_busy := m\<rparr>, Inl (Runtime_error
               (''[Mif::Service::Detail::Pool::GetService] Failed to get service. '' @
                ''Maximum limit reached ('' @ nat_to_string (unat (m_limit p)) @ '').'')))
          else (case created of
                  Inl e \<Rightarrow> (p\<lparr>m_busy := m\<rparr>, Inl e)
                | Inr a \<Rightarrow>
                    (case Holder_lock (pool_emplace m a False) a of
                       (m', r) \<Rightarrow> (p\<lparr>m_busy := m'\<rparr>, r))))"

text \<open>The destructor of \<open>Holder\<close>; a service that is no longer listed is only logged.\<close>

definition Holder_unlock :: "pool \<Rightarrow> addr \<Rightarrow> pool" where
  "Holder_unlock p a = p\<lparr>m_busy := set_busy (m_busy p) a False\<rparr>"

section \<open>PerThreadPool\<close>

record 't thread_pool =
  t_services :: "'t \<rightharpoonup> addr"

definition PerThreadPool_new :: "bool \<Rightarrow> 't thread_pool result" where
  "PerThreadPool_new has_factory =
     (if \<not> has_factory then
        Inl (Invalid_argument ''[Mif::Service::Detail::PerThreadPool] The factory pointer must not be empty.'')
      else Inr \<lparr>t_services = Map.empty\<rparr>)"

text \<open>
  The check of a stored service. An exception derived from \<open>std::exception\<close> counts as a bad
  service; another one leaves the call.
\<close>

definition thread_check :: "(addr \<Rightarrow> check) \<Rightarrow> addr \<Rightarrow> bool result" where
  "thread_check chk a =
     (case chk a of
        Check_throws e \<Rightarrow> if is_std_exception e then Inr False else Inl e
      | Bad \<Rightarrow> Inr False
      | _ \<Rightarrow> Inr True)"

definition thread_create :: "'t \<Rightarrow> addr result \<Rightarrow> 't thread_pool \<Rightarrow> 't thread_pool \<times> addr result" where
  "thread_create t created p =
     (case created of
        Inl e \<Rightarrow> (p, Inl e)
      | Inr a \<Rightarrow> (p\<lparr>t_services := map_emplace (t_services p) t a\<rparr>, Inr a))"

definition PerThreadPool_GetService ::
    "(addr \<Rightarrow> check) \<Rightarrow> addr result \<Rightarrow> 't \<Rightarrow> 't thread_pool \<Rightarrow> 't thread_pool \<times> addr result" where
  "PerThreadPool_GetService chk created t p =
     (let service = (case t_services p t of Some a \<Rightarrow> a | None \<Rightarrow> 0)
      in if service = 0 then thread_create t created p
         else case thread_check chk service of
                Inl e \<Rightarrow> (p, Inl e)
              | Inr isOk \<Rightarrow>
                  if isOk then (p, Inr service)
                  else thread_create t created (p\<lparr>t_services := (t_services p)(t := None)\<rparr>))"

section \<open>Facts\<close>

abbreviation keys :: "(addr \<times> bool) list \<Rightarrow> addr list" where
  "keys m \<equiv> map fst m"

lemma keys_set_busy [simp]: "keys (set_busy m a b) = keys m"
  by (induction m a b rule: set_busy.induct) auto

lemma length_set_busy [simp]: "length (set_busy m a b) = length m"
  by (induction m a b rule: set_busy.induct) auto

lemma set_set_busy:
  assumes "distinct (keys m)"
  shows "(x, v) \<in> set (set_busy m a b) \<longleftrightarrow>
    (if x = a then v = b \<and> a \<in> set (keys m) else (x, v) \<in> set m)"
  using assms by (induction m a b rule: set_busy.induct) force+

lemma length_pool_emplace: "length (pool_emplace m a b) \<le> Suc (length m)"
  by (induction m a b rule: pool_emplace.induct) auto

lemma keys_pool_emplace: "set (keys (pool_emplace m a b)) = insert a (set (keys m))"
  by (induction m a b rule: pool_emplace.induct) auto

lemma sorted_pool_emplace:
  "sorted_wrt (<) (keys m) \<Longrightarrow> sorted_wrt (<) (keys (pool_emplace m a b))"
proof (induction m a b rule: pool_emplace.induct)
  case (2 x v r a b)
  then show ?case using keys_pool_emplace [of r a b] by (auto simp flip: set_map)
qed simp

lemma set_pool_emplace:
  "a \<notin> set (keys m) \<Longrightarrow> set (pool_emplace m a b) = insert (a, b) (set m)"
  by (induction m a b rule: pool_emplace.induct) auto

lemma sorted_keys_distinct: "sorted_wrt (<) (keys (m :: (addr \<times> bool) list)) \<Longrightarrow> distinct (keys m)"
  using strict_sorted_iff by blast

text \<open>What the scan keeps.\<close>

lemma scan_subset: "pool_scan chk m = (m', out) \<Longrightarrow> set m' \<subseteq> set m \<and> length m' \<le> length m"
proof (induction chk m arbitrary: m' out rule: pool_scan.induct)
  case (2 chk a busy r)
  then show ?case by (fastforce split: if_splits check.splits prod.splits)
qed simp

lemma scan_sorted:
  "pool_scan chk m = (m', out) \<Longrightarrow> sorted_wrt (<) (keys m) \<Longrightarrow> sorted_wrt (<) (keys m')"
proof (induction chk m arbitrary: m' out rule: pool_scan.induct)
  case (2 chk a busy r)
  show ?case
  proof (cases "a = 0 \<or> (\<exists>e. chk a = Check_throws e) \<or> (chk a \<noteq> Bad \<and> \<not> busy)")
    case True
    with 2(4,5) show ?thesis by (auto split: check.splits if_splits)
  next
    case False
    obtain r' o' where r: "pool_scan chk r = (r', o')" by force
    have sub: "set r' \<subseteq> set r" using scan_subset [OF r] by simp
    from False 2(4) r have "m' = r' \<or> m' = (a, busy) # r'" by (auto split: check.splits if_splits)
    moreover have "sorted_wrt (<) (keys r')"
      using 2 False r by (cases "chk a") auto
    ultimately show ?thesis using 2(5) sub by fastforce
  qed
qed simp

lemma scan_found:
  "pool_scan chk m = (m', Scan_found a) \<Longrightarrow> (a, False) \<in> set m' \<and> a \<noteq> 0"
proof (induction chk m arbitrary: m' rule: pool_scan.induct)
  case (2 chk x busy r)
  then show ?case by (fastforce split: if_splits check.splits prod.splits)
qed simp

lemma scan_end: "pool_scan chk m = (m', Scan_end) \<Longrightarrow> (a, b) \<in> set m' \<Longrightarrow> b"
proof (induction chk m arbitrary: m' rule: pool_scan.induct)
  case (2 chk x busy r)
  then show ?case by (fastforce split: if_splits check.splits prod.splits)
qed simp

text \<open>Without exceptions of the checks, the scan is a search among the good services.\<close>

definition usable :: "(addr \<Rightarrow> check) \<Rightarrow> (addr \<times> bool) list \<Rightarrow> (addr \<times> bool) list" where
  "usable chk m = filter (\<lambda>(a, b). chk a \<noteq> Bad) m"

lemma scan_eq:
  assumes "\<forall>(a, b) \<in> set m. a \<noteq> 0 \<and> (\<forall>e. chk a \<noteq> Check_throws e)"
  shows "snd (pool_scan chk m) =
      (case filter (\<lambda>(a, b). \<not> b) (usable chk m) of [] \<Rightarrow> Scan_end | (a, b) # _ \<Rightarrow> Scan_found a)"
    and "filter (\<lambda>(a, b). \<not> b) (usable chk m) = [] \<Longrightarrow> fst (pool_scan chk m) = usable chk m"
  using assms
  by (induction chk m rule: pool_scan.induct)
    (auto simp: usable_def split: check.splits prod.splits)

subsection \<open>Holders and the pool\<close>

text \<open>
  The pool together with the services that live holders keep. A newly created object has an
  address that no live object has: it differs from the services the holders refer to and from
  the ones still listed after the scan.
\<close>

definition fresh_service :: "addr result \<Rightarrow> (addr \<times> bool) list \<Rightarrow> addr list \<Rightarrow> bool" where
  "fresh_service created m held =
     (case created of Inl _ \<Rightarrow> True | Inr a \<Rightarrow> a \<notin> set held \<and> a \<notin> set (keys m))"

inductive pool_reach :: "32 word \<Rightarrow> pool \<Rightarrow> addr list \<Rightarrow> bool" for lim where
  start: "Pool_new lim True = Inr p \<Longrightarrow> pool_reach lim p []"
| get: "pool_reach lim p held \<Longrightarrow> fresh_service created (fst (pool_scan chk (m_busy p))) held \<Longrightarrow>
    Pool_GetService chk created p = (p', Inr a) \<Longrightarrow> pool_reach lim p' (a # held)"
| get_fails: "pool_reach lim p held \<Longrightarrow> fresh_service created (fst (pool_scan chk (m_busy p))) held \<Longrightarrow>
    Pool_GetService chk created p = (p', Inl e) \<Longrightarrow> pool_reach lim p' held"
| release: "pool_reach lim p held \<Longrightarrow> a \<in> set held \<Longrightarrow>
    pool_reach lim (Holder_unlock p a) (remove1 a held)"

definition pool_inv :: "32 word \<Rightarrow> pool \<Rightarrow> addr list \<Rightarrow> bool" where
  "pool_inv lim p held \<longleftrightarrow> m_limit p = lim \<and> length (m_busy p) \<le> unat lim \<and>
     sorted_wrt (<) (keys (m_busy p)) \<and> distinct held \<and>
     (\<forall>a b. (a, b) \<in> set (m_busy p) \<longrightarrow> b = (a \<in> set held))"

lemma pool_inv_lock:
  assumes "sorted_wrt (<) (keys m)" and "\<forall>x b. (x, b) \<in> set m \<longrightarrow> b = (x \<in> set held)"
    and "(a, False) \<in> set m" and "length m \<le> unat lim" and "distinct held" and "m_limit p = lim"
    and "Holder_lock m a = (m', r)"
  shows "r = Inr a \<and> a \<notin> set held \<and> pool_inv lim (p\<lparr>m_busy := m'\<rparr>) (a # held)"
proof -
  have "a \<in> set (keys m)" using assms(3) by force
  with assms(7) have "r = Inr a" "m' = set_busy m a True"
    by (auto simp: Holder_lock_def)
  moreover have "a \<notin> set held" using assms(2,3) by auto
  ultimately show ?thesis
    using assms set_set_busy [OF sorted_keys_distinct [OF assms(1)], of _ _ a True] \<open>a \<in> set (keys m)\<close>
    by (auto simp: pool_inv_def)
qed

lemma pool_inv_GetService:
  assumes "pool_inv lim p held" and "fresh_service created (fst (pool_scan chk (m_busy p))) held"
    and "Pool_GetService chk created p = (p', r)"
  shows "case r of Inl e \<Rightarrow> pool_inv lim p' held
    | Inr a \<Rightarrow> a \<notin> set held \<and> pool_inv lim p' (a # held)"
proof -
  obtain m out where sc: "pool_scan chk (m_busy p) = (m, out)" by force
  have base: "m_limit p = lim" "distinct held" "length m \<le> unat lim" "sorted_wrt (<) (keys m)"
      "\<forall>x b. (x, b) \<in> set m \<longrightarrow> b = (x \<in> set held)"
    using assms(1) scan_subset [OF sc] scan_sorted [OF sc] by (auto simp: pool_inv_def)
  then have kept: "pool_inv lim (p\<lparr>m_busy := m\<rparr>) held" by (simp add: pool_inv_def)
  show ?thesis
  proof (cases out)
    case (Scan_found a)
    with sc have "(a, False) \<in> set m" using scan_found by blast
    from pool_inv_lock [OF base(4,5) this base(3,2,1)] show ?thesis
      using assms(3) sc Scan_found by (auto simp: Pool_GetService_def split: prod.splits sum.splits)
  next
    case (Scan_throws e)
    with assms(3) sc kept show ?thesis by (auto simp: Pool_GetService_def split: sum.splits)
  next
    case Scan_end
    show ?thesis
    proof (cases "unat lim \<le> length m \<or> (\<exists>e. created = Inl e)")
      case True
      with assms(3) sc Scan_end kept base(1) show ?thesis
        by (auto simp: Pool_GetService_def split: sum.splits if_splits)
    next
      case False
      then obtain a where a: "created = Inr a" by (cases created) auto
      have new: "a \<notin> set held" "a \<notin> set (keys m)"
        using assms(2) a sc by (auto simp: fresh_service_def)
      let ?m = "pool_emplace m a False"
      have "(a, False) \<in> set ?m" "\<forall>x b. (x, b) \<in> set ?m \<longrightarrow> b = (x \<in> set held)" "length ?m \<le> unat lim"
        using set_pool_emplace [OF new(2)] new(1) base(5) length_pool_emplace [of m a False] False
        by auto
      from pool_inv_lock [OF sorted_pool_emplace [OF base(4)] this(2,1,3) base(2,1)] show ?thesis
        using assms(3) sc Scan_end False a base(1)
        by (auto simp: Pool_GetService_def split: prod.splits sum.splits)
    qed
  qed
qed

lemma pool_inv_unlock:
  assumes "pool_inv lim p held" and "a \<in> set held"
  shows "pool_inv lim (Holder_unlock p a) (remove1 a held)"
  using assms set_set_busy [of "m_busy p" _ _ a False] sorted_keys_distinct [of "m_busy p"]
  by (auto simp: pool_inv_def Holder_unlock_def)

lemma pool_reach_inv: "pool_reach lim p held \<Longrightarrow> pool_inv lim p held"
proof (induction rule: pool_reach.induct)
  case (start p)
  then show ?case by (auto simp: Pool_new_def pool_inv_def split: if_splits)
next
  case (get p held created chk p' a)
  then show ?case using pool_inv_GetService by fastforce
next
  case (get_fails p held created chk p' e)
  then show ?case using pool_inv_GetService by fastforce
next
  case (release p held a)
  then show ?case by (simp add: pool_inv_unlock)
qed

section \<open>Properties\<close>



text \<open>
  A request fails for lack of room exactly when the services that pass their
  check are all busy and fill the limit; otherwise, when one of them is free, the first free
  one in the order of addresses is handed out without creating anything.
\<close>

lemma pool_limit_reached_iff:
  assumes "\<forall>(a, b) \<in> set (m_busy p). a \<noteq> 0 \<and> (\<forall>e. chk a \<noteq> Check_throws e)"
    and "free = filter (\<lambda>(a, b). \<not> b) (usable chk (m_busy p))"
  shows "(free = [] \<and> unat (m_limit p) \<le> length (usable chk (m_busy p)) \<longrightarrow>
      Pool_GetService chk created p = (p\<lparr>m_busy := usable chk (m_busy p)\<rparr>,
        Inl (Runtime_error (''[Mif::Service::Detail::Pool::GetService] Failed to get service. '' @
          ''Maximum limit reached ('' @ nat_to_string (unat (m_limit p)) @ '').'')))) \<and>
    (free = [] \<and> length (usable chk (m_busy p)) < unat (m_limit p) \<longrightarrow>
      snd (Pool_GetService chk created p) = created) \<and>
    (free \<noteq> [] \<longrightarrow> snd (Pool_GetService chk created p) = Inr (fst (hd free)))"
proof -
  obtain m out where sc: "pool_scan chk (m_busy p) = (m, out)" by force
  have out: "out = (case free of [] \<Rightarrow> Scan_end | (a, b) # _ \<Rightarrow> Scan_found a)"
    using scan_eq(1) [OF assms(1)] sc assms(2) by simp
  show ?thesis
  proof (cases "free = []")
    case True
    then have m: "m = usable chk (m_busy p)"
      using scan_eq(2) [OF assms(1)] sc assms(2) by simp
    show ?thesis
      using True out sc m keys_pool_emplace [of m _ False]
      by (simp add: Pool_GetService_def Holder_lock_def split: sum.splits)
  next
    case False
    then obtain a b fs where f: "free = (a, b) # fs" by (metis neq_Nil_conv surj_pair)
    then have "pool_scan chk (m_busy p) = (m, Scan_found a)" using out sc by simp
    moreover from this have "(a, False) \<in> set m" using scan_found by blast
    ultimately show ?thesis
      using f by (force simp: Pool_GetService_def Holder_lock_def)
  qed
qed

lemma pool_limit_reached_iff_example:
  "snd (Pool_GetService (\<lambda>a. if a = 4 then Bad else Good) (Inr 9)
     \<lparr>m_limit = 2, m_busy = [(4, True), (6, True), (7, False)]\<rparr>) = Inr 7"
  using pool_limit_reached_iff [of "\<lparr>m_limit = 2, m_busy = [(4, True), (6, True), (7, False)]\<rparr>"
      "\<lambda>a. if a = 4 then Bad else Good", OF _ refl, of "Inr 9"]
  by (simp add: usable_def)

text \<open>
  Exclusiveness needs a factory that creates. With one that hands out a
  registered instance, as \<open>Factory::AddInstance\<close> does, a second request gets the service
  that the first holder still uses, and the first release makes it free for a third.
\<close>

lemma pool_shares_instance:
  assumes "Pool_new lim True = Inr p0" and "1 < unat lim" and "a \<noteq> 0" and "chk a = Good"
    and "Pool_GetService chk (Inr a) p0 = (p1, r1)" and "Pool_GetService chk (Inr a) p1 = (p2, r2)"
  shows "r1 = Inr a \<and> r2 = Inr a \<and> snd (Pool_GetService chk (Inl Bad_alloc) (Holder_unlock p2 a)) = Inr a"
proof -
  have p0: "p0 = \<lparr>m_limit = lim, m_busy = []\<rparr>" using assms(1) by (auto simp: Pool_new_def split: if_splits)
  then have p1: "p1 = \<lparr>m_limit = lim, m_busy = [(a, True)]\<rparr>" "r1 = Inr a"
    using assms(2-5) by (auto simp: Pool_GetService_def Holder_lock_def)
  then have p2: "p2 = \<lparr>m_limit = lim, m_busy = [(a, True)]\<rparr>" "r2 = Inr a"
    using assms(2-4,6) by (auto simp: Pool_GetService_def Holder_lock_def)
  have "snd (Pool_GetService chk (Inl Bad_alloc) (Holder_unlock p2 a)) = Inr a"
    using p2(1) assms(3,4) by (simp add: Pool_GetService_def Holder_lock_def Holder_unlock_def)
  with p1(2) p2(2) show ?thesis by blast
qed

lemma pool_shares_instance_example:
  "snd (Pool_GetService (\<lambda>_. Good) (Inl Bad_alloc)
     (Holder_unlock \<lparr>m_limit = 3, m_busy = [(5, True)]\<rparr> 5)) = Inr 5"
proof -
  let ?p = "\<lparr>m_limit = 3, m_busy = [(5, True)]\<rparr> :: pool"
  have n: "Pool_new 3 True = Inr \<lparr>m_limit = 3, m_busy = []\<rparr>" by (simp add: Pool_new_def)
  have g1: "Pool_GetService (\<lambda>_. Good) (Inr 5) \<lparr>m_limit = 3, m_busy = []\<rparr> = (?p, Inr 5)"
    and g2: "Pool_GetService (\<lambda>_. Good) (Inr 5) ?p = (?p, Inr 5)"
    by (simp_all add: Pool_GetService_def Holder_lock_def)
  have l: "1 < unat (3 :: 32 word)" by simp
  from pool_shares_instance [OF n l _ _ g1 g2] show ?thesis by simp
qed

text \<open>
  In the per-thread pool a thread keeps its service as long as the service
  passes its check: the same one is returned and nothing is created. A service that fails
  the check, or throws a standard exception from it, is replaced by a newly created one, and
  the services of other threads are never touched.
\<close>

lemma per_thread_service:
  assumes "t_services p t = Some a" and "a \<noteq> 0" and "a' \<noteq> 0"
    and "PerThreadPool_GetService chk (Inr a') t p = (p', r)"
    and "thread_check chk a = Inr ok"
  shows "r = Inr (if ok then a else a') \<and>
    t_services p' t = Some (if ok then a else a') \<and> (\<forall>u. u \<noteq> t \<longrightarrow> t_services p' u = t_services p u)"
  using assms
  by (auto simp: PerThreadPool_GetService_def thread_create_def map_emplace_same Let_def split: if_splits)

lemma per_thread_service_example:
  "PerThreadPool_GetService (\<lambda>_. Check_throws Bad_cast) (Inr 12) True
     \<lparr>t_services = [True \<mapsto> 3, False \<mapsto> 4]\<rparr> =
     (\<lparr>t_services = [False \<mapsto> 4, True \<mapsto> 12]\<rparr>, Inr 12) \<and>
   t_services \<lparr>t_services = [False \<mapsto> 4, True \<mapsto> 12]\<rparr> True = Some 12"
proof -
  let ?chk = "\<lambda>_ :: addr. Check_throws Bad_cast"
  have run: "PerThreadPool_GetService ?chk (Inr 12) True \<lparr>t_services = [True \<mapsto> 3, False \<mapsto> 4]\<rparr> =
     (\<lparr>t_services = [False \<mapsto> 4, True \<mapsto> 12]\<rparr>, Inr 12)"
    by (auto simp: PerThreadPool_GetService_def thread_check_def thread_create_def map_emplace_def fun_eq_iff)
  have "thread_check ?chk 3 = Inr False" by (simp add: thread_check_def)
  from per_thread_service [OF _ _ _ run this] run show ?thesis by simp
qed

end
