(* ===== verification/Service_Object.thy ===== *)
theory Service_Object
  imports Meta
begin

text \<open>
  Service objects: the reference count and the interface query of \<open>Service_Impl__\<close>
  (\<open>service/detail/service.h\<close>), aggregation by \<open>External\<close> (\<open>service/external.cpp\<close>), and the
  free functions \<open>Query\<close> and \<open>Cast\<close> and the factory functions built on them
  (\<open>service/iservice.h\<close>, \<open>service/make.h\<close>, \<open>service/create.h\<close>).
\<close>

section \<open>The reference count\<close>

record counted =
  m_counter :: "64 word"
  destroyed :: bool

definition Service_Impl_new :: counted where
  "Service_Impl_new = \<lparr>m_counter = 0, destroyed = False\<rparr>"

definition Service_Impl_AddRef :: "counted \<Rightarrow> counted \<times> 64 word" where
  "Service_Impl_AddRef s = (let counter = m_counter s + 1 in (s\<lparr>m_counter := counter\<rparr>, counter))"

definition Service_Impl_Release :: "counted \<Rightarrow> counted \<times> 64 word" where
  "Service_Impl_Release s =
     (let counter = m_counter s - 1
      in (s\<lparr>m_counter := counter, destroyed := destroyed s \<or> counter = 0\<rparr>, counter))"

text \<open>
  What the intrusive pointers to one object do to it: \<open>intrusive_ptr_add_ref\<close> and
  \<open>intrusive_ptr_release\<close>. Using the object after its destruction is undefined.
\<close>

datatype ref_op = Add_ref | Release

fun intrusive_ops :: "counted \<Rightarrow> ref_op list \<Rightarrow> counted result" where
  "intrusive_ops s [] = Inr s"
| "intrusive_ops s (x # xs) =
     (if destroyed s then Inl Undefined_behaviour
      else intrusive_ops
        (case x of Add_ref \<Rightarrow> fst (Service_Impl_AddRef s) | Release \<Rightarrow> fst (Service_Impl_Release s)) xs)"

section \<open>Querying an interface\<close>

text \<open>
  An object: its address, the class \<open>T\<close> it implements and, when the class is an
  \<open>External\<close>, the services added to it (\<open>None\<close> is an empty pointer).
\<close>

datatype service = Object (address: nat) (cls: iface) | Aggregate (address: nat) (cls: iface) "service option list"

fun External_Add :: "service \<Rightarrow> service option \<Rightarrow> service" where
  "External_Add (Aggregate a T ss) s = Aggregate a T (ss @ [s])"
| "External_Add (Object a T) s = Object a T"

text \<open>
  \<open>Service_Impl__::Query\<close> after its check of the output parameter, together with
  \<open>External::_Mif_Remote_QueryRemoteInterface\<close>: the object found and the interface stored.
\<close>

fun Service_Impl_Query :: "service \<Rightarrow> iface \<Rightarrow> (nat \<times> iface) option result"
  and External_Query :: "service option list \<Rightarrow> iface \<Rightarrow> (nat \<times> iface) option result" where
  "Service_Impl_Query (Object a T) typeInfo =
     (if typeInfo = IService then Inr (Some (a, IService))
      else case QueryInterface (TBaseTypeTuple T) typeInfo of
             Some i \<Rightarrow> Inr (Some (a, i))
           | None \<Rightarrow> Inr None)"
| "Service_Impl_Query (Aggregate a T ss) typeInfo =
     (if typeInfo = IService then Inr (Some (a, IService))
      else case QueryInterface (TBaseTypeTuple T) typeInfo of
             Some i \<Rightarrow> Inr (Some (a, i))
           | None \<Rightarrow> External_Query ss typeInfo)"
| "External_Query [] typeInfo = Inr None"
| "External_Query (None # ss) typeInfo = Inl Undefined_behaviour"
| "External_Query (Some s # ss) typeInfo =
     (case Service_Impl_Query s typeInfo of
        Inl e \<Rightarrow> Inl e
      | Inr (Some r) \<Rightarrow> Inr (Some r)
      | Inr None \<Rightarrow> External_Query ss typeInfo)"

text \<open>
  The output parameter: a null pointer, or a pointer to a pointer that may be set already.
  The member function throws unless it is a pointer to null.
\<close>

datatype out_param = Null_param | Points_to "(nat \<times> iface) option"

definition Service_Impl_Query_out :: "service \<Rightarrow> iface \<Rightarrow> out_param \<Rightarrow> (out_param \<times> bool) result" where
  "Service_Impl_Query_out s typeInfo out =
     (if out \<noteq> Points_to None then
        Inl (Invalid_argument (''[Mif::Service::Detail::Service_Impl__::Query] '' @
          ''Failed to query interface. Parameter '' @ dquote @ ''service'' @ dquote @ '' not empty. '' @
          ''Must be a pointer to pointer of the void type initialized by nullptr.''))
      else case Service_Impl_Query s typeInfo of
             Inl e \<Rightarrow> Inl e
           | Inr r \<Rightarrow> Inr (Points_to r, r \<noteq> None))"

text \<open>
  The member template \<open>Query<T>\<close>, and the free \<open>Query\<close> and \<open>Cast\<close>. What \<open>dynamic_cast\<close>
  finds in an object is the argument \<open>dyn\<close>.
\<close>

definition IService_Query :: "service \<Rightarrow> iface \<Rightarrow> (nat \<times> iface) option result" where
  "IService_Query s t =
     (case Service_Impl_Query_out s t (Points_to None) of
        Inl e \<Rightarrow> Inl e
      | Inr (Points_to (Some r), True) \<Rightarrow> Inr (Some r)
      | Inr _ \<Rightarrow> Inr None)"

definition Query :: "(service \<Rightarrow> iface \<Rightarrow> bool) \<Rightarrow> service option \<Rightarrow> iface \<Rightarrow> (nat \<times> iface) option result" where
  "Query dyn service t =
     (case service of
        None \<Rightarrow> Inl (Invalid_argument
          ''[Mif::Service::Query] You can't query interface from empty pointer.'')
      | Some s \<Rightarrow> if dyn s t then Inr (Some (address s, t)) else IService_Query s t)"

definition Cast :: "(service \<Rightarrow> iface \<Rightarrow> bool) \<Rightarrow> service option \<Rightarrow> iface \<Rightarrow> (nat \<times> iface) result" where
  "Cast dyn service t =
     (case Query dyn service t of
        Inl e \<Rightarrow> Inl e
      | Inr (Some p) \<Rightarrow> Inr p
      | Inr None \<Rightarrow> Inl (Runtime_error ''[Mif::Service::Cast] Failed to cast interface.''))"

text \<open>\<open>Make<TImpl, TRet>\<close>: a new object of the class, cast to the interface asked for.\<close>

definition Make :: "(service \<Rightarrow> iface \<Rightarrow> bool) \<Rightarrow> nat \<Rightarrow> iface \<Rightarrow> iface \<Rightarrow> (nat \<times> iface) result" where
  "Make dyn a TImpl TRet = Cast dyn (Some (Object a TImpl)) TRet"

section \<open>Facts\<close>

text \<open>
  Which object provides an interface: an object provides \<open>IService\<close> and everything its bases
  inherit from; an aggregate also what one of its services provides.
\<close>

inductive provides :: "service \<Rightarrow> iface \<Rightarrow> nat \<Rightarrow> bool" where
  root: "provides s IService (address s)"
| own: "b \<in> set (TBaseTypeTuple (cls s)) \<Longrightarrow> inherits b t \<Longrightarrow> provides s t (address s)"
| part: "Some s \<in> set ss \<Longrightarrow> provides s t a \<Longrightarrow> provides (Aggregate b T ss) t a"

lemma Query_sound:
  "Service_Impl_Query s t = Inr (Some (a, i)) \<Longrightarrow> i = t \<and> provides s t a"
  "External_Query ss t = Inr (Some (a, i)) \<Longrightarrow> i = t \<and> (\<exists>s. Some s \<in> set ss \<and> provides s t a)"
proof (induction s t and ss t rule: Service_Impl_Query_External_Query.induct)
  case (1 b T t)
  then show ?case
    using QueryInterface_None [of "TBaseTypeTuple T" t] QueryInterface_Some [of "TBaseTypeTuple T" t]
      provides.root [of "Object b T"] provides.own [of _ "Object b T" t]
    by (auto split: if_splits option.splits)
next
  case (2 b T ss t)
  then show ?case
    using QueryInterface_None [of "TBaseTypeTuple T" t] QueryInterface_Some [of "TBaseTypeTuple T" t]
      provides.root [of "Aggregate b T ss"] provides.own [of _ "Aggregate b T ss" t] provides.part
    by (fastforce split: if_splits option.splits)
qed (auto split: sum.splits option.splits)

text \<open>An object all of whose parts, at any depth, are real pointers.\<close>

fun complete :: "service \<Rightarrow> bool" and complete_parts :: "service option list \<Rightarrow> bool" where
  "complete (Object a T) = True"
| "complete (Aggregate a T ss) = complete_parts ss"
| "complete_parts [] = True"
| "complete_parts (None # ss) = False"
| "complete_parts (Some s # ss) = (complete s \<and> complete_parts ss)"

lemma complete_parts_iff: "complete_parts ss \<longleftrightarrow> (\<forall>x \<in> set ss. \<exists>s. x = Some s \<and> complete s)"
proof (induction ss)
  case (Cons x ss)
  then show ?case by (cases x) auto
qed simp

inductive_cases provides_Object: "provides (Object a T) t b"
inductive_cases provides_Aggregate: "provides (Aggregate a T ss) t b"

lemma Query_complete:
  "complete s \<Longrightarrow> \<exists>r. Service_Impl_Query s t = Inr r \<and> (r = None \<longrightarrow> (\<forall>a. \<not> provides s t a))"
  "complete_parts ss \<Longrightarrow> \<exists>r. External_Query ss t = Inr r \<and>
     (r = None \<longrightarrow> (\<forall>s a. Some s \<in> set ss \<longrightarrow> \<not> provides s t a))"
proof (induction s t and ss t rule: Service_Impl_Query_External_Query.induct)
  case (1 b T t)
  then show ?case
    using QueryInterface_None [of "TBaseTypeTuple T" t]
    by (auto elim!: provides_Object split: option.splits)
next
  case (2 b T ss t)
  then show ?case
    using QueryInterface_None [of "TBaseTypeTuple T" t]
    by (auto elim!: provides_Aggregate split: option.splits)
qed (auto split: sum.splits option.splits)

lemma IService_Query_eq: "IService_Query s t = Service_Impl_Query s t"
  by (auto simp: IService_Query_def Service_Impl_Query_out_def split: sum.splits option.splits)

text \<open>The number of live pointers after a sequence of operations.\<close>

fun pointers :: "ref_op list \<Rightarrow> int" where
  "pointers [] = 0"
| "pointers (Add_ref # xs) = pointers xs + 1"
| "pointers (Release # xs) = pointers xs - 1"

lemma pointers_append [simp]: "pointers (xs @ ys) = pointers xs + pointers ys"
  by (induction xs rule: pointers.induct) auto

lemma pointers_le_length: "pointers xs \<le> int (length xs)"
  by (induction xs rule: pointers.induct) auto

lemma intrusive_ops_append:
  "intrusive_ops s (xs @ ys) =
     (case intrusive_ops s xs of Inl e \<Rightarrow> Inl e | Inr s' \<Rightarrow> intrusive_ops s' ys)"
  by (induction s xs rule: intrusive_ops.induct) auto

lemma pointers_small: "0 \<le> pointers xs \<Longrightarrow> length xs < 2 ^ 64 \<Longrightarrow>
    word_of_int (pointers xs) = (0 :: 64 word) \<longleftrightarrow> pointers xs = 0"
  using pointers_le_length [of xs]
  by (subst word_of_int_eq_0_iff) (auto dest: zdvd_imp_le)

lemma intrusive_ops_count:
  assumes "length xs < 2 ^ 64" and "\<forall>n. 0 < n \<longrightarrow> n < length xs \<longrightarrow> 0 < pointers (take n xs)"
    and "0 \<le> pointers xs"
  shows "intrusive_ops Service_Impl_new xs =
    Inr \<lparr>m_counter = word_of_int (pointers xs), destroyed = (xs \<noteq> [] \<and> pointers xs = 0)\<rparr>"
  using assms
proof (induction xs rule: rev_induct)
  case Nil
  then show ?case by (simp add: Service_Impl_new_def)
next
  case (snoc x xs)
  have pos: "0 < pointers xs" if "xs \<noteq> []"
    using snoc.prems(2) [rule_format, of "length xs"] that by simp
  have IH: "intrusive_ops Service_Impl_new xs =
      Inr \<lparr>m_counter = word_of_int (pointers xs), destroyed = False\<rparr>"
  proof (cases "xs = []")
    case True
    then show ?thesis by (simp add: Service_Impl_new_def)
  next
    case False
    have "0 < pointers (take n xs)" if "0 < n" "n < length xs" for n
      using snoc.prems(2) [rule_format, of n] that by simp
    with snoc.IH snoc.prems(1) pos [OF False] False show ?thesis by simp
  qed
  have zero: "word_of_int (pointers (xs @ [x])) = (0 :: 64 word) \<longleftrightarrow> pointers (xs @ [x]) = 0"
    using snoc.prems(1,3) by (rule pointers_small [rotated])
  have "0 < pointers xs + 1" using pos by (cases "xs = []") auto
  then show ?case
    using IH zero
    by (cases x) (simp_all add: intrusive_ops_append Service_Impl_AddRef_def Service_Impl_Release_def Let_def)
qed

section \<open>Properties\<close>

text \<open>
  Property C13: an object lives exactly as long as some pointer refers to it. For every
  sequence of pointer copies and releases in which a release follows a copy and nothing is
  done after the last pointer is gone, the object is never used after its destruction, the
  64-bit counter is the number of live pointers, and the object is destroyed exactly when
  that number returns to zero.
\<close>

theorem refcount_lifetime:
  assumes "length xs < 2 ^ 64" and "\<forall>n. 0 < n \<longrightarrow> n < length xs \<longrightarrow> 0 < pointers (take n xs)"
    and "0 \<le> pointers xs"
  shows "\<exists>s. intrusive_ops Service_Impl_new xs = Inr s \<and> int (unat (m_counter s)) = pointers xs \<and>
    (destroyed s \<longleftrightarrow> xs \<noteq> [] \<and> pointers xs = 0)"
proof -
  have "int (unat (word_of_int (pointers xs) :: 64 word)) = pointers xs"
    using assms(1,3) pointers_le_length [of xs] by (simp add: uint_word_of_int)
  then show ?thesis using intrusive_ops_count [OF assms] by simp
qed

theorem refcount_lifetime_witness:
  "\<exists>s. intrusive_ops Service_Impl_new [Add_ref, Add_ref, Release, Release] = Inr s \<and> destroyed s"
proof -
  let ?xs = "[Add_ref, Add_ref, Release, Release]"
  have "0 < pointers (take n ?xs)" if "0 < n" "n < length ?xs" for n
  proof -
    from that have "n = 1 \<or> n = 2 \<or> n = 3" by auto
    then show ?thesis by (auto simp: numeral_2_eq_2 numeral_3_eq_3)
  qed
  then have 1: "\<forall>n. 0 < n \<longrightarrow> n < length ?xs \<longrightarrow> 0 < pointers (take n ?xs)" by blast
  have 2: "length ?xs < 2 ^ 64" "0 \<le> pointers ?xs" by simp_all
  have 3: "?xs \<noteq> [] \<and> pointers ?xs = 0" by simp
  from refcount_lifetime [OF 2(1) 1 2(2)] 3 show ?thesis by blast
qed

text \<open>
  Casting a service to an interface is sound and complete. On an object without
  empty parts, \<open>Cast\<close> returns a pointer of the type asked for, to the object itself or to
  the service inside it that provides the interface; it succeeds whenever some part provides
  the interface, and otherwise, unless \<open>dynamic_cast\<close> finds it, throws \<open>std::runtime_error\<close>.
\<close>

lemma Cast_sound_complete:
  assumes "complete s" and "\<And>t. dyn s t \<Longrightarrow> inherits (cls s) t"
  shows "(\<forall>a i. Cast dyn (Some s) t = Inr (a, i) \<longrightarrow>
      i = t \<and> (provides s t a \<or> a = address s \<and> inherits (cls s) t)) \<and>
    ((\<exists>a. provides s t a) \<longrightarrow> (\<exists>a. Cast dyn (Some s) t = Inr (a, t))) \<and>
    (\<not> dyn s t \<and> (\<forall>a. \<not> provides s t a) \<longrightarrow>
      Cast dyn (Some s) t = Inl (Runtime_error ''[Mif::Service::Cast] Failed to cast interface.''))"
proof -
  obtain r where r: "Service_Impl_Query s t = Inr r" "r = None \<Longrightarrow> (\<forall>a. \<not> provides s t a)"
    using Query_complete(1) [OF assms(1), of t] by auto
  have found: "i = t \<and> provides s t a" if "r = Some (a, i)" for a i
    using Query_sound(1) [of s t a i] r(1) that by simp
  show ?thesis
  proof (cases "dyn s t")
    case True
    then show ?thesis using assms(2) by (auto simp: Cast_def Query_def)
  next
    case False
    then show ?thesis using r found
      by (cases r) (auto simp: Cast_def Query_def IService_Query_eq)
  qed
qed

lemma Cast_sound_complete_example:
  "\<exists>a. Cast (\<lambda>_ _. False)
     (Some (External_Add (Aggregate 1 (Iface ''Holder'' [Iface ''External'' [IService]]) [])
       (Some (Object 2 (Iface ''Impl'' [Iface ''IBook'' [IService]])))))
     (Iface ''IBook'' [IService]) = Inr (a, Iface ''IBook'' [IService])"
proof -
  let ?inner = "Object 2 (Iface ''Impl'' [Iface ''IBook'' [IService]])"
  let ?s = "Aggregate 1 (Iface ''Holder'' [Iface ''External'' [IService]]) [Some ?inner]"
  have "provides ?inner (Iface ''IBook'' [IService]) (address ?inner)"
    by (rule provides.own [of "Iface ''IBook'' [IService]"]) (auto intro: inherits.self)
  then have "provides ?s (Iface ''IBook'' [IService]) (address ?inner)"
    by (intro provides.part) auto
  then show ?thesis
    using Cast_sound_complete [of ?s "\<lambda>_ _. False" "Iface ''IBook'' [IService]"] by auto
qed

end
