(* ===== verification/Http_Url.thy ===== *)
theory Http_Url
  imports Prelude
begin

text \<open>
  The helpers of the HTTP code (\<open>net/http/detail/utility.cpp\<close>): methods and status codes,
  percent encoding of URLs, and the split of a request target into path and query.
\<close>

section \<open>Methods and codes\<close>

datatype Method = Get | Post | Head | Put | Delete | Options | Trqce | Connect | Patch

text \<open>The verbs of the HTTP parser: the nine above and the others it knows.\<close>

datatype verb = verb_get | verb_post | verb_head | verb_put | verb_delete | verb_options | verb_trace
  | verb_connect | verb_patch | verb_other string

fun ConvertMethodType :: "verb \<Rightarrow> Method result" where
  "ConvertMethodType verb_get = Inr Get"
| "ConvertMethodType verb_post = Inr Post"
| "ConvertMethodType verb_head = Inr Head"
| "ConvertMethodType verb_put = Inr Put"
| "ConvertMethodType verb_delete = Inr Delete"
| "ConvertMethodType verb_options = Inr Options"
| "ConvertMethodType verb_trace = Inr Trqce"
| "ConvertMethodType verb_connect = Inr Connect"
| "ConvertMethodType verb_patch = Inr Patch"
| "ConvertMethodType (verb_other _) = Inl (Invalid_argument
     ''[Mif::Net::Http::Detail::Utility::ConvertMethodType] Unknown method type.'')"

fun ConvertMethodType_verb :: "Method \<Rightarrow> verb" where
  "ConvertMethodType_verb Get = verb_get"
| "ConvertMethodType_verb Post = verb_post"
| "ConvertMethodType_verb Head = verb_head"
| "ConvertMethodType_verb Put = verb_put"
| "ConvertMethodType_verb Delete = verb_delete"
| "ConvertMethodType_verb Options = verb_options"
| "ConvertMethodType_verb Trqce = verb_trace"
| "ConvertMethodType_verb Connect = verb_connect"
| "ConvertMethodType_verb Patch = verb_patch"

datatype Code = Ok | NoContent | MovePerm | MoveTemp | NotModified | BadRequest | NotFound | BadMethod
  | Unauthorized | Internal | NotImplemented | Unavaliable

fun GetReasonString :: "Code \<Rightarrow> string" where
  "GetReasonString Ok = ''OK''"
| "GetReasonString NoContent = ''Request does not have content''"
| "GetReasonString MovePerm = ''The uri moved permanently''"
| "GetReasonString MoveTemp = ''The uri moved temporarily''"
| "GetReasonString NotModified = ''Page was not modified from last''"
| "GetReasonString BadRequest = ''Invalid http request was made''"
| "GetReasonString NotFound = ''Could not find content for uri''"
| "GetReasonString Unauthorized = ''Unauthorized''"
| "GetReasonString BadMethod = ''Method not allowed for this uri''"
| "GetReasonString Internal = ''Internal error''"
| "GetReasonString NotImplemented = ''Not implemented''"
| "GetReasonString Unavaliable = ''The server is not available''"

text \<open>Status values of the HTTP library are their numbers.\<close>

type_synonym status = nat

fun ConvertCode :: "Code \<Rightarrow> status" where
  "ConvertCode Ok = 200"
| "ConvertCode NoContent = 204"
| "ConvertCode MovePerm = 301"
| "ConvertCode MoveTemp = 302"
| "ConvertCode NotModified = 304"
| "ConvertCode BadRequest = 400"
| "ConvertCode NotFound = 404"
| "ConvertCode Unauthorized = 401"
| "ConvertCode BadMethod = 405"
| "ConvertCode Internal = 500"
| "ConvertCode NotImplemented = 501"
| "ConvertCode Unavaliable = 503"

definition ConvertCode_status :: "status \<Rightarrow> Code result" where
  "ConvertCode_status s =
     (if s = 200 then Inr Ok
      else if s = 204 then Inr NoContent
      else if s = 301 then Inr MovePerm
      else if s = 302 then Inr MoveTemp
      else if s = 304 then Inr NotModified
      else if s = 400 then Inr BadRequest
      else if s = 404 then Inr NotFound
      else if s = 401 then Inr Unauthorized
      else if s = 405 then Inr BadMethod
      else if s = 500 then Inr Internal
      else if s = 501 then Inr NotImplemented
      else if s = 503 then Inr Unavaliable
      else Inl (Invalid_argument
        (''[Mif::Net::Http::Detail::Utility::ConvertCode] Unknowd HTTP code '' @ nat_to_string s)))"

section \<open>Percent encoding\<close>

text \<open>Character classes of the \<open>"C"\<close> locale, on character codes.\<close>

definition code_of :: "char \<Rightarrow> nat" where
  "code_of c = of_char c"

definition isalnum :: "char \<Rightarrow> bool" where
  "isalnum c = (let n = code_of c in 48 \<le> n \<and> n \<le> 57 \<or> 65 \<le> n \<and> n \<le> 90 \<or> 97 \<le> n \<and> n \<le> 122)"

definition isspace :: "char \<Rightarrow> bool" where
  "isspace c = (let n = code_of c in n = 32 \<or> 9 \<le> n \<and> n \<le> 13)"

definition hex_value :: "char \<Rightarrow> nat option" where
  "hex_value c = (let n = code_of c in
     if 48 \<le> n \<and> n \<le> 57 then Some (n - 48)
     else if 65 \<le> n \<and> n \<le> 70 then Some (n - 55)
     else if 97 \<le> n \<and> n \<le> 102 then Some (n - 87)
     else None)"

text \<open>
  \<open>is >> std::hex >> value\<close> on a short string: white space is skipped, a sign and a prefix
  \<open>0x\<close> are accepted, and the value is that of the hexadecimal digits that follow, at least
  one; what comes after them is left in the stream.
\<close>

fun hex_digits :: "nat \<Rightarrow> string \<Rightarrow> nat" where
  "hex_digits acc [] = acc"
| "hex_digits acc (c # cs) =
     (case hex_value c of Some v \<Rightarrow> hex_digits (16 * acc + v) cs | None \<Rightarrow> acc)"

definition hex_number :: "string \<Rightarrow> int option" where
  "hex_number s =
     (case s of
        c1 # c2 # r \<Rightarrow>
          if c1 = CHR ''0'' \<and> (c2 = CHR ''x'' \<or> c2 = CHR ''X'') then
            (case r of d # _ \<Rightarrow> if hex_value d \<noteq> None then Some (int (hex_digits 0 r)) else None | [] \<Rightarrow> None)
          else if hex_value c1 \<noteq> None then Some (int (hex_digits 0 s)) else None
      | [c] \<Rightarrow> if hex_value c \<noteq> None then Some (int (hex_digits 0 s)) else None
      | [] \<Rightarrow> None)"

definition extract_hex :: "string \<Rightarrow> int option" where
  "extract_hex s =
     (case dropWhile isspace s of
        [] \<Rightarrow> None
      | c # r \<Rightarrow> if c = CHR ''-'' then map_option uminus (hex_number r)
                 else if c = CHR ''+'' then hex_number r
                 else hex_number (c # r))"

definition DecodeUrl_bad_char :: exn where
  "DecodeUrl_bad_char = Runtime_error (''[Mif::Net::Http::Detail::Utility::DecodeUrl] '' @
     ''Failed to decode url. Error: failed to recognize the char.'')"

definition DecodeUrl_bad_encoding :: exn where
  "DecodeUrl_bad_encoding = Runtime_error (''[Mif::Net::Http::Detail::Utility::DecodeUrl] '' @
     ''Failed to decode url. Error: bad encoding.'')"

definition prepend :: "char \<Rightarrow> string result \<Rightarrow> string result" where
  "prepend c r = (case r of Inl e \<Rightarrow> Inl e | Inr s \<Rightarrow> Inr (c # s))"

fun DecodeUrl :: "string \<Rightarrow> string result" where
  "DecodeUrl [] = Inr []"
| "DecodeUrl (c # url) =
     (if c = CHR ''%'' then
        (case url of
           a # b # rest \<Rightarrow>
             (case extract_hex [a, b] of
                Some v \<Rightarrow> prepend (char_of (nat (v mod 256))) (DecodeUrl rest)
              | None \<Rightarrow> Inl DecodeUrl_bad_char)
         | _ \<Rightarrow> Inl DecodeUrl_bad_encoding)
      else if c = CHR ''+'' then prepend (CHR '' '') (DecodeUrl url)
      else prepend c (DecodeUrl url))"

definition unreserved :: "char \<Rightarrow> bool" where
  "unreserved c = (isalnum c \<or> c = CHR ''-'' \<or> c = CHR ''_'' \<or> c = CHR ''.'' \<or> c = CHR ''~'')"

definition hex_upper :: "nat \<Rightarrow> char" where
  "hex_upper n = char_of (if n < 10 then n + 48 else n + 55)"

definition EncodeUrl_char :: "char \<Rightarrow> string" where
  "EncodeUrl_char c =
     (if unreserved c then [c]
      else [CHR ''%'', hex_upper (code_of c div 16), hex_upper (code_of c mod 16)])"

definition EncodeUrl :: "string \<Rightarrow> string" where
  "EncodeUrl url = concat (map EncodeUrl_char url)"

section \<open>Target\<close>

text \<open>
  The regular expression of \<open>Target::Target\<close>. The path starts with a slash and ends before
  the first \<open>?\<close> or \<open>#\<close> (it is matched lazily up to the look-ahead); the splitter takes
  every following \<open>?\<close>, \<open>#\<close> and slash; the query is the rest. A dot matches no line end, so
  a target with one does not match.
\<close>

record Target =
  m_path :: string
  m_query :: string

definition splits_query :: "char \<Rightarrow> bool" where
  "splits_query c = (c = CHR ''?'' \<or> c = CHR ''#'')"

definition is_splitter :: "char \<Rightarrow> bool" where
  "is_splitter c = (splits_query c \<or> c = CHR ''/'')"

definition is_line_end :: "char \<Rightarrow> bool" where
  "is_line_end c = (c = CHR 0x0A \<or> c = CHR 0x0D)"

definition Target_new :: "string \<Rightarrow> Target result" where
  "Target_new url =
     (if url = [] \<or> hd url \<noteq> CHR ''/'' \<or> list_ex is_line_end url then
        Inl (Runtime_error (''Failed to parse url '' @ dquote @ url @ dquote @ ''.''))
      else Inr \<lparr>m_path = takeWhile (\<lambda>c. \<not> splits_query c) url,
                m_query = dropWhile is_splitter (dropWhile (\<lambda>c. \<not> splits_query c) url)\<rparr>)"

section \<open>Facts\<close>

interpretation methods: codec ConvertMethodType_verb ConvertMethodType "\<lambda>_. True"
proof unfold_locales
  fix m show "ConvertMethodType (ConvertMethodType_verb m) = Inr m" by (cases m) simp_all
qed

interpretation codes: codec ConvertCode ConvertCode_status "\<lambda>_. True"
proof unfold_locales
  fix c show "ConvertCode_status (ConvertCode c) = Inr c"
    by (cases c) (simp_all add: ConvertCode_status_def)
qed

lemma code_of_less: "code_of c < 256"
  by (simp add: code_of_def of_char_less_256)

lemma char_of_code_of [simp]: "char_of (code_of c) = c"
  by (simp add: code_of_def)

lemma code_of_hex_upper: "n < 16 \<Longrightarrow> code_of (hex_upper n) = (if n < 10 then n + 48 else n + 55)"
  by (auto simp: hex_upper_def code_of_def)

lemma hex_value_hex_upper: "n < 16 \<Longrightarrow> hex_value (hex_upper n) = Some n"
  by (simp add: hex_value_def code_of_hex_upper Let_def)

lemma hex_upper_neq:
  assumes "n < 16"
  shows "\<not> isspace (hex_upper n)" "hex_upper n \<noteq> CHR ''-''" "hex_upper n \<noteq> CHR ''+''"
    "hex_upper n \<noteq> CHR ''x''" "hex_upper n \<noteq> CHR ''X''"
proof -
  show "\<not> isspace (hex_upper n)"
    using assms by (simp add: isspace_def code_of_hex_upper Let_def)
  have other: "hex_upper n \<noteq> c" if "hex_value c = None" for c
    using that hex_value_hex_upper [OF assms] by auto
  show "hex_upper n \<noteq> CHR ''-''" "hex_upper n \<noteq> CHR ''+''" "hex_upper n \<noteq> CHR ''x''" "hex_upper n \<noteq> CHR ''X''"
    by (rule other, simp add: hex_value_def code_of_def)+
qed

lemma extract_hex_upper:
  assumes "h < 16" and "l < 16"
  shows "extract_hex [hex_upper h, hex_upper l] = Some (int (16 * h + l))"
  using hex_upper_neq [OF assms(1)] hex_upper_neq [OF assms(2)]
    hex_value_hex_upper [OF assms(1)] hex_value_hex_upper [OF assms(2)]
  by (simp add: extract_hex_def hex_number_def)

lemma unreserved_plain: "unreserved c \<Longrightarrow> c \<noteq> CHR ''%'' \<and> c \<noteq> CHR ''+''"
  by (auto simp: unreserved_def isalnum_def code_of_def Let_def)

lemma DecodeUrl_EncodeUrl_char: "DecodeUrl (EncodeUrl_char c @ s) = prepend c (DecodeUrl s)"
proof (cases "unreserved c")
  case True
  then show ?thesis using unreserved_plain [OF True] by (simp add: EncodeUrl_char_def)
next
  case False
  have "code_of c div 16 < 16" "code_of c mod 16 < 16" using code_of_less [of c] by simp_all
  from extract_hex_upper [OF this]
  have "extract_hex [hex_upper (code_of c div 16), hex_upper (code_of c mod 16)] = Some (int (code_of c))"
    by (simp add: mult_div_mod_eq)
  moreover have "nat (int (code_of c) mod 256) = code_of c" using code_of_less [of c] by simp
  ultimately show ?thesis using False by (simp add: EncodeUrl_char_def)
qed

lemma DecodeUrl_EncodeUrl_append:
  "DecodeUrl (EncodeUrl s @ t) = (case DecodeUrl t of Inl e \<Rightarrow> Inl e | Inr r \<Rightarrow> Inr (s @ r))"
proof (induction s)
  case Nil
  then show ?case by (simp add: EncodeUrl_def split: sum.splits)
next
  case (Cons c s)
  have "EncodeUrl (c # s) @ t = EncodeUrl_char c @ (EncodeUrl s @ t)" by (simp add: EncodeUrl_def)
  then show ?case using Cons by (simp add: DecodeUrl_EncodeUrl_char prepend_def split: sum.splits)
qed

interpretation urls: codec EncodeUrl DecodeUrl "\<lambda>_. True"
proof unfold_locales
  fix s show "DecodeUrl (EncodeUrl s) = Inr s" using DecodeUrl_EncodeUrl_append [of s "[]"] by simp
qed

text \<open>Characters that decoding leaves alone.\<close>

lemma DecodeUrl_plain:
  "\<forall>c \<in> set s. c \<noteq> CHR ''%'' \<and> c \<noteq> CHR ''+'' \<Longrightarrow>
     DecodeUrl (s @ t) = (case DecodeUrl t of Inl e \<Rightarrow> Inl e | Inr r \<Rightarrow> Inr (s @ r))"
  by (induction s) (auto simp: prepend_def split: sum.splits)

lemma EncodeUrl_chars: "c \<in> set (EncodeUrl s) \<Longrightarrow> unreserved c \<or> c = CHR ''%''"
proof -
  have "unreserved (hex_upper n)" if "n < 16" for n
    using code_of_hex_upper [OF that] that by (auto simp: unreserved_def isalnum_def Let_def)
  moreover have "code_of d div 16 < 16" "code_of d mod 16 < 16" for d using code_of_less [of d] by simp_all
  moreover assume "c \<in> set (EncodeUrl s)"
  ultimately show ?thesis by (auto simp: EncodeUrl_def EncodeUrl_char_def split: if_splits)
qed

lemma Target_new_split:
  assumes "\<forall>c \<in> set path. \<not> splits_query c" and "\<forall>c \<in> set (path @ query). \<not> is_line_end c"
    and "query = [] \<or> \<not> is_splitter (hd query)"
  shows "Target_new (CHR ''/'' # path @ CHR ''?'' # query) =
    Inr \<lparr>m_path = CHR ''/'' # path, m_query = query\<rparr>"
proof -
  have "\<not> list_ex is_line_end (CHR ''/'' # path @ CHR ''?'' # query)"
    using assms(2) by (auto simp: list_ex_iff is_line_end_def)
  moreover have "takeWhile (\<lambda>c. \<not> splits_query c) (CHR ''/'' # path @ CHR ''?'' # query) = CHR ''/'' # path"
    "dropWhile (\<lambda>c. \<not> splits_query c) (CHR ''/'' # path @ CHR ''?'' # query) = CHR ''?'' # query"
    using assms(1) by (simp_all add: takeWhile_append dropWhile_append splits_query_def)
  moreover have "dropWhile is_splitter (CHR ''?'' # query) = query"
    using assms(3) by (cases query) (auto simp: is_splitter_def splits_query_def)
  ultimately show ?thesis by (simp add: Target_new_def)
qed

section \<open>Properties\<close>

text \<open>
  Percent encoding loses nothing: decoding the encoding of any string gives the
  string back, different strings have different encodings, and an encoded string consists of
  letters, digits, \<open>-\<close>, \<open>_\<close>, \<open>.\<close>, \<open>~\<close> and \<open>%\<close> only.
\<close>

lemma url_encoding_roundtrip:
  "DecodeUrl (EncodeUrl s) = Inr s \<and> (EncodeUrl s = EncodeUrl t \<longrightarrow> s = t) \<and>
   list_all (\<lambda>c. unreserved c \<or> c = CHR ''%'') (EncodeUrl s)"
  using urls.decode_encode [of s] urls.encode_inj [of s t] EncodeUrl_chars [of _ s]
  by (auto simp: list_all_iff)

lemma url_encoding_roundtrip_example:
  "EncodeUrl ''a b/c'' = ''a%20b%2Fc'' \<and> DecodeUrl (EncodeUrl ''a b/c'') = Inr ''a b/c''"
proof
  show "EncodeUrl ''a b/c'' = ''a%20b%2Fc''"
    by (simp add: EncodeUrl_def EncodeUrl_char_def unreserved_def isalnum_def code_of_def hex_upper_def char_of_def bit_Suc_0_iff)
  show "DecodeUrl (EncodeUrl ''a b/c'') = Inr ''a b/c''"
    by (rule url_encoding_roundtrip [of "''a b/c''" "[]", THEN conjunct1])
qed

text \<open>
  The decoder rejects a percent sign with fewer than two characters after it, or
  with two that do not start with a hexadecimal number, and throws at the first such place;
  but it accepts more than two hexadecimal digits: a sign or white space before a single
  digit, and a single digit followed by anything.
\<close>

lemma DecodeUrl_errors:
  assumes "length rest < 2 \<or> extract_hex (take 2 rest) = None"
    and "\<forall>c \<in> set pre. c \<noteq> CHR ''%'' \<and> c \<noteq> CHR ''+''"
  shows "DecodeUrl (pre @ CHR ''%'' # rest) =
      Inl (if length rest < 2 then DecodeUrl_bad_encoding else DecodeUrl_bad_char) \<and>
    DecodeUrl ''%-1'' = Inr [CHR 0xFF] \<and> DecodeUrl ''% 7'' = Inr [CHR 0x07] \<and> DecodeUrl ''%7z'' = Inr [CHR 0x07]"
proof (intro conjI)
  have "DecodeUrl (CHR ''%'' # rest) =
      Inl (if length rest < 2 then DecodeUrl_bad_encoding else DecodeUrl_bad_char)"
  proof (cases rest)
    case (Cons a r)
    then show ?thesis using assms(1) by (cases r) auto
  qed simp
  then show "DecodeUrl (pre @ CHR ''%'' # rest) =
      Inl (if length rest < 2 then DecodeUrl_bad_encoding else DecodeUrl_bad_char)"
    by (simp only: DecodeUrl_plain [OF assms(2)] sum.case)
qed (simp_all add: extract_hex_def hex_number_def hex_value_def isspace_def code_of_def prepend_def char_of_def bit_Suc_0_iff)

lemma DecodeUrl_errors_example:
  "DecodeUrl (''a'' @ CHR ''%'' # ''zz'') = Inl DecodeUrl_bad_char \<and> extract_hex ''zz'' = None"
proof -
  have 1: "extract_hex ''zz'' = None"
    by (simp add: extract_hex_def hex_number_def hex_value_def isspace_def code_of_def)
  have "DecodeUrl (''a'' @ CHR ''%'' # ''zz'') =
      Inl (if length ''zz'' < 2 then DecodeUrl_bad_encoding else DecodeUrl_bad_char)"
    by (rule DecodeUrl_errors [THEN conjunct1]) (use 1 in simp_all)
  with 1 show ?thesis by simp
qed

end
