(* ===== verification/Http_Pack.thy ===== *)
theory Http_Pack
  imports Http_Url "HOL-Library.Multiset"
begin

text \<open>
  The two views of an HTTP message that handlers get: \<open>InputPack\<close> for reading
  (\<open>net/http/detail/input_pack.h\<close>) and \<open>OutputPack\<close> for writing it in portions
  (\<open>net/http/detail/output_pack.h\<close>).
\<close>

section \<open>InputPack\<close>

text \<open>
  A message as the parser of the HTTP library gives it: a request has a verb and a target, a
  response has neither.
\<close>

record message =
  msg_verb :: "verb option"
  msg_target :: string
  msg_headers :: "(string \<times> string) list"
  msg_body :: buffer

record InputPack =
  m_data :: message
  m_target :: Target

definition InputPack_of :: "message \<Rightarrow> string \<Rightarrow> InputPack result" where
  "InputPack_of msg target =
     (case DecodeUrl target of
        Inl e \<Rightarrow> Inl e
      | Inr url \<Rightarrow> (case Target_new url of
                      Inl e \<Rightarrow> Inl e
                    | Inr t \<Rightarrow> Inr \<lparr>m_data = msg, m_target = t\<rparr>))"

definition InputPack_new :: "message \<Rightarrow> InputPack result" where
  "InputPack_new msg = InputPack_of msg (msg_target msg)"

definition InputPack_GetType :: "InputPack \<Rightarrow> Method result" where
  "InputPack_GetType p =
     (case msg_verb (m_data p) of
        Some v \<Rightarrow> ConvertMethodType v
      | None \<Rightarrow> Inl (Logic_error (''[Mif::Net::Http::Detail::InputPack::GetType] '' @
          ''You can't get method type from a response.'')))"

definition InputPack_GetPath :: "InputPack \<Rightarrow> string" where
  "InputPack_GetPath p = m_path (m_target p)"

definition InputPack_GetQuery :: "InputPack \<Rightarrow> string" where
  "InputPack_GetQuery p = m_query (m_target p)"

text \<open>One \<open>key=value\<close> of a query.\<close>

definition param_pair :: "string \<Rightarrow> string \<times> string" where
  "param_pair pair =
     (case split_any_of (\<lambda>c. c = CHR ''='') pair of
        [k, v] \<Rightarrow> (k, v)
      | [k] \<Rightarrow> (k, [])
      | _ \<Rightarrow> ([], []))"

definition emplace_all :: "('k \<times> 'v) list \<Rightarrow> ('k \<rightharpoonup> 'v)" where
  "emplace_all kvs = foldl (\<lambda>m (k, v). map_emplace m k v) Map.empty kvs"

definition query_params :: "string \<Rightarrow> (string \<rightharpoonup> string)" where
  "query_params query =
     (if query = [] then Map.empty
      else let q = (if hd query = CHR ''?'' then tl query else query);
               pairs = string_set (split_any_of (\<lambda>c. c = CHR ''&'') q)
           in emplace_all (map param_pair pairs))"

definition InputPack_GetParams :: "InputPack \<Rightarrow> (string \<rightharpoonup> string)" where
  "InputPack_GetParams p = query_params (InputPack_GetQuery p)"

definition InputPack_GetHeaders :: "InputPack \<Rightarrow> (string \<rightharpoonup> string)" where
  "InputPack_GetHeaders p = emplace_all (msg_headers (m_data p))"

definition InputPack_GetData :: "InputPack \<Rightarrow> buffer" where
  "InputPack_GetData p = msg_body (m_data p)"

section \<open>OutputPack\<close>

text \<open>
  The message under construction, the serializer (present after \<open>SetData\<close>), the buffer, the
  offset of \<open>m_bufferPtr\<close> in it, and the \<open>buffer_body\<close>: the bytes that \<open>body.data\<close> and
  \<open>body.size\<close> describe (\<open>None\<close> is the null pointer) and \<open>body.more\<close>.
\<close>

record OutputPack =
  is_request :: bool
  o_status :: status
  o_reason :: string
  o_headers :: "string \<rightharpoonup> string"
  m_chunkSize :: nat
  m_serializer :: bool
  m_buffer :: "buffer option"
  m_bufferPtr :: nat
  body_data :: "buffer option"
  body_more :: bool

definition OutputPack_new :: "bool \<Rightarrow> nat \<Rightarrow> OutputPack" where
  "OutputPack_new request chunkSize =
     \<lparr>is_request = request, o_status = 200, o_reason = [], o_headers = Map.empty,
      m_chunkSize = chunkSize, m_serializer = False, m_buffer = None, m_bufferPtr = 0,
      body_data = None, body_more = True\<rparr>"

definition OutputPack_SetData :: "OutputPack \<Rightarrow> buffer option \<Rightarrow> OutputPack" where
  "OutputPack_SetData p b =
     (let p1 = p\<lparr>m_buffer := b\<rparr>;
          p2 = (case b of
                  None \<Rightarrow> p1\<lparr>body_data := None, body_more := False\<rparr>
                | Some bs \<Rightarrow>
                    if bs = [] then p1\<lparr>body_data := None, body_more := False\<rparr>
                    else if length bs < m_chunkSize p then p1\<lparr>body_data := Some bs, body_more := False\<rparr>
                    else p1\<lparr>body_data := None, body_more := True\<rparr>)
      in (case b of
            Some (x # xs) \<Rightarrow> p2\<lparr>m_serializer := True, m_bufferPtr := 0\<rparr>
          | _ \<Rightarrow> p2\<lparr>m_serializer := True\<rparr>))"

definition OutputPack_GetData :: "OutputPack \<Rightarrow> OutputPack" where
  "OutputPack_GetData p = (if \<not> m_serializer p then OutputPack_SetData p None else p)"

definition OutputPack_GetNextPortion :: "OutputPack \<Rightarrow> OutputPack result" where
  "OutputPack_GetNextPortion p =
     (if \<not> m_serializer p then
        Inl (Logic_error (''[Mif::Net::Http::Detail::OutputPack::GetNextPortion] '' @
          ''There is no any portion of the data.''))
      else if \<not> body_more p then
        Inl (Logic_error (''[Mif::Net::Http::Detail::OutputPack::GetNextPortion] '' @ ''There is no more data.''))
      else case m_buffer p of
             None \<Rightarrow> Inl Undefined_behaviour
           | Some bs \<Rightarrow>
               let left = length bs - m_bufferPtr p;
                   size = min left (m_chunkSize p)
               in Inr (p\<lparr>body_data := Some (take size (drop (m_bufferPtr p) bs)),
                        body_more := m_chunkSize p < left,
                        m_bufferPtr := m_bufferPtr p + size\<rparr>))"

text \<open>
  \<open>SetReason\<close>, \<open>SetCode\<close> and \<open>GetCode\<close> select an overload by the message type. The
  return type of the first \<open>GetCode\<close> names \<open>data.result\<close> without calling it, which is no
  valid expression, so the overload that throws is the only candidate for requests and
  responses alike.
\<close>

definition OutputPack_SetReason :: "OutputPack \<Rightarrow> string \<Rightarrow> OutputPack result" where
  "OutputPack_SetReason p reason =
     (if is_request p then
        Inl (Logic_error (''[Mif::Net::Http::Detail::OutputPack::SetReason] '' @
          ''You can't set a reason for a request.''))
      else Inr (p\<lparr>o_reason := reason\<rparr>))"

definition OutputPack_SetCode :: "OutputPack \<Rightarrow> Code \<Rightarrow> OutputPack result" where
  "OutputPack_SetCode p code =
     (if is_request p then
        Inl (Logic_error (''[Mif::Net::Http::Detail::OutputPack::SetCode] '' @
          ''You can't set code for a request.''))
      else Inr (p\<lparr>o_status := ConvertCode code\<rparr>))"

definition OutputPack_GetCode :: "OutputPack \<Rightarrow> Code result" where
  "OutputPack_GetCode p =
     Inl (Logic_error (''[Mif::Net::Http::Detail::OutputPack::GetCode] '' @
       ''You can't get code for a request.''))"

text \<open>Header names of an outgoing message do not distinguish case; they are kept in lower case.\<close>

definition lower_char :: "char \<Rightarrow> char" where
  "lower_char c = (let n = code_of c in if 65 \<le> n \<and> n \<le> 90 then char_of (n + 32) else c)"

definition lower :: "string \<Rightarrow> string" where
  "lower s = map lower_char s"

definition OutputPack_SetHeader :: "OutputPack \<Rightarrow> string \<Rightarrow> string \<Rightarrow> OutputPack" where
  "OutputPack_SetHeader p key value = p\<lparr>o_headers := (o_headers p)(lower key \<mapsto> value)\<rparr>"

text \<open>
  Writing a pack: what the body holds after \<open>SetData\<close>, then portion after portion while
  more is announced. The fuel bounds the number of portions.
\<close>

fun write_portions :: "nat \<Rightarrow> OutputPack \<Rightarrow> buffer list option" where
  "write_portions 0 p = None"
| "write_portions (Suc n) p =
     (let now = (case body_data p of None \<Rightarrow> [] | Some bs \<Rightarrow> [bs])
      in if \<not> body_more p then Some now
         else case OutputPack_GetNextPortion p of
                Inl e \<Rightarrow> None
              | Inr p' \<Rightarrow> map_option (\<lambda>r. now @ r) (write_portions n p'))"

section \<open>Facts\<close>

lemma foldl_emplace: "foldl (\<lambda>m (k, v). map_emplace m k v) m kvs = (\<lambda>k. case m k of Some v \<Rightarrow> Some v | None \<Rightarrow> map_of kvs k)"
proof (induction kvs arbitrary: m)
  case Nil
  then show ?case by (auto split: option.splits)
next
  case (Cons kv kvs)
  obtain k v where kv: "kv = (k, v)" by force
  show ?case
    unfolding kv foldl.simps prod.case Cons
    by (auto simp: map_emplace_def fun_eq_iff split: option.splits)
qed

text \<open>Filling a map without overwriting keeps the first value of every key.\<close>

lemma emplace_all_eq: "emplace_all kvs = map_of kvs"
  by (simp add: emplace_all_def foldl_emplace)

fun join :: "char \<Rightarrow> string list \<Rightarrow> string" where
  "join d [] = []"
| "join d [t] = t"
| "join d (t # u # ts) = t @ d # join d (u # ts)"

lemma split_join:
  assumes "ts \<noteq> []" and "\<forall>t \<in> set ts. d \<notin> set t"
  shows "split_any_of (\<lambda>c. c = d) (join d ts) = ts"
  using assms
proof (induction d ts rule: join.induct)
  case (2 d t)
  then have "\<forall>c \<in> set t. c \<noteq> d" by auto
  then show ?case by (simp add: split_any_of_no_sep)
next
  case (3 d t u ts)
  then have "\<forall>c \<in> set t. c \<noteq> d" by auto
  then have "split_any_of (\<lambda>c. c = d) (t @ d # join d (u # ts)) = t # split_any_of (\<lambda>c. c = d) (join d (u # ts))"
    by (rule split_any_of_append_sep) simp
  with 3 show ?case by simp
qed simp

lemma set_join: "set (join d ts) \<subseteq> insert d (\<Union>t \<in> set ts. set t)"
  by (induction d ts rule: join.induct) auto

lemma param_pair_eq:
  assumes "CHR ''='' \<notin> set k" and "CHR ''='' \<notin> set v"
  shows "param_pair (k @ CHR ''='' # v) = (k, v)"
  using split_join [of "[k, v]" "CHR ''=''"] assms by (simp add: param_pair_def)

lemma param_pair_single: "CHR ''='' \<notin> set k \<Longrightarrow> param_pair k = (k, [])"
  using split_join [of "[k]" "CHR ''=''"] by (simp add: param_pair_def)

text \<open>A query is a list of pairs; the set of them loses the order, which does not matter for distinct keys.\<close>

lemma query_params_join:
  assumes "ts \<noteq> []" and "\<forall>t \<in> set ts. CHR ''&'' \<notin> set t" and "join (CHR ''&'') ts \<noteq> []"
    and "hd (join (CHR ''&'') ts) \<noteq> CHR ''?''" and "distinct (map (fst \<circ> param_pair) ts)"
  shows "query_params (join (CHR ''&'') ts) = map_of (map param_pair ts)"
proof -
  have "distinct ts" using assms(5) by (simp add: distinct_map)
  then have perm: "mset (string_set ts) = mset ts"
    using distinct_string_set [of ts] by (simp add: set_eq_iff_mset_eq_distinct [symmetric])
  have "distinct (map fst (map param_pair ts))" using assms(5) by simp
  moreover from perm have "mset (map fst (map param_pair (string_set ts))) = mset (map fst (map param_pair ts))"
    by simp
  ultimately have "distinct (map fst (map param_pair (string_set ts)))"
    using mset_eq_imp_distinct_iff by blast
  then have "map_of (map param_pair (string_set ts)) = map_of (map param_pair ts)"
    using assms(5) by (intro map_of_inject_set [THEN iffD2]) (simp_all add: comp_def)
  then show ?thesis
    using assms(3,4) split_join [OF assms(1,2)] by (simp add: query_params_def emplace_all_eq)
qed

lemma DecodeUrl_join_pairs:
  "DecodeUrl (join (CHR ''&'') (map (\<lambda>(k, v). EncodeUrl k @ CHR ''='' # EncodeUrl v) kvs)) =
     Inr (join (CHR ''&'') (map (\<lambda>(k, v). k @ CHR ''='' # v) kvs))"
proof (induction kvs rule: induct_list012)
  case (2 kv)
  obtain k v where kv: "kv = (k, v)" by force
  show ?case using urls.decode_encode [of v]
    by (simp add: kv DecodeUrl_EncodeUrl_append prepend_def)
next
  case (3 kv kw kvs)
  obtain k v where kv: "kv = (k, v)" by force
  show ?case
    using 3(2) by (simp add: kv DecodeUrl_EncodeUrl_append prepend_def split: sum.splits)
qed simp

subsection \<open>Portions\<close>

lemma GetNextPortion_eq:
  assumes "m_serializer p" and "body_more p" and "m_buffer p = Some bs"
  shows "OutputPack_GetNextPortion p =
    Inr (p\<lparr>body_data := Some (take (m_chunkSize p) (drop (m_bufferPtr p) bs)),
           body_more := m_chunkSize p < length bs - m_bufferPtr p,
           m_bufferPtr := m_bufferPtr p + min (length bs - m_bufferPtr p) (m_chunkSize p)\<rparr>)"
  using assms by (simp add: OutputPack_GetNextPortion_def Let_def take_all_iff min_def)

text \<open>A pack that has handed out the bytes before its pointer and announces more.\<close>

lemma write_portions_rest:
  assumes "m_serializer p" and "m_buffer p = Some bs" and "0 < m_chunkSize p"
    and "body_more p = (m_bufferPtr p < length bs)" and "m_bufferPtr p \<le> length bs"
    and "length bs - m_bufferPtr p < n"
  shows "\<exists>ps. write_portions n p = Some ((case body_data p of None \<Rightarrow> [] | Some b \<Rightarrow> [b]) @ ps) \<and>
    concat ps = drop (m_bufferPtr p) bs \<and> (\<forall>b \<in> set ps. length b \<le> m_chunkSize p)"
  using assms
proof (induction n arbitrary: p)
  case 0
  then show ?case by simp
next
  case (Suc n)
  show ?case
  proof (cases "body_more p")
    case False
    with Suc.prems show ?thesis by (auto simp: Let_def)
  next
    case True
    let ?k = "min (length bs - m_bufferPtr p) (m_chunkSize p)"
    let ?q = "p\<lparr>body_data := Some (take (m_chunkSize p) (drop (m_bufferPtr p) bs)),
           body_more := m_chunkSize p < length bs - m_bufferPtr p, m_bufferPtr := m_bufferPtr p + ?k\<rparr>"
    have nx: "OutputPack_GetNextPortion p = Inr ?q"
      by (rule GetNextPortion_eq) (use Suc.prems True in simp_all)
    have "\<exists>ps. write_portions n ?q = Some ((case body_data ?q of None \<Rightarrow> [] | Some b \<Rightarrow> [b]) @ ps) \<and>
        concat ps = drop (m_bufferPtr ?q) bs \<and> (\<forall>b \<in> set ps. length b \<le> m_chunkSize ?q)"
      by (rule Suc.IH) (use Suc.prems True in auto)
    then obtain ps where ps: "write_portions n ?q = Some (take (m_chunkSize p) (drop (m_bufferPtr p) bs) # ps)"
        "concat ps = drop (m_bufferPtr p + ?k) bs" "\<forall>b \<in> set ps. length b \<le> m_chunkSize p"
      by auto
    have "take (m_chunkSize p) (drop (m_bufferPtr p) bs) @ drop (m_bufferPtr p + ?k) bs = drop (m_bufferPtr p) bs"
    proof -
      have "drop (m_bufferPtr p + ?k) bs = drop (m_chunkSize p) (drop (m_bufferPtr p) bs)"
        by (auto simp: min_def add.commute)
      then show ?thesis by (simp only: append_take_drop_id)
    qed
    then show ?thesis using nx ps True by (auto simp: Let_def)
  qed
qed

section \<open>Properties\<close>

text \<open>
  Property C11: a response body leaves in portions that put together are the body: for every
  chunk size but zero, after \<open>SetData\<close> the first part and the portions asked for while more
  is announced end, none exceeds the chunk size, and their concatenation is the buffer.
\<close>

theorem output_portions_complete:
  assumes "0 < m_chunkSize p" and "length bs + 1 < n"
  shows "\<exists>ps. write_portions n (OutputPack_SetData p (Some bs)) = Some ps \<and> concat ps = bs \<and>
    (\<forall>b \<in> set ps. length b \<le> m_chunkSize p)"
proof (cases "bs \<noteq> [] \<and> m_chunkSize p \<le> length bs")
  case False
  from assms(2) obtain k where "n = Suc k" by (cases n) auto
  with False show ?thesis
    by (cases bs) (auto simp: OutputPack_SetData_def Let_def)
next
  case True
  let ?q = "OutputPack_SetData p (Some bs)"
  have "m_serializer ?q" "m_buffer ?q = Some bs" "0 < m_chunkSize ?q" "m_bufferPtr ?q = 0"
      "body_more ?q" "body_data ?q = None" "m_chunkSize ?q = m_chunkSize p"
    using True assms(1) by (cases bs; simp add: OutputPack_SetData_def Let_def)+
  then show ?thesis using write_portions_rest [of ?q bs n] assms(2) True by auto
qed

theorem output_portions_complete_witness:
  "\<exists>ps. write_portions 9 (OutputPack_SetData (OutputPack_new False 2) (Some ''hello'')) = Some ps \<and>
     concat ps = ''hello''"
  using output_portions_complete [of "OutputPack_new False 2" "''hello''" 9]
  by (auto simp: OutputPack_new_def)

text \<open>
  with a chunk size of zero a body that is not empty is never finished: the pack
  announces more for ever and every portion is empty.
\<close>

lemma zero_chunk_never_finishes:
  assumes "m_chunkSize p = 0" and "bs \<noteq> []"
  shows "write_portions n (OutputPack_SetData p (Some bs)) = None"
proof -
  have stuck: "write_portions n q = None"
    if "m_serializer q" "m_buffer q = Some bs" "m_chunkSize q = 0" "m_bufferPtr q = 0" "body_more q" for q n
    using that
  proof (induction n arbitrary: q)
    case (Suc n)
    then show ?case using assms(2) by (simp add: GetNextPortion_eq Let_def)
  qed simp
  show ?thesis
    by (rule stuck) (use assms in \<open>cases bs; simp add: OutputPack_SetData_def Let_def\<close>)+
qed

theorem zero_chunk_never_finishes_witness:
  "write_portions 1000 (OutputPack_SetData (OutputPack_new False 0) (Some ''x'')) = None"
  by (rule zero_chunk_never_finishes) (simp_all add: OutputPack_new_def)


definition sample_request :: message where
  "sample_request = \<lparr>msg_verb = Some verb_get, msg_target = CHR ''/'' # ''find'' @ CHR ''?'' #
      join (CHR ''&'') (map (\<lambda>(k, v). EncodeUrl k @ CHR ''='' # EncodeUrl v) [(''q'', ''a b''), (''n'', ''%'')]),
     msg_headers = [], msg_body = []\<rparr>"


text \<open>
  An encoded \<open>&\<close> inside a value does not survive: the target is decoded before it is split,
  so the value ends there and the rest becomes a parameter of its own.
\<close>

lemma encoded_ampersand_splits_value:
  assumes "k \<noteq> []" and "k \<noteq> b" and "\<not> is_splitter (hd k)"
    and "\<forall>c \<in> set (k @ a @ b). c \<noteq> CHR ''&'' \<and> c \<noteq> CHR ''='' \<and> \<not> is_line_end c"
    and "msg_target msg = CHR ''/'' # CHR ''?'' # EncodeUrl k @ CHR ''='' # EncodeUrl (a @ CHR ''&'' # b)"
  shows "\<exists>p. InputPack_new msg = Inr p \<and> InputPack_GetParams p = [k \<mapsto> a, b \<mapsto> []]"
proof -
  let ?q = "join (CHR ''&'') [k @ CHR ''='' # a, b]"
  have dec: "DecodeUrl (msg_target msg) = Inr (CHR ''/'' # [] @ CHR ''?'' # ?q)"
    unfolding assms(5) using urls.decode_encode [of "a @ CHR ''&'' # b"]
    by (simp add: DecodeUrl_EncodeUrl_append prepend_def)
  have hd_q: "hd ?q = hd k" using assms(1) by simp
  have "Target_new (CHR ''/'' # [] @ CHR ''?'' # ?q) = Inr \<lparr>m_path = CHR ''/'' # [], m_query = ?q\<rparr>"
    using assms(3,4) hd_q by (intro Target_new_split) (auto simp: is_line_end_def)
  moreover have pp: "map param_pair [k @ CHR ''='' # a, b] = [(k, a), (b, [])]"
    using assms(4) param_pair_eq [of k a] param_pair_single [of b] by auto
  have "query_params ?q = map_of (map param_pair [k @ CHR ''='' # a, b])"
  proof (rule query_params_join)
    show "hd ?q \<noteq> CHR ''?''" using assms(3) hd_q by (auto simp: is_splitter_def splits_query_def)
    have "map (fst \<circ> param_pair) [k @ CHR ''='' # a, b] = map fst (map param_pair [k @ CHR ''='' # a, b])" by simp
    then show "distinct (map (fst \<circ> param_pair) [k @ CHR ''='' # a, b])"
      using assms(2) pp by simp
  qed (use assms(4) in auto)
  ultimately show ?thesis
    using dec pp assms(2)
    by (auto simp: InputPack_new_def InputPack_of_def InputPack_GetParams_def InputPack_GetQuery_def)
qed

end
