(* ===== verification/Http_Session.thy ===== *)
theory Http_Session
  imports Http_Pack
begin

text \<open>
  One connection of the HTTP server (\<open>net/http/detail/session.cpp\<close>): how a request is
  checked, routed to a handler and answered, and how the session's queue orders reading and
  writing. The network operations of Boost.Beast are events: a read or a write completes
  with a result. Handlers are functions given by the application; a handler changes the
  response it is given or throws.
\<close>

section \<open>Parameters and requests\<close>

type_synonym handler = "InputPack \<Rightarrow> OutputPack \<Rightarrow> OutputPack result"

record session_params =
  headersSize :: nat
  bodySize :: nat
  chunkSize :: nat
  requestTimeout :: nat
  pipelineLimit :: nat
  allowedMethods :: "Method set"
  handlers :: "(string \<times> handler) list"

definition default_params :: session_params where
  "default_params =
     \<lparr>headersSize = 1024 * 1024, bodySize = 10 * 1024 * 1024, chunkSize = 10 * 1024 * 1024,
      requestTimeout = 1000000, pipelineLimit = 8, allowedMethods = {}, handlers = []\<rparr>"

record request =
  req_message :: message
  req_keep_alive :: bool

text \<open>A response in the queue: the pack and the \<open>keep_alive\<close> flag set on it.\<close>

record response =
  resp_pack :: OutputPack
  resp_keep_alive :: bool

section \<open>Handling a request\<close>

definition ReplyError :: "session_params \<Rightarrow> status \<Rightarrow> string \<Rightarrow> bool \<Rightarrow> response result" where
  "ReplyError params st reason keep =
     (let out = OutputPack_new False (chunkSize params)
      in case ConvertCode_status st of
           Inl e \<Rightarrow> Inl e
         | Inr code \<Rightarrow>
             (case OutputPack_SetCode out code of
                Inl e \<Rightarrow> Inl e
              | Inr o1 \<Rightarrow>
                  (case OutputPack_SetReason o1 reason of
                     Inl e \<Rightarrow> Inl e
                   | Inr o2 \<Rightarrow>
                       let o3 = OutputPack_SetData o2 (Some reason);
                           o4 = OutputPack_SetHeader o3 ''Content-Type'' ''text/plain''
                       in Inr \<lparr>resp_pack = OutputPack_GetData o4, resp_keep_alive = keep\<rparr>)))"

definition Reply :: "OutputPack \<Rightarrow> bool \<Rightarrow> response" where
  "Reply out keep = \<lparr>resp_pack = OutputPack_GetData out, resp_keep_alive = keep\<rparr>"

text \<open>
  The paths tried after the exact one: \<open>url\<close> is cut at its last slash until none is left,
  and the empty string stands for the root.
\<close>

definition cut_last :: "string \<Rightarrow> string" where
  "cut_last url = rev (tl (dropWhile (\<lambda>c. c \<noteq> CHR ''/'') (rev url)))"

lemma length_cut_last [termination_simp]: "CHR ''/'' \<in> set url \<Longrightarrow> length (cut_last url) < length url"
proof -
  assume "CHR ''/'' \<in> set url"
  then have "dropWhile (\<lambda>c. c \<noteq> CHR ''/'') (rev url) \<noteq> []" by (auto simp: dropWhile_eq_Nil_conv)
  moreover have "length (dropWhile (\<lambda>c. c \<noteq> CHR ''/'') (rev url)) \<le> length (rev url)"
    by (rule length_dropWhile_le)
  ultimately show ?thesis
    by (cases "dropWhile (\<lambda>c. c \<noteq> CHR ''/'') (rev url)") (auto simp: cut_last_def)
qed

function cut_paths :: "string \<Rightarrow> string list" where
  "cut_paths url =
     (if CHR ''/'' \<in> set url then
        (let url' = cut_last url in (if url' = [] then ''/'' else url') # cut_paths url')
      else [])"
  by pat_completeness auto
termination by (relation "measure length") (auto simp: length_cut_last)

declare cut_paths.simps [simp del]

definition route_paths :: "string \<Rightarrow> string list" where
  "route_paths url =
     url # cut_paths (if url \<noteq> [] \<and> last url \<noteq> CHR ''/'' then url @ ''/'' else url)"

text \<open>\<open>process\<close> on one path after the other, up to the first that has a handler.\<close>

fun route :: "(string \<rightharpoonup> handler) \<Rightarrow> string list \<Rightarrow> handler option" where
  "route hs [] = None"
| "route hs (path # paths) = (case hs path of Some h \<Rightarrow> Some h | None \<Rightarrow> route hs paths)"

definition HandleRequest_checked :: "session_params \<Rightarrow> request \<Rightarrow> response result" where
  "HandleRequest_checked params req =
     (let msg = req_message req; keep = req_keep_alive req
      in case DecodeUrl (msg_target msg) of
           Inl e \<Rightarrow> Inl e
         | Inr path \<Rightarrow>
             if path = [] \<or> hd path \<noteq> CHR ''/'' \<or> contains path ''..'' then
               ReplyError params 400 ''Bad path.'' keep
             else
               (case (case msg_verb msg of Some v \<Rightarrow> ConvertMethodType v | None \<Rightarrow> Inl Undefined_behaviour) of
                  Inl e \<Rightarrow> Inl e
                | Inr mth \<Rightarrow>
                    if mth \<notin> allowedMethods params then
                      ReplyError params 405 ''The method is not allowed.'' keep
                    else if handlers params = [] then
                      ReplyError params 405 ''There is no any method for handling the request.'' keep
                    else
                      (case InputPack_new msg of
                         Inl e \<Rightarrow> Inl e
                       | Inr inp \<Rightarrow>
                           let out = OutputPack_new False (chunkSize params)
                           in (case route (map_of (handlers params)) (route_paths (InputPack_GetPath inp)) of
                                 None \<Rightarrow> ReplyError params 405 ''Handler for the request processing was not found.'' keep
                               | Some h \<Rightarrow>
                                   (case h inp out of
                                      Inl e \<Rightarrow> Inl e
                                    | Inr out' \<Rightarrow> Inr (Reply out' keep))))))"

text \<open>An exception of the standard library is answered with status 500.\<close>

definition HandleRequest :: "session_params \<Rightarrow> request \<Rightarrow> response result" where
  "HandleRequest params req =
     (case HandleRequest_checked params req of
        Inr r \<Rightarrow> Inr r
      | Inl e \<Rightarrow>
          if is_std_exception e then
            ReplyError params 500 ''An internal error has occurred.'' (req_keep_alive req)
          else Inl e)"

section \<open>The session\<close>

text \<open>
  The queue of responses, whether a read and a write (of the front response) are pending, and
  the history: the requests taken from the connection and the responses completely written.
\<close>

record http_session =
  q_limit :: nat
  q_tasks :: "response list"
  s_reading :: bool
  s_writing :: bool
  s_shutdown :: bool
  s_requests :: "request list"
  s_written :: "response list"

definition Session_new :: "session_params \<Rightarrow> http_session" where
  "Session_new params =
     \<lparr>q_limit = max (pipelineLimit params) 1, q_tasks = [], s_reading = False, s_writing = False, s_shutdown = False,
      s_requests = [], s_written = []\<rparr>"

definition Session_Read :: "http_session \<Rightarrow> http_session" where
  "Session_Read s = s\<lparr>s_reading := True\<rparr>"

definition Session_Close :: "http_session \<Rightarrow> http_session" where
  "Session_Close s = s\<lparr>s_shutdown := True\<rparr>"

definition Queue_IsFull :: "http_session \<Rightarrow> bool" where
  "Queue_IsFull s = (q_limit s \<le> length (q_tasks s))"

definition Queue_Post :: "http_session \<Rightarrow> response \<Rightarrow> http_session" where
  "Queue_Post s r =
     (let s1 = s\<lparr>q_tasks := q_tasks s @ [r]\<rparr>
      in if length (q_tasks s1) = 1 then s1\<lparr>s_writing := True\<rparr> else s1)"

definition Queue_Pop :: "http_session \<Rightarrow> (http_session \<times> bool) result" where
  "Queue_Pop s =
     (case q_tasks s of
        [] \<Rightarrow> Inl (Runtime_error (''[Mif::Net::Http::Detail::Session::Queue::Pop] '' @ ''Empty queue.''))
      | r # rs \<Rightarrow> let wasFull = Queue_IsFull s
                   in Inr (if rs \<noteq> [] then s\<lparr>q_tasks := rs, s_writing := True\<rparr> else s\<lparr>q_tasks := rs\<rparr>, wasFull))"

datatype read_result = Read_ok request | Read_upgrade request | Read_end | Read_error

text \<open>An exception that is not a standard one leaves the handler of the read.\<close>

definition Session_OnRead :: "session_params \<Rightarrow> http_session \<Rightarrow> read_result \<Rightarrow> http_session result" where
  "Session_OnRead params s res =
     (let s0 = s\<lparr>s_reading := False\<rparr>
      in case res of
           Read_end \<Rightarrow> Inr (Session_Close s0)
         | Read_error \<Rightarrow> Inr s0
         | Read_upgrade _ \<Rightarrow> Inr (Session_Close s0)
         | Read_ok req \<Rightarrow>
             let s1 = s0\<lparr>s_requests := s_requests s0 @ [req]\<rparr>
             in (case HandleRequest params req of
                   Inl e \<Rightarrow> Inl e
                 | Inr r \<Rightarrow> Inr (Queue_Post s1 r)))"

text \<open>
  The write of the front response completes. \<open>need_eof()\<close> of a chunked response is the
  negation of its \<open>keep_alive\<close> flag. A request for more data is answered with the next
  portion.
\<close>

datatype write_result = Write_ok | Write_need_buffer | Write_error

definition Session_OnWrite :: "http_session \<Rightarrow> write_result \<Rightarrow> http_session result" where
  "Session_OnWrite s res =
     (let s0 = s\<lparr>s_writing := False\<rparr>
      in case q_tasks s of
           [] \<Rightarrow> Inr s0
         | r # rs \<Rightarrow>
             (case res of
                Write_error \<Rightarrow> Inr s0
              | Write_need_buffer \<Rightarrow>
                  (case OutputPack_GetNextPortion (resp_pack r) of
                     Inl e \<Rightarrow> Inl e
                   | Inr p \<Rightarrow> Inr (s0\<lparr>q_tasks := r\<lparr>resp_pack := p\<rparr> # rs, s_writing := True\<rparr>))
              | Write_ok \<Rightarrow>
                  let s1 = s0\<lparr>s_written := s_written s0 @ [r]\<rparr>
                  in if \<not> resp_keep_alive r then Inr (Session_Close s1)
                     else (case Queue_Pop s1 of
                             Inl e \<Rightarrow> Inl e
                           | Inr (s2, wasFull) \<Rightarrow> Inr (if wasFull then Session_Read s2 else s2))))"

text \<open>\<open>Run\<close> starts a new session by its first read.\<close>

definition Session_Run :: "session_params \<Rightarrow> http_session" where
  "Session_Run params = Session_Read (Session_new params)"

text \<open>
  The event loop: a completion reaches the session only while the operation is pending. An
  exception that escapes a completion handler ends the session's activity.
\<close>

datatype session_event = Read_done read_result | Write_done write_result

fun session_step :: "session_params \<Rightarrow> http_session \<Rightarrow> session_event \<Rightarrow> http_session" where
  "session_step params s (Read_done res) =
     (if \<not> s_reading s then s
      else case Session_OnRead params s res of
             Inr s' \<Rightarrow> s'
           | Inl e \<Rightarrow> s\<lparr>s_reading := False, s_writing := False\<rparr>)"
| "session_step params s (Write_done res) =
     (if \<not> s_writing s then s
      else case Session_OnWrite s res of
             Inr s' \<Rightarrow> s'
           | Inl e \<Rightarrow> s\<lparr>s_reading := False, s_writing := False\<rparr>)"

section \<open>Facts\<close>

subsection \<open>Routing\<close>

text \<open>A path covers a URL when it is the URL, one of its ancestors, or the root.\<close>

definition covers :: "string \<Rightarrow> string \<Rightarrow> bool" where
  "covers q url \<longleftrightarrow> q = url \<or> q = ''/'' \<or> q \<noteq> [] \<and> (\<exists>r. url = q @ CHR ''/'' # r)"

lemma cut_last_split:
  assumes "CHR ''/'' \<in> set url"
  shows "\<exists>r. url = cut_last url @ CHR ''/'' # r \<and> CHR ''/'' \<notin> set r"
proof -
  let ?d = "dropWhile (\<lambda>c. c \<noteq> CHR ''/'') (rev url)" and ?t = "takeWhile (\<lambda>c. c \<noteq> CHR ''/'') (rev url)"
  have ne: "?d \<noteq> []" using assms by (auto simp: dropWhile_eq_Nil_conv)
  then have "hd ?d = CHR ''/''" using hd_dropWhile [OF ne] by simp
  then have "?d = CHR ''/'' # tl ?d" using ne by (cases ?d) auto
  then have "rev url = ?t @ CHR ''/'' # tl ?d" using takeWhile_dropWhile_id by metis
  then have "url = rev (tl ?d) @ CHR ''/'' # rev ?t" by (metis append.assoc append_Cons append_Nil rev.simps(2) rev_append rev_rev_ident)
  moreover have "CHR ''/'' \<notin> set (rev ?t)" by (auto dest: set_takeWhileD)
  ultimately show ?thesis by (auto simp: cut_last_def)
qed

lemma cut_paths_set:
  "set (cut_paths url) = {q. q \<noteq> [] \<and> (\<exists>r. url = q @ CHR ''/'' # r)} \<union>
     (if \<exists>r. url = CHR ''/'' # r then {''/''} else {})"
proof (induction url rule: cut_paths.induct)
  case (1 url)
  show ?case
  proof (cases "CHR ''/'' \<in> set url")
    case False
    then have "cut_paths url = []" by (simp add: cut_paths.simps)
    with False show ?thesis by auto
  next
    case True
    then obtain r where r: "url = cut_last url @ CHR ''/'' # r" "CHR ''/'' \<notin> set r"
      using cut_last_split by blast
    have eq: "set (cut_paths url) =
        insert (if cut_last url = [] then ''/'' else cut_last url) (set (cut_paths (cut_last url)))"
      using True by (subst cut_paths.simps) (simp add: Let_def)
    have "(\<exists>s. url = q @ CHR ''/'' # s) \<longleftrightarrow> q = cut_last url \<or> (\<exists>s. cut_last url = q @ CHR ''/'' # s)" for q
    proof
      assume "\<exists>s. url = q @ CHR ''/'' # s"
      then obtain s where "cut_last url @ CHR ''/'' # r = q @ CHR ''/'' # s" using r(1) by metis
      then show "q = cut_last url \<or> (\<exists>s. cut_last url = q @ CHR ''/'' # s)"
        using r(2) by (auto simp: append_eq_append_conv2 Cons_eq_append_conv) (metis append_eq_Cons_conv)
    next
      assume "q = cut_last url \<or> (\<exists>s. cut_last url = q @ CHR ''/'' # s)"
      then show "\<exists>s. url = q @ CHR ''/'' # s" using r(1) by (metis append.assoc append_Cons)
    qed
    moreover from this [of "[]"]
    have "(\<exists>s. url = CHR ''/'' # s) \<longleftrightarrow> cut_last url = [] \<or> (\<exists>s. cut_last url = CHR ''/'' # s)" by auto
    ultimately show ?thesis
      unfolding eq using 1 [OF True] by auto
  qed
qed

lemma cut_paths_order:
  "hd url = CHR ''/'' \<Longrightarrow> sorted_wrt (\<lambda>a b. length b \<le> length a) (cut_paths url) \<and>
     (\<forall>q \<in> set (cut_paths url). length q \<le> max 1 (length url - 1))"
proof (induction url rule: cut_paths.induct)
  case (1 url)
  show ?case
  proof (cases "CHR ''/'' \<in> set url")
    case False
    then show ?thesis by (simp add: cut_paths.simps)
  next
    case True
    then obtain r where r: "url = cut_last url @ CHR ''/'' # r" using cut_last_split by blast
    have eq: "cut_paths url = (if cut_last url = [] then ''/'' else cut_last url) # cut_paths (cut_last url)"
      using True by (subst cut_paths.simps) (simp add: Let_def)
    have len: "length (cut_last url) \<le> length url - 1"
      using length_cut_last [OF True] by simp
    show ?thesis
    proof (cases "cut_last url = []")
      case True
      then have "cut_paths (cut_last url) = []" by (simp add: cut_paths.simps)
      with eq True show ?thesis by simp
    next
      case False
      then have "hd (cut_last url) = CHR ''/''" using "1.prems" r by (metis hd_append2)
      with 1 True have IH: "sorted_wrt (\<lambda>a b. length b \<le> length a) (cut_paths (cut_last url))"
          "\<forall>q \<in> set (cut_paths (cut_last url)). length q \<le> max 1 (length (cut_last url) - 1)"
        by blast+
      have "1 \<le> length (cut_last url)" using False by (cases "cut_last url") auto
      then have "max 1 (length (cut_last url) - 1) \<le> length (cut_last url)"
        "length (cut_last url) \<le> max 1 (length url - 1)"
        "max 1 (length (cut_last url) - 1) \<le> max 1 (length url - 1)" using len by auto
      with IH have "\<forall>q \<in> set (cut_paths (cut_last url)). length q \<le> length (cut_last url) \<and> length q \<le> max 1 (length url - 1)"
        by (meson order_trans)
      with eq False IH(1) \<open>length (cut_last url) \<le> max 1 (length url - 1)\<close> show ?thesis by simp
    qed
  qed
qed

lemma route_paths_set:
  assumes "hd url = CHR ''/''" and "url \<noteq> []"
  shows "q \<in> set (route_paths url) \<longleftrightarrow> covers q url"
proof -
  obtain r where r: "url = CHR ''/'' # r" using assms by (cases url) auto
  show ?thesis
  proof (cases "last url = CHR ''/''")
    case True
    then show ?thesis using r by (auto simp: route_paths_def cut_paths_set covers_def)
  next
    case False
    have "(\<exists>s. url @ ''/'' = q @ CHR ''/'' # s) \<longleftrightarrow> q = url \<or> (\<exists>s. url = q @ CHR ''/'' # s)" for q
      by (auto simp: append_eq_append_conv2 append_eq_Cons_conv Cons_eq_append_conv)
    moreover have "\<exists>s. url @ ''/'' = CHR ''/'' # s" using r by simp
    ultimately show ?thesis
      using False assms(2) by (auto simp: route_paths_def cut_paths_set covers_def)
  qed
qed

lemma route_paths_order:
  assumes "hd url = CHR ''/''" and "url \<noteq> []"
  shows "sorted_wrt (\<lambda>a b. length b \<le> length a) (route_paths url)"
proof -
  let ?u = "if last url \<noteq> CHR ''/'' then url @ ''/'' else url"
  have "hd ?u = CHR ''/''" using assms by simp
  from cut_paths_order [OF this] have ord: "sorted_wrt (\<lambda>a b. length b \<le> length a) (cut_paths ?u)"
    and len: "\<forall>q \<in> set (cut_paths ?u). length q \<le> max 1 (length ?u - 1)" by auto
  have "1 \<le> length url" using assms(2) by (cases url) auto
  then have "max 1 (length ?u - 1) \<le> length url" by auto
  with len have "\<forall>q \<in> set (cut_paths ?u). length q \<le> length url" by (meson order_trans)
  with ord show ?thesis using assms(2) by (simp add: route_paths_def)
qed

lemma route_first:
  "route hs paths = (case filter (\<lambda>q. hs q \<noteq> None) paths of [] \<Rightarrow> None | q # _ \<Rightarrow> hs q)"
  by (induction paths) (auto split: option.splits)

lemma sorted_filter_hd:
  assumes "sorted_wrt (\<lambda>a b. length b \<le> length a) paths" and "filter P paths = q # qs"
  shows "q \<in> set paths \<and> P q \<and> (\<forall>q' \<in> set paths. P q' \<longrightarrow> length q' \<le> length q)"
proof -
  have "sorted_wrt (\<lambda>a b. length b \<le> length a) (q # qs)" using assms sorted_wrt_filter by metis
  moreover have "set (q # qs) = {x \<in> set paths. P x}" using assms(2) by (metis set_filter)
  ultimately show ?thesis by auto
qed

subsection \<open>Answers\<close>

lemma ReplyError_status:
  assumes "ConvertCode_status st = Inr code"
  shows "\<exists>r. ReplyError params st reason keep = Inr r \<and> o_status (resp_pack r) = ConvertCode code \<and>
    m_buffer (resp_pack r) = Some reason \<and> resp_keep_alive r = keep"
  using assms
  by (cases reason) (auto simp: ReplyError_def OutputPack_SetCode_def OutputPack_SetReason_def OutputPack_SetHeader_def
      OutputPack_GetData_def OutputPack_SetData_def OutputPack_new_def Let_def)

lemma ReplyError_ok: "st \<in> {400, 405, 500} \<Longrightarrow> \<exists>r. ReplyError params st reason keep = Inr r"
  using ReplyError_status [of st _ params reason keep] by (auto simp: ConvertCode_status_def)

lemma error_is_std:
  "DecodeUrl t = Inl e \<Longrightarrow> is_std_exception e"
  "ConvertMethodType v = Inl e \<Longrightarrow> is_std_exception e"
  "Target_new t = Inl e \<Longrightarrow> is_std_exception e"
proof -
  show "DecodeUrl t = Inl e \<Longrightarrow> is_std_exception e"
    by (induction t rule: DecodeUrl.induct)
      (auto simp: prepend_def DecodeUrl_bad_char_def DecodeUrl_bad_encoding_def
        split: if_splits list.splits option.splits sum.splits)
  show "ConvertMethodType v = Inl e \<Longrightarrow> is_std_exception e" by (cases v) auto
  show "Target_new t = Inl e \<Longrightarrow> is_std_exception e" by (auto simp: Target_new_def split: if_splits)
qed

lemma InputPack_error_is_std: "InputPack_new msg = Inl e \<Longrightarrow> is_std_exception e"
  by (auto simp: InputPack_new_def InputPack_of_def dest: error_is_std split: sum.splits)

subsection \<open>The pipeline\<close>

definition one_request_inv :: "http_session \<Rightarrow> bool" where
  "one_request_inv s \<longleftrightarrow> 2 \<le> q_limit s \<and>
     (s_requests s = [] \<and> q_tasks s = [] \<or>
      length (s_requests s) = 1 \<and> length (q_tasks s) \<le> 1 \<and> \<not> s_reading s)"

lemma one_request_step:
  assumes "one_request_inv s"
  shows "one_request_inv (session_step params s e)"
proof (cases e)
  case (Read_done res)
  with assms show ?thesis
    by (cases res) (auto simp: one_request_inv_def Session_OnRead_def Session_Close_def Queue_Post_def Let_def
        split: sum.splits)
next
  case (Write_done res)
  with assms show ?thesis
    by (cases "q_tasks s"; cases res)
      (auto simp: one_request_inv_def Session_OnWrite_def Session_Close_def Queue_Pop_def Queue_IsFull_def Let_def
        split: sum.splits)
qed

interpretation sessions: machine "session_step params" one_request_inv for params
  by unfold_locales (rule one_request_step)

lemma round_trip_limit_one:
  assumes "q_limit s = 1" and "s_reading s" and "q_tasks s = []"
    and "HandleRequest params req = Inr r" and "resp_keep_alive r"
  shows "foldl (session_step params) s [Read_done (Read_ok req), Write_done Write_ok] =
    s\<lparr>s_writing := False, s_requests := s_requests s @ [req], s_written := s_written s @ [r]\<rparr>"
  using assms
  by (simp add: Session_OnRead_def Session_OnWrite_def Queue_Post_def Queue_Pop_def Queue_IsFull_def Session_Read_def Let_def)

section \<open>Properties\<close>

text \<open>
  Property C9: a request is routed to the most specific handler. For a path that starts with
  a slash, the handler chosen is registered under the path itself, under an ancestor of it
  that ends at a segment boundary, or under the root, and no registered path that covers the
  request is longer; when no handler is chosen, none of the registered paths covers it.
\<close>

theorem route_most_specific:
  assumes "url \<noteq> []" and "hd url = CHR ''/''"
  shows "case route hs (route_paths url) of
      Some h \<Rightarrow> \<exists>q. hs q = Some h \<and> covers q url \<and>
        (\<forall>q'. covers q' url \<longrightarrow> hs q' \<noteq> None \<longrightarrow> length q' \<le> length q)
    | None \<Rightarrow> \<forall>q. covers q url \<longrightarrow> hs q = None"
proof (cases "filter (\<lambda>q. hs q \<noteq> None) (route_paths url)")
  case Nil
  then have "\<forall>q \<in> set (route_paths url). hs q = None" by (simp add: filter_empty_conv)
  then show ?thesis using Nil route_paths_set [OF assms(2,1)] by (simp add: route_first)
next
  case (Cons q qs)
  from sorted_filter_hd [OF route_paths_order [OF assms(2,1)] Cons] obtain h where
    "hs q = Some h" "q \<in> set (route_paths url)"
    "\<forall>q' \<in> set (route_paths url). hs q' \<noteq> None \<longrightarrow> length q' \<le> length q" by auto
  then show ?thesis using Cons route_paths_set [OF assms(2,1)] by (auto simp: route_first)
qed

definition echo_handler :: "string \<Rightarrow> handler" where
  "echo_handler body inp out = Inr (OutputPack_SetData out (Some body))"

definition sample_routes :: "string \<rightharpoonup> handler" where
  "sample_routes = [''/'' \<mapsto> echo_handler ''root'', ''/api'' \<mapsto> echo_handler ''api'']"

theorem route_most_specific_witness:
  "\<exists>h q. route sample_routes (route_paths ''/api/v1'') = Some h \<and> sample_routes q = Some h \<and> covers q ''/api/v1''"
proof -
  have u: "''/api/v1'' \<noteq> []" "hd ''/api/v1'' = CHR ''/''" by simp_all
  have root: "covers ''/'' ''/api/v1''" by (simp add: covers_def)
  have reg: "sample_routes ''/'' \<noteq> None" by (simp add: sample_routes_def)
  note best = route_most_specific [OF u, of sample_routes]
  show ?thesis
  proof (cases "route sample_routes (route_paths ''/api/v1'')")
    case None
    from best [unfolded None option.case, rule_format, OF root] reg show ?thesis by contradiction
  next
    case (Some h)
    from best [unfolded Some option.case] obtain q where "sample_routes q = Some h" "covers q ''/api/v1''"
      by (elim exE conjE)
    then show ?thesis unfolding Some by (intro exI conjI) (rule refl)
  qed
qed

text \<open>
  Property C6: every request that is read gets exactly one response, if the handlers throw
  only standard exceptions. A target that decodes to a path without a leading slash or with
  two dots in a row is answered with status 400 whatever the handlers are, and with a good
  path a method that is not allowed is answered with 405.
\<close>

theorem every_request_is_answered:
  assumes "\<And>h inp out e. h \<in> snd ` set (handlers params) \<Longrightarrow> h inp out = Inl e \<Longrightarrow> is_std_exception e"
    and "msg_verb (req_message req) = Some v"
  shows "(\<exists>r. HandleRequest params req = Inr r) \<and>
    (\<forall>path. DecodeUrl (msg_target (req_message req)) = Inr path \<longrightarrow>
      (if path = [] \<or> hd path \<noteq> CHR ''/'' \<or> contains path ''..''
       then HandleRequest params req = ReplyError params 400 ''Bad path.'' (req_keep_alive req)
       else \<forall>m. ConvertMethodType v = Inr m \<longrightarrow> m \<notin> allowedMethods params \<longrightarrow>
         HandleRequest params req = ReplyError params 405 ''The method is not allowed.'' (req_keep_alive req)))"
proof -
  have err: "is_std_exception e" if "HandleRequest_checked params req = Inl e" for e
  proof -
    have hd: "is_std_exception e" if "route (map_of (handlers params)) ps = Some h" "h inp out = Inl e" for ps h inp out
    proof -
      have "h \<in> snd ` set (handlers params)"
        using that(1) by (auto simp: route_first split: list.splits dest!: map_of_SomeD intro: rev_image_eqI)
      with that(2) assms(1) show ?thesis by blast
    qed
    have no: "ReplyError params st reason keep \<noteq> Inl e" if "st \<in> {400, 405, 500}" for st reason keep
      using ReplyError_ok [OF that] by (metis Inl_Inr_False)
    show ?thesis
      using that assms(2) no error_is_std(1,2) InputPack_error_is_std hd
      by (auto simp: HandleRequest_checked_def Let_def split: sum.splits if_splits option.splits)
  qed
  have "\<exists>r. HandleRequest params req = Inr r"
    using err ReplyError_ok [of 500 params] by (auto simp: HandleRequest_def split: sum.splits)
  moreover have "ReplyError params 400 ''Bad path.'' (req_keep_alive req) = Inr r \<Longrightarrow>
      HandleRequest_checked params req = Inr r \<Longrightarrow> HandleRequest params req = Inr r" for r
    by (simp add: HandleRequest_def)
  ultimately show ?thesis
    using assms(2) ReplyError_ok [of 400 params "''Bad path.''" "req_keep_alive req"]
      ReplyError_ok [of 405 params "''The method is not allowed.''" "req_keep_alive req"]
    by (auto simp: HandleRequest_def HandleRequest_checked_def Let_def)
qed

definition sample_params :: session_params where
  "sample_params = default_params\<lparr>allowedMethods := {Get}, handlers := [(''/'', echo_handler ''hi'')]\<rparr>"

definition sample_session_request :: request where
  "sample_session_request =
     \<lparr>req_message = \<lparr>msg_verb = Some verb_post, msg_target = ''/a/../b'', msg_headers = [], msg_body = []\<rparr>,
      req_keep_alive = True\<rparr>"

theorem every_request_is_answered_witness:
  "HandleRequest sample_params sample_session_request =
     ReplyError sample_params 400 ''Bad path.'' True"
proof -
  have 1: "is_std_exception e" if "h \<in> snd ` set (handlers sample_params)" "h inp out = Inl e" for h inp out e
    using that by (auto simp: sample_params_def echo_handler_def)
  have 2: "msg_verb (req_message sample_session_request) = Some verb_post"
    by (simp add: sample_session_request_def)
  have 3: "DecodeUrl (msg_target (req_message sample_session_request)) = Inr ''/a/../b''"
    by (simp add: sample_session_request_def prepend_def)
  have 4: "contains ''/a/../b'' ''..''" by simp
  have 5: "req_keep_alive sample_session_request = True" by (simp add: sample_session_request_def)
  from every_request_is_answered [OF 1 2, THEN conjunct2, rule_format, OF _ _ 3] 4 5 show ?thesis by simp
qed

text \<open>
  With a pipeline limit of two or more, which is the default, a connection serves
  one request: in every run of the session at most one request is taken from the connection
  and at most one response is queued, since nothing reads again after it.
\<close>

lemma session_serves_one_request:
  assumes "2 \<le> pipelineLimit params" and "s = foldl (session_step params) (Session_Run params) es"
  shows "length (s_requests s) \<le> 1 \<and> length (q_tasks s) \<le> 1"
proof -
  have "one_request_inv (Session_Run params)"
    using assms(1) by (simp add: one_request_inv_def Session_Run_def Session_Read_def Session_new_def)
  then have "one_request_inv s" unfolding assms(2) by (rule sessions.run_inv)
  then show ?thesis by (auto simp: one_request_inv_def)
qed

lemma session_serves_one_request_example:
  "2 \<le> pipelineLimit sample_params \<and>
   length (s_requests (foldl (session_step sample_params) (Session_Run sample_params)
     [Read_done (Read_ok sample_session_request), Write_done Write_ok,
      Read_done (Read_ok sample_session_request)])) \<le> 1"
proof
  show lim: "2 \<le> pipelineLimit sample_params" by (simp add: sample_params_def default_params_def)
  show "length (s_requests (foldl (session_step sample_params) (Session_Run sample_params)
     [Read_done (Read_ok sample_session_request), Write_done Write_ok,
      Read_done (Read_ok sample_session_request)])) \<le> 1"
    by (rule session_serves_one_request [OF lim refl, THEN conjunct1])
qed

text \<open>
  Property C20: with a pipeline limit of zero or one a connection that is kept alive serves any
  number of requests, one after the other: when each is read and its response written, the
  responses written are the answers to the requests in their order, and the session is
  reading the next one.
\<close>

theorem session_keep_alive_in_order:
  assumes "pipelineLimit params \<le> 1"
    and "list_all2 (\<lambda>req r. HandleRequest params req = Inr r \<and> resp_keep_alive r) reqs rs"
    and "s = foldl (session_step params) (Session_Run params)
      (concat (map (\<lambda>req. [Read_done (Read_ok req), Write_done Write_ok]) reqs))"
  shows "s_requests s = reqs \<and> s_written s = rs \<and> s_reading s \<and> q_tasks s = []"
proof -
  have run: "\<exists>w. foldl (session_step params) t
        (concat (map (\<lambda>req. [Read_done (Read_ok req), Write_done Write_ok]) reqs)) =
      t\<lparr>s_writing := w, s_requests := s_requests t @ reqs, s_written := s_written t @ rs\<rparr>"
    if "q_limit t = 1" "s_reading t" "q_tasks t = []" for t
    using assms(2) that
  proof (induction reqs rs arbitrary: t rule: list_all2_induct)
    case Nil
    then show ?case by (intro exI [of _ "s_writing t"]) simp
  next
    case (Cons req reqs r rs)
    let ?t = "t\<lparr>s_writing := False, s_requests := s_requests t @ [req], s_written := s_written t @ [r]\<rparr>"
    have "foldl (session_step params) t [Read_done (Read_ok req), Write_done Write_ok] = ?t"
      using Cons by (intro round_trip_limit_one) auto
    then show ?case using Cons.IH [of ?t] Cons.prems by auto
  qed
  have "q_limit (Session_Run params) = 1" "s_reading (Session_Run params)" "q_tasks (Session_Run params) = []"
    "s_requests (Session_Run params) = []" "s_written (Session_Run params) = []"
    using assms(1) by (auto simp: Session_Run_def Session_Read_def Session_new_def)
  with run [of "Session_Run params"] show ?thesis using assms(3) by auto
qed

theorem session_keep_alive_in_order_witness:
  "\<exists>r. HandleRequest (sample_params\<lparr>pipelineLimit := 1\<rparr>) sample_session_request = Inr r \<and>
     s_written (foldl (session_step (sample_params\<lparr>pipelineLimit := 1\<rparr>)) (Session_Run (sample_params\<lparr>pipelineLimit := 1\<rparr>))
       (concat (map (\<lambda>req. [Read_done (Read_ok req), Write_done Write_ok])
         [sample_session_request, sample_session_request]))) = [r, r]"
proof -
  let ?p = "sample_params\<lparr>pipelineLimit := 1\<rparr>"
  obtain r where r: "ReplyError ?p 400 ''Bad path.'' True = Inr r" "resp_keep_alive r"
    using ReplyError_status [of 400 BadRequest ?p "''Bad path.''" True] by (auto simp: ConvertCode_status_def)
  have "HandleRequest ?p sample_session_request = Inr r"
    using r by (simp add: HandleRequest_def HandleRequest_checked_def sample_session_request_def prepend_def)
  with r(2) session_keep_alive_in_order [of ?p "[sample_session_request, sample_session_request]" "[r, r]", OF _ _ refl]
  show ?thesis by auto
qed

end
