(* ===== verification/Http_WebService.thy ===== *)
theory Http_WebService
  imports Http_Session Crc32
begin

text \<open>
  \<open>WebService\<close>: the dispatcher from paths to member functions (\<open>net/http/web_service.cpp\<close>,
  \<open>net/http/web_service.h\<close>), the arguments it builds for them (\<open>detail/prm.h\<close>,
  \<open>detail/content.h\<close>, \<open>detail/param_pack.h\<close>) and the results it takes back
  (\<open>detail/result.h\<close>); and the server's parameters (\<open>net/http/server.cpp\<close>).

  The converters of parameter and content values, the serializer of results and the
  functions a derived class may override are arguments of the model.
\<close>

section \<open>Arguments and results of a handler\<close>

text \<open>
  \<open>Prm<T, ID>\<close>: a named value or nothing. The parameters are looked through in the order of
  their names, and the name is compared by its checksum.
\<close>

record 'v Prm =
  m_name :: string
  m_value :: "'v option"

fun GetPrm :: "(string \<Rightarrow> 'v result) \<Rightarrow> 32 word \<Rightarrow> (string \<times> string) list \<Rightarrow> 'v Prm result" where
  "GetPrm conv ident [] = Inr \<lparr>m_name = [], m_value = None\<rparr>"
| "GetPrm conv ident ((k, v) # params) =
     (if Crc32str k = ident then
        (case conv v of Inl e \<Rightarrow> Inl e | Inr x \<Rightarrow> Inr \<lparr>m_name = k, m_value = Some x\<rparr>)
      else GetPrm conv ident params)"

definition Prm_Get :: "'v Prm \<Rightarrow> 'v result" where
  "Prm_Get p =
     (case m_value p of
        Some v \<Rightarrow> Inr v
      | None \<Rightarrow> Inl (Invalid_argument (''[Mif::Net::Http::WebService::Prm] '' @ dquote @ m_name p @ dquote @ '' has no value.'')))"

definition Content_new :: "(buffer \<Rightarrow> 'v result) \<Rightarrow> buffer \<Rightarrow> 'v option result" where
  "Content_new conv value =
     (if value = [] then Inr None else (case conv value of Inl e \<Rightarrow> Inl e | Inr v \<Rightarrow> Inr (Some v)))"

definition Content_Get :: "'v option \<Rightarrow> 'v result" where
  "Content_Get c =
     (case c of Some v \<Rightarrow> Inr v
      | None \<Rightarrow> Inl (Runtime_error ''[Mif::Net::Http::WebService::Content] No content.''))"

text \<open>
  \<open>ParamPack<T>\<close>: one value per field of a reflected structure. A field has a name and may
  be optional. The fields are converted in the order of their declaration.
\<close>

fun ParamPack_new ::
    "(string \<Rightarrow> string \<Rightarrow> 'v result) \<Rightarrow> (string \<times> bool) list \<Rightarrow> (string \<rightharpoonup> string) \<Rightarrow> 'v option list result" where
  "ParamPack_new conv [] params = Inr []"
| "ParamPack_new conv ((name, optional) # rest) params =
     (case (case params name of
              Some v \<Rightarrow> map_sum id Some (conv name v)
            | None \<Rightarrow> if optional then Inr None
                      else Inl (Runtime_error (''[Mif::Net::Http::Detail::ParamPack::GetParam] '' @
                        dquote @ name @ dquote @ '' not found.''))) of
        Inl e \<Rightarrow> Inl e
      | Inr x \<Rightarrow> map_sum id (\<lambda>xs. x # xs) (ParamPack_new conv rest params))"

text \<open>\<open>Result\<close>: serialized value and headers; a content type is added unless there is one.\<close>

definition content_type_header :: string where
  "content_type_header = ''Content-Type''"

record handler_result =
  r_value :: buffer
  r_headers :: "(string \<times> string) list"

definition Result_new :: "buffer \<Rightarrow> string \<Rightarrow> handler_result" where
  "Result_new value contentType = \<lparr>r_value = value, r_headers = [(content_type_header, contentType)]\<rparr>"

definition Result_with_headers :: "buffer \<Rightarrow> (string \<times> string) list \<Rightarrow> string \<Rightarrow> handler_result" where
  "Result_with_headers value headers contentType =
     \<lparr>r_value = value,
      r_headers = (if map_of headers content_type_header = None then headers @ [(content_type_header, contentType)]
                   else headers)\<rparr>"

text \<open>\<open>ProcessRequest\<close> with a result: its headers, then its value, go to the response.\<close>

definition ProcessRequest_result :: "handler_result \<Rightarrow> OutputPack \<Rightarrow> OutputPack" where
  "ProcessRequest_result res out =
     OutputPack_SetData (foldl (\<lambda>o' (k, v). OutputPack_SetHeader o' k v) out (r_headers res)) (Some (r_value res))"

section \<open>WebService\<close>

text \<open>
  A handler changes the response in place and may then throw; what it changed stays. The
  overridable functions: before and after the handler, and on an exception.
\<close>

type_synonym web_handler = "InputPack \<Rightarrow> OutputPack \<Rightarrow> OutputPack \<times> exn option"

record web_hooks =
  PreProcessRequest :: "InputPack \<Rightarrow> exn option"
  PostProcessResponse :: "InputPack \<Rightarrow> OutputPack \<Rightarrow> OutputPack \<times> exn option"
  OnException :: "InputPack \<Rightarrow> OutputPack \<Rightarrow> exn \<Rightarrow> Code \<Rightarrow> string \<Rightarrow> OutputPack \<times> Code \<times> string"

definition default_hooks :: web_hooks where
  "default_hooks =
     \<lparr>PreProcessRequest = (\<lambda>_. None), PostProcessResponse = (\<lambda>_ out. (out, None)),
      OnException = (\<lambda>_ out _ code message. (out, code, message))\<rparr>"

record ItemCounter =
  total :: nat
  bad :: nat

text \<open>\<open>m_handlers\<close> is ordered by path; \<open>m_statistics\<close> counts requests.\<close>

record WebService =
  w_handlers :: "(string \<times> web_handler) list"
  w_general :: ItemCounter
  w_resources :: "string \<rightharpoonup> ItemCounter"

definition zero_counter :: ItemCounter where
  "zero_counter = \<lparr>total = 0, bad = 0\<rparr>"

definition WebService_new :: WebService where
  "WebService_new = \<lparr>w_handlers = [], w_general = zero_counter, w_resources = Map.empty\<rparr>"

definition handler_emplace :: "(string \<times> web_handler) list \<Rightarrow> string \<Rightarrow> web_handler \<Rightarrow> (string \<times> web_handler) list" where
  [simp]: "handler_emplace = ordered_emplace"

definition AddHandler :: "WebService \<Rightarrow> string \<Rightarrow> web_handler \<Rightarrow> WebService" where
  "AddHandler w resource h =
     w\<lparr>w_handlers := handler_emplace (w_handlers w) resource h,
       w_resources := map_emplace (w_resources w) resource zero_counter\<rparr>"

definition slashes :: "string \<Rightarrow> nat" where
  "slashes s = length (filter (\<lambda>c. c = CHR ''/'') s)"

text \<open>The search among all paths when there is no handler for the exact one.\<close>

fun search_handler :: "string \<Rightarrow> (string \<times> web_handler) list \<Rightarrow> nat \<Rightarrow> (string \<times> web_handler) option \<Rightarrow>
    (string \<times> web_handler) option" where
  "search_handler path [] cntLen best = best"
| "search_handler path ((i, h) # r) cntLen best =
     (if \<not> contains path i then search_handler path r cntLen best
      else let cnt = slashes i
           in if cntLen < cnt then search_handler path r cnt (Some (i, h))
              else search_handler path r cntLen best)"

definition find_handler :: "WebService \<Rightarrow> string \<Rightarrow> (string \<times> web_handler) option" where
  "find_handler w path =
     (case map_of (w_handlers w) path of
        Some h \<Rightarrow> Some (path, h)
      | None \<Rightarrow> search_handler path (w_handlers w) 0 None)"

definition count_general_total :: "WebService \<Rightarrow> WebService" where
  "count_general_total w = w\<lparr>w_general := (w_general w)\<lparr>total := total (w_general w) + 1\<rparr>\<rparr>"

definition count_general_bad :: "WebService \<Rightarrow> WebService" where
  "count_general_bad w = w\<lparr>w_general := (w_general w)\<lparr>bad := bad (w_general w) + 1\<rparr>\<rparr>"

definition resource_counter :: "WebService \<Rightarrow> string \<Rightarrow> ItemCounter" where
  "resource_counter w path = (case w_resources w path of Some c \<Rightarrow> c | None \<Rightarrow> zero_counter)"

definition count_resource_total :: "string \<Rightarrow> WebService \<Rightarrow> WebService" where
  "count_resource_total path w =
     (let c = resource_counter w path in w\<lparr>w_resources := (w_resources w)(path \<mapsto> c\<lparr>total := total c + 1\<rparr>)\<rparr>)"

definition count_resource_bad :: "string \<Rightarrow> WebService \<Rightarrow> WebService" where
  "count_resource_bad path w =
     (let c = resource_counter w path in w\<lparr>w_resources := (w_resources w)(path \<mapsto> c\<lparr>bad := bad c + 1\<rparr>)\<rparr>)"

definition OnExceptionResponse :: "web_hooks \<Rightarrow> InputPack \<Rightarrow> OutputPack \<Rightarrow> Code \<Rightarrow> exn \<Rightarrow> OutputPack result" where
  "OnExceptionResponse hooks req out code e =
     (case OnException hooks req out e code (what e) of
        (out1, code1, message) \<Rightarrow>
          (case OutputPack_SetCode out1 code1 of
             Inl e' \<Rightarrow> Inl e'
           | Inr out2 \<Rightarrow> Inr (OutputPack_SetData out2 (Some message))))"

text \<open>The three \<open>catch\<close> clauses of \<open>OnRequest\<close>.\<close>

definition catch_exception :: "web_hooks \<Rightarrow> WebService \<Rightarrow> InputPack \<Rightarrow> OutputPack \<Rightarrow> exn \<Rightarrow> WebService \<times> OutputPack result" where
  "catch_exception hooks w req out e =
     (if e = Undefined_behaviour then (w, Inl e)
      else (count_general_bad w,
            if is_invalid_argument e then OnExceptionResponse hooks req out BadRequest e
            else if is_std_exception e then OnExceptionResponse hooks req out Internal e
            else OnExceptionResponse hooks req out Internal (Runtime_error ''Unknown exception.'')))"

definition finish_request :: "web_hooks \<Rightarrow> WebService \<Rightarrow> InputPack \<Rightarrow> OutputPack \<Rightarrow> WebService \<times> OutputPack result" where
  "finish_request hooks w req out =
     (case PostProcessResponse hooks req out of
        (out', None) \<Rightarrow> (w, Inr out')
      | (out', Some e) \<Rightarrow> catch_exception hooks w req out' e)"

definition WebService_OnRequest :: "web_hooks \<Rightarrow> WebService \<Rightarrow> InputPack \<Rightarrow> OutputPack \<Rightarrow> WebService \<times> OutputPack result" where
  "WebService_OnRequest hooks w req out =
     (case PreProcessRequest hooks req of
        Some e \<Rightarrow> catch_exception hooks w req out e
      | None \<Rightarrow>
          let w1 = count_general_total w; path = InputPack_GetPath req
          in (case find_handler w1 path of
               Some (i, h) \<Rightarrow>
                 let w2 = count_resource_total path w1
                 in (case h req out of
                       (out', None) \<Rightarrow> finish_request hooks w2 req out'
                     | (out', Some e) \<Rightarrow> catch_exception hooks (count_resource_bad path w2) req out' e)
             | None \<Rightarrow>
                 let w2 = count_general_bad w1
                 in (case OnExceptionResponse hooks req out BadMethod (Runtime_error ''Handler not found.'') of
                       Inl e \<Rightarrow> catch_exception hooks w2 req out e
                     | Inr out' \<Rightarrow> finish_request hooks w2 req out')))"

section \<open>Server\<close>

text \<open>
  The constructor of \<open>Server::Impl\<close>: a parameter whose value is the largest \<open>size_t\<close>
  keeps the session's default.
\<close>

definition default_value :: nat where
  "default_value = 2 ^ 64 - 1"

definition or_default :: "nat \<Rightarrow> nat \<Rightarrow> nat" where
  "or_default v d = (if v \<noteq> default_value then v else d)"

definition Server_params :: "(string \<times> handler) list \<Rightarrow> Method set \<Rightarrow> nat \<Rightarrow> nat \<Rightarrow> nat \<Rightarrow> nat \<Rightarrow> nat \<Rightarrow> session_params" where
  "Server_params hs methods headers_size body_size chunk_size timeout pipeline =
     \<lparr>headersSize = or_default headers_size (headersSize default_params),
      bodySize = or_default body_size (bodySize default_params),
      chunkSize = or_default chunk_size (chunkSize default_params),
      requestTimeout = or_default timeout (requestTimeout default_params),
      pipelineLimit = or_default pipeline (pipelineLimit default_params),
      allowedMethods = methods,
      handlers = hs\<rparr>"

section \<open>Facts\<close>

lemma search_handler_best:
  assumes "best = None \<longrightarrow> n = 0" and "\<forall>i h. best = Some (i, h) \<longrightarrow> slashes i = n \<and> contains path i"
  shows "case search_handler path hs n best of
      None \<Rightarrow> best = None \<and> (\<forall>(i, h) \<in> set hs. contains path i \<longrightarrow> slashes i = 0)
    | Some (i, h) \<Rightarrow> ((i, h) \<in> set hs \<or> best = Some (i, h)) \<and> contains path i \<and> n \<le> slashes i \<and>
        (\<forall>(j, g) \<in> set hs. contains path j \<longrightarrow> slashes j \<le> slashes i)"
  using assms
proof (induction path hs n best rule: search_handler.induct)
  case (1 path n best)
  then show ?case by (auto split: option.splits)
next
  case (2 path i h r n best)
  consider (skip) "\<not> contains path i" | (better) "contains path i" "n < slashes i"
    | (worse) "contains path i" "slashes i \<le> n" by force
  then show ?case
  proof cases
    case skip
    with 2(1) 2(4,5) show ?thesis by (auto split: option.splits)
  next
    case better
    with 2(2) [of "slashes i"] show ?thesis by (fastforce split: option.splits)
  next
    case worse
    with 2(3) [of "slashes i"] 2(4,5) show ?thesis by (fastforce split: option.splits)
  qed
qed

lemma default_hooks_simps [simp]:
  "PreProcessRequest default_hooks req = None"
  "PostProcessResponse default_hooks req out = (out, None)"
  "OnException default_hooks req out e code msg = (out, code, msg)"
  by (simp_all add: default_hooks_def)

lemma default_exception_response:
  "\<not> is_request out \<Longrightarrow> OnExceptionResponse default_hooks req out code e =
     Inr (OutputPack_SetData (out\<lparr>o_status := ConvertCode code\<rparr>) (Some (what e)))"
  by (simp add: OnExceptionResponse_def OutputPack_SetCode_def)

lemma SetData_simps [simp]:
  "o_status (OutputPack_SetData p b) = o_status p" "m_buffer (OutputPack_SetData p b) = b"
  by (simp_all add: OutputPack_SetData_def Let_def split: option.splits list.splits)

lemmas counter_defs = count_general_total_def count_general_bad_def count_resource_total_def
  count_resource_bad_def resource_counter_def

lemma find_handler_counted [simp]: "find_handler (w\<lparr>w_general := g\<rparr>) path = find_handler w path"
  by (simp add: find_handler_def split: option.split)

text \<open>The code and text of the answer to an exception.\<close>

definition exception_code :: "exn \<Rightarrow> Code" where
  "exception_code e = (if is_invalid_argument e then BadRequest else Internal)"

definition exception_text :: "exn \<Rightarrow> string" where
  "exception_text e = (if is_std_exception e then what e else ''Unknown exception.'')"

lemma invalid_argument_std: "is_invalid_argument e \<Longrightarrow> is_std_exception e"
  by (cases e) auto

lemma default_catch:
  assumes "\<not> is_request out" and "e \<noteq> Undefined_behaviour"
  shows "catch_exception default_hooks w req out e = (count_general_bad w,
    Inr (OutputPack_SetData (out\<lparr>o_status := ConvertCode (exception_code e)\<rparr>) (Some (exception_text e))))"
  using assms invalid_argument_std [of e]
  by (auto simp: catch_exception_def default_exception_response exception_code_def exception_text_def)

section \<open>Properties\<close>

text \<open>
  Property C21: the web service always answers. Without overridden functions, a request
  whose handler returns gets the response the handler made; one whose handler throws gets
  status 400 for \<open>std::invalid_argument\<close> and 500 for everything else, with the text of the
  exception as body; one without a handler gets 405. Every request is counted once in the
  general total, and in the general and the resource's count of bad requests exactly when it
  failed.
\<close>

theorem web_service_answers:
  assumes "\<not> is_request out" and "path = InputPack_GetPath req"
    and "\<And>i h. find_handler w path = Some (i, h) \<Longrightarrow> h req out = (out', err)"
    and "\<not> is_request out'" and "err \<noteq> Some Undefined_behaviour"
    and "WebService_OnRequest default_hooks w req out = (w', res)"
  shows "\<exists>r. res = Inr r \<and> total (w_general w') = total (w_general w) + 1 \<and>
    (case find_handler w path of
       None \<Rightarrow> o_status r = 405 \<and> m_buffer r = Some ''Handler not found.'' \<and>
         bad (w_general w') = bad (w_general w) + 1 \<and> w_resources w' = w_resources w
     | Some (i, h) \<Rightarrow>
         total (resource_counter w' path) = total (resource_counter w path) + 1 \<and>
         (case err of
            None \<Rightarrow> r = out' \<and> w_general w' = (w_general w)\<lparr>total := total (w_general w) + 1\<rparr> \<and>
              bad (resource_counter w' path) = bad (resource_counter w path)
          | Some e \<Rightarrow> o_status r = ConvertCode (exception_code e) \<and> m_buffer r = Some (exception_text e) \<and>
              bad (w_general w') = bad (w_general w) + 1 \<and>
              bad (resource_counter w' path) = bad (resource_counter w path) + 1))"
proof (cases "find_handler w path")
  case None
  with assms(1,2,6) show ?thesis
    by (auto simp: WebService_OnRequest_def default_exception_response finish_request_def counter_defs Let_def)
next
  case (Some ih)
  then obtain i h where ih: "ih = (i, h)" by force
  with Some assms(3) have h: "h req out = (out', err)" by simp
  show ?thesis
  proof (cases err)
    case None
    with Some ih h assms(2,6) show ?thesis
      by (auto simp: WebService_OnRequest_def finish_request_def counter_defs Let_def split: option.splits)
  next
    case (Some e)
    with \<open>find_handler w path = Some ih\<close> ih h assms(2,4,5,6) show ?thesis
      by (auto simp: WebService_OnRequest_def default_catch counter_defs Let_def split: option.splits)
  qed
qed

definition sample_service :: WebService where
  "sample_service = AddHandler WebService_new ''/x'' (\<lambda>req out. (out, Some (Invalid_argument ''no'')))"

definition sample_input :: InputPack where
  "sample_input = \<lparr>m_data = sample_request, m_target = \<lparr>m_path = ''/x'', m_query = []\<rparr>\<rparr>"

theorem web_service_answers_witness:
  "\<exists>r. snd (WebService_OnRequest default_hooks sample_service sample_input (OutputPack_new False 8)) = Inr r \<and>
     o_status r = 400 \<and> m_buffer r = Some ''no''"
proof -
  let ?out = "OutputPack_new False 8"
  have p: "''/x'' = InputPack_GetPath sample_input" by (simp add: sample_input_def InputPack_GetPath_def)
  have f: "find_handler sample_service ''/x'' =
      Some (''/x'', \<lambda>req out. (out, Some (Invalid_argument ''no'')))"
    by (simp add: sample_service_def find_handler_def AddHandler_def WebService_new_def)
  have nr: "\<not> is_request ?out" by (simp add: OutputPack_new_def)
  obtain w' res where run: "WebService_OnRequest default_hooks sample_service sample_input ?out = (w', res)" by force
  have h: "h sample_input ?out = (?out, Some (Invalid_argument ''no''))"
    if "find_handler sample_service ''/x'' = Some (i, h)" for i h using that f by auto
  have "\<exists>r. res = Inr r \<and> o_status r = ConvertCode (exception_code (Invalid_argument ''no'')) \<and>
      m_buffer r = Some (exception_text (Invalid_argument ''no''))"
    using web_service_answers [where out = ?out and w = sample_service and req = sample_input and path = "''/x''"
        and out' = ?out and err = "Some (Invalid_argument ''no'')" and w' = w' and res = res] nr p h run f
    by auto
  then show ?thesis using run by (auto simp: exception_code_def exception_text_def)
qed

text \<open>
  Without a handler for the exact path, the service takes one whose registered
  path occurs somewhere in the request's path, and among those one with the most slashes; it
  finds none exactly when no registered path with a slash occurs. The occurrence need not be
  at the beginning: a handler for \<open>/admin\<close> also serves \<open>/public/admin\<close>.
\<close>

lemma web_service_fallback:
  assumes "map_of (w_handlers w) path = None"
  shows "(case find_handler w path of
      None \<Rightarrow> \<forall>(i, h) \<in> set (w_handlers w). contains path i \<longrightarrow> slashes i = 0
    | Some (i, h) \<Rightarrow> (i, h) \<in> set (w_handlers w) \<and> contains path i \<and>
        (\<forall>(j, g) \<in> set (w_handlers w). contains path j \<longrightarrow> slashes j \<le> slashes i)) \<and>
    (\<exists>h. find_handler (AddHandler WebService_new ''/admin'' g) ''/public/admin'' = Some (''/admin'', h) \<and> h = g)"
proof
  show "case find_handler w path of
      None \<Rightarrow> \<forall>(i, h) \<in> set (w_handlers w). contains path i \<longrightarrow> slashes i = 0
    | Some (i, h) \<Rightarrow> (i, h) \<in> set (w_handlers w) \<and> contains path i \<and>
        (\<forall>(j, g) \<in> set (w_handlers w). contains path j \<longrightarrow> slashes j \<le> slashes i)"
    using assms search_handler_best [of None 0 path "w_handlers w"]
    by (auto simp: find_handler_def split: option.splits)
  show "\<exists>h. find_handler (AddHandler WebService_new ''/admin'' g) ''/public/admin'' = Some (''/admin'', h) \<and> h = g"
    by (simp add: find_handler_def AddHandler_def WebService_new_def slashes_def)
qed

lemma web_service_fallback_example:
  "map_of (w_handlers sample_service) ''/a/x'' = None \<and>
   (case find_handler sample_service ''/a/x'' of
      None \<Rightarrow> True | Some (i, h) \<Rightarrow> contains ''/a/x'' i)"
proof -
  have m: "map_of (w_handlers sample_service) ''/a/x'' = None"
    by (simp add: sample_service_def AddHandler_def WebService_new_def)
  from web_service_fallback [OF m, THEN conjunct1] m show ?thesis
    by (cases "find_handler sample_service ''/a/x''") auto
qed

end
