(* ===== verification/Text_Stream.thy ===== *)
theory Text_Stream
  imports Http_Url
begin

text \<open>
  Reading numbers from text as the standard library does: formatted extraction
  (\<open>std::stringstream{s} >> value\<close>) for the integer types and \<open>bool\<close>, and the facts that what
  \<open>std::to_string\<close> prints is read back. The configuration, the XML serialization and the
  database records read their numbers this way.
\<close>

definition isdigit :: "char \<Rightarrow> bool" where
  "isdigit c = (let n = code_of c in 48 \<le> n \<and> n \<le> 57)"

definition digits_value :: "string \<Rightarrow> int" where
  "digits_value ds = foldl (\<lambda>acc c. 10 * acc + int (code_of c - 48)) 0 ds"

text \<open>
  What an extraction sees: white space is skipped, a sign is taken, and the longest run of
  digits is the number; without a digit there is none.
\<close>

definition read_number :: "string \<Rightarrow> (bool \<times> nat) option" where
  "read_number s =
     (let s1 = dropWhile isspace s;
          neg = (s1 \<noteq> [] \<and> hd s1 = CHR ''-'');
          s2 = (if s1 \<noteq> [] \<and> (hd s1 = CHR ''-'' \<or> hd s1 = CHR ''+'') then tl s1 else s1);
          ds = takeWhile isdigit s2
      in if ds = [] then None else Some (neg, nat (digits_value ds)))"

text \<open>
  Into an unsigned type of \<open>w\<close> bits: a failure stores 0, a number that does not fit the
  largest value, and a minus sign negates modulo \<open>2 ^ w\<close>.
\<close>

definition read_unsigned :: "nat \<Rightarrow> string \<Rightarrow> int" where
  "read_unsigned w s =
     (case read_number s of
        None \<Rightarrow> 0
      | Some (neg, n) \<Rightarrow> if 2 ^ w \<le> n then 2 ^ w - 1 else if neg then (- int n) mod 2 ^ w else int n)"

text \<open>Into a signed type: a number that does not fit is replaced by the nearest limit.\<close>

definition read_signed :: "nat \<Rightarrow> string \<Rightarrow> int" where
  "read_signed w s =
     (case read_number s of
        None \<Rightarrow> 0
      | Some (neg, n) \<Rightarrow> if neg then max (- int n) (- (2 ^ (w - 1))) else min (int n) (2 ^ (w - 1) - 1))"

text \<open>Into a \<open>bool\<close>: zero and a failure are false, anything else is true.\<close>

definition read_bool :: "string \<Rightarrow> bool" where
  "read_bool s = (case read_number s of None \<Rightarrow> False | Some (neg, n) \<Rightarrow> n \<noteq> 0)"

text \<open>
  \<open>std::stoi\<close> and \<open>std::stoll\<close>: without a digit \<open>std::invalid_argument\<close>, outside of the type's
  range \<open>std::out_of_range\<close>, which is a \<open>std::logic_error\<close>. What follows the digits is ignored.
\<close>

definition sto_int :: "string \<Rightarrow> nat \<Rightarrow> string \<Rightarrow> int result" where
  "sto_int fn bits s =
     (case read_number s of
        None \<Rightarrow> Inl (Invalid_argument fn)
      | Some (neg, n) \<Rightarrow>
          let v = (if neg then - int n else int n)
          in if v < - (2 ^ (bits - 1)) \<or> 2 ^ (bits - 1) \<le> v then Inl (Logic_error fn) else Inr v)"

section \<open>Facts\<close>

lemma digits_value_snoc: "digits_value (ds @ [c]) = 10 * digits_value ds + int (code_of c - 48)"
  by (simp add: digits_value_def)

lemma digits_value_Nil [simp]: "digits_value [] = 0"
  by (simp add: digits_value_def)

lemma digit_char: "d < 10 \<Longrightarrow> isdigit (char_of (d + 48)) \<and> code_of (char_of (d + 48)) = d + 48"
  for d :: nat
  by (simp add: isdigit_def code_of_def Let_def)

lemma digits_acc_append: "digits_acc n acc = digits_acc n [] @ acc"
proof (induction n arbitrary: acc rule: less_induct)
  case (less n)
  show ?case
  proof (cases "n < 10")
    case True
    then show ?thesis by (simp add: digits_acc.simps)
  next
    case False
    then have lt: "n div 10 < n" by simp
    show ?thesis
      using False less.IH [OF lt, of "char_of (n mod 10 + 48) # acc"] less.IH [OF lt, of "[char_of (n mod 10 + 48)]"]
      by (simp add: digits_acc.simps [of n])
  qed
qed

lemma nat_to_string_unfold: "nat_to_string n =
    (if n < 10 then [char_of (n + 48)] else nat_to_string (n div 10) @ [char_of (n mod 10 + 48)])"
  unfolding nat_to_string_def by (simp add: digits_acc.simps [of n] digits_acc_append [of "n div 10" "[_]"])

lemma nat_to_string_not_Nil [simp]: "nat_to_string n \<noteq> []"
  by (subst nat_to_string_unfold) simp

lemma nat_to_string_digits: "c \<in> set (nat_to_string n) \<Longrightarrow> isdigit c"
proof (induction n rule: less_induct)
  case (less n)
  show ?case
    using less.prems less.IH [of "n div 10"] digit_char [of n] digit_char [of "n mod 10"]
    by (subst (asm) nat_to_string_unfold) (auto split: if_splits)
qed

lemma digits_value_nat_to_string [simp]: "digits_value (nat_to_string n) = int n"
proof (induction n rule: less_induct)
  case (less n)
  show ?case
  proof (cases "n < 10")
    case True
    then show ?thesis
      using digit_char [of n] digits_value_snoc [of "[]" "char_of (n + 48)"]
      by (subst nat_to_string_unfold) simp
  next
    case False
    then have "digits_value (nat_to_string (n div 10)) = int (n div 10)"
      using less.IH by simp
    moreover have "int n = 10 * int (n div 10) + int (n mod 10)"
      by presburger
    ultimately show ?thesis
      using False digit_char [of "n mod 10"]
      by (subst nat_to_string_unfold) (simp add: digits_value_snoc)
  qed
qed

lemma isdigit_not_space: "isdigit c \<Longrightarrow> \<not> isspace c \<and> c \<noteq> CHR ''-'' \<and> c \<noteq> CHR ''+''"
  by (auto simp: isdigit_def isspace_def Let_def code_of_def)

lemma read_number_nat_to_string: "read_number (nat_to_string n) = Some (False, n)"
proof -
  obtain c cs where c: "nat_to_string n = c # cs"
    by (cases "nat_to_string n") auto
  have d: "\<forall>x \<in> set (nat_to_string n). isdigit x"
    using nat_to_string_digits by blast
  then have "isdigit c"
    using c by simp
  then have "dropWhile isspace (nat_to_string n) = nat_to_string n"
    using c isdigit_not_space [of c] by simp
  moreover have "takeWhile isdigit (nat_to_string n) = nat_to_string n"
    using d by (rule takeWhile_eq_all_conv [THEN iffD2])
  ultimately show ?thesis
    using isdigit_not_space [OF \<open>isdigit c\<close>] c digits_value_nat_to_string [of n]
    by (simp add: read_number_def Let_def)
qed

lemma read_number_minus: "read_number (CHR ''-'' # nat_to_string n) = Some (True, n)"
proof -
  have "takeWhile isdigit (nat_to_string n) = nat_to_string n"
    using nat_to_string_digits by (intro takeWhile_eq_all_conv [THEN iffD2]) blast
  then show ?thesis
    by (simp add: read_number_def Let_def isspace_def code_of_def del: takeWhile_eq_all_conv)
qed

lemma nat_to_string_inj: "nat_to_string m = nat_to_string n \<Longrightarrow> m = n"
  by (metis digits_value_nat_to_string nat_int)

lemma int_to_string_inj: "int_to_string i = int_to_string k \<Longrightarrow> i = k"
proof -
  have number: "read_number (int_to_string i) = Some (i < 0, nat \<bar>i\<bar>)" for i
    by (simp add: int_to_string_def read_number_nat_to_string read_number_minus)
  assume "int_to_string i = int_to_string k"
  then have "(i < 0, nat \<bar>i\<bar>) = (k < 0, nat \<bar>k\<bar>)"
    using number [of i] number [of k] by simp
  then show ?thesis by auto
qed

lemma read_signed_int_to_string:
  assumes "- (2 ^ (w - 1)) \<le> i" and "i < 2 ^ (w - 1)"
  shows "read_signed w (int_to_string i) = i"
  using assms by (auto simp: read_signed_def int_to_string_def read_number_nat_to_string read_number_minus)

lemma read_unsigned_int_to_string:
  assumes "0 \<le> i" and "i < 2 ^ w"
  shows "read_unsigned w (int_to_string i) = i"
proof -
  have "\<not> 2 ^ w \<le> nat i"
    using assms by (simp add: le_nat_iff)
  then show ?thesis
    using assms by (simp add: read_unsigned_def int_to_string_def read_number_nat_to_string)
qed

lemma sto_int_int_to_string:
  "sto_int fn bits (int_to_string i) =
     (if - (2 ^ (bits - 1)) \<le> i \<and> i < 2 ^ (bits - 1) then Inr i else Inl (Logic_error fn))"
  by (auto simp: sto_int_def int_to_string_def read_number_nat_to_string read_number_minus Let_def)

lemma sto_int_range: "sto_int fn bits s = Inr i \<Longrightarrow> - (2 ^ (bits - 1)) \<le> i \<and> i < 2 ^ (bits - 1)"
  by (auto simp: sto_int_def Let_def split: option.splits if_splits)

lemma read_unsigned_range: "0 \<le> read_unsigned w s \<and> read_unsigned w s < 2 ^ w"
  by (auto simp: read_unsigned_def nat_less_iff not_le split: option.split)

lemma read_bool_printed [simp]: "read_bool ''1''" "\<not> read_bool ''0''"
  by code_simp+

end
