(* ===== verification/Logging.thy ===== *)
theory Logging
  imports Prelude
begin

text \<open>
  The process-wide log (\<open>common/log.cpp\<close>): one logger that is made once, by an explicit
  initialisation or by the first message, and filters by level. Time stamps, file rotation and
  the sinks themselves belong to Boost.Log.
\<close>

section \<open>Levels\<close>

datatype log_level = Fatal | Error | Warning | Info | Trace

fun level_number :: "log_level \<Rightarrow> nat" where
  "level_number Fatal = 0"
| "level_number Error = 1"
| "level_number Warning = 2"
| "level_number Info = 3"
| "level_number Trace = 4"

definition severity_text :: "nat \<Rightarrow> string" where
  "severity_text level =
     (if level = level_number Fatal then ''FATAL''
      else if level = level_number Error then ''ERROR''
      else if level = level_number Warning then ''WARNING''
      else if level = level_number Info then ''INFO''
      else if level = level_number Trace then ''TRACE''
      else ''UNKNOWN'')"

section \<open>The logger\<close>

text \<open>A file log has its directory, its file pattern and the two sizes in bytes.\<close>

datatype log_sink = Console_sink | File_sink string string nat nat

record logger =
  log_filter :: nat
  log_sink :: log_sink

record log_state =
  m_instance :: "logger option"
  log_records :: "string list"

definition log_init :: log_state where
  "log_init = \<lparr>m_instance = None, log_records = []\<rparr>"

definition console_logger :: "nat \<Rightarrow> logger" where
  "console_logger level = \<lparr>log_filter = level, log_sink = Console_sink\<rparr>"

definition file_logger :: "nat \<Rightarrow> string \<Rightarrow> string \<Rightarrow> nat \<Rightarrow> nat \<Rightarrow> logger" where
  "file_logger level dir pattern max_size max_count =
     \<lparr>log_filter = level,
      log_sink = File_sink dir pattern (max_size * 1024 * 1024 mod 2 ^ 64) (max_count * 1024 * 1024 mod 2 ^ 64)\<rparr>"

definition already_initialized :: exn where
  "already_initialized = Runtime_error ''[Mif::Common::Detail::Logger::Init] Already initialized.''"

definition InitConsoleLogInternal :: "log_state \<Rightarrow> nat \<Rightarrow> log_state \<times> unit result" where
  "InitConsoleLogInternal st level =
     (case m_instance st of
        Some _ \<Rightarrow> (st, Inl already_initialized)
      | None \<Rightarrow> (st\<lparr>m_instance := Some (console_logger level)\<rparr>, Inr ()))"

definition InitConsoleLog :: "log_state \<Rightarrow> nat \<Rightarrow> log_state \<times> unit result" where
  "InitConsoleLog st level = InitConsoleLogInternal st level"

definition InitFileLog :: "log_state \<Rightarrow> nat \<Rightarrow> string \<Rightarrow> string \<Rightarrow> nat \<Rightarrow> nat \<Rightarrow> log_state \<times> unit result" where
  "InitFileLog st level dir pattern max_size max_count =
     (case m_instance st of
        Some _ \<Rightarrow> (st, Inl already_initialized)
      | None \<Rightarrow> (st\<lparr>m_instance := Some (file_logger level dir pattern max_size max_count)\<rparr>, Inr ()))"

text \<open>The instance; a missing one is made for the console, with every level.\<close>

definition Logger_Get :: "log_state \<Rightarrow> log_state \<times> logger result" where
  "Logger_Get st =
     (case m_instance st of
        Some l \<Rightarrow> (st, Inr l)
      | None \<Rightarrow>
          (case InitConsoleLogInternal st (level_number Trace) of
             (st', Inl e) \<Rightarrow> (st', Inl e)
           | (st', Inr _) \<Rightarrow>
               (case m_instance st' of
                  None \<Rightarrow> (st', Inl (Runtime_error ''[Mif::Common::Detail::Logger::Get] Log was not initialized.''))
                | Some l \<Rightarrow> (st', Inr l))))"

definition Logger_PutMessage :: "log_state \<Rightarrow> logger \<Rightarrow> nat \<Rightarrow> string \<Rightarrow> log_state" where
  "Logger_PutMessage st l level message =
     (if level \<le> log_filter l
      then st\<lparr>log_records := log_records st @ ['' ['' @ severity_text level @ '']: '' @ message]\<rparr>
      else st)"

text \<open>
  A statement \<open>MIF_LOG(level) << message\<close>: the destructor of the temporary puts the message;
  an exception there is written to \<open>std::clog\<close> and goes no further.
\<close>

definition MIF_LOG :: "log_level \<Rightarrow> string \<Rightarrow> log_state \<Rightarrow> log_state" where
  "MIF_LOG level message st =
     (case Logger_Get st of
        (st', Inl e) \<Rightarrow> st'
      | (st', Inr l) \<Rightarrow> Logger_PutMessage st' l (level_number level) message)"

section \<open>Facts\<close>

lemma MIF_LOG_instance:
  "m_instance (MIF_LOG level message st) =
     (case m_instance st of None \<Rightarrow> Some (console_logger 4) | Some l \<Rightarrow> Some l)"
  by (simp add: MIF_LOG_def Logger_Get_def InitConsoleLogInternal_def Logger_PutMessage_def split: option.split)

lemma MIF_LOG_records:
  "m_instance st = Some l \<Longrightarrow> log_records (MIF_LOG level message st) =
     log_records st @ (if level_number level \<le> log_filter l
       then ['' ['' @ severity_text (level_number level) @ '']: '' @ message] else [])"
  by (simp add: MIF_LOG_def Logger_Get_def Logger_PutMessage_def)

text \<open>What a client does with the log, and the instance after it.\<close>

datatype log_op = Log_message log_level string | Log_console nat | Log_file nat string string nat nat

fun log_step :: "log_state \<Rightarrow> log_op \<Rightarrow> log_state" where
  "log_step st (Log_message level message) = MIF_LOG level message st"
| "log_step st (Log_console level) = fst (InitConsoleLog st level)"
| "log_step st (Log_file level dir pattern max_size max_count) =
     fst (InitFileLog st level dir pattern max_size max_count)"

interpretation loggers: machine log_step "\<lambda>st. m_instance st = Some l" for l
proof
  show "m_instance (log_step st x) = Some l" if "m_instance st = Some l" for st x
    using that by (cases x) (simp_all add: MIF_LOG_instance InitConsoleLog_def InitConsoleLogInternal_def InitFileLog_def)
qed

section \<open>Properties\<close>

text \<open>
  The first use of the log settles it. After any message or initialisation the
  logger, its level and its sink never change again whatever is done; a message put first makes
  a console logger of level \<open>Trace\<close>, and an \<open>InitFileLog\<close> that comes later throws and changes
  nothing.
\<close>

lemma log_initialised_once:
  "\<exists>l. m_instance (log_step st x) = Some l \<and>
     m_instance (foldl log_step (log_step st x) xs) = Some l \<and>
     (m_instance st = None \<longrightarrow> x = Log_message level message \<longrightarrow> l = console_logger (level_number Trace)) \<and>
     InitFileLog (foldl log_step (log_step st x) xs) n dir pattern max_size max_count =
       (foldl log_step (log_step st x) xs, Inl already_initialized)"
proof -
  obtain l where l: "m_instance (log_step st x) = Some l"
    by (cases x; cases "m_instance st")
      (simp_all add: MIF_LOG_instance InitConsoleLog_def InitConsoleLogInternal_def InitFileLog_def)
  then have run: "m_instance (foldl log_step (log_step st x) xs) = Some l"
    by (rule loggers.run_inv)
  moreover have "l = console_logger (level_number Trace)" if "m_instance st = None" "x = Log_message level message"
    using that l by (simp add: MIF_LOG_instance)
  ultimately show ?thesis
    using l by (auto simp: InitFileLog_def)
qed

lemma log_initialised_once_example:
  "m_instance (foldl log_step (log_step log_init (Log_message Info ''hello'')) [Log_file 2 ''.'' ''a.log'' 1 10]) =
     Some (console_logger 4)"
  using log_initialised_once [of log_init "Log_message Info ''hello''" "[Log_file 2 ''.'' ''a.log'' 1 10]" Info "''hello''"]
  by (auto simp: log_init_def)

end
