(* ===== verification/Http_Server.thy ===== *)
theory Http_Server
  imports Http_WebService Text_Stream Logging
begin

text \<open>
  The HTTP server (\<open>net/http/server.cpp\<close>): the listener that opens the acceptor and starts a
  session for every connection, and the server that reads its address and runs the event loop on
  several threads. The calls of Boost that open the acceptor and parse the host are arguments;
  the sessions are those of \<open>Http_Session\<close>. The destructor only stops and joins the threads.
\<close>

section \<open>Listener\<close>

text \<open>
  The four steps of the constructor: each may fail with the message of an error code, and the
  first failure is thrown.
\<close>

record acceptor_errors =
  open_error :: "string option"
  reuse_error :: "string option"
  bind_error :: "string option"
  listen_error :: "string option"

definition listener_error :: "string \<Rightarrow> string \<Rightarrow> exn" where
  "listener_error action m = Runtime_error (''[Mif::Net::Http::Listener] '' @ ''Failed to '' @ action @ ''. Error: '' @ m)"

definition Listener_new :: "acceptor_errors \<Rightarrow> unit result" where
  "Listener_new ec =
     (case open_error ec of Some m \<Rightarrow> Inl (listener_error ''open acceptor'' m) | None \<Rightarrow>
     (case reuse_error ec of Some m \<Rightarrow> Inl (listener_error ''reuse address'' m) | None \<Rightarrow>
     (case bind_error ec of Some m \<Rightarrow> Inl (listener_error ''bind socket'' m) | None \<Rightarrow>
     (case listen_error ec of Some m \<Rightarrow> Inl (listener_error ''start listening to socket'' m) | None \<Rightarrow> Inr ()))))"

text \<open>
  The state of a server: the port it listens on, the parameters of its sessions, the number of
  threads, whether an accept is pending, and the sessions started so far.
\<close>

record http_server =
  v_port :: int
  v_params :: session_params
  v_threads :: nat
  v_accepting :: bool
  v_sessions :: "http_session list"
  v_log :: log_state

definition Listener_Accept :: "http_server \<Rightarrow> http_server" where
  "Listener_Accept v = v\<lparr>v_accepting := True\<rparr>"

definition Listener_OnAccept :: "string option \<Rightarrow> http_server \<Rightarrow> http_server" where
  "Listener_OnAccept failed v =
     Listener_Accept
       (case failed of
          Some m \<Rightarrow> v\<lparr>v_log := MIF_LOG Error (''[Mif::Net::Http::Listener::OnAccept] '' @
                       ''Failed to accept connection. Error: '' @ m) (v_log v)\<rparr>
        | None \<Rightarrow> v\<lparr>v_sessions := v_sessions v @ [Session_Run (v_params v)]\<rparr>)"

section \<open>Server\<close>

text \<open>
  The port is read as an \<open>int\<close> and cast to 16 bits. The host is parsed before it, and the
  listener is opened after both.
\<close>

definition read_port :: "string \<Rightarrow> int result" where
  "read_port port = map_sum id (take_bit 16) (sto_int ''stoi'' 32 port)"

definition Http_Server_new :: "unit result \<Rightarrow> acceptor_errors \<Rightarrow> string \<Rightarrow> 16 word \<Rightarrow> session_params \<Rightarrow> log_state \<Rightarrow> http_server result" where
  "Http_Server_new address ec port workers params log =
     (case address of Inl e \<Rightarrow> Inl e | Inr _ \<Rightarrow>
     (case read_port port of Inl e \<Rightarrow> Inl e | Inr p \<Rightarrow>
     (case Listener_new ec of Inl e \<Rightarrow> Inl e | Inr _ \<Rightarrow>
        Inr (Listener_Accept \<lparr>v_port = p, v_params = params, v_threads = max 1 (unat workers) + 1, v_accepting = False,
          v_sessions = [], v_log = log\<rparr>))))"

text \<open>
  Events: an accept completes, or an operation of a session does. The sessions do not share
  anything with each other or with the listener.
\<close>

datatype server_event = Accepted "string option" | Session_event nat session_event

fun server_step :: "http_server \<Rightarrow> server_event \<Rightarrow> http_server" where
  "server_step v (Accepted failed) =
     (if v_accepting v then Listener_OnAccept failed (v\<lparr>v_accepting := False\<rparr>) else v)"
| "server_step v (Session_event i e) =
     (if i < length (v_sessions v)
      then v\<lparr>v_sessions := (v_sessions v)[i := session_step (v_params v) (v_sessions v ! i) e]\<rparr> else v)"

section \<open>Facts\<close>

text \<open>The events of session \<open>i\<close>, when \<open>n\<close> sessions have been started.\<close>

fun own_events :: "nat \<Rightarrow> nat \<Rightarrow> server_event list \<Rightarrow> session_event list" where
  "own_events i n [] = []"
| "own_events i n (Accepted failed # es) = own_events i (if failed = None then Suc n else n) es"
| "own_events i n (Session_event j e # es) =
     (if j = i \<and> i < n then e # own_events i n es else own_events i n es)"

lemma accept_simps:
  "v_accepting v \<Longrightarrow> server_step v (Accepted None) =
     v\<lparr>v_accepting := True, v_sessions := v_sessions v @ [Session_Run (v_params v)]\<rparr>"
  "v_accepting v \<Longrightarrow> \<exists>log. server_step v (Accepted (Some m)) = v\<lparr>v_accepting := True, v_log := log\<rparr>"
  by (simp_all add: Listener_OnAccept_def Listener_Accept_def) (cases v, auto)

lemma server_run:
  assumes "v_accepting v" and "v' = foldl server_step v es" and "n = length (v_sessions v)"
  shows "v_accepting v' \<and> v_params v' = v_params v \<and>
    length (v_sessions v') = n + length (filter (\<lambda>e. e = Accepted None) es) \<and>
    (\<forall>i < length (v_sessions v'). v_sessions v' ! i =
       foldl (session_step (v_params v)) (if i < n then v_sessions v ! i else Session_Run (v_params v)) (own_events i n es))"
  using assms
proof (induction es arbitrary: v n)
  case Nil
  then show ?case by simp
next
  case (Cons e es)
  show ?case
  proof (cases e)
    case (Accepted failed)
    show ?thesis
    proof (cases failed)
      case None
      define w where "w = v\<lparr>v_accepting := True, v_sessions := v_sessions v @ [Session_Run (v_params v)]\<rparr>"
      have step: "v' = foldl server_step w es"
        using accept_simps(1) [OF Cons.prems(1)] Cons.prems(2) Accepted None w_def by simp
      have w: "v_accepting w" "Suc n = length (v_sessions w)" "v_params w = v_params v"
        using Cons.prems(3) by (simp_all add: w_def)
      have start: "(if i < Suc n then v_sessions w ! i else Session_Run (v_params v)) =
          (if i < n then v_sessions v ! i else Session_Run (v_params v))" for i
        using Cons.prems(3) by (auto simp: w_def nth_append less_Suc_eq)
      show ?thesis
        using Cons.IH [OF w(1) step w(2)] unfolding w(3) start by (simp add: Accepted None)
    next
      case (Some m)
      then obtain log where "server_step v e = v\<lparr>v_accepting := True, v_log := log\<rparr>"
        using accept_simps(2) [OF Cons.prems(1)] Accepted by blast
      then show ?thesis
        using Cons.IH [of "v\<lparr>v_accepting := True, v_log := log\<rparr>" n] Cons.prems Accepted Some by simp
    qed
  next
    case (Session_event j x)
    let ?v = "v\<lparr>v_sessions := (v_sessions v)[j := session_step (v_params v) (v_sessions v ! j) x]\<rparr>"
    show ?thesis
      using Cons.IH [of ?v n] Cons.IH [of v n] Cons.prems Session_event
      by (cases "j < n") (auto simp: nth_list_update)
  qed
qed

lemma Http_Server_new_Inr:
  "Http_Server_new address ec port workers params log = Inr v \<Longrightarrow>
     v_accepting v \<and> v_params v = params \<and> v_sessions v = [] \<and> v_threads v = max 1 (unat workers) + 1 \<and> read_port port = Inr (v_port v)"
  by (auto simp: Http_Server_new_def Listener_Accept_def split: sum.splits)

text \<open>
  A port is used modulo 65536, and text after the digits is ignored.
\<close>

lemma server_port_wraps:
  assumes "- (2 ^ 31) \<le> i" and "i < 2 ^ 31"
  shows "read_port (int_to_string i) = Inr (i mod 65536)"
  using assms by (simp add: read_port_def sto_int_int_to_string take_bit_eq_mod)

section \<open>Properties\<close>


definition no_errors :: acceptor_errors where
  "no_errors = \<lparr>open_error = None, reuse_error = None, bind_error = None, listen_error = None\<rparr>"


end
