(* ===== verification/Reflection.thy ===== *)
theory Reflection
  imports Prelude
begin

text \<open>
  Reflected classes and enumerations (\<open>reflection/reflection.h\<close>,
  \<open>reflection/reflect_type.h\<close>). The registration macros give a type its name, the list of
  its bases and the list of its fields, numbered in the order of the \<open>MIF_REFLECT_FIELD\<close>
  lines; the fields of an enumeration are its values.
\<close>

section \<open>Meta-information\<close>

text \<open>
  What \<open>MIF_REFLECT_BEGIN\<close>, \<open>MIF_REFLECT_FIELD\<close> and \<open>MIF_REFLECT_END\<close> declare: the name, the
  base types and, for every field, its name and what \<open>Access()\<close> gives.
\<close>

record ('b, 'a) meta_info =
  type_name :: string
  base_types :: "'b list"
  field_infos :: "(string \<times> 'a) list"

definition MIF_REFLECT_BEGIN :: "string \<Rightarrow> 'b list \<Rightarrow> ('b, 'a) meta_info" where
  "MIF_REFLECT_BEGIN ty bases = \<lparr>type_name = ty, base_types = bases, field_infos = []\<rparr>"

definition MIF_REFLECT_FIELD :: "string \<Rightarrow> 'a \<Rightarrow> ('b, 'a) meta_info \<Rightarrow> ('b, 'a) meta_info" where
  "MIF_REFLECT_FIELD n access mi = mi\<lparr>field_infos := field_infos mi @ [(n, access)]\<rparr>"

text \<open>\<open>FieldsList::Count\<close>, \<open>FieldsList::Field\<close> and \<open>FieldIndex::Get\<close>.\<close>

definition FieldsCount :: "('b, 'a) meta_info \<Rightarrow> nat" where
  "FieldsCount mi = length (field_infos mi)"

definition Field :: "('b, 'a) meta_info \<Rightarrow> nat \<Rightarrow> string \<times> 'a" where
  "Field mi i = field_infos mi ! i"

fun position :: "'a \<Rightarrow> (string \<times> 'a) list \<Rightarrow> nat" where
  "position a [] = 0"
| "position a ((n, b) # fs) = (if a = b then 0 else Suc (position a fs))"

definition FieldIndex_Get :: "('b, 'a) meta_info \<Rightarrow> 'a \<Rightarrow> nat" where
  "FieldIndex_Get mi access = position access (field_infos mi)"

definition MIF_FIELD_META :: "('b, 'a) meta_info \<Rightarrow> 'a \<Rightarrow> string \<times> 'a" where
  "MIF_FIELD_META mi access = Field mi (FieldIndex_Get mi access)"

section \<open>Names of enumeration values\<close>

text \<open>
  An enumeration's items and a recursion from the last item to the first. The values are
  those of the underlying type.
\<close>

fun EnumValueToString :: "(unit, int) meta_info \<Rightarrow> nat \<Rightarrow> int \<Rightarrow> string result" where
  "EnumValueToString items 0 v =
     Inl (Invalid_argument (''[Mif::Reflection::Detail::EnumValueToString] Failed to get name for enum value '' @
       dquote @ int_to_string v @ dquote))"
| "EnumValueToString items (Suc Index) v =
     (let Item = Field items Index
      in if snd Item = v then Inr (fst Item) else EnumValueToString items Index v)"

fun StringToEnumValue :: "(unit, int) meta_info \<Rightarrow> nat \<Rightarrow> string \<Rightarrow> int result" where
  "StringToEnumValue items 0 str =
     Inl (Invalid_argument (''[Mif::Reflection::Detail::StringToEnumValue] Failed to get value from string '' @
       dquote @ str @ dquote @ ''.''))"
| "StringToEnumValue items (Suc Index) str =
     (let Item = Field items Index
      in if str = fst Item then Inr (snd Item) else StringToEnumValue items Index str)"

definition Enum_ToString :: "(unit, int) meta_info \<Rightarrow> int \<Rightarrow> string result" where
  "Enum_ToString items v = EnumValueToString items (FieldsCount items) v"

definition Enum_FromString :: "(unit, int) meta_info \<Rightarrow> string \<Rightarrow> int result" where
  "Enum_FromString items str = StringToEnumValue items (FieldsCount items) str"

section \<open>Facts\<close>

lemma position_finds: "a \<in> snd ` set fs \<longleftrightarrow> position a fs < length fs"
  by (induction fs) force+

lemma position_at: "position a fs < length fs \<Longrightarrow> snd (fs ! position a fs) = a"
  by (induction fs) force+

lemma EnumValueToString_error: "EnumValueToString its n v = Inl e \<Longrightarrow> is_std_exception e"
  by (induction n) (auto simp: Let_def split: if_splits)

lemma Enum_ToString_error: "Enum_ToString its v = Inl e \<Longrightarrow> is_std_exception e"
  unfolding Enum_ToString_def by (rule EnumValueToString_error)

lemma EnumValueToString_spec:
  assumes "k \<le> length (field_infos items)"
  shows "EnumValueToString items k v = Inr n \<Longrightarrow> (n, v) \<in> set (take k (field_infos items))"
    and "v \<in> snd ` set (take k (field_infos items)) \<Longrightarrow> \<exists>n. EnumValueToString items k v = Inr n"
    and "v \<notin> snd ` set (take k (field_infos items)) \<Longrightarrow> isl (EnumValueToString items k v)"
  using assms
  by (induction k) (auto simp: Field_def Let_def take_Suc_conv_app_nth split: if_splits)

lemma StringToEnumValue_spec:
  assumes "k \<le> length (field_infos items)"
  shows "StringToEnumValue items k n = Inr v \<Longrightarrow> (n, v) \<in> set (take k (field_infos items))"
    and "n \<in> fst ` set (take k (field_infos items)) \<Longrightarrow> \<exists>v. StringToEnumValue items k n = Inr v"
    and "n \<notin> fst ` set (take k (field_infos items)) \<Longrightarrow> isl (StringToEnumValue items k n)"
  using assms
  by (induction k) (auto simp: Field_def Let_def take_Suc_conv_app_nth split: if_splits)

lemmas Enum_ToString_spec =
  EnumValueToString_spec [of "FieldsCount items" items for items,
    folded Enum_ToString_def, unfolded FieldsCount_def, simplified]

lemmas Enum_FromString_spec =
  StringToEnumValue_spec [of "FieldsCount items" items for items,
    folded Enum_FromString_def, unfolded FieldsCount_def, simplified]

lemma Enum_FromString_ToString:
  assumes "distinct (map fst (field_infos items))" and "Enum_ToString items v = Inr n"
  shows "Enum_FromString items n = Inr v"
proof -
  have nv: "(n, v) \<in> set (field_infos items)"
    using assms(2) by (rule Enum_ToString_spec)
  then obtain w where w: "Enum_FromString items n = Inr w"
    using Enum_FromString_spec(2) [of n items] by force
  then have "(n, w) \<in> set (field_infos items)"
    by (rule Enum_FromString_spec)
  then show ?thesis
    using w nv assms(1) by (auto dest: eq_key_imp_eq_value)
qed

interpretation enum_names: codec "\<lambda>v. projr (Enum_ToString its v)" "Enum_FromString its"
    "\<lambda>v. distinct (map fst (field_infos its)) \<and> v \<in> snd ` set (field_infos its)" for its
proof
  fix v
  assume v: "distinct (map fst (field_infos its)) \<and> v \<in> snd ` set (field_infos its)"
  then obtain n where "Enum_ToString its v = Inr n"
    using Enum_ToString_spec(2) [of v its] by auto
  then show "Enum_FromString its (projr (Enum_ToString its v)) = Inr v"
    using v Enum_FromString_ToString by simp
qed

text \<open>
  A reflected enumeration with distinct item names: every value that has an item
  is printed as the name of such an item and read back to the same value, whatever aliases it
  has; a value without an item and a text that is no item's name are refused. The meta field
  found through a field's own access is that field.
\<close>

lemma enum_names_roundtrip:
  assumes "distinct (map fst (field_infos items))"
  shows "(v \<in> snd ` set (field_infos items) \<longleftrightarrow>
           (\<exists>n. Enum_ToString items v = Inr n \<and> (n, v) \<in> set (field_infos items) \<and>
             Enum_FromString items n = Inr v))
       \<and> (isl (Enum_ToString items v) \<longleftrightarrow> v \<notin> snd ` set (field_infos items))
       \<and> (isl (Enum_FromString items s) \<longleftrightarrow> s \<notin> fst ` set (field_infos items))
       \<and> (a \<in> snd ` set (field_infos items) \<longleftrightarrow>
           FieldIndex_Get items a < FieldsCount items \<and> snd (MIF_FIELD_META items a) = a)"
proof -
  have 1: "v \<in> snd ` set (field_infos items) \<longleftrightarrow>
      (\<exists>n. Enum_ToString items v = Inr n \<and> (n, v) \<in> set (field_infos items) \<and>
        Enum_FromString items n = Inr v)"
    using Enum_ToString_spec(1) [of items v] Enum_ToString_spec(2) [of v items] Enum_FromString_ToString [OF assms] by force
  have 2: "isl (Enum_ToString items v) \<longleftrightarrow> v \<notin> snd ` set (field_infos items)"
    using Enum_ToString_spec(2,3) [of v items] by force
  have 3: "isl (Enum_FromString items s) \<longleftrightarrow> s \<notin> fst ` set (field_infos items)"
    using Enum_FromString_spec(2,3) [of s items] by force
  have 4: "a \<in> snd ` set (field_infos items) \<longleftrightarrow>
      FieldIndex_Get items a < FieldsCount items \<and> snd (MIF_FIELD_META items a) = a"
    unfolding position_finds FieldIndex_Get_def FieldsCount_def MIF_FIELD_META_def Field_def
    using position_at [of a "field_infos items"] by blast
  show ?thesis
    using 1 2 3 4 by blast
qed

definition sample_enum :: "(unit, int) meta_info" where
  "sample_enum = MIF_REFLECT_FIELD ''Default'' 1 (MIF_REFLECT_FIELD ''Second'' 2
     (MIF_REFLECT_FIELD ''First'' 1 (MIF_REFLECT_BEGIN ''Order'' [])))"

lemma enum_names_roundtrip_example:
  "Enum_ToString sample_enum 1 = Inr ''Default'' \<and> Enum_FromString sample_enum ''Default'' = Inr 1 \<and>
   isl (Enum_ToString sample_enum 7) \<and> isl (Enum_FromString sample_enum ''Third'') \<and>
   snd (MIF_FIELD_META sample_enum 2) = 2"
  using enum_names_roundtrip [of sample_enum 1 "''Third''" 2] enum_names_roundtrip [of sample_enum 7 "''First''" 2]
  by (simp add: sample_enum_def MIF_REFLECT_FIELD_def MIF_REFLECT_BEGIN_def Enum_ToString_def
      Enum_FromString_def FieldsCount_def Field_def eval_nat_numeral)

end
