(* ===== verification/Json_Value.thy ===== *)
theory Json_Value
  imports Prelude
begin

text \<open>
  JSON documents as Boost.JSON represents them, the operations on them that the framework
  uses, and what printing and parsing a document again gives. The configuration and the
  serialization work on these documents.
\<close>

section \<open>Documents\<close>

datatype 'd json = Null | Bool bool | Int64 int | Uint64 nat | Double 'd | String string
  | Array "'d json list" | Object "(string \<times> 'd json) list"

fun if_object :: "'d json \<Rightarrow> (string \<times> 'd json) list option" where
  "if_object (Object kvs) = Some kvs"
| "if_object _ = None"

text \<open>The other accessors, and \<open>operator[]\<close> of an object with an assignment to the element.\<close>

fun if_array :: "'d json \<Rightarrow> 'd json list option" where
  "if_array (Array xs) = Some xs"
| "if_array _ = None"

fun if_string :: "'d json \<Rightarrow> string option" where
  "if_string (String s) = Some s"
| "if_string _ = None"

fun object_put :: "(string \<times> 'd json) list \<Rightarrow> string \<Rightarrow> 'd json \<Rightarrow> (string \<times> 'd json) list" where
  "object_put [] k j = [(k, j)]"
| "object_put ((k', j') # kvs) k j =
     (if k' = k then (k, j) # kvs else (k', j') # object_put kvs k j)"

text \<open>
  A document after it was printed and parsed: the text of a number does not tell an unsigned
  from a signed one, and the parser prefers the signed kind when the number fits.
\<close>

fun reparsed :: "'d json \<Rightarrow> 'd json" where
  "reparsed (Uint64 n) = (if n < 2 ^ 63 then Int64 (int n) else Uint64 n)"
| "reparsed (Array xs) = Array (map reparsed xs)"
| "reparsed (Object kvs) = Object (map (\<lambda>(k, j). (k, reparsed j)) kvs)"
| "reparsed Null = Null"
| "reparsed (Bool b) = Bool b"
| "reparsed (Int64 i) = Int64 i"
| "reparsed (Double d) = Double d"
| "reparsed (String s) = String s"

lemma map_of_object_put [simp]: "map_of (object_put kvs k j) = (map_of kvs)(k \<mapsto> j)"
  by (induction kvs k j rule: object_put.induct) auto

lemma map_of_map_snd: "map_of (map (\<lambda>(k, j). (k, f j)) kvs) k = map_option f (map_of kvs k)"
  by (induction kvs) auto

lemma reparsed_eq_Null_iff [simp]: "reparsed j = Null \<longleftrightarrow> j = Null"
  by (cases j) auto

lemma reparsed_Object [simp]: "if_object (reparsed j) =
    map_option (map (\<lambda>(k, j). (k, reparsed j))) (if_object j)"
  by (cases j) auto

end
