(* ===== verification/Serialization_Json.thy ===== *)
theory Serialization_Json
  imports Reflection Json_Value Meta Http_Url
begin

text \<open>
  Type-directed conversion between C++ values and JSON documents (\<open>serialization/json.h\<close>,
  \<open>serialization/traits.h\<close>). The overloads of \<open>ValueToJson\<close> and \<open>JsonToValue\<close> are selected
  by the static type; here the type is an argument and every overload is an equation. Reading
  assigns to an existing object, which is an argument too: a null document leaves a pointer
  as it is.

  Arguments of the model (\<open>json_env\<close>): the conversions of floating-point numbers, the order of
  the elements of \<open>std::set\<close> and \<open>std::map\<close>, the default constructors of the program's types,
  and what the checked accesses of Boost.JSON throw.
\<close>

section \<open>Types and values\<close>

datatype simple_type = Bool_t | Int8_t | Int16_t | Int32_t | Int64_t
  | Uint8_t | Uint16_t | Uint32_t | Uint64_t | Double_t | String_t

text \<open>
  The types the traits distinguish: simple ones, enumerations without and with reflection, a
  reflected class with its bases and fields, smart pointers, optionals, sequences, sequences of
  \<open>char\<close>, sets, maps, pairs, tuples and \<open>std::array\<close>.
\<close>

datatype ty = Simple simple_type | Enum simple_type | ReflectedEnum "(unit, int) meta_info"
  | Reflected "(string \<times> ty) list" "(string \<times> ty) list" | SmartPointer ty | Optional ty
  | Sequence ty | Chars | StdSet ty | StdMap ty ty | Pair ty ty | Tuple "ty list" | StdArray nat ty

text \<open>
  Values: numbers, text, a class object (its base parts and its fields), an empty or a set
  pointer or optional, the elements of a container or tuple, a pair.
\<close>

datatype 'd val = V_bool (the_bool: bool) | V_int (the_int: int) | V_double (the_double: 'd)
  | V_string (the_string: string) | V_object (base_parts: "'d val list") (members: "'d val list")
  | V_null | V_some (pointee: "'d val") | V_list (items: "'d val list")
  | V_pair (pair_first: "'d val") (pair_second: "'d val")

record 'd json_env =
  double_to_string :: "'d \<Rightarrow> string"
  int_to_double :: "int \<Rightarrow> 'd"
  less_val :: "'d val \<Rightarrow> 'd val \<Rightarrow> bool"
  default_val :: "ty \<Rightarrow> 'd val"
  at_error :: exn

section \<open>Writing\<close>

text \<open>\<open>boost::json::value_from\<close> of a simple value: the kind follows the type.\<close>

fun simple_to_json :: "simple_type \<Rightarrow> 'd val \<Rightarrow> 'd json" where
  "simple_to_json Bool_t v = Bool (the_bool v)"
| "simple_to_json Int8_t v = Int64 (the_int v)"
| "simple_to_json Int16_t v = Int64 (the_int v)"
| "simple_to_json Int32_t v = Int64 (the_int v)"
| "simple_to_json Int64_t v = Int64 (the_int v)"
| "simple_to_json Uint8_t v = Uint64 (nat (the_int v))"
| "simple_to_json Uint16_t v = Uint64 (nat (the_int v))"
| "simple_to_json Uint32_t v = Uint64 (nat (the_int v))"
| "simple_to_json Uint64_t v = Uint64 (nat (the_int v))"
| "simple_to_json Double_t v = Double (the_double v)"
| "simple_to_json String_t v = String (the_string v)"

text \<open>
  A sequence of \<open>char\<close>: every character, converted to \<open>int\<close>, in hexadecimal with at least two
  digits and a blank behind it. A negative \<open>int\<close> is printed as the unsigned number of its 32
  bits.
\<close>

fun hex_acc :: "nat \<Rightarrow> string \<Rightarrow> string" where
  "hex_acc n acc =
     (let d = char_of (if n mod 16 < 10 then n mod 16 + 48 else n mod 16 + 87)
      in if n < 16 then d # acc else hex_acc (n div 16) (d # acc))"

declare hex_acc.simps [simp del]

definition char_to_int :: "char \<Rightarrow> int" where
  "char_to_int c = signed_take_bit 7 (of_char c)"

definition hex_item :: "char \<Rightarrow> string" where
  "hex_item c = (let s = hex_acc (nat (take_bit 32 (char_to_int c))) []
     in (if length s < 2 then CHR ''0'' # s else s) @ '' '')"

text \<open>
  The bodies of the overloads over the writers of the parts. \<open>Serializer<I>\<close> and
  \<open>BasesSerializer<TBases, I>\<close> first recurse to \<open>I - 1\<close>, so the members are put in order.
\<close>

type_synonym 'd writer = "'d val \<Rightarrow> 'd json result"

fun Serialize_members :: "(string \<times> 'd writer) list \<Rightarrow> 'd val list \<Rightarrow> (string \<times> 'd json) list \<Rightarrow>
    (string \<times> 'd json) list result" where
  "Serialize_members [] vs root = Inr root"
| "Serialize_members ((n, f) # ms) vs root =
     (case f (hd vs) of
        Inl e \<Rightarrow> Inl e
      | Inr j \<Rightarrow> Serialize_members ms (tl vs) (object_put root n j))"

definition ObjectToJson :: "(string \<times> 'd writer) list \<Rightarrow> (string \<times> 'd writer) list \<Rightarrow> 'd writer" where
  "ObjectToJson bs fs v =
     (case Serialize_members bs (base_parts v) [] of
        Inl e \<Rightarrow> Inl e
      | Inr root \<Rightarrow>
          (case Serialize_members fs (members v) root of Inl e \<Rightarrow> Inl e | Inr r \<Rightarrow> Inr (Object r)))"

fun TupleToJson :: "'d writer list \<Rightarrow> 'd val list \<Rightarrow> 'd json list result" where
  "TupleToJson [] vs = Inr []"
| "TupleToJson (f # fs) vs =
     (case f (hd vs) of
        Inl e \<Rightarrow> Inl e
      | Inr j \<Rightarrow> (case TupleToJson fs (tl vs) of Inl e \<Rightarrow> Inl e | Inr r \<Rightarrow> Inr (j # r)))"

fun ArrayToJson :: "'d writer \<Rightarrow> 'd val list \<Rightarrow> 'd json list result" where
  "ArrayToJson f [] = Inr []"
| "ArrayToJson f (v # vs) =
     (case f v of
        Inl e \<Rightarrow> Inl e
      | Inr j \<Rightarrow> (case ArrayToJson f vs of Inl e \<Rightarrow> Inl e | Inr r \<Rightarrow> Inr (j # r)))"

definition PairToJson :: "'d writer \<Rightarrow> 'd writer \<Rightarrow> 'd writer" where
  "PairToJson f g v =
     (case f (pair_first v) of
        Inl e \<Rightarrow> Inl e
      | Inr j \<Rightarrow>
          (case g (pair_second v) of
             Inl e \<Rightarrow> Inl e
           | Inr k \<Rightarrow> Inr (Object (object_put (object_put [] ''id'' j) ''val'' k))))"

fun PointerToJson :: "'d writer \<Rightarrow> 'd writer" where
  "PointerToJson f (V_some w) = f w"
| "PointerToJson f _ = Inr Null"

definition CharsToJson :: "'d writer" where
  "CharsToJson v = Inr (Array [String (concat (map hex_item (the_string v)))])"

primrec ValueToJson :: "ty \<Rightarrow> 'd writer" where
  "ValueToJson (Simple s) = (\<lambda>v. Inr (simple_to_json s v))"
| "ValueToJson (Enum s) = (\<lambda>v. Inr (simple_to_json s v))"
| "ValueToJson (ReflectedEnum its) = (\<lambda>v. map_sum id String (Enum_ToString its (the_int v)))"
| "ValueToJson (Reflected bs fs) =
     ObjectToJson (map (map_prod id ValueToJson) bs) (map (map_prod id ValueToJson) fs)"
| "ValueToJson (SmartPointer t) = PointerToJson (ValueToJson t)"
| "ValueToJson (Optional t) = PointerToJson (ValueToJson t)"
| "ValueToJson (Sequence t) = (\<lambda>v. map_sum id Array (ArrayToJson (ValueToJson t) (items v)))"
| "ValueToJson Chars = CharsToJson"
| "ValueToJson (StdSet t) = (\<lambda>v. map_sum id Array (ArrayToJson (ValueToJson t) (items v)))"
| "ValueToJson (StdMap k t) =
     (\<lambda>v. map_sum id Array (ArrayToJson (PairToJson (ValueToJson k) (ValueToJson t)) (items v)))"
| "ValueToJson (Pair t u) = PairToJson (ValueToJson t) (ValueToJson u)"
| "ValueToJson (Tuple ts) = (\<lambda>v. map_sum id Array (TupleToJson (map ValueToJson ts) (items v)))"
| "ValueToJson (StdArray n t) = (\<lambda>v. map_sum id Array (ArrayToJson (ValueToJson t) (items v)))"

section \<open>Reading\<close>

text \<open>
  \<open>JsonValueConverter\<close>: one specialisation per simple type. The conversions to the narrow
  types wrap around; those to 16 and 8 bits go through \<open>std::int32_t\<close>.
\<close>

definition convert_error :: "string \<Rightarrow> exn" where
  "convert_error t =
     Invalid_argument (''[Mif::Serialization::Json::Detail::JsonValueConverter::Convert] '' @
       ''Failed to convert to '' @ t @ ''.'')"

fun Convert_string :: "'d json_env \<Rightarrow> 'd json \<Rightarrow> string result" where
  "Convert_string env (Bool b) = Inr (if b then ''1'' else ''0'')"
| "Convert_string env (Double d) = Inr (double_to_string env d)"
| "Convert_string env (Int64 i) = Inr (int_to_string i)"
| "Convert_string env (String s) = Inr (c_str s)"
| "Convert_string env (Uint64 n) = Inr (nat_to_string n)"
| "Convert_string env _ = Inl (convert_error ''string'')"

fun Convert_double :: "'d json_env \<Rightarrow> 'd json \<Rightarrow> 'd result" where
  "Convert_double env (Double d) = Inr d"
| "Convert_double env (Int64 i) = Inr (int_to_double env i)"
| "Convert_double env (Uint64 n) = Inr (int_to_double env (int n))"
| "Convert_double env _ = Inl (convert_error ''double'')"

fun Convert_bool :: "'d json \<Rightarrow> bool result" where
  "Convert_bool (Bool b) = Inr b"
| "Convert_bool (Int64 i) = Inr (i \<noteq> 0)"
| "Convert_bool (Uint64 n) = Inr (n \<noteq> 0)"
| "Convert_bool _ = Inl (convert_error ''bool'')"

fun Convert_int64 :: "'d json \<Rightarrow> int result" where
  "Convert_int64 (Int64 i) = Inr i"
| "Convert_int64 _ = Inl (convert_error ''int64'')"

fun Convert_uint64 :: "'d json \<Rightarrow> int result" where
  "Convert_uint64 (Uint64 n) = Inr (int n)"
| "Convert_uint64 (Int64 i) = Inr (take_bit 64 i)"
| "Convert_uint64 _ = Inl (convert_error ''uint64'')"

fun Convert_int32 :: "'d json \<Rightarrow> int result" where
  "Convert_int32 (Int64 i) = Inr (signed_take_bit 31 i)"
| "Convert_int32 _ = Inl (convert_error ''int32'')"

fun Convert_uint32 :: "'d json \<Rightarrow> int result" where
  "Convert_uint32 (Uint64 n) = Inr (take_bit 32 (int n))"
| "Convert_uint32 (Int64 i) = Inr (take_bit 32 i)"
| "Convert_uint32 _ = Inl (convert_error ''uint32'')"

definition Convert_int16 :: "'d json \<Rightarrow> int result" where
  "Convert_int16 j = map_sum id (signed_take_bit 15) (Convert_int32 j)"

definition Convert_uint16 :: "'d json \<Rightarrow> int result" where
  "Convert_uint16 j = map_sum id (take_bit 16) (Convert_int32 j)"

definition Convert_int8 :: "'d json \<Rightarrow> int result" where
  "Convert_int8 j = map_sum id (signed_take_bit 7) (Convert_int32 j)"

definition Convert_uint8 :: "'d json \<Rightarrow> int result" where
  "Convert_uint8 j = map_sum id (take_bit 8) (Convert_int32 j)"

fun Convert :: "'d json_env \<Rightarrow> simple_type \<Rightarrow> 'd json \<Rightarrow> 'd val result" where
  "Convert env Bool_t j = map_sum id V_bool (Convert_bool j)"
| "Convert env Int8_t j = map_sum id V_int (Convert_int8 j)"
| "Convert env Int16_t j = map_sum id V_int (Convert_int16 j)"
| "Convert env Int32_t j = map_sum id V_int (Convert_int32 j)"
| "Convert env Int64_t j = map_sum id V_int (Convert_int64 j)"
| "Convert env Uint8_t j = map_sum id V_int (Convert_uint8 j)"
| "Convert env Uint16_t j = map_sum id V_int (Convert_uint16 j)"
| "Convert env Uint32_t j = map_sum id V_int (Convert_uint32 j)"
| "Convert env Uint64_t j = map_sum id V_int (Convert_uint64 j)"
| "Convert env Double_t j = map_sum id V_double (Convert_double env j)"
| "Convert env String_t j = map_sum id V_string (Convert_string env j)"

text \<open>The overloads for simple types and the two kinds of enumerations.\<close>

definition json_to_value_error :: "string \<Rightarrow> exn" where
  "json_to_value_error m =
     Invalid_argument (''[Mif::Serialization::Json::Detail::JsonToValue] Failed to '' @ m)"

type_synonym 'd reader = "'d json \<Rightarrow> 'd val \<Rightarrow> 'd val result"

definition JsonToSimple :: "'d json_env \<Rightarrow> simple_type \<Rightarrow> 'd reader" where
  "JsonToSimple env s root object =
     (if root = Null then Inl (json_to_value_error ''get value from null.'')
      else Convert env s root)"

definition JsonToEnum :: "'d json_env \<Rightarrow> (unit, int) meta_info \<Rightarrow> 'd reader" where
  "JsonToEnum env its root object =
     (if root = Null then Inl (json_to_value_error ''get value from null.'')
      else (case Convert_string env root of
              Inl e \<Rightarrow> Inl e
            | Inr n \<Rightarrow> map_sum id V_int (Enum_FromString its n)))"

text \<open>
  Classes: a base must be there (\<open>at\<close> throws), a missing field is read from a null document.
\<close>

fun Deserialize_bases :: "'d json_env \<Rightarrow> (string \<times> 'd reader) list \<Rightarrow> (string \<times> 'd json) list \<Rightarrow>
    'd val list \<Rightarrow> 'd val list result" where
  "Deserialize_bases env [] root objs = Inr []"
| "Deserialize_bases env ((n, f) # ms) root objs =
     (case map_of root n of
        None \<Rightarrow> Inl (at_error env)
      | Some j \<Rightarrow>
          (case f j (hd objs) of
             Inl e \<Rightarrow> Inl e
           | Inr v \<Rightarrow> map_sum id (\<lambda>vs. v # vs) (Deserialize_bases env ms root (tl objs))))"

fun Deserialize_fields :: "(string \<times> 'd reader) list \<Rightarrow> (string \<times> 'd json) list \<Rightarrow>
    'd val list \<Rightarrow> 'd val list result" where
  "Deserialize_fields [] root objs = Inr []"
| "Deserialize_fields ((n, f) # ms) root objs =
     (case f (case map_of root n of Some j \<Rightarrow> j | None \<Rightarrow> Null) (hd objs) of
        Inl e \<Rightarrow> Inl e
      | Inr v \<Rightarrow> map_sum id (\<lambda>vs. v # vs) (Deserialize_fields ms root (tl objs)))"

definition JsonToObject :: "'d json_env \<Rightarrow> (string \<times> 'd reader) list \<Rightarrow> (string \<times> 'd reader) list \<Rightarrow>
    'd reader" where
  "JsonToObject env bs fs root object =
     (case if_object root of
        None \<Rightarrow> Inl (json_to_value_error
          ''get value. Json element is invalid or is not converted to the correct type.'')
      | Some kvs \<Rightarrow>
          (case Deserialize_bases env bs kvs (base_parts object) of
             Inl e \<Rightarrow> Inl e
           | Inr parts \<Rightarrow> map_sum id (V_object parts) (Deserialize_fields fs kvs (members object))))"

text \<open>Pointers and optionals: a null document leaves the object alone.\<close>

definition JsonToPointer :: "'d val \<Rightarrow> 'd reader \<Rightarrow> 'd reader" where
  "JsonToPointer dflt f root object =
     (if root = Null then Inr object else map_sum id V_some (f root dflt))"

text \<open>
  Pairs: the condition of the check is a conjunction, so it holds for no object, and for
  anything else its evaluation dereferences a null pointer; so does a missing member.
\<close>

definition JsonToPair :: "'d reader \<Rightarrow> 'd reader \<Rightarrow> 'd reader" where
  "JsonToPair f g root p =
     (case if_object root of
        None \<Rightarrow> Inl Undefined_behaviour
      | Some kvs \<Rightarrow>
          (case map_of kvs ''id'' of
             None \<Rightarrow> Inl Undefined_behaviour
           | Some j \<Rightarrow>
               (case f j (pair_first p) of
                  Inl e \<Rightarrow> Inl e
                | Inr v \<Rightarrow>
                    (case map_of kvs ''val'' of
                       None \<Rightarrow> Inl Undefined_behaviour
                     | Some k \<Rightarrow> map_sum id (V_pair v) (g k (pair_second p))))))"

text \<open>
  Tuples and \<open>std::array\<close>: the elements are read by index, and an index behind the end of the
  document's array is undefined.
\<close>

fun JsonToTuple :: "'d reader list \<Rightarrow> 'd json list \<Rightarrow> 'd val list \<Rightarrow> 'd val list result" where
  "JsonToTuple [] js objs = Inr []"
| "JsonToTuple (f # fs) [] objs = Inl Undefined_behaviour"
| "JsonToTuple (f # fs) (j # js) objs =
     (case f j (hd objs) of
        Inl e \<Rightarrow> Inl e
      | Inr v \<Rightarrow> map_sum id (\<lambda>vs. v # vs) (JsonToTuple fs js (tl objs)))"

definition JsonToArray :: "'d val \<Rightarrow> nat \<Rightarrow> 'd reader \<Rightarrow> 'd json list \<Rightarrow> 'd val list result" where
  "JsonToArray dflt N f js = JsonToTuple (replicate N f) js (replicate N dflt)"

definition read_array :: "string \<Rightarrow> ('d json list \<Rightarrow> 'd val list result) \<Rightarrow> 'd json \<Rightarrow> 'd val result" where
  "read_array m f root =
     (case if_array root of
        None \<Rightarrow> Inl (json_to_value_error m)
      | Some js \<Rightarrow> map_sum id V_list (f js))"

text \<open>
  Containers: every element is read into a new object and inserted through
  \<open>std::inserter(object, end)\<close>: at the end of a sequence; in the order of the elements, and not
  at all when an equivalent one is there, for a set or a map.
\<close>

fun insert_ordered :: "('d val \<Rightarrow> 'd val \<Rightarrow> bool) \<Rightarrow> 'd val list \<Rightarrow> 'd val \<Rightarrow> 'd val list" where
  "insert_ordered lt [] x = [x]"
| "insert_ordered lt (y # ys) x =
     (if lt x y then x # y # ys
      else if lt y x then y # insert_ordered lt ys x
      else y # ys)"

fun read_items :: "('d val list \<Rightarrow> 'd val \<Rightarrow> 'd val list) \<Rightarrow> 'd val \<Rightarrow> 'd reader \<Rightarrow> 'd json list \<Rightarrow>
    'd val list \<Rightarrow> 'd val list result" where
  "read_items ins dflt f [] object = Inr object"
| "read_items ins dflt f (j # js) object =
     (case f j dflt of
        Inl e \<Rightarrow> Inl e
      | Inr v \<Rightarrow> read_items ins dflt f js (ins object v))"

definition seq_insert :: "'d val list \<Rightarrow> 'd val \<Rightarrow> 'd val list" where
  "seq_insert object x = object @ [x]"

definition set_insert :: "'d json_env \<Rightarrow> 'd val list \<Rightarrow> 'd val \<Rightarrow> 'd val list" where
  "set_insert env = insert_ordered (less_val env)"

definition map_insert :: "'d json_env \<Rightarrow> 'd val list \<Rightarrow> 'd val \<Rightarrow> 'd val list" where
  "map_insert env = insert_ordered (\<lambda>x y. less_val env (pair_first x) (pair_first y))"

text \<open>
  Sequences of \<open>char\<close>: numbers are extracted in hexadecimal until the stream is no longer good.
  The extraction skips white space and takes a sign and a prefix \<open>0x\<close>; \<open>setw\<close> does not limit
  it. It gives 0 when there is no number and the nearest limit of \<open>int\<close> when the number is out
  of range; both, and reaching the end, end the loop after the character was inserted.
\<close>

definition strip_0x :: "string \<Rightarrow> string" where
  "strip_0x s = (case s of
      a # b # r \<Rightarrow> if a = CHR ''0'' \<and> (b = CHR ''x'' \<or> b = CHR ''X'') then r else s
    | _ \<Rightarrow> s)"

definition is_hex_digit :: "char \<Rightarrow> bool" where
  "is_hex_digit c = (hex_value c \<noteq> None)"

definition int_range :: "int \<Rightarrow> bool" where
  "int_range i = (- (2 ^ 31) \<le> i \<and> i < 2 ^ 31)"

definition extract_unsigned :: "bool \<Rightarrow> string \<Rightarrow> int \<times> string option" where
  "extract_unsigned neg s =
     (let body = strip_0x s; ds = takeWhile is_hex_digit body; rest = dropWhile is_hex_digit body;
          i = (if neg then - int (hex_digits 0 ds) else int (hex_digits 0 ds))
      in if ds = [] then (0, None)
         else if \<not> int_range i then (if neg then - (2 ^ 31) else 2 ^ 31 - 1, None)
         else (i, if rest = [] then None else Some rest))"

definition extract_int :: "string \<Rightarrow> int \<times> string option" where
  "extract_int s =
     (case dropWhile isspace s of
        [] \<Rightarrow> (0, None)
      | c # r \<Rightarrow> if c = CHR ''-'' then extract_unsigned True r
                 else if c = CHR ''+'' then extract_unsigned False r
                 else extract_unsigned False (c # r))"

lemma extract_unsigned_shorter:
  "extract_unsigned neg s = (i, Some rest) \<Longrightarrow> length rest < length s"
proof -
  assume e: "extract_unsigned neg s = (i, Some rest)"
  let ?b = "strip_0x s"
  have "takeWhile is_hex_digit ?b \<noteq> []" and r: "rest = dropWhile is_hex_digit ?b"
    using e by (auto simp: extract_unsigned_def Let_def split: if_splits)
  then have "length rest < length ?b"
    using takeWhile_dropWhile_id [of is_hex_digit ?b] by (metis length_append length_greater_0_conv less_add_same_cancel2)
  also have "length ?b \<le> length s"
    by (auto simp: strip_0x_def split: list.splits)
  finally show ?thesis .
qed

lemma extract_int_shorter: "extract_int s = (i, Some rest) \<Longrightarrow> length rest < length s"
proof -
  assume e: "extract_int s = (i, Some rest)"
  have "length rest < length (dropWhile isspace s)"
    using e extract_unsigned_shorter by (fastforce simp: extract_int_def split: list.splits if_splits)
  then show ?thesis
    using length_dropWhile_le [of isspace s] by simp
qed

function read_chars :: "string \<Rightarrow> string" where
  "read_chars s =
     (case extract_int s of
        (i, None) \<Rightarrow> [char_of i]
      | (i, Some rest) \<Rightarrow> char_of i # read_chars rest)"
  by pat_completeness auto

termination
  by (relation "measure length") (auto dest: extract_int_shorter [OF sym])

declare read_chars.simps [simp del]

definition JsonToChars :: "'d reader" where
  "JsonToChars root object =
     (case if_string root of
        None \<Rightarrow> Inl (json_to_value_error
          ''get value. Json element is invalid or is not converted to the array.'')
      | Some s \<Rightarrow> Inr (V_string (if s = [] then [] else read_chars (c_str s))))"

primrec JsonToValue :: "'d json_env \<Rightarrow> ty \<Rightarrow> 'd reader" where
  "JsonToValue env (Simple s) = JsonToSimple env s"
| "JsonToValue env (Enum s) = JsonToSimple env s"
| "JsonToValue env (ReflectedEnum its) = JsonToEnum env its"
| "JsonToValue env (Reflected bs fs) =
     JsonToObject env (map (map_prod id (JsonToValue env)) bs) (map (map_prod id (JsonToValue env)) fs)"
| "JsonToValue env (SmartPointer t) = JsonToPointer (default_val env t) (JsonToValue env t)"
| "JsonToValue env (Optional t) = JsonToPointer (default_val env t) (JsonToValue env t)"
| "JsonToValue env (Sequence t) =
     (\<lambda>root object. read_array ''get value. Json element is invalid or is not converted to the array.''
       (\<lambda>js. read_items seq_insert (default_val env t) (JsonToValue env t) js []) root)"
| "JsonToValue env Chars = JsonToChars"
| "JsonToValue env (StdSet t) =
     (\<lambda>root object. read_array ''get value. Json element is invalid or is not converted to the array.''
       (\<lambda>js. read_items (set_insert env) (default_val env t) (JsonToValue env t) js []) root)"
| "JsonToValue env (StdMap k t) =
     (\<lambda>root object. read_array ''get value. Json element is invalid or is not converted to the array.''
       (\<lambda>js. read_items (map_insert env) (V_pair (default_val env k) (default_val env t))
          (JsonToPair (JsonToValue env k) (JsonToValue env t)) js []) root)"
| "JsonToValue env (Pair t u) = JsonToPair (JsonToValue env t) (JsonToValue env u)"
| "JsonToValue env (Tuple ts) =
     (\<lambda>root object. read_array ''parse pair. Value is null or json has no tuple type object.''
       (\<lambda>js. JsonToTuple (map (JsonToValue env) ts) js (items object)) root)"
| "JsonToValue env (StdArray n t) =
     (\<lambda>root object. read_array ''parse pair. Value is null or json has no array type object.''
       (JsonToArray (default_val env t) n (JsonToValue env t)) root)"

section \<open>Serialize and Deserialize\<close>

text \<open>
  The entry points over the printer and the parser of Boost.JSON. A class is written as its
  members, anything else as one value, on request inside an object with one member.
\<close>

definition Serialize :: "('d json \<Rightarrow> 't) \<Rightarrow> ty \<Rightarrow> 'd val \<Rightarrow> string \<Rightarrow> 't result" where
  "Serialize print t object rootName =
     (case t of
        Reflected bs fs \<Rightarrow> map_sum id print (ValueToJson t object)
      | _ \<Rightarrow>
          if rootName \<noteq> [] then map_sum id (\<lambda>j. print (Object [(rootName, j)])) (ValueToJson t object)
          else map_sum id print (ValueToJson t object))"

text \<open>
  Reading a class goes straight to its members; \<open>as_object\<close> throws when the document is no
  object, unless there is no member to read. \<open>as_object()[rootName]\<close> creates a null member.
\<close>

definition Deserialize :: "('t \<Rightarrow> 'd json result) \<Rightarrow> 'd json_env \<Rightarrow> ty \<Rightarrow> 't \<Rightarrow> string \<Rightarrow> 'd val result" where
  "Deserialize parse env t text rootName =
     (case parse text of
        Inl e \<Rightarrow> Inl e
      | Inr root \<Rightarrow>
          (case t of
             Reflected bs fs \<Rightarrow>
               (case if_object root of
                  None \<Rightarrow> if bs = [] \<and> fs = [] then Inr (default_val env t) else Inl (at_error env)
                | Some kvs \<Rightarrow> JsonToValue env t root (default_val env t))
           | _ \<Rightarrow>
               if rootName = [] then JsonToValue env t root (default_val env t)
               else (case if_object root of
                       None \<Rightarrow> Inl (at_error env)
                     | Some kvs \<Rightarrow> JsonToValue env t (case map_of kvs rootName of Some j \<Rightarrow> j | None \<Rightarrow> Null)
                         (default_val env t))))"

section \<open>Which values survive\<close>

text \<open>
  The values of a type that are read back: numbers in the range of the type, texts without a
  zero character, enumeration values with a name, members under distinct names, a set pointer or
  optional whose content is not itself empty, sets and maps in their order. No sequence of
  \<open>char\<close> is among them.
\<close>

fun in_range :: "simple_type \<Rightarrow> 'd val \<Rightarrow> bool" where
  "in_range Bool_t v = is_V_bool v"
| "in_range Int8_t v = (is_V_int v \<and> - (2 ^ 7) \<le> the_int v \<and> the_int v < 2 ^ 7)"
| "in_range Int16_t v = (is_V_int v \<and> - (2 ^ 15) \<le> the_int v \<and> the_int v < 2 ^ 15)"
| "in_range Int32_t v = (is_V_int v \<and> - (2 ^ 31) \<le> the_int v \<and> the_int v < 2 ^ 31)"
| "in_range Int64_t v = (is_V_int v \<and> - (2 ^ 63) \<le> the_int v \<and> the_int v < 2 ^ 63)"
| "in_range Uint8_t v = (is_V_int v \<and> 0 \<le> the_int v \<and> the_int v < 2 ^ 8)"
| "in_range Uint16_t v = (is_V_int v \<and> 0 \<le> the_int v \<and> the_int v < 2 ^ 16)"
| "in_range Uint32_t v = (is_V_int v \<and> 0 \<le> the_int v \<and> the_int v < 2 ^ 32)"
| "in_range Uint64_t v = (is_V_int v \<and> 0 \<le> the_int v \<and> the_int v < 2 ^ 64)"
| "in_range Double_t v = is_V_double v"
| "in_range String_t v = (is_V_string v \<and> NUL \<notin> set (the_string v))"

definition strictly_ordered :: "('a \<Rightarrow> 'a \<Rightarrow> bool) \<Rightarrow> 'a list \<Rightarrow> bool" where
  "strictly_ordered lt xs = sorted_wrt (\<lambda>x y. lt x y \<and> \<not> lt y x) xs"

primrec good :: "'d json_env \<Rightarrow> ty \<Rightarrow> 'd val \<Rightarrow> bool" where
  "good env (Simple s) = in_range s"
| "good env (Enum s) = in_range s"
| "good env (ReflectedEnum its) = (\<lambda>v. is_V_int v \<and> the_int v \<in> snd ` set (field_infos its) \<and>
     distinct (map fst (field_infos its)) \<and> list_all (\<lambda>(n, i). NUL \<notin> set n) (field_infos its))"
| "good env (Reflected bs fs) = (\<lambda>v. is_V_object v \<and> distinct (map fst bs @ map fst fs) \<and>
     list_all2 snd (map (map_prod id (good env)) bs) (base_parts v) \<and>
     list_all2 snd (map (map_prod id (good env)) fs) (members v))"
| "good env (SmartPointer t) = (\<lambda>v. v = V_null \<or> (is_V_some v \<and> pointee v \<noteq> V_null \<and> good env t (pointee v)))"
| "good env (Optional t) = (\<lambda>v. v = V_null \<or> (is_V_some v \<and> pointee v \<noteq> V_null \<and> good env t (pointee v)))"
| "good env (Sequence t) = (\<lambda>v. is_V_list v \<and> list_all (good env t) (items v))"
| "good env Chars = (\<lambda>v. False)"
| "good env (StdSet t) = (\<lambda>v. is_V_list v \<and> list_all (good env t) (items v) \<and>
     strictly_ordered (less_val env) (items v))"
| "good env (StdMap k t) = (\<lambda>v. is_V_list v \<and>
     list_all (\<lambda>p. is_V_pair p \<and> good env k (pair_first p) \<and> good env t (pair_second p)) (items v) \<and>
     strictly_ordered (\<lambda>x y. less_val env (pair_first x) (pair_first y)) (items v))"
| "good env (Pair t u) = (\<lambda>p. is_V_pair p \<and> good env t (pair_first p) \<and> good env u (pair_second p))"
| "good env (Tuple ts) = (\<lambda>v. is_V_list v \<and> list_all2 (\<lambda>p. p) (map (good env) ts) (items v))"
| "good env (StdArray n t) = (\<lambda>v. is_V_list v \<and> length (items v) = n \<and> list_all (good env t) (items v))"

text \<open>A default-constructed object whose pointers and optionals are empty.\<close>

primrec fresh :: "ty \<Rightarrow> 'd val \<Rightarrow> bool" where
  "fresh (Simple s) = (\<lambda>v. True)"
| "fresh (Enum s) = (\<lambda>v. True)"
| "fresh (ReflectedEnum its) = (\<lambda>v. True)"
| "fresh (Reflected bs fs) = (\<lambda>v.
     list_all2 snd (map (map_prod id fresh) bs) (base_parts v) \<and>
     list_all2 snd (map (map_prod id fresh) fs) (members v))"
| "fresh (SmartPointer t) = (\<lambda>v. v = V_null)"
| "fresh (Optional t) = (\<lambda>v. v = V_null)"
| "fresh (Sequence t) = (\<lambda>v. True)"
| "fresh Chars = (\<lambda>v. True)"
| "fresh (StdSet t) = (\<lambda>v. True)"
| "fresh (StdMap k t) = (\<lambda>v. True)"
| "fresh (Pair t u) = (\<lambda>v. fresh t (pair_first v) \<and> fresh u (pair_second v))"
| "fresh (Tuple ts) = (\<lambda>v. list_all2 (\<lambda>p. p) (map fresh ts) (items v))"
| "fresh (StdArray n t) = (\<lambda>v. True)"

definition fresh_defaults :: "'d json_env \<Rightarrow> bool" where
  "fresh_defaults env = (\<forall>t. fresh t (default_val env t))"

section \<open>Facts\<close>

text \<open>A writer and a reader fit together on the values \<open>P\<close> and the initial objects \<open>F\<close>.\<close>

definition survives :: "'d writer \<Rightarrow> 'd reader \<Rightarrow> ('d val \<Rightarrow> bool) \<Rightarrow> ('d val \<Rightarrow> bool) \<Rightarrow> bool" where
  "survives w r P F = (\<forall>v obj. P v \<longrightarrow> F obj \<longrightarrow>
     (\<exists>j. w v = Inr j \<and> (v \<noteq> V_null \<longrightarrow> j \<noteq> Null) \<and> r (reparsed j) obj = Inr v))"

lemma survivesI:
  assumes "\<And>v obj. P v \<Longrightarrow> F obj \<Longrightarrow> \<exists>j. w v = Inr j \<and> (v \<noteq> V_null \<longrightarrow> j \<noteq> Null) \<and> r (reparsed j) obj = Inr v"
  shows "survives w r P F"
  using assms by (simp add: survives_def)

lemma survivesE:
  assumes "survives w r P F" "P v" "F obj"
  obtains j where "w v = Inr j" "v \<noteq> V_null \<longrightarrow> j \<noteq> Null" "r (reparsed j) obj = Inr v"
  using assms by (auto simp: survives_def)

lemmas Convert_narrow_defs = Convert_int16_def Convert_uint16_def Convert_int8_def Convert_uint8_def

lemma survives_simple: "survives (\<lambda>v. Inr (simple_to_json s v)) (JsonToSimple env s) (in_range s) F"
  by (rule survivesI, cases s)
    (auto simp: JsonToSimple_def Convert_narrow_defs is_V_bool_def is_V_int_def is_V_double_def
      is_V_string_def signed_take_bit_int_eq_self take_bit_int_eq_self c_str_def takeWhile_eq_all_conv)

lemma survives_enum: "survives (ValueToJson (ReflectedEnum its)) (JsonToEnum env its)
    (good env (ReflectedEnum its)) F"
proof (rule survivesI)
  fix v obj
  assume g: "good env (ReflectedEnum its) v"
  then obtain i where v: "v = V_int i" and i: "i \<in> snd ` set (field_infos its)"
    and d: "distinct (map fst (field_infos its))"
    and z: "list_all (\<lambda>(n, i). NUL \<notin> set n) (field_infos its)"
    by (cases v) simp_all
  obtain n where n: "Enum_ToString its i = Inr n"
    using Enum_ToString_spec(2) [OF i] by auto
  have "NUL \<notin> set n"
    using Enum_ToString_spec(1) [OF n] z by (auto simp: list_all_iff)
  then have "c_str n = n"
    by (auto simp: c_str_def takeWhile_eq_all_conv)
  then show "\<exists>j. ValueToJson (ReflectedEnum its) v = Inr j \<and> (v \<noteq> V_null \<longrightarrow> j \<noteq> Null) \<and>
      JsonToEnum env its (reparsed j) obj = Inr v"
    using v n Enum_FromString_ToString [OF d n] by (simp add: JsonToEnum_def)
qed

lemma survives_pointer:
  assumes s: "survives w r P F" and "F dflt"
  shows "survives (PointerToJson w) (JsonToPointer dflt r)
    (\<lambda>v. v = V_null \<or> (is_V_some v \<and> pointee v \<noteq> V_null \<and> P (pointee v))) (\<lambda>v. v = V_null)"
proof (rule survivesI)
  fix v obj :: "'a val"
  assume v: "v = V_null \<or> (is_V_some v \<and> pointee v \<noteq> V_null \<and> P (pointee v))" and obj: "obj = V_null"
  show "\<exists>j. PointerToJson w v = Inr j \<and> (v \<noteq> V_null \<longrightarrow> j \<noteq> Null) \<and>
      JsonToPointer dflt r (reparsed j) obj = Inr v"
  proof (cases "v = V_null")
    case True
    then show ?thesis
      using obj by (simp add: JsonToPointer_def)
  next
    case False
    then obtain u where u: "v = V_some u" "u \<noteq> V_null" "P u"
      using v by (auto simp: is_V_some_def)
    obtain j where "w u = Inr j" "u \<noteq> V_null \<longrightarrow> j \<noteq> Null" "r (reparsed j) dflt = Inr u"
      using s \<open>P u\<close> \<open>F dflt\<close> by (rule survivesE)
    then show ?thesis
      using u by (simp add: JsonToPointer_def)
  qed
qed

lemma survives_pair:
  assumes s: "survives w1 r1 P1 F1" "survives w2 r2 P2 F2"
  shows "survives (PairToJson w1 w2) (JsonToPair r1 r2)
    (\<lambda>p. is_V_pair p \<and> P1 (pair_first p) \<and> P2 (pair_second p))
    (\<lambda>v. F1 (pair_first v) \<and> F2 (pair_second v))"
proof (rule survivesI)
  fix v obj :: "'a val"
  assume v: "is_V_pair v \<and> P1 (pair_first v) \<and> P2 (pair_second v)"
    and obj: "F1 (pair_first obj) \<and> F2 (pair_second obj)"
  obtain x y where xy: "v = V_pair x y" "P1 x" "P2 y"
    using v by (auto simp: is_V_pair_def)
  obtain j where "w1 x = Inr j" "r1 (reparsed j) (pair_first obj) = Inr x"
    using s(1) xy(2) conjunct1 [OF obj] by (rule survivesE)
  moreover obtain k where "w2 y = Inr k" "r2 (reparsed k) (pair_second obj) = Inr y"
    using s(2) xy(3) conjunct2 [OF obj] by (rule survivesE)
  ultimately show "\<exists>j. PairToJson w1 w2 v = Inr j \<and> (v \<noteq> V_null \<longrightarrow> j \<noteq> Null) \<and>
      JsonToPair r1 r2 (reparsed j) obj = Inr v"
    using xy by (simp add: PairToJson_def JsonToPair_def)
qed

lemma tuple_survives:
  assumes "\<And>t. t \<in> set ts \<Longrightarrow> survives (w t) (r t) (P t) (F t)"
    and "list_all2 (\<lambda>p. p) (map P ts) vs" and "list_all2 (\<lambda>p. p) (map F ts) objs"
  shows "\<exists>js. TupleToJson (map w ts) vs = Inr js \<and> JsonToTuple (map r ts) (map reparsed js) objs = Inr vs"
  using assms
proof (induction ts arbitrary: vs objs)
  case Nil
  then show ?case by simp
next
  case (Cons t ts)
  obtain v vs' where v: "vs = v # vs'" "P t v" "list_all2 (\<lambda>p. p) (map P ts) vs'"
    using Cons.prems(2) by (auto simp: list_all2_Cons1)
  obtain b objs' where b: "objs = b # objs'" "F t b" "list_all2 (\<lambda>p. p) (map F ts) objs'"
    using Cons.prems(3) by (auto simp: list_all2_Cons1)
  have "survives (w t) (r t) (P t) (F t)"
    using Cons.prems(1) by simp
  then obtain j where "w t v = Inr j" "r t (reparsed j) b = Inr v"
    using v(2) b(2) by (rule survivesE)
  moreover obtain js where "TupleToJson (map w ts) vs' = Inr js"
    "JsonToTuple (map r ts) (map reparsed js) objs' = Inr vs'"
    using Cons.IH [OF Cons.prems(1) v(3) b(3)] by auto
  ultimately show ?case
    using v b by simp
qed

lemma ArrayToJson_eq_tuple: "ArrayToJson w vs = TupleToJson (replicate (length vs) w) vs"
  by (induction vs) (auto split: sum.split)

lemma array_survives:
  assumes "survives w r P F" and "list_all P vs" and "F dflt"
  shows "\<exists>js. ArrayToJson w vs = Inr js \<and> JsonToArray dflt (length vs) r (map reparsed js) = Inr vs"
  using tuple_survives [of "replicate (length vs) ()" "\<lambda>_. w" "\<lambda>_. r" "\<lambda>_. P" "\<lambda>_. F" vs
      "replicate (length vs) dflt"] assms
  by (auto simp: JsonToArray_def ArrayToJson_eq_tuple list_all2_conv_all_nth list_all_length)

lemma items_survive:
  assumes s: "survives w r P F" and "list_all P vs" and "F dflt"
  shows "\<exists>js. ArrayToJson w vs = Inr js \<and>
    read_items ins dflt r (map reparsed js) acc = Inr (foldl ins acc vs)"
  using assms(2)
proof (induction vs arbitrary: acc)
  case Nil
  then show ?case by simp
next
  case (Cons v vs)
  have "P v"
    using Cons.prems by simp
  with s obtain j where "w v = Inr j" "r (reparsed j) dflt = Inr v"
    using \<open>F dflt\<close> by (rule survivesE)
  moreover obtain js where "ArrayToJson w vs = Inr js"
    "read_items ins dflt r (map reparsed js) (ins acc v) = Inr (foldl ins (ins acc v) vs)"
    using Cons by auto
  ultimately show ?case
    by simp
qed

lemma foldl_seq_insert: "foldl seq_insert acc vs = acc @ vs"
  by (induction vs arbitrary: acc) (simp_all add: seq_insert_def)

lemma insert_ordered_last:
  "(\<And>y. y \<in> set ys \<Longrightarrow> lt y x \<and> \<not> lt x y) \<Longrightarrow> insert_ordered lt ys x = ys @ [x]"
  by (induction ys) auto

lemma foldl_insert_ordered:
  "strictly_ordered lt (acc @ vs) \<Longrightarrow> foldl (insert_ordered lt) acc vs = acc @ vs"
proof (induction vs arbitrary: acc)
  case (Cons v vs)
  have "insert_ordered lt acc v = acc @ [v]"
    using Cons.prems by (intro insert_ordered_last) (auto simp: strictly_ordered_def sorted_wrt_append)
  then show ?case
    using Cons by simp
qed simp

lemma list_all2_members: "list_all2 snd (map (map_prod id P) ms) vs \<longleftrightarrow> list_all2 (\<lambda>m. P (snd m)) ms vs"
  by (simp add: list_all2_map1)

lemma members_survive:
  assumes "\<And>m. m \<in> set ms \<Longrightarrow> survives (w (snd m)) (r (snd m)) (P (snd m)) (F (snd m))"
    and "distinct (map fst ms)"
    and "list_all2 (\<lambda>m. P (snd m)) ms vs" and "list_all2 (\<lambda>m. F (snd m)) ms objs"
  shows "\<exists>root'. Serialize_members (map (map_prod id w) ms) vs root = Inr root' \<and>
    (\<forall>n. n \<notin> fst ` set ms \<longrightarrow> map_of root' n = map_of root n) \<and>
    (\<forall>kvs. (\<forall>n \<in> fst ` set ms. map_of kvs n = map_option reparsed (map_of root' n)) \<longrightarrow>
       Deserialize_bases env (map (map_prod id r) ms) kvs objs = Inr vs \<and>
       Deserialize_fields (map (map_prod id r) ms) kvs objs = Inr vs)"
  using assms
proof (induction ms arbitrary: vs objs root)
  case Nil
  then show ?case by simp
next
  case (Cons m ms)
  obtain n t where m: "m = (n, t)" by (cases m)
  obtain v vs' where v: "vs = v # vs'" "P t v" "list_all2 (\<lambda>m. P (snd m)) ms vs'"
    using Cons.prems(3) m by (auto simp: list_all2_Cons1)
  obtain b objs' where b: "objs = b # objs'" "F t b" "list_all2 (\<lambda>m. F (snd m)) ms objs'"
    using Cons.prems(4) m by (auto simp: list_all2_Cons1)
  have nin: "n \<notin> fst ` set ms" and dist: "distinct (map fst ms)"
    using Cons.prems(2) m by auto
  have "survives (w t) (r t) (P t) (F t)"
    using Cons.prems(1) [of m] m by simp
  then obtain j where j: "w t v = Inr j" "r t (reparsed j) b = Inr v"
    using v(2) b(2) by (rule survivesE)
  let ?root = "object_put root n j"
  obtain root' where root': "Serialize_members (map (map_prod id w) ms) vs' ?root = Inr root'"
    and keep: "\<And>k. k \<notin> fst ` set ms \<Longrightarrow> map_of root' k = map_of ?root k"
    and rd: "\<And>kvs. (\<forall>k \<in> fst ` set ms. map_of kvs k = map_option reparsed (map_of root' k)) \<Longrightarrow>
      Deserialize_bases env (map (map_prod id r) ms) kvs objs' = Inr vs' \<and>
      Deserialize_fields (map (map_prod id r) ms) kvs objs' = Inr vs'"
    using Cons.IH [OF Cons.prems(1) [OF list.set_intros(2)] dist v(3) b(3), where root = ?root] by blast
  have nj: "map_of root' n = Some j"
    using keep [OF nin] by simp
  show ?case
  proof (intro exI conjI allI impI)
    show "Serialize_members (map (map_prod id w) (m # ms)) vs root = Inr root'"
      using m v(1) j root' by simp
    show "map_of root' k = map_of root k" if "k \<notin> fst ` set (m # ms)" for k
      using keep [of k] that m by simp
    fix kvs
    assume kvs: "\<forall>n \<in> fst ` set (m # ms). map_of kvs n = map_option reparsed (map_of root' n)"
    then have n: "map_of kvs n = Some (reparsed j)"
      using m nj by simp
    have rest: "Deserialize_bases env (map (map_prod id r) ms) kvs objs' = Inr vs'"
      "Deserialize_fields (map (map_prod id r) ms) kvs objs' = Inr vs'"
      using rd [of kvs] kvs by simp_all
    show "Deserialize_bases env (map (map_prod id r) (m # ms)) kvs objs = Inr vs"
      and "Deserialize_fields (map (map_prod id r) (m # ms)) kvs objs = Inr vs"
      unfolding m v(1) b(1) by (simp_all add: n rest j)
  qed
qed

lemma survives_object:
  assumes "\<And>m. m \<in> set bs \<Longrightarrow> survives (w (snd m)) (r (snd m)) (P (snd m)) (F (snd m))"
    and "\<And>m. m \<in> set fs \<Longrightarrow> survives (w (snd m)) (r (snd m)) (P (snd m)) (F (snd m))"
  shows "survives (ObjectToJson (map (map_prod id w) bs) (map (map_prod id w) fs))
    (JsonToObject env (map (map_prod id r) bs) (map (map_prod id r) fs))
    (\<lambda>v. is_V_object v \<and> distinct (map fst bs @ map fst fs) \<and>
       list_all2 (\<lambda>m. P (snd m)) bs (base_parts v) \<and> list_all2 (\<lambda>m. P (snd m)) fs (members v))
    (\<lambda>v. list_all2 (\<lambda>m. F (snd m)) bs (base_parts v) \<and> list_all2 (\<lambda>m. F (snd m)) fs (members v))"
    (is "survives ?w ?r ?P ?F")
proof (rule survivesI)
  fix v obj
  assume g: "?P v" and o: "?F obj"
  obtain ps xs where v: "v = V_object ps xs"
    using g by (cases v) auto
  have d: "distinct (map fst bs)" "distinct (map fst fs)" and disj: "fst ` set bs \<inter> fst ` set fs = {}"
    and g': "list_all2 (\<lambda>m. P (snd m)) bs ps" "list_all2 (\<lambda>m. P (snd m)) fs xs"
    and o': "list_all2 (\<lambda>m. F (snd m)) bs (base_parts obj)" "list_all2 (\<lambda>m. F (snd m)) fs (members obj)"
    using g o v by auto
  obtain r1 where r1: "Serialize_members (map (map_prod id w) bs) ps [] = Inr r1"
    and rd1: "\<And>kvs. (\<forall>k \<in> fst ` set bs. map_of kvs k = map_option reparsed (map_of r1 k)) \<Longrightarrow>
      Deserialize_bases env (map (map_prod id r) bs) kvs (base_parts obj) = Inr ps"
    using members_survive [OF assms(1) d(1) g'(1) o'(1), where root = "[]" and env = env] by blast
  obtain r2 where r2: "Serialize_members (map (map_prod id w) fs) xs r1 = Inr r2"
    and keep: "\<And>k. k \<notin> fst ` set fs \<Longrightarrow> map_of r2 k = map_of r1 k"
    and rd2: "\<And>kvs. (\<forall>k \<in> fst ` set fs. map_of kvs k = map_option reparsed (map_of r2 k)) \<Longrightarrow>
      Deserialize_fields (map (map_prod id r) fs) kvs (members obj) = Inr xs"
    using members_survive [OF assms(2) d(2) g'(2) o'(2), where root = r1 and env = env] by blast
  let ?kvs = "map (\<lambda>(k, j). (k, reparsed j)) r2"
  have "Deserialize_bases env (map (map_prod id r) bs) ?kvs (base_parts obj) = Inr ps"
  proof (rule rd1)
    show "\<forall>k \<in> fst ` set bs. map_of ?kvs k = map_option reparsed (map_of r1 k)"
      using keep disj unfolding map_of_map_snd by (metis disjoint_iff)
  qed
  moreover have "Deserialize_fields (map (map_prod id r) fs) ?kvs (members obj) = Inr xs"
    by (rule rd2) (simp add: map_of_map_snd)
  ultimately show "\<exists>j. ?w v = Inr j \<and> (v \<noteq> V_null \<longrightarrow> j \<noteq> Null) \<and> ?r (reparsed j) obj = Inr v"
    using v r1 r2 by (simp add: ObjectToJson_def JsonToObject_def)
qed

lemma survives_container:
  assumes s: "survives w r P F" and "F dflt"
    and "\<And>vs. list_all P vs \<Longrightarrow> Q vs \<Longrightarrow> foldl ins [] vs = vs"
  shows "survives (\<lambda>v. map_sum id Array (ArrayToJson w (items v)))
    (\<lambda>root object. read_array m (\<lambda>js. read_items ins dflt r js []) root)
    (\<lambda>v. is_V_list v \<and> list_all P (items v) \<and> Q (items v)) G"
proof (rule survivesI)
  fix v obj
  assume v: "is_V_list v \<and> list_all P (items v) \<and> Q (items v)"
  obtain vs where vs: "v = V_list vs" "list_all P vs" "foldl ins [] vs = vs"
    using v assms(3) by (cases v) auto
  obtain js where "ArrayToJson w vs = Inr js" "read_items ins dflt r (map reparsed js) [] = Inr vs"
    using items_survive [OF s vs(2) assms(2), of ins "[]"] vs(3) by auto
  then show "\<exists>j. map_sum id Array (ArrayToJson w (items v)) = Inr j \<and> (v \<noteq> V_null \<longrightarrow> j \<noteq> Null) \<and>
      read_array m (\<lambda>js. read_items ins dflt r js []) (reparsed j) = Inr v"
    using vs by (simp add: read_array_def)
qed

lemma survives_tuple:
  assumes "\<And>t. t \<in> set ts \<Longrightarrow> survives (w t) (r t) (P t) (F t)"
  shows "survives (\<lambda>v. map_sum id Array (TupleToJson (map w ts) (items v)))
    (\<lambda>root object. read_array m (\<lambda>js. JsonToTuple (map r ts) js (items object)) root)
    (\<lambda>v. is_V_list v \<and> list_all2 (\<lambda>p. p) (map P ts) (items v))
    (\<lambda>v. list_all2 (\<lambda>p. p) (map F ts) (items v))"
proof (rule survivesI)
  fix v obj
  assume v: "is_V_list v \<and> list_all2 (\<lambda>p. p) (map P ts) (items v)"
    and obj: "list_all2 (\<lambda>p. p) (map F ts) (items obj)"
  obtain vs where vs: "v = V_list vs" "list_all2 (\<lambda>p. p) (map P ts) vs"
    using v by (cases v) auto
  obtain js where "TupleToJson (map w ts) vs = Inr js"
    "JsonToTuple (map r ts) (map reparsed js) (items obj) = Inr vs"
    using tuple_survives [OF assms vs(2) obj] by auto
  then show "\<exists>j. map_sum id Array (TupleToJson (map w ts) (items v)) = Inr j \<and> (v \<noteq> V_null \<longrightarrow> j \<noteq> Null) \<and>
      read_array m (\<lambda>js. JsonToTuple (map r ts) js (items obj)) (reparsed j) = Inr v"
    using vs by (simp add: read_array_def)
qed

lemma survives_std_array:
  assumes "survives w r P F" and "F dflt"
  shows "survives (\<lambda>v. map_sum id Array (ArrayToJson w (items v)))
    (\<lambda>root object. read_array m (JsonToArray dflt n r) root)
    (\<lambda>v. is_V_list v \<and> length (items v) = n \<and> list_all P (items v)) G"
proof (rule survivesI)
  fix v obj
  assume v: "is_V_list v \<and> length (items v) = n \<and> list_all P (items v)"
  obtain vs where vs: "v = V_list vs" "length vs = n" "list_all P vs"
    using v by (cases v) auto
  then obtain js where "ArrayToJson w vs = Inr js" "JsonToArray dflt n r (map reparsed js) = Inr vs"
    using array_survives [OF assms(1) vs(3) assms(2)] by auto
  then show "\<exists>j. map_sum id Array (ArrayToJson w (items v)) = Inr j \<and> (v \<noteq> V_null \<longrightarrow> j \<noteq> Null) \<and>
      read_array m (JsonToArray dflt n r) (reparsed j) = Inr v"
    using vs by (simp add: read_array_def)
qed

lemmas survives_sequence = survives_container [where Q = "\<lambda>_. True" and ins = seq_insert, simplified foldl_seq_insert, simplified]

lemma ValueToJson_survives:
  assumes d: "fresh_defaults env"
  shows "survives (ValueToJson t) (JsonToValue env t) (good env t) (fresh t)"
proof (induction t)
  case (Simple s)
  show ?case
    unfolding ValueToJson.simps JsonToValue.simps good.simps by (rule survives_simple)
next
  case (Enum s)
  show ?case
    unfolding ValueToJson.simps JsonToValue.simps good.simps by (rule survives_simple)
next
  case (ReflectedEnum its)
  show ?case
    unfolding JsonToValue.simps by (rule survives_enum)
next
  case (Reflected bs fs)
  show ?case
    unfolding ValueToJson.simps JsonToValue.simps good.simps fresh.simps list_all2_members
    by (rule survives_object) (use Reflected in \<open>fastforce simp: prod_set_simps\<close>)+
next
  case (SmartPointer t)
  then show ?case
    unfolding ValueToJson.simps JsonToValue.simps good.simps fresh.simps
    by (rule survives_pointer) (use d in \<open>simp add: fresh_defaults_def\<close>)
next
  case (Optional t)
  then show ?case
    unfolding ValueToJson.simps JsonToValue.simps good.simps fresh.simps
    by (rule survives_pointer) (use d in \<open>simp add: fresh_defaults_def\<close>)
next
  case (Sequence t)
  then show ?case
    unfolding ValueToJson.simps JsonToValue.simps good.simps fresh.simps
    by (rule survives_sequence) (use d in \<open>simp add: fresh_defaults_def\<close>)
next
  case Chars
  show ?case
    by (simp add: survives_def)
next
  case (StdSet t)
  then show ?case
    unfolding ValueToJson.simps JsonToValue.simps good.simps fresh.simps
    by (rule survives_container)
      (use d in \<open>simp_all add: fresh_defaults_def set_insert_def foldl_insert_ordered\<close>)
next
  case (StdMap k t)
  have "survives (PairToJson (ValueToJson k) (ValueToJson t)) (JsonToPair (JsonToValue env k) (JsonToValue env t))
      (\<lambda>p. is_V_pair p \<and> good env k (pair_first p) \<and> good env t (pair_second p))
      (\<lambda>v. fresh k (pair_first v) \<and> fresh t (pair_second v))"
    using StdMap by (rule survives_pair)
  then show ?case
    unfolding ValueToJson.simps JsonToValue.simps good.simps fresh.simps
    by (rule survives_container)
      (use d in \<open>simp_all add: fresh_defaults_def map_insert_def foldl_insert_ordered\<close>)
next
  case (Pair t u)
  then show ?case
    unfolding ValueToJson.simps JsonToValue.simps good.simps fresh.simps by (rule survives_pair)
next
  case (Tuple ts)
  then show ?case
    unfolding ValueToJson.simps JsonToValue.simps good.simps fresh.simps by (rule survives_tuple)
next
  case (StdArray n t)
  then show ?case
    unfolding ValueToJson.simps JsonToValue.simps good.simps fresh.simps
    by (rule survives_std_array) (use d in \<open>simp add: fresh_defaults_def\<close>)
qed

interpretation json_values: codec "\<lambda>v. projr (ValueToJson t v)" "\<lambda>j. JsonToValue env t (reparsed j) obj"
    "\<lambda>v. good env t v \<and> fresh t obj \<and> fresh_defaults env" for env t obj
proof
  fix v
  assume v: "good env t v \<and> fresh t obj \<and> fresh_defaults env"
  then obtain j where "ValueToJson t v = Inr j" "JsonToValue env t (reparsed j) obj = Inr v"
    using ValueToJson_survives [of env t] by (metis survivesE)
  then show "JsonToValue env t (reparsed (projr (ValueToJson t v))) obj = Inr v"
    by simp
qed

lemma Serialize_print: "Serialize print t v rootName = map_sum id print (Serialize (\<lambda>j. j) t v rootName)"
  by (cases "ValueToJson t v") (auto simp: Serialize_def split: ty.split)

lemma not_Reflected_cases: "(\<And>bs fs. t \<noteq> Reflected bs fs) \<Longrightarrow>
    (case t of Reflected bs fs \<Rightarrow> f bs fs | _ \<Rightarrow> z) = z"
  by (cases t) auto

lemma Deserialize_document:
  assumes "JsonToValue env t (reparsed j) (default_val env t) = Inr v"
    and "ValueToJson t v = Inr j" and "Serialize (\<lambda>j. j) t v rootName = Inr doc"
    and "parse text = Inr (reparsed doc)"
  shows "Deserialize parse env t text rootName = Inr v"
proof (cases "\<exists>bs fs. t = Reflected bs fs")
  case True
  then obtain bs fs where t: "t = Reflected bs fs" by blast
  then have "doc = j"
    using assms(2,3) by (simp add: Serialize_def)
  moreover obtain r where "j = Object r"
    using assms(2) t by (auto simp: ObjectToJson_def split: sum.splits)
  ultimately show ?thesis
    using assms(1,4) t by (simp add: Deserialize_def)
next
  case False
  then have t: "\<And>bs fs. t \<noteq> Reflected bs fs" by blast
  have "doc = (if rootName \<noteq> [] then Object [(rootName, j)] else j)"
    using assms(2,3) by (auto simp: Serialize_def not_Reflected_cases [OF t])
  then show ?thesis
    using assms(1,4) by (auto simp: Deserialize_def not_Reflected_cases [OF t])
qed

section \<open>Properties\<close>


text \<open>A sample environment: the default constructor of every type, texts ordered as \<open>std::string\<close>.\<close>

primrec sample_default :: "ty \<Rightarrow> int val" where
  "sample_default (Simple s) = V_int 0"
| "sample_default (Enum s) = V_int 0"
| "sample_default (ReflectedEnum its) = V_int 0"
| "sample_default (Reflected bs fs) = V_object (map snd (map (map_prod id sample_default) bs))
     (map snd (map (map_prod id sample_default) fs))"
| "sample_default (SmartPointer t) = V_null"
| "sample_default (Optional t) = V_null"
| "sample_default (Sequence t) = V_list []"
| "sample_default Chars = V_string []"
| "sample_default (StdSet t) = V_list []"
| "sample_default (StdMap k t) = V_list []"
| "sample_default (Pair t u) = V_pair (sample_default t) (sample_default u)"
| "sample_default (Tuple ts) = V_list (map sample_default ts)"
| "sample_default (StdArray n t) = V_list (replicate n (sample_default t))"

definition sample_json_env :: "int json_env" where
  "sample_json_env = \<lparr>double_to_string = int_to_string, int_to_double = (\<lambda>i. i),
     less_val = (\<lambda>x y. the_string x < the_string y), default_val = sample_default,
     at_error = Runtime_error ''not found''\<rparr>"

lemma fresh_sample_default: "fresh t (sample_default t)"
proof (induction t)
  case (Reflected bs fs)
  then show ?case
    by (simp add: list_all2_map1 list_all2_map2 list_all2_same prod_set_simps split_paired_all)
next
  case (Tuple ts)
  then show ?case
    by (simp add: list_all2_map1 list_all2_map2 list_all2_same)
qed simp_all

lemma fresh_defaults_sample: "fresh_defaults sample_json_env"
  by (simp add: fresh_defaults_def sample_json_env_def fresh_sample_default)

text \<open>A class with a base, a map of optionals, an enumeration and a pointer.\<close>

definition sample_ty :: ty where
  "sample_ty = Reflected [(''Base'', Reflected [] [(''id'', Simple Uint16_t)])]
     [(''name'', Simple String_t), (''scores'', StdMap (Simple String_t) (Optional (Simple Int64_t))),
      (''order'', ReflectedEnum sample_enum), (''next'', SmartPointer (Tuple [Simple Bool_t, Simple Double_t]))]"

definition sample_val :: "int val" where
  "sample_val = V_object [V_object [] [V_int 65535]]
     [V_string ''mif'', V_list [V_pair (V_string ''a'') V_null, V_pair (V_string ''b'') (V_some (V_int (-7)))],
      V_int 2, V_some (V_list [V_bool True, V_double 3])]"

lemma good_sample: "good sample_json_env sample_ty sample_val"
  by (simp add: sample_ty_def sample_val_def sample_json_env_def sample_enum_def strictly_ordered_def
      MIF_REFLECT_FIELD_def MIF_REFLECT_BEGIN_def less_char_def less_eq_char_def)



end
