(* ===== verification/Serialization_Types.thy ===== *)
theory Serialization_Types
  imports Serialization_Json
begin

text \<open>
  What reading JSON guarantees about the C++ object: whatever the document, a read that returns
  leaves an object of its type, with every number inside the range of its width.
\<close>

section \<open>Typed values and documents\<close>

definition simple_typed :: "simple_type \<Rightarrow> 'd val \<Rightarrow> bool" where
  "simple_typed s v = (if s = String_t then is_V_string v else in_range s v)"

primrec has_type :: "ty \<Rightarrow> 'd val \<Rightarrow> bool" where
  "has_type (Simple s) = simple_typed s"
| "has_type (Enum s) = simple_typed s"
| "has_type (ReflectedEnum its) = is_V_int"
| "has_type (Reflected bs fs) = (\<lambda>v. is_V_object v \<and>
     list_all2 snd (map (map_prod id has_type) bs) (base_parts v) \<and>
     list_all2 snd (map (map_prod id has_type) fs) (members v))"
| "has_type (SmartPointer t) = (\<lambda>v. v = V_null \<or> (is_V_some v \<and> has_type t (pointee v)))"
| "has_type (Optional t) = (\<lambda>v. v = V_null \<or> (is_V_some v \<and> has_type t (pointee v)))"
| "has_type (Sequence t) = (\<lambda>v. is_V_list v \<and> list_all (has_type t) (items v))"
| "has_type Chars = is_V_string"
| "has_type (StdSet t) = (\<lambda>v. is_V_list v \<and> list_all (has_type t) (items v))"
| "has_type (StdMap k t) = (\<lambda>v. is_V_list v \<and>
     list_all (\<lambda>p. is_V_pair p \<and> has_type k (pair_first p) \<and> has_type t (pair_second p)) (items v))"
| "has_type (Pair t u) = (\<lambda>p. is_V_pair p \<and> has_type t (pair_first p) \<and> has_type u (pair_second p))"
| "has_type (Tuple ts) = (\<lambda>v. is_V_list v \<and> list_all2 (\<lambda>p. p) (map has_type ts) (items v))"
| "has_type (StdArray n t) = (\<lambda>v. is_V_list v \<and> length (items v) = n \<and> list_all (has_type t) (items v))"

text \<open>The numbers of a document have 64 bits.\<close>

primrec doc_ok :: "'d json \<Rightarrow> bool" where
  "doc_ok Null = True"
| "doc_ok (Bool b) = True"
| "doc_ok (Int64 i) = (- (2 ^ 63) \<le> i \<and> i < 2 ^ 63)"
| "doc_ok (Uint64 n) = (n < 2 ^ 64)"
| "doc_ok (Double d) = True"
| "doc_ok (String s) = True"
| "doc_ok (Array js) = list_all (\<lambda>b. b) (map doc_ok js)"
| "doc_ok (Object kvs) = list_all snd (map (map_prod id doc_ok) kvs)"

lemma doc_ok_member: "list_all snd (map (map_prod id doc_ok) kvs) \<Longrightarrow> map_of kvs k = Some j \<Longrightarrow> doc_ok j"
  by (auto simp: list_all_iff dest!: map_of_SomeD)

lemma doc_ok_array: "doc_ok root \<Longrightarrow> if_array root = Some js \<Longrightarrow> list_all doc_ok js"
  by (cases root) (auto simp: list_all_iff)

lemma doc_ok_object: "doc_ok root \<Longrightarrow> if_object root = Some kvs \<Longrightarrow> list_all snd (map (map_prod id doc_ok) kvs)"
  by (cases root) auto

section \<open>Sound readers\<close>

definition sound :: "'d reader \<Rightarrow> ('d val \<Rightarrow> bool) \<Rightarrow> bool" where
  "sound f P \<longleftrightarrow> (\<forall>root object v. doc_ok root \<longrightarrow> P object \<longrightarrow> f root object = Inr v \<longrightarrow> P v)"

lemma soundI: "(\<And>root object v. doc_ok root \<Longrightarrow> P object \<Longrightarrow> f root object = Inr v \<Longrightarrow> P v) \<Longrightarrow> sound f P"
  and soundD: "sound f P \<Longrightarrow> doc_ok root \<Longrightarrow> P object \<Longrightarrow> f root object = Inr v \<Longrightarrow> P v"
  by (auto simp: sound_def)

lemmas bit_ranges = signed_take_bit_int_greater_eq_minus_exp signed_take_bit_int_less_exp
  take_bit_int_less_exp take_bit_nonnegative

lemma map_sum_Inr: "map_sum id f r = Inr v \<longleftrightarrow> (\<exists>x. r = Inr x \<and> v = f x)"
  by (cases r) auto

lemma sound_simple: "sound (JsonToSimple env s) (simple_typed s)"
proof (rule soundI)
  fix root :: "'a json" and object v
  assume ok: "doc_ok root" and r: "JsonToSimple env s root object = Inr v"
  then have "Convert env s root = Inr v"
    by (simp add: JsonToSimple_def split: if_splits)
  with ok show "simple_typed s v"
    using bit_ranges [of 7] bit_ranges [of 15] bit_ranges [of 31]
      take_bit_int_less_exp [of 8] take_bit_int_less_exp [of 16] take_bit_int_less_exp [of 32] take_bit_int_less_exp [of 64]
    by (cases s; cases root) (auto simp: simple_typed_def map_sum_Inr Convert_narrow_defs)
qed

lemma enum_registered:
  assumes "JsonToEnum env its root object = Inr v"
  shows "is_V_int v \<and> the_int v \<in> snd ` set (field_infos its)"
proof -
  obtain n i where "Enum_FromString its n = Inr i" and "v = V_int i"
    using assms by (auto simp: JsonToEnum_def map_sum_Inr split: if_splits sum.splits)
  then show ?thesis
    using Enum_FromString_spec(1) by force
qed

lemma sound_pointer:
  "sound f P \<Longrightarrow> P dflt \<Longrightarrow> sound (JsonToPointer dflt f) (\<lambda>v. v = V_null \<or> (is_V_some v \<and> P (pointee v)))"
  by (auto simp: sound_def JsonToPointer_def map_sum_Inr split: if_splits)

lemma sound_pair:
  assumes "sound f P" and "sound g Q"
  shows "sound (JsonToPair f g) (\<lambda>p. is_V_pair p \<and> P (pair_first p) \<and> Q (pair_second p))"
proof (rule soundI)
  fix root :: "'a json" and object v
  assume ok: "doc_ok root" and p: "is_V_pair object \<and> P (pair_first object) \<and> Q (pair_second object)"
    and r: "JsonToPair f g root object = Inr v"
  then obtain kvs j k a b where "if_object root = Some kvs" "map_of kvs ''id'' = Some j" "map_of kvs ''val'' = Some k"
    and a: "f j (pair_first object) = Inr a" and b: "g k (pair_second object) = Inr b" and v: "v = V_pair a b"
    by (auto simp: JsonToPair_def map_sum_Inr split: option.splits sum.splits)
  then have "doc_ok j" "doc_ok k"
    using doc_ok_member [OF doc_ok_object [OF ok]] by blast+
  then show "is_V_pair v \<and> P (pair_first v) \<and> Q (pair_second v)"
    using soundD [OF assms(1) _ _ a] soundD [OF assms(2) _ _ b] p v by simp
qed

lemma typed_bases:
  assumes "Deserialize_bases env (map (map_prod id (JsonToValue env)) ms) kvs objs = Inr vs"
    and "list_all snd (map (map_prod id doc_ok) kvs)" and "list_all2 (\<lambda>m. has_type (snd m)) ms objs"
    and "\<And>m. m \<in> set ms \<Longrightarrow> sound (JsonToValue env (snd m)) (has_type (snd m))"
  shows "list_all2 (\<lambda>m. has_type (snd m)) ms vs"
  using assms
proof (induction ms arbitrary: objs vs)
  case (Cons m ms)
  obtain n t where m: "m = (n, t)" by force
  obtain obj objs' where o: "objs = obj # objs'" "has_type t obj" "list_all2 (\<lambda>m. has_type (snd m)) ms objs'"
    using Cons.prems(3) m by (auto simp: list_all2_Cons1)
  define rs where "rs = map (map_prod id (JsonToValue env)) ms"
  have "Deserialize_bases env ((n, JsonToValue env t) # rs) kvs (obj # objs') = Inr vs"
    using Cons.prems(1) unfolding m o(1) rs_def by (simp only: list.map map_prod_simp id_def)
  then obtain j v vs' where j: "map_of kvs n = Some j" "JsonToValue env t j obj = Inr v" "vs = v # vs'"
    "Deserialize_bases env rs kvs objs' = Inr vs'"
    by (auto simp: map_sum_Inr split: option.splits sum.splits)
  have "has_type t v"
    using Cons.prems(4) [of m] m doc_ok_member [OF Cons.prems(2) j(1)] o(2) j(2) by (auto dest: soundD)
  moreover have "list_all2 (\<lambda>m. has_type (snd m)) ms vs'"
    using Cons.IH [OF j(4) [unfolded rs_def] Cons.prems(2) o(3)] Cons.prems(4) by simp
  ultimately show ?case using m j(3) by simp
qed simp

lemma typed_fields:
  assumes "Deserialize_fields (map (map_prod id (JsonToValue env)) ms) kvs objs = Inr vs"
    and "list_all snd (map (map_prod id doc_ok) kvs)" and "list_all2 (\<lambda>m. has_type (snd m)) ms objs"
    and "\<And>m. m \<in> set ms \<Longrightarrow> sound (JsonToValue env (snd m)) (has_type (snd m))"
  shows "list_all2 (\<lambda>m. has_type (snd m)) ms vs"
  using assms
proof (induction ms arbitrary: objs vs)
  case (Cons m ms)
  obtain n t where m: "m = (n, t)" by force
  obtain obj objs' where o: "objs = obj # objs'" "has_type t obj" "list_all2 (\<lambda>m. has_type (snd m)) ms objs'"
    using Cons.prems(3) m by (auto simp: list_all2_Cons1)
  let ?j = "case map_of kvs n of Some j \<Rightarrow> j | None \<Rightarrow> Null"
  define rs where "rs = map (map_prod id (JsonToValue env)) ms"
  have "Deserialize_fields ((n, JsonToValue env t) # rs) kvs (obj # objs') = Inr vs"
    using Cons.prems(1) unfolding m o(1) rs_def by (simp only: list.map map_prod_simp id_def)
  then obtain v vs' where j: "JsonToValue env t ?j obj = Inr v" "vs = v # vs'"
    "Deserialize_fields rs kvs objs' = Inr vs'"
    by (auto simp: map_sum_Inr split: sum.splits)
  have "doc_ok ?j"
    using doc_ok_member [OF Cons.prems(2)] by (auto split: option.split)
  then have "has_type t v"
    using Cons.prems(4) [of m] m o(2) j(1) by (auto dest: soundD)
  moreover have "list_all2 (\<lambda>m. has_type (snd m)) ms vs'"
    using Cons.IH [OF j(3) [unfolded rs_def] Cons.prems(2) o(3)] Cons.prems(4) by simp
  ultimately show ?case using m j(2) by simp
qed simp

lemma sound_object:
  assumes "\<And>m. m \<in> set (bs @ fs) \<Longrightarrow> sound (JsonToValue env (snd m)) (has_type (snd m))"
  shows "sound (JsonToValue env (Reflected bs fs)) (has_type (Reflected bs fs))"
proof (rule soundI)
  fix root :: "'a json" and object v
  assume ok: "doc_ok root" and ob: "has_type (Reflected bs fs) object"
    and r: "JsonToValue env (Reflected bs fs) root object = Inr v"
  then obtain kvs ps ms where kvs: "if_object root = Some kvs"
    and ps: "Deserialize_bases env (map (map_prod id (JsonToValue env)) bs) kvs (base_parts object) = Inr ps"
    and ms: "Deserialize_fields (map (map_prod id (JsonToValue env)) fs) kvs (members object) = Inr ms"
    and v: "v = V_object ps ms"
    by (auto simp: JsonToObject_def map_sum_Inr split: option.splits sum.splits)
  have "list_all2 (\<lambda>m. has_type (snd m)) bs (base_parts object)" "list_all2 (\<lambda>m. has_type (snd m)) fs (members object)"
    using ob by (simp_all add: list_all2_members)
  then have "list_all2 (\<lambda>m. has_type (snd m)) bs ps" "list_all2 (\<lambda>m. has_type (snd m)) fs ms"
    using typed_bases [OF ps doc_ok_object [OF ok kvs]] typed_fields [OF ms doc_ok_object [OF ok kvs]] assms by simp_all
  then show "has_type (Reflected bs fs) v"
    by (simp add: v list_all2_members)
qed

lemma typed_items:
  assumes "sound f P" and "P dflt" and "\<And>acc x. list_all P acc \<Longrightarrow> P x \<Longrightarrow> list_all P (ins acc x)"
    and "list_all doc_ok js" and "list_all P acc" and "read_items ins dflt f js acc = Inr vs"
  shows "list_all P vs"
  using assms(4-6)
proof (induction js arbitrary: acc)
  case (Cons j js)
  then obtain v where "f j dflt = Inr v" and "read_items ins dflt f js (ins acc v) = Inr vs"
    by (auto split: sum.splits)
  then show ?case
    using Cons.IH [of "ins acc v"] Cons.prems(1,2) soundD [OF assms(1) _ assms(2), of j v] assms(3) by simp
qed simp

lemma list_all_insert_ordered: "list_all P acc \<Longrightarrow> P x \<Longrightarrow> list_all P (insert_ordered lt acc x)"
  by (induction acc) auto

lemma sound_container:
  assumes "sound f P" and "P dflt" and "\<And>acc x. list_all P acc \<Longrightarrow> P x \<Longrightarrow> list_all P (ins acc x)"
  shows "sound (\<lambda>root object. read_array m (\<lambda>js. read_items ins dflt f js []) root) (\<lambda>v. is_V_list v \<and> list_all P (items v))"
proof (rule soundI)
  fix root :: "'a json" and object v
  assume ok: "doc_ok root" and r: "read_array m (\<lambda>js. read_items ins dflt f js []) root = Inr v"
  then obtain js vs where "if_array root = Some js" and "read_items ins dflt f js [] = Inr vs" and "v = V_list vs"
    by (auto simp: read_array_def map_sum_Inr split: option.splits)
  then show "is_V_list v \<and> list_all P (items v)"
    using typed_items [OF assms(1,2), where ins = ins and js = js and acc = "[]" and vs = vs] doc_ok_array [OF ok] assms(3) by simp
qed

lemma typed_tuple:
  assumes "list_all2 sound fs Ps" and "list_all2 (\<lambda>P x. P x) Ps objs" and "list_all doc_ok js" and "JsonToTuple fs js objs = Inr vs"
  shows "list_all2 (\<lambda>P x. P x) Ps vs"
  using assms
proof (induction arbitrary: js objs vs rule: list_all2_induct)
  case (Cons f fs P Ps)
  obtain obj objs' where o: "objs = obj # objs'" "P obj" "list_all2 (\<lambda>P x. P x) Ps objs'"
    using Cons.prems(1) by (auto simp: list_all2_Cons1)
  obtain j js' v vs' where j: "js = j # js'" "f j obj = Inr v" "vs = v # vs'" "JsonToTuple fs js' objs' = Inr vs'"
    using Cons.prems(3) o(1) by (cases js) (auto simp: map_sum_Inr split: sum.splits)
  then show ?case
    using Cons.IH [OF o(3), of js' vs'] Cons.prems(2) soundD [OF Cons.hyps(1), of j obj v] o(2) by simp
qed simp

lemma sound_tuple:
  assumes "list_all2 sound (map (JsonToValue env) ts) (map has_type ts)"
  shows "sound (JsonToValue env (Tuple ts)) (has_type (Tuple ts))"
proof (rule soundI)
  fix root :: "'a json" and object v
  assume ok: "doc_ok root" and ob: "has_type (Tuple ts) object" and r: "JsonToValue env (Tuple ts) root object = Inr v"
  then obtain js vs where "if_array root = Some js" and "JsonToTuple (map (JsonToValue env) ts) js (items object) = Inr vs"
    and "v = V_list vs"
    by (auto simp: read_array_def map_sum_Inr split: option.splits)
  then show "has_type (Tuple ts) v"
    using typed_tuple [OF assms _ doc_ok_array [OF ok], of "items object" js vs] ob by simp
qed

lemma sound_std_array:
  assumes "sound (JsonToValue env t) (has_type t)" and "has_type t (default_val env t)"
  shows "sound (JsonToValue env (StdArray n t)) (has_type (StdArray n t))"
proof (rule soundI)
  fix root :: "'a json" and object v
  assume ok: "doc_ok root" and r: "JsonToValue env (StdArray n t) root object = Inr v"
  have fs: "list_all2 sound (replicate n (JsonToValue env t)) (replicate n (has_type t))"
    using assms(1) by (simp add: list_all2_conv_all_nth)
  have ds: "list_all2 (\<lambda>P x. P x) (replicate n (has_type t)) (replicate n (default_val env t))"
    using assms(2) by (simp add: list_all2_conv_all_nth)
  obtain js vs where "if_array root = Some js" and "v = V_list vs"
    and "JsonToTuple (replicate n (JsonToValue env t)) js (replicate n (default_val env t)) = Inr vs"
    using r by (auto simp: read_array_def map_sum_Inr JsonToArray_def split: option.splits)
  then show "has_type (StdArray n t) v"
    using typed_tuple [OF fs ds doc_ok_array [OF ok], of js vs]
    by (auto simp: list_all2_conv_all_nth list_all_length)
qed

lemma JsonToValue_sound:
  assumes "\<And>t. has_type t (default_val env t)"
  shows "sound (JsonToValue env t) (has_type t)"
proof (induction t)
  case (Simple s)
  then show ?case using sound_simple by simp
next
  case (Enum s)
  then show ?case using sound_simple by simp
next
  case (ReflectedEnum its)
  show ?case by (intro soundI) (simp, drule enum_registered, simp)
next
  case (Reflected bs fs)
  then show ?case by (intro sound_object) (auto intro: snds.intros)
next
  case (SmartPointer t)
  then show ?case using sound_pointer assms by fastforce
next
  case (Optional t)
  then show ?case using sound_pointer assms by fastforce
next
  case (Sequence t)
  then show ?case
    unfolding JsonToValue.simps has_type.simps
    by (rule sound_container) (simp_all add: seq_insert_def assms)
next
  case Chars
  then show ?case by (auto simp: sound_def JsonToChars_def split: option.splits)
next
  case (StdSet t)
  then show ?case
    unfolding JsonToValue.simps has_type.simps
    by (rule sound_container) (simp_all add: set_insert_def list_all_insert_ordered assms)
next
  case (StdMap k t)
  show ?case
    unfolding JsonToValue.simps has_type.simps
    by (rule sound_container [OF sound_pair [OF StdMap]]) (simp_all add: map_insert_def list_all_insert_ordered assms)
next
  case (Pair t u)
  then show ?case using sound_pair by simp
next
  case (Tuple ts)
  then show ?case by (intro sound_tuple) (simp add: list_all2_conv_all_nth)
next
  case (StdArray n t)
  then show ?case using assms by (intro sound_std_array)
qed

section \<open>Properties\<close>


text \<open>The default constructors of the standard types.\<close>

primrec typed_default :: "ty \<Rightarrow> int val" where
  "typed_default (Simple s) = (if s = Bool_t then V_bool False else if s = Double_t then V_double 0
     else if s = String_t then V_string [] else V_int 0)"
| "typed_default (Enum s) = (if s = Bool_t then V_bool False else if s = Double_t then V_double 0
     else if s = String_t then V_string [] else V_int 0)"
| "typed_default (ReflectedEnum its) = V_int 0"
| "typed_default (Reflected bs fs) = V_object (map snd (map (map_prod id typed_default) bs))
     (map snd (map (map_prod id typed_default) fs))"
| "typed_default (SmartPointer t) = V_null"
| "typed_default (Optional t) = V_null"
| "typed_default (Sequence t) = V_list []"
| "typed_default Chars = V_string []"
| "typed_default (StdSet t) = V_list []"
| "typed_default (StdMap k t) = V_list []"
| "typed_default (Pair t u) = V_pair (typed_default t) (typed_default u)"
| "typed_default (Tuple ts) = V_list (map typed_default ts)"
| "typed_default (StdArray n t) = V_list (replicate n (typed_default t))"

lemma typed_default_typed: "has_type t (typed_default t)"
proof (induction t)
  case (Simple s)
  then show ?case by (cases s) (simp_all add: simple_typed_def)
next
  case (Enum s)
  then show ?case by (cases s) (simp_all add: simple_typed_def)
next
  case (Reflected bs fs)
  then show ?case
    by (simp add: list_all2_map1 list_all2_map2 list_all2_same prod_set_simps split_paired_all)
next
  case (Tuple ts)
  then show ?case by (simp add: list_all2_map1 list_all2_map2 list_all2_same)
next
  case (StdArray n t)
  then show ?case by (simp add: list_all_iff)
qed simp_all



end
