(* ===== verification/Config_Interface.thy ===== *)
theory Config_Interface
  imports Text_Stream
begin

text \<open>
  The interface of a configuration (\<open>application/iconfig.h\<close>, \<open>common/icollection.h\<close>): typed
  values over the text of a value, paths that are resolved key by key, and collections walked
  by a cursor. The laws are the two locales below; the JSON and the XML configuration
  interpret both.
\<close>

section \<open>Typed values\<close>

text \<open>
  The template \<open>GetValue<T>\<close>: the text of the value is read into a \<open>T{}\<close> by a formatted
  extraction, whose failure is not looked at. \<open>extract\<close> is the extraction of \<open>T\<close>.
\<close>

definition GetValue_as :: "('c \<Rightarrow> string \<Rightarrow> string result) \<Rightarrow> (string \<Rightarrow> 't) \<Rightarrow> 'c \<Rightarrow> string \<Rightarrow> 't result" where
  "GetValue_as get_value extract cfg path =
     (case get_value cfg path of Inl e \<Rightarrow> Inl e | Inr text \<Rightarrow> Inr (extract text))"

section \<open>Paths\<close>

locale path_config =
  fixes child :: "'c \<Rightarrow> string \<Rightarrow> 'c option"
    and keys :: "string \<Rightarrow> string list"
    and resolve :: "'c \<Rightarrow> string list \<Rightarrow> 'c option"
    and find_item :: "'c \<Rightarrow> string \<Rightarrow> 'c option"
  assumes resolve_Nil: "resolve c [] = Some c"
    and resolve_Cons: "resolve c (k # ks) = Option.bind (child c k) (\<lambda>d. resolve d ks)"
    and find_item_keys: "find_item c path = resolve c (keys path)"
begin

lemma resolve_append: "resolve c (ks @ ls) = Option.bind (resolve c ks) (\<lambda>d. resolve d ls)"
  by (induction ks arbitrary: c) (simp_all add: resolve_Nil resolve_Cons bind_assoc)

text \<open>A nested configuration answers a path as the whole one answers the joined path.\<close>

lemma nested_config:
  assumes "find_item root path = Some sub" and "keys q = keys path @ keys p"
  shows "find_item sub p = find_item root q"
  using assms by (simp add: find_item_keys resolve_append)

text \<open>Everything above a path that is found is found too.\<close>

lemma found_above:
  assumes "find_item root q = Some v" and "keys q = keys path @ ks"
  shows "\<exists>sub. find_item root path = Some sub"
  using assms by (cases "resolve root (keys path)") (auto simp: find_item_keys resolve_append)

end

section \<open>Collections\<close>

text \<open>How a collection is walked: an item, then \<open>Next\<close>, while it returns true.\<close>

fun walk :: "('c \<Rightarrow> 'x result) \<Rightarrow> ('c \<Rightarrow> 'c \<times> bool) \<Rightarrow> nat \<Rightarrow> 'c \<Rightarrow> 'x list result" where
  "walk get next 0 c = Inr []"
| "walk get next (Suc fuel) c =
     (case get c of
        Inl e \<Rightarrow> Inl e
      | Inr x \<Rightarrow>
          (case next c of
             (c', further) \<Rightarrow> if further then map_sum id (\<lambda>xs. x # xs) (walk get next fuel c') else Inr [x]))"

locale cursor =
  fixes get :: "'c \<Rightarrow> 'x result"
    and "next" :: "'c \<Rightarrow> 'c \<times> bool"
    and reset :: "'c \<Rightarrow> 'c"
    and rest :: "'c \<Rightarrow> 'x list"
    and items :: "'c \<Rightarrow> 'x list"
    and ok :: "'c \<Rightarrow> bool"
  assumes get_rest: "rest c = x # xs \<Longrightarrow> get c = Inr x"
    and get_end: "ok c \<Longrightarrow> rest c = [] \<Longrightarrow> \<exists>e. get c = Inl e"
    and next_ok: "ok c \<Longrightarrow> ok (fst (next c))"
    and next_rest: "ok c \<Longrightarrow> rest (fst (next c)) = tl (rest c)"
    and next_more: "ok c \<Longrightarrow> snd (next c) \<longleftrightarrow> tl (rest c) \<noteq> []"
    and reset_ok: "ok (reset c)"
    and reset_rest: "rest (reset c) = items c"
begin

lemma walk_rest:
  "ok c \<Longrightarrow> rest c \<noteq> [] \<Longrightarrow> length (rest c) \<le> fuel \<Longrightarrow> walk get next fuel c = Inr (rest c)"
proof (induction fuel arbitrary: c)
  case (Suc fuel)
  then obtain x xs where r: "rest c = x # xs"
    by (cases "rest c") auto
  obtain c' further where n: "next c = (c', further)"
    by (cases "next c")
  then have "ok c'" and "rest c' = xs" and "further \<longleftrightarrow> xs \<noteq> []"
    using next_ok [of c] next_rest [of c] next_more [of c] Suc.prems(1) r by simp_all
  then show ?case
    using Suc.IH [of c'] Suc.prems get_rest [OF r] n r by simp
qed simp

text \<open>Whatever was read before, a reset collection gives all its items again.\<close>

lemma walk_reset: "items c \<noteq> [] \<Longrightarrow> walk get next (length (items c)) (reset c) = Inr (items c)"
  using walk_rest [of "reset c" "length (items c)"] by (simp add: reset_ok reset_rest)

lemma walk_empty: "ok c \<Longrightarrow> rest c = [] \<Longrightarrow> \<exists>e. walk get next (Suc fuel) c = Inl e"
  using get_end by fastforce

end

end
