(* ===== verification/Property_Tree.thy ===== *)
theory Property_Tree
  imports Config_Interface
begin

text \<open>
  The tree of \<open>boost::property_tree::ptree\<close> as the XML configuration and the XML
  serialization use it: a node has a text and an ordered list of named children. The
  operations are those the sources call. Reading and printing XML text are arguments of the
  definitions that call them.
\<close>

datatype ptree = Tree (ptree_data: string) (ptree_children: "(string \<times> ptree) list")

definition empty_ptree :: ptree where
  "empty_ptree = Tree [] []"

text \<open>
  A path is split at the dots; what is left after a dot at its very end is no key, so the
  empty path has no keys and leads to the node itself.
\<close>

definition path_keys :: "string \<Rightarrow> string list" where
  "path_keys path =
     (let ts = split_any_of (\<lambda>c. c = CHR ''.'') path in if last ts = [] then butlast ts else ts)"

text \<open>Of several children with a name the first is taken.\<close>

definition ptree_child :: "ptree \<Rightarrow> string \<Rightarrow> ptree option" where
  "ptree_child t k = map_of (ptree_children t) k"

fun ptree_walk :: "ptree \<Rightarrow> string list \<Rightarrow> ptree option" where
  "ptree_walk t [] = Some t"
| "ptree_walk t (k # ks) = (case ptree_child t k of None \<Rightarrow> None | Some u \<Rightarrow> ptree_walk u ks)"

definition get_child_optional :: "ptree \<Rightarrow> string \<Rightarrow> ptree option" where
  "get_child_optional t path = ptree_walk t (path_keys path)"

definition get_optional_string :: "ptree \<Rightarrow> string \<Rightarrow> string option" where
  "get_optional_string t path = map_option ptree_data (get_child_optional t path)"

text \<open>\<open>find\<close> takes a key, not a path.\<close>

definition ptree_find :: "ptree \<Rightarrow> string \<Rightarrow> bool" where
  "ptree_find t key = (ptree_child t key \<noteq> None)"

text \<open>\<open>push_back\<close>, and \<open>add\<close> with a name without a dot: a new last child.\<close>

definition add_child :: "ptree \<Rightarrow> string \<Rightarrow> ptree \<Rightarrow> ptree" where
  "add_child t name u = Tree (ptree_data t) (ptree_children t @ [(name, u)])"

section \<open>Facts\<close>

interpretation ptree_paths: path_config ptree_child path_keys ptree_walk get_child_optional
  by unfold_locales (auto simp: get_child_optional_def split: option.splits)

lemma ptree_children_add [simp]:
  "ptree_children (add_child t n u) = ptree_children t @ [(n, u)]"
  "ptree_data (add_child t n u) = ptree_data t"
  by (simp_all add: add_child_def)

lemma split_dot_no_dot: "CHR ''.'' \<notin> set s \<Longrightarrow> split_any_of (\<lambda>c. c = CHR ''.'') s = [s]"
  by (rule split_any_of_no_sep) auto

lemma path_keys_simple: "s \<noteq> [] \<Longrightarrow> CHR ''.'' \<notin> set s \<Longrightarrow> path_keys s = [s]"
  by (simp add: path_keys_def split_dot_no_dot)

lemma path_keys_Nil [simp]: "path_keys [] = []"
  by (simp add: path_keys_def)

lemma path_keys_no_dot: "k \<in> set (path_keys s) \<Longrightarrow> CHR ''.'' \<notin> set k"
  using split_any_of_tokens [of k "\<lambda>c. c = CHR ''.''" s]
  by (auto simp: path_keys_def Let_def split: if_splits dest: in_set_butlastD)

lemma get_child_optional_simple:
  "s \<noteq> [] \<Longrightarrow> CHR ''.'' \<notin> set s \<Longrightarrow> get_child_optional t s = ptree_child t s"
  by (simp add: get_child_optional_def path_keys_simple split: option.split)

end
