(* ===== verification/Serialization_Xml.thy ===== *)
theory Serialization_Xml
  imports Serialization_Json Property_Tree
begin

text \<open>
  Type-directed conversion between C++ values and property trees (\<open>serialization/xml.h\<close>). The
  values are those of the JSON serialization. The types are the ones for which both the writer
  and the reader exist as programs; the overloads that only write, or do not compile, are listed
  at the end of the writers. Reading assigns to an existing object, which is an argument.

  Arguments of the model (\<open>xml_env\<close>): printing and extracting floating-point numbers, the order
  of the elements of \<open>std::set\<close> and \<open>std::map\<close>, and the default constructors.
\<close>

section \<open>Types\<close>

text \<open>
  A class has its name, its bases under their full names, and its fields.
\<close>

datatype xty = X_simple simple_type | X_enum "(unit, int) meta_info"
  | X_class string "(string \<times> xty) list" "(string \<times> xty) list"
  | X_pointer xty | X_sequence xty | X_set xty | X_map xty xty | X_pair xty xty

record 'd xml_env =
  print_double :: "'d \<Rightarrow> string"
  extract_double :: "string \<Rightarrow> 'd val \<Rightarrow> 'd"
  xml_less :: "'d val \<Rightarrow> 'd val \<Rightarrow> bool"
  xml_default :: "xty \<Rightarrow> 'd val"

section \<open>Adding nodes\<close>

text \<open>
  \<open>ptree::add\<close>: the path is split at the dots, missing nodes on the way are made, and the last
  key becomes a new last child. An empty last key violates an assertion of the library.
\<close>

fun update_child :: "(string \<times> ptree) list \<Rightarrow> string \<Rightarrow> (ptree \<Rightarrow> ptree) \<Rightarrow> (string \<times> ptree) list" where
  "update_child [] k f = [(k, f empty_ptree)]"
| "update_child ((k', t) # ts) k f = (if k' = k then (k', f t) # ts else (k', t) # update_child ts k f)"

fun add_keys :: "string list \<Rightarrow> ptree \<Rightarrow> ptree \<Rightarrow> ptree" where
  "add_keys [] u t = t"
| "add_keys [k] u t = add_child t k u"
| "add_keys (k # k2 # ks) u t = Tree (ptree_data t) (update_child (ptree_children t) k (add_keys (k2 # ks) u))"

definition node_add :: "string \<Rightarrow> ptree \<Rightarrow> ptree \<Rightarrow> ptree result" where
  "node_add name u node =
     (let keys = split_any_of (\<lambda>c. c = CHR ''.'') name
      in if last keys = [] then Inl Undefined_behaviour else Inr (add_keys keys u node))"

definition add_text :: "string \<Rightarrow> string \<Rightarrow> ptree \<Rightarrow> ptree result" where
  "add_text name text node = node_add name (Tree text []) node"

section \<open>Writing\<close>

type_synonym 'd xwriter = "string \<Rightarrow> 'd val \<Rightarrow> ptree \<Rightarrow> ptree result"

text \<open>\<open>std::to_string\<close> of a simple value; the eight-bit types are promoted to \<open>int\<close>.\<close>

fun simple_to_text :: "'d xml_env \<Rightarrow> simple_type \<Rightarrow> 'd val \<Rightarrow> string" where
  "simple_to_text env Bool_t v = (if the_bool v then ''1'' else ''0'')"
| "simple_to_text env Double_t v = print_double env (the_double v)"
| "simple_to_text env String_t v = the_string v"
| "simple_to_text env _ v = int_to_string (the_int v)"

definition SimpleToXml :: "'d xml_env \<Rightarrow> simple_type \<Rightarrow> 'd xwriter" where
  "SimpleToXml env s name v node = add_text name (simple_to_text env s v) node"

definition EnumToXml :: "(unit, int) meta_info \<Rightarrow> 'd xwriter" where
  "EnumToXml its name v node =
     (case Enum_ToString its (the_int v) of Inl e \<Rightarrow> Inl e | Inr text \<Rightarrow> add_text name text node)"

text \<open>\<open>SerializeBase\<close> and \<open>Serialize<I, N>\<close>: the bases, then the fields, each under its name.\<close>

fun MembersToXml :: "(string \<times> 'd xwriter) list \<Rightarrow> 'd val list \<Rightarrow> ptree \<Rightarrow> ptree result" where
  "MembersToXml [] vs item = Inr item"
| "MembersToXml ((n, f) # ms) vs item =
     (case f n (hd vs) item of Inl e \<Rightarrow> Inl e | Inr item' \<Rightarrow> MembersToXml ms (tl vs) item')"

definition ClassToXml :: "string \<Rightarrow> (string \<times> 'd xwriter) list \<Rightarrow> (string \<times> 'd xwriter) list \<Rightarrow> 'd xwriter" where
  "ClassToXml class bs fs name v node =
     (let itemName = (if name \<noteq> [] then name else class)
      in case MembersToXml bs (base_parts v) empty_ptree of
           Inl e \<Rightarrow> Inl e
         | Inr item \<Rightarrow>
             (case MembersToXml fs (members v) item of
                Inl e \<Rightarrow> Inl e
              | Inr item' \<Rightarrow> node_add itemName item' node))"

fun ItemsToXml :: "'d xwriter \<Rightarrow> 'd val list \<Rightarrow> ptree \<Rightarrow> ptree result" where
  "ItemsToXml f [] item = Inr item"
| "ItemsToXml f (v # vs) item =
     (case f ''item'' v item of Inl e \<Rightarrow> Inl e | Inr item' \<Rightarrow> ItemsToXml f vs item')"

definition ContainerToXml :: "'d xwriter \<Rightarrow> 'd xwriter" where
  "ContainerToXml f name v node =
     (case ItemsToXml f (items v) empty_ptree of Inl e \<Rightarrow> Inl e | Inr item \<Rightarrow> node_add name item node)"

definition PairToXml :: "'d xwriter \<Rightarrow> 'd xwriter \<Rightarrow> 'd xwriter" where
  "PairToXml f g name v node =
     (case f ''id'' (pair_first v) empty_ptree of
        Inl e \<Rightarrow> Inl e
      | Inr item \<Rightarrow>
          (case g ''val'' (pair_second v) item of Inl e \<Rightarrow> Inl e | Inr item' \<Rightarrow> node_add name item' node))"

text \<open>An empty pointer is written as an empty node.\<close>

fun PointerToXml :: "'d xwriter \<Rightarrow> 'd xwriter" where
  "PointerToXml f name (V_some w) node = f name w node"
| "PointerToXml f name _ node = add_text name [] node"

primrec ValueToXml :: "'d xml_env \<Rightarrow> xty \<Rightarrow> 'd xwriter" where
  "ValueToXml env (X_simple s) = SimpleToXml env s"
| "ValueToXml env (X_enum its) = EnumToXml its"
| "ValueToXml env (X_class class bs fs) =
     ClassToXml class (map (map_prod id (ValueToXml env)) bs) (map (map_prod id (ValueToXml env)) fs)"
| "ValueToXml env (X_pointer t) = PointerToXml (ValueToXml env t)"
| "ValueToXml env (X_sequence t) = ContainerToXml (ValueToXml env t)"
| "ValueToXml env (X_set t) = ContainerToXml (ValueToXml env t)"
| "ValueToXml env (X_map k t) = ContainerToXml (PairToXml (ValueToXml env k) (ValueToXml env t))"
| "ValueToXml env (X_pair t u) = PairToXml (ValueToXml env t) (ValueToXml env u)"

text \<open>
  Two overloads have no reader that compiles. An enumeration without reflection is written as
  its number. A tuple is written through a copy of the new node, so its elements are lost.
\<close>

definition PlainEnumToXml :: "'d xwriter" where
  "PlainEnumToXml name v node = add_text name (int_to_string (the_int v)) node"

definition TupleToXml :: "'d xwriter list \<Rightarrow> 'd xwriter" where
  "TupleToXml fs name v node =
     (case add_text name [] node of
        Inl e \<Rightarrow> Inl e
      | Inr node' \<Rightarrow>
          (case MembersToXml (map (\<lambda>f. (''item'', f)) fs) (items v) empty_ptree of
             Inl e \<Rightarrow> Inl e
           | Inr lost_copy \<Rightarrow> Inr node'))"

section \<open>Reading\<close>

type_synonym 'd xreader = "ptree \<Rightarrow> string \<Rightarrow> 'd val \<Rightarrow> 'd val result"

definition xml_error :: "string \<Rightarrow> string \<Rightarrow> exn" where
  "xml_error subject name =
     Invalid_argument (''[Mif::Serialization::Xml::Detail::Deserialize] '' @
       ''Failed to parse '' @ subject @ ''. No node '' @ dquote @ name @ dquote @ ''.'')"

text \<open>
  \<open>std::stringstream{text} >> object\<close>: nothing but white space leaves the object as it is. The
  eight-bit types are character types, for which one character is extracted.
\<close>

definition extract_simple :: "'d xml_env \<Rightarrow> simple_type \<Rightarrow> string \<Rightarrow> 'd val \<Rightarrow> 'd val" where
  "extract_simple env s text object =
     (case dropWhile isspace text of
        [] \<Rightarrow> object
      | c # _ \<Rightarrow>
          (case s of
             Bool_t \<Rightarrow> V_bool (read_bool text)
           | Int8_t \<Rightarrow> V_int (signed_take_bit 7 (of_char c))
           | Uint8_t \<Rightarrow> V_int (of_char c)
           | Int16_t \<Rightarrow> V_int (read_signed 16 text)
           | Int32_t \<Rightarrow> V_int (read_signed 32 text)
           | Int64_t \<Rightarrow> V_int (read_signed 64 text)
           | Uint16_t \<Rightarrow> V_int (read_unsigned 16 text)
           | Uint32_t \<Rightarrow> V_int (read_unsigned 32 text)
           | Uint64_t \<Rightarrow> V_int (read_unsigned 64 text)
           | Double_t \<Rightarrow> V_double (extract_double env text object)
           | String_t \<Rightarrow> V_string text))"

definition XmlToSimple :: "'d xml_env \<Rightarrow> simple_type \<Rightarrow> 'd xreader" where
  "XmlToSimple env s node name object =
     (case get_optional_string node name of
        None \<Rightarrow> Inl (xml_error (if s = String_t then ''string'' else ''value'') name)
      | Some text \<Rightarrow> Inr (if s = String_t then V_string text else extract_simple env s text object))"

definition XmlToEnum :: "(unit, int) meta_info \<Rightarrow> 'd xreader" where
  "XmlToEnum its node name object =
     (case get_optional_string node name of
        None \<Rightarrow> Inl (xml_error ''enum value'' name)
      | Some text \<Rightarrow> map_sum id V_int (Enum_FromString its text))"

fun XmlToMembers :: "(string \<times> 'd xreader) list \<Rightarrow> ptree \<Rightarrow> 'd val list \<Rightarrow> 'd val list result" where
  "XmlToMembers [] node objs = Inr []"
| "XmlToMembers ((n, f) # ms) node objs =
     (case f node n (hd objs) of
        Inl e \<Rightarrow> Inl e
      | Inr v \<Rightarrow> map_sum id (\<lambda>vs. v # vs) (XmlToMembers ms node (tl objs)))"

definition read_object :: "(string \<times> 'd xreader) list \<Rightarrow> (string \<times> 'd xreader) list \<Rightarrow> ptree \<Rightarrow> 'd val \<Rightarrow> 'd val result" where
  "read_object bs fs item object =
     (case XmlToMembers bs item (base_parts object) of
        Inl e \<Rightarrow> Inl e
      | Inr parts \<Rightarrow> map_sum id (V_object parts) (XmlToMembers fs item (members object)))"

text \<open>A class: a child with the name of the class comes first, then the child asked for.\<close>

definition XmlToClass :: "string \<Rightarrow> (string \<times> 'd xreader) list \<Rightarrow> (string \<times> 'd xreader) list \<Rightarrow> 'd xreader" where
  "XmlToClass class bs fs node name object =
     (case get_child_optional node class of
        Some item \<Rightarrow> read_object bs fs item object
      | None \<Rightarrow>
          (case get_child_optional node name of
             None \<Rightarrow> Inl (Runtime_error (''No such node ('' @ name @ '')''))
           | Some item \<Rightarrow> read_object bs fs item object))"

text \<open>A container: every child is an element, whatever its name.\<close>

fun XmlToItems :: "('d val list \<Rightarrow> 'd val \<Rightarrow> 'd val list) \<Rightarrow> 'd val \<Rightarrow> 'd xreader \<Rightarrow> (string \<times> ptree) list \<Rightarrow>
    'd val list \<Rightarrow> 'd val list result" where
  "XmlToItems ins dflt f [] object = Inr object"
| "XmlToItems ins dflt f ((k, t) # ts) object =
     (case f t [] dflt of Inl e \<Rightarrow> Inl e | Inr v \<Rightarrow> XmlToItems ins dflt f ts (ins object v))"

definition XmlToContainer :: "('d val list \<Rightarrow> 'd val \<Rightarrow> 'd val list) \<Rightarrow> 'd val \<Rightarrow> 'd xreader \<Rightarrow> 'd xreader" where
  "XmlToContainer ins dflt f node name object =
     (case get_child_optional node name of
        None \<Rightarrow> Inl (xml_error ''container'' name)
      | Some nested \<Rightarrow> map_sum id V_list (XmlToItems ins dflt f (ptree_children nested) []))"

text \<open>A pair: its two members are looked for in the node itself; the name is not used.\<close>

definition XmlToPair :: "'d xreader \<Rightarrow> 'd xreader \<Rightarrow> 'd xreader" where
  "XmlToPair f g node name object =
     (case f node ''id'' (pair_first object) of
        Inl e \<Rightarrow> Inl e
      | Inr v \<Rightarrow> map_sum id (V_pair v) (g node ''val'' (pair_second object)))"

text \<open>A pointer: a new object is made and read, also from an empty node.\<close>

definition XmlToPointer :: "'d val \<Rightarrow> 'd xreader \<Rightarrow> 'd xreader" where
  "XmlToPointer dflt f node name object = map_sum id V_some (f node name dflt)"

primrec XmlToValue :: "'d xml_env \<Rightarrow> xty \<Rightarrow> 'd xreader" where
  "XmlToValue env (X_simple s) = XmlToSimple env s"
| "XmlToValue env (X_enum its) = XmlToEnum its"
| "XmlToValue env (X_class class bs fs) =
     XmlToClass class (map (map_prod id (XmlToValue env)) bs) (map (map_prod id (XmlToValue env)) fs)"
| "XmlToValue env (X_pointer t) = XmlToPointer (xml_default env t) (XmlToValue env t)"
| "XmlToValue env (X_sequence t) = XmlToContainer seq_insert (xml_default env t) (XmlToValue env t)"
| "XmlToValue env (X_set t) = XmlToContainer (insert_ordered (xml_less env)) (xml_default env t) (XmlToValue env t)"
| "XmlToValue env (X_map k t) =
     XmlToContainer (insert_ordered (\<lambda>x y. xml_less env (pair_first x) (pair_first y)))
       (V_pair (xml_default env k) (xml_default env t)) (XmlToPair (XmlToValue env k) (XmlToValue env t))"
| "XmlToValue env (X_pair t u) = XmlToPair (XmlToValue env t) (XmlToValue env u)"

section \<open>Entry points\<close>

text \<open>\<open>write_xml\<close> and \<open>read_xml\<close> are arguments.\<close>

definition Xml_Serialize :: "(ptree \<Rightarrow> buffer result) \<Rightarrow> 'd xml_env \<Rightarrow> xty \<Rightarrow> 'd val \<Rightarrow> string \<Rightarrow> buffer result" where
  "Xml_Serialize write_xml env t v root =
     (case ValueToXml env t root v empty_ptree of Inl e \<Rightarrow> Inl e | Inr doc \<Rightarrow> write_xml doc)"

definition Xml_Deserialize :: "(buffer \<Rightarrow> ptree result) \<Rightarrow> 'd xml_env \<Rightarrow> xty \<Rightarrow> buffer \<Rightarrow> string \<Rightarrow> 'd val result" where
  "Xml_Deserialize read_xml env t text root =
     (case read_xml text of Inl e \<Rightarrow> Inl e | Inr doc \<Rightarrow> XmlToValue env t doc root (xml_default env t))"

section \<open>Facts\<close>

definition plain_name :: "string \<Rightarrow> bool" where
  "plain_name n \<longleftrightarrow> n \<noteq> [] \<and> CHR ''.'' \<notin> set n"

lemma node_add_plain [simp]: "plain_name n \<Longrightarrow> node_add n u node = Inr (add_child node n u)"
  by (simp add: node_add_def plain_name_def split_dot_no_dot Let_def)

lemma add_text_plain [simp]: "plain_name n \<Longrightarrow> add_text n text node = Inr (add_child node n (Tree text []))"
  by (simp add: add_text_def)

lemma plain_tags [simp]: "plain_name ''item''" "plain_name ''id''" "plain_name ''val''"
  by (simp_all add: plain_name_def)

lemma child_plain: "plain_name n \<Longrightarrow> get_child_optional t n = map_of (ptree_children t) n"
  by (simp add: get_child_optional_simple plain_name_def ptree_child_def)

lemma child_self [simp]: "get_child_optional t [] = Some t"
  by (simp add: get_child_optional_def)

text \<open>
  The class whose name a reader looks for first, the children of its nodes, and whether a type is
  a pair, which is read from the node itself.
\<close>

fun head_class :: "xty \<Rightarrow> string option" where
  "head_class (X_class c bs fs) = Some c"
| "head_class (X_pointer t) = head_class t"
| "head_class _ = None"

fun own_names :: "xty \<Rightarrow> string list" where
  "own_names (X_class c bs fs) = map fst (bs @ fs)"
| "own_names (X_pointer t) = own_names t"
| "own_names _ = []"

fun bare_pair :: "xty \<Rightarrow> bool" where
  "bare_pair (X_pair t u) = True"
| "bare_pair (X_pointer t) = bare_pair t"
| "bare_pair _ = False"

text \<open>
  A member is found when its type is no pair and no other member has the name of its class. An
  element of a container is found when it has no member with the name of its own class.
\<close>

definition member_ok :: "string list \<Rightarrow> string \<times> xty \<Rightarrow> bool" where
  "member_ok names = (\<lambda>(n, t). plain_name n \<and> \<not> bare_pair t \<and>
     (case head_class t of None \<Rightarrow> True | Some c \<Rightarrow> plain_name c \<and> (c \<in> set names \<longrightarrow> c = n)))"

definition element_ok :: "xty \<Rightarrow> bool" where
  "element_ok t = (case head_class t of None \<Rightarrow> True | Some c \<Rightarrow> plain_name c \<and> c \<notin> set (own_names t))"

text \<open>The types whose values come back from their document.\<close>

primrec xml_type :: "xty \<Rightarrow> bool" where
  "xml_type (X_simple s) = (s \<noteq> Int8_t \<and> s \<noteq> Uint8_t)"
| "xml_type (X_enum its) = distinct (map fst (field_infos its))"
| "xml_type (X_class c bs fs) =
     (distinct (map fst (bs @ fs)) \<and> list_all (member_ok (map fst (bs @ fs))) (bs @ fs) \<and>
      list_all snd (map (map_prod id xml_type) bs) \<and> list_all snd (map (map_prod id xml_type) fs))"
| "xml_type (X_pointer t) = xml_type t"
| "xml_type (X_sequence t) = (xml_type t \<and> element_ok t)"
| "xml_type (X_set t) = (xml_type t \<and> element_ok t)"
| "xml_type (X_map k t) =
     (xml_type k \<and> xml_type t \<and> list_all (member_ok [''id'', ''val'']) [(''id'', k), (''val'', t)])"
| "xml_type (X_pair k t) =
     (xml_type k \<and> xml_type t \<and> list_all (member_ok [''id'', ''val'']) [(''id'', k), (''val'', t)])"

definition simple_value :: "'d xml_env \<Rightarrow> simple_type \<Rightarrow> 'd val \<Rightarrow> bool" where
  "simple_value env s v =
     (case v of
        V_bool b \<Rightarrow> s = Bool_t
      | V_int i \<Rightarrow>
          (case s of
             Int8_t \<Rightarrow> - (2 ^ 7) \<le> i \<and> i < 2 ^ 7 | Int16_t \<Rightarrow> - (2 ^ 15) \<le> i \<and> i < 2 ^ 15
           | Int32_t \<Rightarrow> - (2 ^ 31) \<le> i \<and> i < 2 ^ 31 | Int64_t \<Rightarrow> - (2 ^ 63) \<le> i \<and> i < 2 ^ 63
           | Uint8_t \<Rightarrow> 0 \<le> i \<and> i < 2 ^ 8 | Uint16_t \<Rightarrow> 0 \<le> i \<and> i < 2 ^ 16
           | Uint32_t \<Rightarrow> 0 \<le> i \<and> i < 2 ^ 32 | Uint64_t \<Rightarrow> 0 \<le> i \<and> i < 2 ^ 64
           | _ \<Rightarrow> False)
      | V_double d \<Rightarrow> s = Double_t \<and> dropWhile isspace (print_double env d) \<noteq> [] \<and>
          (\<forall>object. extract_double env (print_double env d) object = d)
      | V_string _ \<Rightarrow> s = String_t
      | _ \<Rightarrow> False)"

primrec xml_value :: "'d xml_env \<Rightarrow> xty \<Rightarrow> 'd val \<Rightarrow> bool" where
  "xml_value env (X_simple s) = simple_value env s"
| "xml_value env (X_enum its) = (\<lambda>v. case v of V_int i \<Rightarrow> i \<in> snd ` set (field_infos its) | _ \<Rightarrow> False)"
| "xml_value env (X_class c bs fs) = (\<lambda>v. case v of
       V_object ps ms \<Rightarrow> list_all2 (\<lambda>(n, f) x. f x) (map (map_prod id (xml_value env)) bs) ps \<and>
         list_all2 (\<lambda>(n, f) x. f x) (map (map_prod id (xml_value env)) fs) ms
     | _ \<Rightarrow> False)"
| "xml_value env (X_pointer t) = (\<lambda>v. case v of V_some w \<Rightarrow> xml_value env t w | _ \<Rightarrow> False)"
| "xml_value env (X_sequence t) = (\<lambda>v. case v of V_list vs \<Rightarrow> list_all (xml_value env t) vs | _ \<Rightarrow> False)"
| "xml_value env (X_set t) = (\<lambda>v. case v of
       V_list vs \<Rightarrow> list_all (xml_value env t) vs \<and> strictly_ordered (xml_less env) vs | _ \<Rightarrow> False)"
| "xml_value env (X_map k t) = (\<lambda>v. case v of
       V_list vs \<Rightarrow>
         list_all (\<lambda>p. case p of V_pair a b \<Rightarrow> xml_value env k a \<and> xml_value env t b | _ \<Rightarrow> False) vs \<and>
         strictly_ordered (\<lambda>x y. xml_less env (pair_first x) (pair_first y)) vs
     | _ \<Rightarrow> False)"
| "xml_value env (X_pair k t) = (\<lambda>v. case v of V_pair a b \<Rightarrow> xml_value env k a \<and> xml_value env t b | _ \<Rightarrow> False)"

subsection \<open>Numbers\<close>

lemma nat_to_string_unspaced: "dropWhile isspace (nat_to_string n) = nat_to_string n"
proof (cases "nat_to_string n")
  case (Cons c cs)
  then have "\<not> isspace c"
    using nat_to_string_digits [of c n] isdigit_not_space [of c] by simp
  with Cons show ?thesis by simp
qed simp

lemma int_to_string_unspaced: "dropWhile isspace (int_to_string i) = int_to_string i \<and> int_to_string i \<noteq> []"
  by (simp add: int_to_string_def nat_to_string_unspaced isspace_def code_of_def)

lemma extract_simple_number:
  assumes "s \<in> {Int16_t, Int32_t, Int64_t, Uint16_t, Uint32_t, Uint64_t}" and "simple_value env s (V_int i)"
  shows "extract_simple env s (int_to_string i) object = V_int i"
proof -
  obtain c cs where "dropWhile isspace (int_to_string i) = c # cs"
    using int_to_string_unspaced [of i] by (cases "int_to_string i") auto
  then show ?thesis
    using assms by (auto simp: extract_simple_def simple_value_def read_signed_int_to_string read_unsigned_int_to_string)
qed

lemma extract_simple_text:
  assumes "simple_value env s v" and "s \<noteq> Int8_t" and "s \<noteq> Uint8_t" and "s \<noteq> String_t"
  shows "extract_simple env s (simple_to_text env s v) object = v"
proof (cases v)
  case (V_bool b)
  with assms have "s = Bool_t" by (simp add: simple_value_def)
  moreover have "\<not> isspace (CHR ''1'')" "\<not> isspace (CHR ''0'')"
    by (simp_all add: isspace_def code_of_def)
  ultimately show ?thesis using V_bool by (simp add: extract_simple_def)
next
  case (V_int i)
  with assms have "s \<in> {Int16_t, Int32_t, Int64_t, Uint16_t, Uint32_t, Uint64_t}"
    by (cases s) (simp_all add: simple_value_def)
  moreover from this have "simple_to_text env s v = int_to_string i"
    using V_int by auto
  ultimately show ?thesis
    using assms(1) V_int extract_simple_number [of s env i object] by simp
next
  case (V_double d)
  then have "s = Double_t" and "dropWhile isspace (print_double env d) \<noteq> []" and "extract_double env (print_double env d) object = d"
    using assms by (auto simp: simple_value_def)
  then show ?thesis
    using V_double by (cases "dropWhile isspace (print_double env d)") (simp_all add: extract_simple_def del: dropWhile_eq_Nil_conv)
qed (use assms in \<open>auto simp: simple_value_def\<close>)

subsection \<open>Documents\<close>

text \<open>
  A node written for a value: writing adds it under the name, and reading it where it is found
  gives the value back.
\<close>

definition found_at :: "xty \<Rightarrow> ptree \<Rightarrow> ptree \<Rightarrow> string \<Rightarrow> bool" where
  "found_at t item node name \<longleftrightarrow>
     (if bare_pair t then node = item
      else get_child_optional node name = Some item \<and>
        (\<forall>c. head_class t = Some c \<longrightarrow> get_child_optional node c = None \<or> get_child_optional node c = Some item))"

definition encodes :: "'d xml_env \<Rightarrow> xty \<Rightarrow> 'd val \<Rightarrow> ptree \<Rightarrow> bool" where
  "encodes env t v item \<longleftrightarrow>
     (\<forall>name node. plain_name name \<longrightarrow> ValueToXml env t name v node = Inr (add_child node name item)) \<and>
     (\<forall>node name object. found_at t item node name \<longrightarrow> XmlToValue env t node name object = Inr v) \<and>
     (head_class t \<noteq> None \<longrightarrow> map fst (ptree_children item) = own_names t)"

lemma encodesI:
  assumes "\<And>name node. plain_name name \<Longrightarrow> ValueToXml env t name v node = Inr (add_child node name item)"
    and "\<And>node name object. found_at t item node name \<Longrightarrow> XmlToValue env t node name object = Inr v"
    and "head_class t \<noteq> None \<Longrightarrow> map fst (ptree_children item) = own_names t"
  shows "encodes env t v item"
  using assms by (simp add: encodes_def)

lemma encodes_write: "encodes env t v item \<Longrightarrow> plain_name name \<Longrightarrow> ValueToXml env t name v node = Inr (add_child node name item)"
  and encodes_read: "encodes env t v item \<Longrightarrow> found_at t item node name \<Longrightarrow> XmlToValue env t node name object = Inr v"
  by (simp_all add: encodes_def)

lemma found_as_element:
  assumes "encodes env t v item" and "element_ok t"
  shows "found_at t item item []"
proof -
  have "get_child_optional item c = None" if "head_class t = Some c" for c
  proof -
    have "plain_name c" and "c \<notin> set (own_names t)"
      using assms(2) that by (simp_all add: element_ok_def)
    moreover have "map fst (ptree_children item) = own_names t"
      using assms(1) that by (simp add: encodes_def)
    ultimately show ?thesis
      by (simp add: child_plain map_of_eq_None_iff flip: set_map)
  qed
  then show ?thesis by (simp add: found_at_def)
qed

text \<open>Members with their values and nodes, as one list.\<close>

type_synonym 'd member = "(string \<times> xty) \<times> 'd val \<times> ptree"

abbreviation member_nodes :: "'d member list \<Rightarrow> (string \<times> ptree) list" where
  "member_nodes ts \<equiv> map (\<lambda>m. (fst (fst m), snd (snd m))) ts"

lemma members_exist:
  assumes "list_all2 (\<lambda>m v. \<exists>item. encodes env (snd m) v item) ms vs"
  shows "\<exists>ts. map fst ts = ms \<and> map (\<lambda>m. fst (snd m)) ts = vs \<and> (\<forall>m \<in> set ts. encodes env (snd (fst m)) (fst (snd m)) (snd (snd m)))"
  using assms
proof (induction rule: list_all2_induct)
  case (Cons m ms v vs)
  then obtain item ts where "encodes env (snd m) v item" and "map fst ts = ms" and "map (\<lambda>m. fst (snd m)) ts = vs"
    and "\<forall>m \<in> set ts. encodes env (snd (fst m)) (fst (snd m)) (snd (snd m))" by blast
  then show ?case by (intro exI [of _ "(m, v, item) # ts"]) simp
qed simp

lemma members_write:
  assumes "\<forall>m \<in> set ts. encodes env (snd (fst m)) (fst (snd m)) (snd (snd m)) \<and> plain_name (fst (fst m))"
  shows "MembersToXml (map (map_prod id (ValueToXml env)) (map fst ts)) (map (\<lambda>m. fst (snd m)) ts) node =
    Inr (Tree (ptree_data node) (ptree_children node @ member_nodes ts))"
  using assms
proof (induction ts arbitrary: node)
  case Nil
  then show ?case by simp
next
  case (Cons m ts)
  obtain n t v item where m: "m = ((n, t), v, item)"
    by (metis prod.collapse)
  have "ValueToXml env t n v node = Inr (add_child node n item)"
    using Cons.prems m by (intro encodes_write) simp_all
  then show ?case
    using Cons.IH [of "add_child node n item"] Cons.prems m by simp
qed

lemma members_read:
  assumes "\<forall>m \<in> set ts. encodes env (snd (fst m)) (fst (snd m)) (snd (snd m)) \<and>
      found_at (snd (fst m)) (snd (snd m)) node (fst (fst m))"
  shows "XmlToMembers (map (map_prod id (XmlToValue env)) (map fst ts)) node objs = Inr (map (\<lambda>m. fst (snd m)) ts)"
  using assms
proof (induction ts arbitrary: objs)
  case (Cons m ts)
  obtain n t v item where m: "m = ((n, t), v, item)"
    by (metis prod.collapse)
  have "XmlToValue env t node n (hd objs) = Inr v"
    using Cons.prems m encodes_read [of env t v item] by simp
  then show ?case
    using Cons.IH [of "tl objs"] Cons.prems m by simp
qed simp

lemma members_found:
  assumes "distinct (map fst (member_nodes ts))" and "member_ok (map fst (member_nodes ts)) (fst m)" and "m \<in> set ts"
  shows "found_at (snd (fst m)) (snd (snd m)) (Tree d (member_nodes ts)) (fst (fst m))"
proof -
  let ?node = "Tree d (member_nodes ts)"
  have "map_of (member_nodes ts) (fst (fst m)) = Some (snd (snd m))"
    using assms(1,3) by (intro map_of_is_SomeI) auto
  moreover have "get_child_optional ?node c = None \<or> c = fst (fst m)" if "head_class (snd (fst m)) = Some c" for c
  proof (cases "c \<in> set (map fst (member_nodes ts))")
    case True
    then show ?thesis using assms(2) that by (force simp: member_ok_def)
  next
    case False
    then have "map_of (member_nodes ts) c = None" by (simp only: map_of_eq_None_iff list.set_map not_False_eq_True)
    then show ?thesis using assms(2) that by (auto simp: member_ok_def child_plain)
  qed
  ultimately show ?thesis
    using assms(2) by (auto simp: found_at_def member_ok_def child_plain)
qed

lemma typed_members:
  assumes "list_all2 (\<lambda>(n, f) x. f x) (map (map_prod id (xml_value env)) ms) vs" and "list_all snd (map (map_prod id xml_type) ms)"
    and "\<And>m v. m \<in> set ms \<Longrightarrow> xml_type (snd m) \<Longrightarrow> xml_value env (snd m) v \<Longrightarrow> P m v"
  shows "list_all2 P ms vs"
  using assms
proof (induction ms arbitrary: vs)
  case (Cons m ms)
  then obtain v vs' where "vs = v # vs'" by (auto simp: list_all2_Cons1)
  with Cons show ?case by (cases m) simp
qed simp

lemma class_encodes:
  assumes type: "xml_type (X_class c bs fs)" and v: "v = V_object ps ms"
    and bs: "list_all2 (\<lambda>m v. \<exists>item. encodes env (snd m) v item) bs ps"
    and fs: "list_all2 (\<lambda>m v. \<exists>item. encodes env (snd m) v item) fs ms"
  shows "\<exists>item. encodes env (X_class c bs fs) v item"
proof -
  obtain ts1 where ts1: "map fst ts1 = bs" "map (\<lambda>m. fst (snd m)) ts1 = ps"
    "\<forall>m \<in> set ts1. encodes env (snd (fst m)) (fst (snd m)) (snd (snd m))"
    using members_exist [OF bs] by blast
  obtain ts2 where ts2: "map fst ts2 = fs" "map (\<lambda>m. fst (snd m)) ts2 = ms"
    "\<forall>m \<in> set ts2. encodes env (snd (fst m)) (fst (snd m)) (snd (snd m))"
    using members_exist [OF fs] by blast
  let ?ts = "ts1 @ ts2"
  let ?item = "Tree [] (member_nodes ?ts)"
  have names: "map fst (member_nodes ?ts) = map fst (bs @ fs)"
    by (simp add: comp_def flip: ts1(1) ts2(1))
  have ok: "member_ok (map fst (bs @ fs)) (fst m)" if "m \<in> set ?ts" for m
    using type that by (auto simp: list_all_iff simp flip: ts1(1) ts2(1))
  then have plain: "plain_name (fst (fst m))" if "m \<in> set ?ts" for m
    using that by (fastforce simp: member_ok_def split: prod.splits)
  have found: "found_at (snd (fst m)) (snd (snd m)) ?item (fst (fst m))" if "m \<in> set ?ts" for m
    using type that names ok [OF that] by (intro members_found) simp_all
  have wr: "MembersToXml (map (map_prod id (ValueToXml env)) bs) ps empty_ptree = Inr (Tree [] (member_nodes ts1))"
    "MembersToXml (map (map_prod id (ValueToXml env)) fs) ms (Tree [] (member_nodes ts1)) = Inr ?item"
    using members_write [of ts1 env empty_ptree] members_write [of ts2 env "Tree [] (member_nodes ts1)"] ts1 ts2 plain
    by (simp_all add: empty_ptree_def)
  have "read_object (map (map_prod id (XmlToValue env)) bs) (map (map_prod id (XmlToValue env)) fs) ?item object = Inr v" for object
    using members_read [of ts1 env ?item] members_read [of ts2 env ?item] ts1 ts2 found
    by (simp add: read_object_def v)
  then have "encodes env (X_class c bs fs) v ?item"
    using wr names
    by (intro encodesI) (auto simp: v ClassToXml_def XmlToClass_def found_at_def plain_name_def [of "[]"] split: option.splits)
  then show ?thesis by blast
qed

lemma items_encode:
  assumes "list_all (\<lambda>v. \<exists>item. encodes env t v item) vs"
  shows "\<exists>nodes. list_all2 (encodes env t) vs nodes \<and>
    (\<forall>node. ItemsToXml (ValueToXml env t) vs node = Inr (Tree (ptree_data node) (ptree_children node @ map (\<lambda>x. (''item'', x)) nodes)))"
  using assms
proof (induction vs)
  case (Cons v vs)
  then obtain item nodes where item: "encodes env t v item" and nodes: "list_all2 (encodes env t) vs nodes"
    and w: "\<And>node. ItemsToXml (ValueToXml env t) vs node = Inr (Tree (ptree_data node) (ptree_children node @ map (\<lambda>x. (''item'', x)) nodes))"
    by auto
  have "ItemsToXml (ValueToXml env t) (v # vs) node =
      Inr (Tree (ptree_data node) (ptree_children node @ map (\<lambda>x. (''item'', x)) (item # nodes)))" for node
    using encodes_write [OF item, of "''item''"] w by simp
  then show ?case
    using item nodes by (intro exI [of _ "item # nodes"]) simp
qed simp

lemma items_read:
  assumes "list_all2 (encodes env t) vs nodes" and "element_ok t"
  shows "XmlToItems ins dflt (XmlToValue env t) (map (\<lambda>x. (''item'', x)) nodes) acc = Inr (foldl ins acc vs)"
  using assms(1)
proof (induction arbitrary: acc rule: list_all2_induct)
  case (Cons v vs item nodes)
  have "XmlToValue env t item [] dflt = Inr v"
    using Cons(1) found_as_element [OF Cons(1) assms(2)] by (rule encodes_read)
  then show ?case using Cons(3) [of "ins acc v"] by simp
qed simp

text \<open>Containers, for every way of inserting that keeps the elements as they are.\<close>

lemma container_encodes:
  assumes "list_all (\<lambda>v. \<exists>item. encodes env t v item) vs" and "element_ok t" and "foldl ins [] vs = vs"
    and "ValueToXml env u = ContainerToXml (ValueToXml env t)"
    and "XmlToValue env u = XmlToContainer ins dflt (XmlToValue env t)"
    and "head_class u = None" and "\<not> bare_pair u"
  shows "\<exists>item. encodes env u (V_list vs) item"
proof -
  obtain nodes where n: "list_all2 (encodes env t) vs nodes"
    and w: "\<And>node. ItemsToXml (ValueToXml env t) vs node = Inr (Tree (ptree_data node) (ptree_children node @ map (\<lambda>x. (''item'', x)) nodes))"
    using items_encode [OF assms(1)] by blast
  have "encodes env u (V_list vs) (Tree [] (map (\<lambda>x. (''item'', x)) nodes))"
  proof (rule encodesI)
    show "ValueToXml env u name (V_list vs) node = Inr (add_child node name (Tree [] (map (\<lambda>x. (''item'', x)) nodes)))"
      if "plain_name name" for name node
      using that w [of empty_ptree] by (simp add: assms(4) ContainerToXml_def empty_ptree_def)
    show "XmlToValue env u node name object = Inr (V_list vs)"
      if "found_at u (Tree [] (map (\<lambda>x. (''item'', x)) nodes)) node name" for node name object
      using that assms(7) items_read [OF n assms(2), of ins dflt "[]"] assms(3) by (simp add: assms(5) XmlToContainer_def found_at_def)
  qed (simp add: assms(6))
  then show ?thesis by blast
qed

lemma pair_encodes:
  assumes "list_all (member_ok [''id'', ''val'']) [(''id'', k), (''val'', t)]"
    and a: "encodes env k a x" and b: "encodes env t b y"
  shows "encodes env (X_pair k t) (V_pair a b) (Tree [] [(''id'', x), (''val'', y)])"
proof -
  let ?ts = "[((''id'', k), a, x), ((''val'', t), b, y)]"
  let ?item = "Tree [] [(''id'', x), (''val'', y)]"
  have "found_at k x ?item ''id''" and "found_at t y ?item ''val''"
    using assms(1) members_found [of ?ts "((''id'', k), a, x)" "[]"] members_found [of ?ts "((''val'', t), b, y)" "[]"] by simp_all
  then have "XmlToValue env k ?item ''id'' object = Inr a" and "XmlToValue env t ?item ''val'' object = Inr b" for object
    using encodes_read [OF a] encodes_read [OF b] by blast+
  then show ?thesis
    using encodes_write [OF a, of "''id''"] encodes_write [OF b, of "''val''"]
    by (intro encodesI) (auto simp: PairToXml_def XmlToPair_def found_at_def empty_ptree_def add_child_def)
qed

lemma pointer_encodes: "encodes env t w item \<Longrightarrow> encodes env (X_pointer t) (V_some w) item"
  by (auto simp: encodes_def found_at_def XmlToPointer_def)

lemma value_encodes: "xml_type t \<Longrightarrow> xml_value env t v \<Longrightarrow> \<exists>item. encodes env t v item"
proof (induction t arbitrary: v)
  case (X_simple s)
  let ?item = "Tree (simple_to_text env s v) []"
  have "encodes env (X_simple s) v ?item"
  proof (rule encodesI)
    show "XmlToValue env (X_simple s) node name object = Inr v" if "found_at (X_simple s) ?item node name" for node name object
    proof -
      have "get_optional_string node name = Some (simple_to_text env s v)"
        using that by (simp add: found_at_def get_optional_string_def)
      moreover have "v = V_string (the_string v)" if "s = String_t"
        using X_simple.prems(2) that by (cases v) (simp_all add: simple_value_def)
      ultimately show ?thesis
        using X_simple.prems extract_simple_text [of env s v object] by (auto simp: XmlToSimple_def)
    qed
  qed (simp_all add: SimpleToXml_def)
  then show ?case by blast
next
  case (X_enum its)
  then obtain i where v: "v = V_int i" and "i \<in> snd ` set (field_infos its)"
    by (cases v) simp_all
  then obtain n where n: "Enum_ToString its i = Inr n" and "Enum_FromString its n = Inr i"
    using X_enum.prems(1) Enum_ToString_spec(2) [of i its] Enum_FromString_ToString by fastforce
  then have "encodes env (X_enum its) v (Tree n [])"
    by (intro encodesI) (auto simp: v EnumToXml_def XmlToEnum_def found_at_def get_optional_string_def)
  then show ?case by blast
next
  case (X_class c bs fs)
  then obtain ps ms where v: "v = V_object ps ms"
    and ps: "list_all2 (\<lambda>(n, f) x. f x) (map (map_prod id (xml_value env)) bs) ps"
    and ms: "list_all2 (\<lambda>(n, f) x. f x) (map (map_prod id (xml_value env)) fs) ms"
    by (cases v) simp_all
  show ?case
  proof (rule class_encodes [OF X_class.prems(1) v])
    show "list_all2 (\<lambda>m v. \<exists>item. encodes env (snd m) v item) bs ps"
      using X_class.IH(1) X_class.prems(1) by (intro typed_members [OF ps]) (auto intro: snds.intros)
    show "list_all2 (\<lambda>m v. \<exists>item. encodes env (snd m) v item) fs ms"
      using X_class.IH(2) X_class.prems(1) by (intro typed_members [OF ms]) (auto intro: snds.intros)
  qed
next
  case (X_pointer t)
  then show ?case by (cases v) (auto dest: pointer_encodes)
next
  case (X_sequence t)
  then obtain vs where v: "v = V_list vs" by (cases v) simp_all
  show ?case
    unfolding v using X_sequence v
    by (intro container_encodes [where t = t and ins = seq_insert]) (simp_all add: list_all_iff foldl_seq_insert)
next
  case (X_set t)
  then obtain vs where v: "v = V_list vs" by (cases v) simp_all
  show ?case
    unfolding v using X_set v
    by (intro container_encodes [where t = t and ins = "insert_ordered (xml_less env)"]) (simp_all add: list_all_iff foldl_insert_ordered)
next
  case (X_map k t)
  then obtain vs where v: "v = V_list vs" by (cases v) simp_all
  have "\<exists>item. encodes env (X_pair k t) p item" if "p \<in> set vs" for p
  proof -
    have "case p of V_pair a b \<Rightarrow> xml_value env k a \<and> xml_value env t b | _ \<Rightarrow> False"
      using X_map.prems(2) that v by (simp add: list_all_iff)
    then obtain a b where p: "p = V_pair a b" and ab: "xml_value env k a" "xml_value env t b"
      by (cases p) simp_all
    obtain x y where "encodes env k a x" and "encodes env t b y"
      using X_map.IH(1) [OF _ ab(1)] X_map.IH(2) [OF _ ab(2)] X_map.prems(1) by auto
    then show ?thesis
      using X_map.prems(1) pair_encodes unfolding p by (metis xml_type.simps(7))
  qed
  then show ?case
    unfolding v using X_map v
    by (intro container_encodes [where t = "X_pair k t" and ins = "insert_ordered (\<lambda>x y. xml_less env (pair_first x) (pair_first y))"
          and dflt = "V_pair (xml_default env k) (xml_default env t)"])
      (simp_all add: list_all_iff foldl_insert_ordered element_ok_def)
next
  case (X_pair k t)
  then obtain a b where p: "v = V_pair a b" and ab: "xml_value env k a" "xml_value env t b"
    by (cases v) simp_all
  obtain x y where "encodes env k a x" and "encodes env t b y"
    using X_pair.IH(1) [OF _ ab(1)] X_pair.IH(2) [OF _ ab(2)] X_pair.prems(1) by auto
  then show ?case
    using X_pair.prems(1) pair_encodes unfolding p by (metis xml_type.simps(8))
qed

section \<open>Properties\<close>


definition sample_xml_env :: "unit xml_env" where
  "sample_xml_env = \<lparr>print_double = (\<lambda>_. ''0''), extract_double = (\<lambda>_ _. ()), xml_less = (\<lambda>_ _. False), xml_default = (\<lambda>_. V_null)\<rparr>"

definition sample_xml_type :: xty where
  "sample_xml_type = X_class ''Employee'' [] [(''name'', X_simple String_t), (''years'', X_sequence (X_simple Int32_t))]"

definition sample_xml_value :: "unit val" where
  "sample_xml_value = V_object [] [V_string ''Ann'', V_list [V_int 1, V_int (-7)]]"


text \<open>
  What the XML format loses. An eight-bit number is printed in decimal and read as
  its first character; an empty pointer to a string comes back as a pointer to the empty string,
  and one to a class with a string field cannot be read; the elements of a tuple are never
  written; a pair that is a field cannot be read, since its members are looked for beside it.
\<close>

lemma xml_losses:
  assumes "plain_name n" and "n \<noteq> ''id''" and "plain_name c" and "c \<noteq> n" and "plain_name f"
  shows "ValueToXml env (X_simple Uint8_t) n (V_int 65) empty_ptree = Inr (Tree [] [(n, Tree ''65'' [])]) \<and>
    XmlToValue env (X_simple Uint8_t) (Tree [] [(n, Tree ''65'' [])]) n object = Inr (V_int 54) \<and>
    ValueToXml env (X_pointer t) n V_null empty_ptree = Inr (Tree [] [(n, Tree [] [])]) \<and>
    XmlToValue env (X_pointer (X_simple String_t)) (Tree [] [(n, Tree [] [])]) n object = Inr (V_some (V_string [])) \<and>
    XmlToValue env (X_pointer (X_class c [] [(f, X_simple String_t)])) (Tree [] [(n, Tree [] [])]) n object =
      Inl (xml_error ''string'' f) \<and>
    (MembersToXml (map (\<lambda>g. (''item'', g)) gs) (items v) empty_ptree = Inr lost \<longrightarrow>
       TupleToXml gs n v empty_ptree = Inr (Tree [] [(n, Tree [] [])])) \<and>
    XmlToValue env (X_pair (X_simple String_t) t) (Tree [] [(n, pair_node)]) n object = Inl (xml_error ''string'' ''id'')"
proof -
  have 65: "int_to_string 65 = ''65''" and "dropWhile isspace ''65'' = ''65''"
    by code_simp+
  moreover have "(of_char (CHR ''6'') :: int) = 54" by simp
  ultimately have "XmlToValue env (X_simple Uint8_t) (Tree [] [(n, Tree ''65'' [])]) n object = Inr (V_int 54)"
    using assms(1) by (simp add: XmlToSimple_def get_optional_string_def child_plain extract_simple_def del: dropWhile.simps)
  with assms 65 show ?thesis
    by (simp add: SimpleToXml_def XmlToPointer_def XmlToSimple_def XmlToClass_def read_object_def get_optional_string_def
        child_plain TupleToXml_def XmlToPair_def empty_ptree_def add_child_def)
qed

lemma xml_losses_example:
  "XmlToValue sample_xml_env (X_simple Uint8_t) (Tree [] [(''age'', Tree ''65'' [])]) ''age'' V_null = Inr (V_int 54)"
proof -
  have "plain_name ''age''" "''age'' \<noteq> ''id''" "plain_name ''C''" "''C'' \<noteq> ''age''" "plain_name ''f''"
    by (simp_all add: plain_name_def)
  from xml_losses [OF this, of sample_xml_env V_null "X_simple String_t" "[]" V_null empty_ptree empty_ptree]
  show ?thesis by (elim conjE)
qed

end
