(* ===== verification/Http_Handler.thy ===== *)
theory Http_Handler
  imports Http_WebService Serialization_Types Serialization_Xml Text_Stream
begin

text \<open>
  Calling the member functions of a web service (\<open>net/http/web_service.h\<close>): the converters of
  parameters (\<open>converter/url/param.h\<close>) and of contents (\<open>converter/content\<close>), the serializers of
  results (\<open>serializer\<close>), and the evaluation of the arguments of a handler. Reading
  floating-point numbers and times, and the order in which C++ evaluates the arguments of a
  call, are arguments.
\<close>

section \<open>Parameters of the URL\<close>

text \<open>
  The types a parameter can have. The three time types differ in the format that is read and
  in the part that is taken.
\<close>

datatype time_part = Date_part | Time_part | Whole_time

fun time_format :: "time_part \<Rightarrow> string" where
  "time_format Date_part = ''%Y.%m.%d''"
| "time_format Time_part = ''%H:%M:%S''"
| "time_format Whole_time = ''%Y.%m.%d %H:%M:%S''"

datatype uty = U_simple simple_type | U_enum "(unit, int) meta_info" | U_sequence uty | U_set uty | U_time time_part

record 'd url_env =
  std_stod :: "string \<Rightarrow> 'd result"
  extract_time :: "time_part \<Rightarrow> string \<Rightarrow> string \<Rightarrow> 'd val"
  url_less :: "'d val \<Rightarrow> 'd val \<Rightarrow> bool"

text \<open>\<open>static_cast<T>\<close> of a \<open>long long\<close>.\<close>

fun cast_integral :: "simple_type \<Rightarrow> int \<Rightarrow> 'd val" where
  "cast_integral Bool_t i = V_bool (i \<noteq> 0)"
| "cast_integral Int8_t i = V_int (signed_take_bit 7 i)"
| "cast_integral Int16_t i = V_int (signed_take_bit 15 i)"
| "cast_integral Int32_t i = V_int (signed_take_bit 31 i)"
| "cast_integral Uint8_t i = V_int (take_bit 8 i)"
| "cast_integral Uint16_t i = V_int (take_bit 16 i)"
| "cast_integral Uint32_t i = V_int (take_bit 32 i)"
| "cast_integral Uint64_t i = V_int (take_bit 64 i)"
| "cast_integral _ i = V_int i"

text \<open>The items of a list: a \<open>std::set\<close> of the parts between semicolons.\<close>

definition url_items :: "string \<Rightarrow> string list" where
  "url_items value = string_set (split_any_of (\<lambda>c. c = CHR '';'') value)"

fun convert_items :: "('d val list \<Rightarrow> 'd val \<Rightarrow> 'd val list) \<Rightarrow> (string \<Rightarrow> 'd val result) \<Rightarrow> string list \<Rightarrow> 'd val list \<Rightarrow>
    'd val list result" where
  "convert_items ins f [] acc = Inr acc"
| "convert_items ins f (x # xs) acc = (case f x of Inl e \<Rightarrow> Inl e | Inr v \<Rightarrow> convert_items ins f xs (ins acc v))"

primrec Url_Convert :: "'d url_env \<Rightarrow> uty \<Rightarrow> string \<Rightarrow> 'd val result" where
  "Url_Convert env (U_simple s) value =
     (if s = String_t then Inr (V_string value)
      else if s = Double_t then map_sum id V_double (std_stod env value)
      else map_sum id (cast_integral s) (sto_int ''stoll'' 64 value))"
| "Url_Convert env (U_enum its) value = map_sum id V_int (Enum_FromString its value)"
| "Url_Convert env (U_sequence t) value = map_sum id V_list (convert_items seq_insert (Url_Convert env t) (url_items value) [])"
| "Url_Convert env (U_set t) value =
     map_sum id V_list (convert_items (insert_ordered (url_less env)) (Url_Convert env t) (url_items value) [])"
| "Url_Convert env (U_time part) value = Inr (extract_time env part (time_format part) value)"

section \<open>Contents and results\<close>

definition no_content :: "string \<Rightarrow> exn" where
  "no_content name = Invalid_argument (''[Mif::Net::Http::'' @ name @ ''] No content.'')"

definition PlainText_Convert :: "'d url_env \<Rightarrow> uty \<Rightarrow> buffer \<Rightarrow> 'd val result" where
  "PlainText_Convert env t b =
     (if b = [] then Inl (no_content ''Converter::Content::PlainText'') else Url_Convert env t b)"

definition Json_Convert :: "(buffer \<Rightarrow> 'd json result) \<Rightarrow> 'd json_env \<Rightarrow> ty \<Rightarrow> buffer \<Rightarrow> 'd val result" where
  "Json_Convert parse env t b =
     (if b = [] then Inl (no_content ''Converter::Content::Json'') else Deserialize parse env t b [])"

definition Raw_Convert :: "buffer \<Rightarrow> 'd val result" where
  "Raw_Convert b = (if b = [] then Inl (no_content ''Converter::Content::Raw'') else Inr (V_string b))"

fun xml_reflectable :: "xty \<Rightarrow> bool" where
  "xml_reflectable (X_class c bs fs) = True"
| "xml_reflectable (X_enum its) = True"
| "xml_reflectable t = False"

definition Tag_Document :: string where
  "Tag_Document = ''document''"

definition Xml_Convert :: "(buffer \<Rightarrow> ptree result) \<Rightarrow> 'd xml_env \<Rightarrow> xty \<Rightarrow> buffer \<Rightarrow> 'd val result" where
  "Xml_Convert read_xml env t b =
     (if xml_reflectable t
      then if b = [] then Inl (no_content ''Converter::Content::Xml'') else Xml_Deserialize read_xml env t b []
      else if b = [] then Inl (no_content ''XmlContentParamConverter'') else Xml_Deserialize read_xml env t b Tag_Document)"

text \<open>
  The serializers with their content types. Text is what a stream prints: eight-bit numbers are
  characters there.
\<close>

definition PlainText_ContentType :: string where
  "PlainText_ContentType = ''text/html; charset=UTF-8''"

definition Json_ContentType :: string where
  "Json_ContentType = ''application/json; charset=UTF-8''"

definition Xml_ContentType :: string where
  "Xml_ContentType = ''text/xml; charset=UTF-8''"

definition PlainText_Serialize :: "('d \<Rightarrow> string) \<Rightarrow> simple_type \<Rightarrow> 'd val \<Rightarrow> buffer" where
  "PlainText_Serialize print s v =
     (if s = String_t then the_string v
      else if s = Double_t then print (the_double v)
      else if s = Bool_t then (if the_bool v then ''1'' else ''0'')
      else if s = Int8_t \<or> s = Uint8_t then [char_of (nat (the_int v mod 256))]
      else int_to_string (the_int v))"

definition Json_Serialize :: "('d json \<Rightarrow> buffer) \<Rightarrow> ty \<Rightarrow> 'd val \<Rightarrow> buffer result" where
  "Json_Serialize print t v = Serialize print t v []"

definition Xml_Serializer :: "(ptree \<Rightarrow> buffer result) \<Rightarrow> 'd xml_env \<Rightarrow> xty \<Rightarrow> 'd val \<Rightarrow> buffer result" where
  "Xml_Serializer write_xml env t v = Xml_Serialize write_xml env t v (if xml_reflectable t then [] else Tag_Document)"

section \<open>Arguments of a handler\<close>

text \<open>
  The parameters in the order of their names, as the loop over the \<open>std::map\<close> sees them.
\<close>

definition params_emplace :: "(string \<times> string) list \<Rightarrow> string \<times> string \<Rightarrow> (string \<times> string) list" where
  "params_emplace r kv = ordered_emplace r (fst kv) (snd kv)"

definition params_list :: "string \<Rightarrow> (string \<times> string) list" where
  "params_list query =
     (if query = [] then []
      else let q = (if hd query = CHR ''?'' then tl query else query)
           in foldl params_emplace [] (map param_pair (string_set (split_any_of (\<lambda>c. c = CHR ''&'') q))))"

datatype 'd arg_kind = K_prm "32 word" uty | K_params | K_headers | K_request | K_response
  | K_pack "(string \<times> bool \<times> uty) list" | K_content "buffer \<Rightarrow> 'd val result"

datatype 'd arg_value = Arg_prm "'d val Prm" | Arg_params "string \<rightharpoonup> string" | Arg_headers "string \<rightharpoonup> string"
  | Arg_request InputPack | Arg_response | Arg_pack "'d val option list" | Arg_content "'d val option"

definition pack_convert :: "'d url_env \<Rightarrow> (string \<times> bool \<times> uty) list \<Rightarrow> string \<Rightarrow> string \<Rightarrow> 'd val result" where
  "pack_convert env fs name value =
     (case map_of fs name of Some (opt, t) \<Rightarrow> Url_Convert env t value | None \<Rightarrow> Inl Undefined_behaviour)"

primrec GetArg :: "'d url_env \<Rightarrow> 'd arg_kind \<Rightarrow> InputPack \<Rightarrow> 'd arg_value result" where
  "GetArg env (K_prm ident t) req = map_sum id Arg_prm (GetPrm (Url_Convert env t) ident (params_list (InputPack_GetQuery req)))"
| "GetArg env K_params req = Inr (Arg_params (InputPack_GetParams req))"
| "GetArg env K_headers req = Inr (Arg_headers (InputPack_GetHeaders req))"
| "GetArg env K_request req = Inr (Arg_request req)"
| "GetArg env K_response req = Inr Arg_response"
| "GetArg env (K_pack fs) req =
     map_sum id Arg_pack (ParamPack_new (pack_convert env fs) (map (\<lambda>(n, opt, t). (n, opt)) fs) (InputPack_GetParams req))"
| "GetArg env (K_content conv) req = map_sum id Arg_content (Content_new conv (InputPack_GetData req))"

text \<open>
  \<open>ProcessRequest\<close>: the member function gets its arguments and may change the response; a
  result goes into the response.
\<close>

type_synonym 'd web_method = "'d arg_value list \<Rightarrow> OutputPack \<Rightarrow> OutputPack \<times> handler_result option result"

definition ProcessRequest_handler :: "(nat \<Rightarrow> nat list) \<Rightarrow> 'd url_env \<Rightarrow> 'd arg_kind list \<Rightarrow> 'd web_method \<Rightarrow> web_handler" where
  "ProcessRequest_handler order env kinds meth req out =
     (case evaluate_args order (map (\<lambda>k. GetArg env k req) kinds) of
        Inl e \<Rightarrow> (out, Some e)
      | Inr args \<Rightarrow>
          (case meth args out of
             (out', Inl e) \<Rightarrow> (out', Some e)
           | (out', Inr None) \<Rightarrow> (out', None)
           | (out', Inr (Some res)) \<Rightarrow> (ProcessRequest_result res out', None)))"

section \<open>Facts\<close>

lemma foldl_params_emplace:
  assumes "sorted_wrt (<) (map fst r)"
  shows "sorted_wrt (<) (map fst (foldl params_emplace r kvs)) \<and>
    map_of (foldl params_emplace r kvs) = foldl (\<lambda>m (k, v). map_emplace m k v) (map_of r) kvs"
  using assms
proof (induction kvs arbitrary: r)
  case (Cons kv kvs)
  then show ?case
    using Cons.IH [OF ordered_emplace_sorted] by (cases kv) (simp add: params_emplace_def ordered_emplace_map)
qed simp

lemma params_list_map:
  "map_of (params_list query) = query_params query" "distinct (map fst (params_list query))"
  using foldl_params_emplace [of "[]"]
  by (auto simp: params_list_def query_params_def emplace_all_def Let_def strict_sorted_iff)

lemma GetPrm_finds:
  assumes "distinct (map fst ps)" and "(name, v) \<in> set ps"
    and "\<And>k x. (k, x) \<in> set ps \<Longrightarrow> Crc32str k = Crc32str name \<Longrightarrow> k = name"
  shows "GetPrm conv (Crc32str name) ps = map_sum id (\<lambda>x. \<lparr>m_name = name, m_value = Some x\<rparr>) (conv v)"
  using assms
proof (induction ps)
  case (Cons p ps)
  obtain k x where p: "p = (k, x)" by (cases p)
  show ?case
  proof (cases "k = name")
    case True
    then have "x = v"
      using Cons.prems(1,2) p by (auto simp: image_iff)
    with True show ?thesis
      by (cases "conv v") (simp_all add: p)
  next
    case False
    then have "Crc32str k \<noteq> Crc32str name" and "(name, v) \<in> set ps"
      using Cons.prems(2) Cons.prems(3) [of k x] p by auto
    moreover have "GetPrm conv (Crc32str name) ps = map_sum id (\<lambda>x. \<lparr>m_name = name, m_value = Some x\<rparr>) (conv v)"
      using Cons.prems(1,3) calculation(2) by (intro Cons.IH) auto
    ultimately show ?thesis
      by (simp add: p id_def)
  qed
qed simp

lemma cast_integral_typed:
  assumes "s \<notin> {String_t, Double_t}" and "- (2 ^ 63) \<le> i" and "i < 2 ^ 63"
  shows "simple_typed s (cast_integral s i)"
  using assms bit_ranges [of 7] bit_ranges [of 15] bit_ranges [of 31]
    take_bit_int_less_exp [of 8] take_bit_int_less_exp [of 16] take_bit_int_less_exp [of 32] take_bit_int_less_exp [of 64]
  by (cases s) (auto simp: simple_typed_def)

lemma cast_integral_id:
  assumes "simple_typed s (V_int i)"
  shows "cast_integral s i = V_int i"
  using assms
  by (cases s) (auto simp: simple_typed_def signed_take_bit_int_eq_self take_bit_int_eq_self)

text \<open>A list parameter is a set of texts: order and repetition of its items are lost.\<close>

lemma url_list_is_a_set:
  assumes "xs \<noteq> []" and "\<forall>x \<in> set xs. CHR '';'' \<notin> set x"
  shows "Url_Convert env (U_sequence (U_simple String_t)) (join (CHR '';'') xs) = Inr (V_list (map V_string (string_set xs)))"
proof -
  have "convert_items seq_insert (Url_Convert env (U_simple String_t)) ys acc = Inr (acc @ map V_string ys)" for ys acc
    by (induction ys arbitrary: acc) (simp_all add: seq_insert_def)
  then show ?thesis
    by (simp add: url_items_def split_join [OF assms])
qed

lemma find_added [simp]: "find_handler (AddHandler WebService_new path h) path = Some (path, h)"
  by (simp add: find_handler_def AddHandler_def WebService_new_def)

section \<open>Properties\<close>

text \<open>
  A number in the query of a request. When no other parameter has a name with the
  same checksum, an integral parameter gets the printed number if it fits 64 bits signed: cast to
  the type, so always inside the range of the type, and unchanged when it is in that range. A
  number outside of 64 bits signed, so also the upper half of the unsigned ones, is refused.
\<close>

lemma url_number_parameter:
  assumes "s \<notin> {String_t, Double_t}" and "InputPack_GetParams req name = Some (int_to_string i)"
    and "\<And>k x. InputPack_GetParams req k = Some x \<Longrightarrow> Crc32str k = Crc32str name \<Longrightarrow> k = name"
  shows "if - (2 ^ 63) \<le> i \<and> i < 2 ^ 63
    then GetArg env (K_prm (Crc32str name) (U_simple s)) req =
        Inr (Arg_prm \<lparr>m_name = name, m_value = Some (cast_integral s i)\<rparr>) \<and>
      simple_typed s (cast_integral s i :: 'd val) \<and>
      (simple_typed s (V_int i :: 'd val) \<longrightarrow> cast_integral s i = (V_int i :: 'd val))
    else GetArg (env :: 'd url_env) (K_prm (Crc32str name) (U_simple s)) req = Inl (Logic_error ''stoll'')"
proof -
  let ?ps = "params_list (InputPack_GetQuery req)"
  note ps = params_list_map [of "InputPack_GetQuery req", folded InputPack_GetParams_def]
  have "(name, int_to_string i) \<in> set ?ps"
    using assms(2) ps(1) by (metis map_of_SomeD)
  moreover have "k = name" if "(k, x) \<in> set ?ps" "Crc32str k = Crc32str name" for k x
    using that assms(3) ps by (metis map_of_eq_Some_iff)
  ultimately have "GetPrm (Url_Convert env (U_simple s)) (Crc32str name) ?ps =
      map_sum id (\<lambda>x. \<lparr>m_name = name, m_value = Some x\<rparr>) (Url_Convert env (U_simple s) (int_to_string i))"
    by (intro GetPrm_finds ps(2)) auto
  then show ?thesis
    using assms(1) cast_integral_typed [of s i] cast_integral_id [of s i] by (auto simp: sto_int_int_to_string)
qed

definition sample_url_env :: "unit url_env" where
  "sample_url_env = \<lparr>std_stod = (\<lambda>_. Inr ()), extract_time = (\<lambda>_ _ _. V_null), url_less = (\<lambda>_ _. False)\<rparr>"

definition sample_query_input :: "string \<Rightarrow> InputPack" where
  "sample_query_input query = \<lparr>m_data = sample_request, m_target = \<lparr>m_path = ''/x'', m_query = query\<rparr>\<rparr>"

lemma url_number_parameter_example:
  "GetArg sample_url_env (K_prm (Crc32str ''n'') (U_simple Uint8_t)) (sample_query_input (CHR ''?'' # ''n=300'')) =
     Inr (Arg_prm \<lparr>m_name = ''n'', m_value = Some (V_int 44)\<rparr>)"
proof -
  let ?req = "sample_query_input (CHR ''?'' # ''n=300'')"
  have "int_to_string 300 = ''300''"
    by code_simp
  then have ps: "InputPack_GetParams ?req = [''n'' \<mapsto> int_to_string 300]"
    by (simp add: InputPack_GetParams_def InputPack_GetQuery_def sample_query_input_def query_params_def param_pair_def
        emplace_all_eq string_set_def)
  have 1: "InputPack_GetParams ?req ''n'' = Some (int_to_string 300)"
    by (simp add: ps)
  have 2: "k = ''n''" if "InputPack_GetParams ?req k = Some x" for k x
    using that by (simp add: ps split: if_splits)
  have "if - (2 ^ 63) \<le> (300 :: int) \<and> (300 :: int) < 2 ^ 63
    then GetArg sample_url_env (K_prm (Crc32str ''n'') (U_simple Uint8_t)) ?req =
        Inr (Arg_prm \<lparr>m_name = ''n'', m_value = Some (cast_integral Uint8_t 300)\<rparr>) \<and>
      simple_typed Uint8_t (cast_integral Uint8_t 300 :: unit val) \<and>
      (simple_typed Uint8_t (V_int 300 :: unit val) \<longrightarrow> cast_integral Uint8_t 300 = (V_int 300 :: unit val))
    else GetArg sample_url_env (K_prm (Crc32str ''n'') (U_simple Uint8_t)) ?req = Inl (Logic_error ''stoll'')"
    by (rule url_number_parameter [OF _ 1], simp, rule 2, assumption)
  then show ?thesis
    by (simp del: GetArg.simps)
qed

text \<open>
  Property C31: a web service calls its member function with the arguments of the request, in
  whatever order the compiler evaluates them. When all arguments can be formed, the function is
  called on them, and the response is what it left, with the value of its result as body when it
  has one; when one cannot be formed, the function is not called, and the answer is the status
  and the text of the exception of one of them.
\<close>

theorem web_method_called:
  assumes "w = AddHandler WebService_new (InputPack_GetPath req) (ProcessRequest_handler order env kinds meth)"
    and "set (order (length kinds)) = {..<length kinds}" and "rs = map (\<lambda>k. GetArg env k req) kinds"
    and "answer = snd (WebService_OnRequest default_hooks w req out)"
  shows "(list_all2 (\<lambda>r a. r = Inr a) rs args \<and> meth args out = (out', Inr res) \<longrightarrow>
      (case res of
         None \<Rightarrow> answer = Inr out'
       | Some x \<Rightarrow> \<exists>p. answer = Inr p \<and> m_buffer p = Some (r_value x))) \<and>
    (Inl e0 \<in> set rs \<and> \<not> is_request out \<and> Inl Undefined_behaviour \<notin> set rs \<longrightarrow>
      (\<exists>e p. Inl e \<in> set rs \<and> answer = Inr p \<and> o_status p = ConvertCode (exception_code e) \<and>
         m_buffer p = Some (exception_text e)))"
proof (intro conjI impI)
  have find: "find_handler w (InputPack_GetPath req) = Some (InputPack_GetPath req, ProcessRequest_handler order env kinds meth)"
    by (simp add: assms(1))
  have len: "set (order (length rs)) = {..<length rs}"
    using assms(2,3) by simp
  {
    assume "list_all2 (\<lambda>r a. r = Inr a) rs args \<and> meth args out = (out', Inr res)"
    then have "ProcessRequest_handler order env kinds meth req out =
        (case res of None \<Rightarrow> out' | Some x \<Rightarrow> ProcessRequest_result x out', None)"
      using evaluate_args_all [of rs args order] len by (auto simp: ProcessRequest_handler_def simp flip: assms(3) split: option.splits)
    then show "case res of None \<Rightarrow> answer = Inr out' | Some x \<Rightarrow> \<exists>p. answer = Inr p \<and> m_buffer p = Some (r_value x)"
      using find by (auto simp: assms(4) WebService_OnRequest_def finish_request_def ProcessRequest_result_def Let_def
          count_general_total_def split: option.splits)
  next
    assume bad: "Inl e0 \<in> set rs \<and> \<not> is_request out \<and> Inl Undefined_behaviour \<notin> set rs"
    then obtain e where e: "Inl e \<in> set rs" "evaluate_args order rs = Inl e"
      using evaluate_args_error [of e0 rs order] len by blast
    then have "ProcessRequest_handler order env kinds meth req out = (out, Some e)"
      by (simp add: ProcessRequest_handler_def flip: assms(3))
    moreover have "e \<noteq> Undefined_behaviour"
      using bad e(1) by blast
    ultimately show "\<exists>e p. Inl e \<in> set rs \<and> answer = Inr p \<and> o_status p = ConvertCode (exception_code e) \<and>
        m_buffer p = Some (exception_text e)"
      using find bad e(1) by (intro exI [of _ e])
        (auto simp: assms(4) WebService_OnRequest_def default_catch Let_def count_general_total_def)
  }
qed

theorem web_method_called_witness:
  "\<exists>p. snd (WebService_OnRequest default_hooks
       (AddHandler WebService_new ''/x'' (ProcessRequest_handler right_to_left sample_url_env [K_params, K_request]
          (\<lambda>args out. (out, Inr (Some (Result_new ''done'' PlainText_ContentType))))))
       (sample_query_input []) (OutputPack_new False 8)) = Inr p \<and> m_buffer p = Some ''done''"
proof -
  let ?req = "sample_query_input []"
  have path: "InputPack_GetPath ?req = ''/x''"
    by (simp add: InputPack_GetPath_def sample_query_input_def)
  have ord: "set (right_to_left (length [K_params, K_request :: unit arg_kind])) = {..<length [K_params, K_request :: unit arg_kind]}"
    by (auto simp: right_to_left_def)
  from web_method_called [where order = right_to_left and kinds = "[K_params, K_request]", OF refl ord refl refl, where req = ?req and env = sample_url_env and out = "OutputPack_new False 8"
      and meth = "\<lambda>args out. (out, Inr (Some (Result_new ''done'' PlainText_ContentType)))"
      and args = "[Arg_params (InputPack_GetParams ?req), Arg_request ?req]" and out' = "OutputPack_new False 8"
      and res = "Some (Result_new ''done'' PlainText_ContentType)", THEN conjunct1] path
  show ?thesis by (simp add: Result_new_def)
qed

end
