(* ===== verification/Http_Servlet.thy ===== *)
theory Http_Servlet
  imports Http_Pack
begin

text \<open>
  \<open>Servlet\<close>: clients of the network layer served over HTTP, one per session
  (\<open>net/http/servlet.cpp\<close>). The client behind a session is an argument: it handles the data
  of a request by publishing buffers, asking to be closed, or throwing. The clock and the
  identity of the calling thread are arguments of each call.
\<close>

section \<open>Session\<close>

record 'c client_outcome =
  oc_client :: 'c
  oc_published :: "buffer list"
  oc_close :: bool
  oc_error :: "exn option"

record ('c, 't) servlet_session =
  ss_client :: 'c
  ss_timestamp :: int
  ss_needForClose :: bool
  ss_responses :: "'t \<rightharpoonup> buffer"
  ss_exceptions :: "'t \<rightharpoonup> exn option"

definition Session_Init :: "int \<Rightarrow> 'c \<Rightarrow> ('c, 't) servlet_session" where
  "Session_Init now c =
     \<lparr>ss_client = c, ss_timestamp = now, ss_needForClose = False, ss_responses = Map.empty,
      ss_exceptions = Map.empty\<rparr>"

definition cleanResponse :: "'t \<Rightarrow> ('c, 't) servlet_session \<Rightarrow> ('c, 't) servlet_session" where
  "cleanResponse t s = s\<lparr>ss_responses := (ss_responses s)(t := None)\<rparr>"

definition Session_Publish :: "'t \<Rightarrow> ('c, 't) servlet_session \<Rightarrow> buffer \<Rightarrow> ('c, 't) servlet_session" where
  "Session_Publish t s b = s\<lparr>ss_responses := map_emplace (ss_responses s) t b\<rparr>"

definition Session_CloseMe :: "('c, 't) servlet_session \<Rightarrow> ('c, 't) servlet_session" where
  "Session_CloseMe s = s\<lparr>ss_needForClose := True\<rparr>"

text \<open>
  \<open>GetException\<close> swaps the stored pointer with an empty one: the entry stays, its exception
  is taken.
\<close>

definition Session_GetException :: "'t \<Rightarrow> ('c, 't) servlet_session \<Rightarrow> ('c, 't) servlet_session \<times> exn option" where
  "Session_GetException t s =
     (case ss_exceptions s t of
        None \<Rightarrow> (s, None)
      | Some e \<Rightarrow> (s\<lparr>ss_exceptions := (ss_exceptions s)(t \<mapsto> None)\<rparr>, e))"

definition Session_OnData ::
    "('c \<Rightarrow> buffer \<Rightarrow> 'c client_outcome) \<Rightarrow> int \<Rightarrow> 't \<Rightarrow> buffer \<Rightarrow> ('c, 't) servlet_session \<Rightarrow>
       ('c, 't) servlet_session \<times> buffer result" where
  "Session_OnData client now t data s =
     (let s1 = cleanResponse t s;
          s2 = s1\<lparr>ss_exceptions := (ss_exceptions s1)(t := None)\<rparr>;
          oc = client (ss_client s2) data;
          s3 = foldl (Session_Publish t) (s2\<lparr>ss_client := oc_client oc\<rparr>) (oc_published oc);
          s4 = (if oc_close oc then Session_CloseMe s3 else s3)
      in case oc_error oc of
           None \<Rightarrow>
             (cleanResponse t (s4\<lparr>ss_timestamp := now\<rparr>),
              Inr (case ss_responses s4 t of Some b \<Rightarrow> b | None \<Rightarrow> []))
         | Some e \<Rightarrow>
             if is_std_exception e then
               (cleanResponse t (Session_CloseMe
                  (s4\<lparr>ss_exceptions := map_emplace (ss_exceptions s4) t (Some e)\<rparr>)), Inr [])
             else (cleanResponse t s4, Inl e))"

section \<open>Servlet\<close>

definition session_header :: string where
  "session_header = ''X-Mif-Session''"

record ('c, 't) servlet =
  m_sessionTimeout :: "32 word"
  m_sessions :: "string \<rightharpoonup> ('c, 't) servlet_session"

definition RemoveSession :: "('c, 't) servlet \<Rightarrow> string \<Rightarrow> ('c, 't) servlet" where
  "RemoveSession v sid = (if sid = [] then v else v\<lparr>m_sessions := (m_sessions v)(sid := None)\<rparr>)"

definition Servlet_OnExceptionResponse :: "OutputPack \<Rightarrow> Code \<Rightarrow> string \<Rightarrow> OutputPack result" where
  "Servlet_OnExceptionResponse pack code message =
     (case OutputPack_SetCode pack code of
        Inl e \<Rightarrow> Inl e
      | Inr p \<Rightarrow> Inr (OutputPack_SetData p (Some message)))"

text \<open>The three \<open>catch\<close> clauses; undefined behaviour is not caught.\<close>

definition servlet_catch :: "('c, 't) servlet \<Rightarrow> string \<Rightarrow> OutputPack \<Rightarrow> exn \<Rightarrow> ('c, 't) servlet \<times> OutputPack result" where
  "servlet_catch v sid out e =
     (if e = Undefined_behaviour then (v, Inl e)
      else (RemoveSession v sid,
            if is_invalid_argument e then Servlet_OnExceptionResponse out BadRequest (what e)
            else if is_std_exception e then Servlet_OnExceptionResponse out Internal (what e)
            else Servlet_OnExceptionResponse out Internal ''Unknown exception.''))"

text \<open>The session of a request: the stored one, or a new one from the client factory.\<close>

definition find_session ::
    "'c result \<Rightarrow> int \<Rightarrow> ('c, 't) servlet \<Rightarrow> string \<Rightarrow> (('c, 't) servlet \<times> ('c, 't) servlet_session) result" where
  "find_session created now v sid =
     (case m_sessions v sid of
        Some s \<Rightarrow> Inr (v, s)
      | None \<Rightarrow>
          (case created of
             Inl e \<Rightarrow> Inl e
           | Inr c \<Rightarrow>
               let s = Session_Init now c
               in Inr (v\<lparr>m_sessions := (m_sessions v)(sid \<mapsto> s)\<rparr>, s)))"

definition Servlet_OnRequest ::
    "('c \<Rightarrow> buffer \<Rightarrow> 'c client_outcome) \<Rightarrow> 'c result \<Rightarrow> int \<Rightarrow> 't \<Rightarrow> ('c, 't) servlet \<Rightarrow> InputPack \<Rightarrow> OutputPack \<Rightarrow>
       ('c, 't) servlet \<times> OutputPack result" where
  "Servlet_OnRequest client created now t v req out =
     (case InputPack_GetHeaders req session_header of
        None \<Rightarrow> servlet_catch v [] out (Invalid_argument ''Session not found.'')
      | Some sid \<Rightarrow>
          if sid = [] then servlet_catch v sid out (Invalid_argument ''Empty session.'')
          else
            (case find_session created now v sid of
               Inl e \<Rightarrow> servlet_catch v sid out e
             | Inr (v1, s) \<Rightarrow>
                 if InputPack_GetData req = [] then
                   servlet_catch v1 sid out (Invalid_argument ''No input data.'')
                 else
                   (case Session_OnData client now t (InputPack_GetData req) s of
                      (s', Inl e) \<Rightarrow> servlet_catch (v1\<lparr>m_sessions := (m_sessions v1)(sid \<mapsto> s')\<rparr>) sid out e
                    | (s', Inr responseData) \<Rightarrow>
                        let v2 = v1\<lparr>m_sessions := (m_sessions v1)(sid \<mapsto> s')\<rparr>;
                            out1 = OutputPack_SetData out (Some responseData)
                        in if \<not> ss_needForClose s' then
                             (v2, Inr (OutputPack_SetHeader out1 session_header sid))
                           else (case Session_GetException t s' of
                                   (s'', None) \<Rightarrow> (v1\<lparr>m_sessions := (m_sessions v1)(sid \<mapsto> s'')\<rparr>, Inr out1)
                                 | (s'', Some e) \<Rightarrow>
                                     servlet_catch (v1\<lparr>m_sessions := (m_sessions v1)(sid \<mapsto> s'')\<rparr>) sid out1 e))))"

text \<open>\<open>OnCleaner\<close>: sessions that are to be closed, or idle for the timeout, are dropped.\<close>

definition Servlet_OnCleaner :: "int \<Rightarrow> ('c, 't) servlet \<Rightarrow> ('c, 't) servlet" where
  "Servlet_OnCleaner now v =
     v\<lparr>m_sessions := (\<lambda>sid. case m_sessions v sid of
         None \<Rightarrow> None
       | Some s \<Rightarrow>
           if ss_needForClose s \<or> int (unat (m_sessionTimeout v)) \<le> now - ss_timestamp s then None
           else Some s)\<rparr>"

section \<open>Facts\<close>

lemma foldl_Publish:
  "foldl (Session_Publish t) s bs =
     s\<lparr>ss_responses := (case ss_responses s t of
         Some _ \<Rightarrow> ss_responses s
       | None \<Rightarrow> (case bs of [] \<Rightarrow> ss_responses s | b # _ \<Rightarrow> (ss_responses s)(t \<mapsto> b)))\<rparr>"
proof (induction bs arbitrary: s)
  case Nil
  then show ?case by (auto split: option.splits)
next
  case (Cons b bs)
  show ?case
    unfolding foldl.simps Cons
    by (cases "ss_responses s t") (simp_all add: Session_Publish_def map_emplace_def fun_upd_def split: list.splits)
qed

lemma Session_OnData_ok:
  assumes "oc = client (ss_client s) data" and "oc_error oc = None"
    and "Session_OnData client now t data s = (s', r)"
  shows "r = Inr (case oc_published oc of [] \<Rightarrow> [] | b # _ \<Rightarrow> b) \<and> ss_client s' = oc_client oc \<and>
    ss_timestamp s' = now \<and> ss_needForClose s' = (ss_needForClose s \<or> oc_close oc) \<and>
    ss_responses s' = (ss_responses s)(t := None) \<and> ss_exceptions s' t = None"
  using assms
  by (auto simp: Session_OnData_def foldl_Publish cleanResponse_def Session_CloseMe_def Let_def
      split: list.splits if_splits)

lemma Session_OnData_throws:
  assumes "oc_error (client (ss_client s) data) = Some e" and "is_std_exception e"
    and "Session_OnData client now t data s = (s', r)"
  shows "r = Inr [] \<and> ss_needForClose s' \<and> ss_exceptions s' t = Some (Some e)"
  using assms
  by (auto simp: Session_OnData_def foldl_Publish cleanResponse_def Session_CloseMe_def map_emplace_def Let_def)

text \<open>The session a request works on.\<close>

definition session_of :: "'c \<Rightarrow> int \<Rightarrow> ('c, 't) servlet \<Rightarrow> string \<Rightarrow> ('c, 't) servlet_session" where
  "session_of c now v sid = (case m_sessions v sid of Some s \<Rightarrow> s | None \<Rightarrow> Session_Init now c)"

lemma find_session_eq:
  "\<exists>v1. find_session (Inr c) now v sid = Inr (v1, session_of c now v sid) \<and>
     m_sessions v1 = (m_sessions v)(sid \<mapsto> session_of c now v sid) \<and> m_sessionTimeout v1 = m_sessionTimeout v"
  by (auto simp: find_session_def session_of_def Let_def fun_upd_idem split: option.splits)

lemma SetData_keeps [simp]:
  "m_buffer (OutputPack_SetData p b) = b" "o_headers (OutputPack_SetData p b) = o_headers p"
  "o_status (OutputPack_SetData p b) = o_status p" "is_request (OutputPack_SetData p b) = is_request p"
  by (simp_all add: OutputPack_SetData_def Let_def split: option.splits list.splits)

text \<open>A request whose data the client handles without an exception.\<close>

lemma servlet_answers:
  assumes "InputPack_GetHeaders req session_header = Some sid" and "sid \<noteq> []"
    and "InputPack_GetData req = data" and "data \<noteq> []"
    and "s = session_of c now v sid" and "oc = client (ss_client s) data" and "oc_error oc = None"
    and "Servlet_OnRequest client (Inr c) now t v req out = (v', res)"
    and "out' = OutputPack_SetData out (Some (case oc_published oc of [] \<Rightarrow> [] | b # _ \<Rightarrow> b))"
  shows "\<exists>s'. m_sessions v' = (m_sessions v)(sid \<mapsto> s') \<and> ss_client s' = oc_client oc \<and> ss_timestamp s' = now \<and>
    res = Inr (if ss_needForClose s \<or> oc_close oc then out' else OutputPack_SetHeader out' session_header sid)"
proof -
  obtain v1 where v1: "find_session (Inr c) now v sid = Inr (v1, s)" "m_sessions v1 = (m_sessions v)(sid \<mapsto> s)"
    using find_session_eq [of c now v sid] assms(5) by auto
  obtain s' r where od: "Session_OnData client now t data s = (s', r)" by force
  note ok = Session_OnData_ok [OF assms(6,7) od]
  have "v' = v1\<lparr>m_sessions := (m_sessions v1)(sid \<mapsto> s')\<rparr> \<and>
      res = Inr (if ss_needForClose s' then out' else OutputPack_SetHeader out' session_header sid)"
    using assms(8) ok
    unfolding Servlet_OnRequest_def assms(1,3,9) Session_GetException_def Let_def
    by (auto simp add: assms(2,4) v1(1) od split: if_splits)
  with ok v1(2) show ?thesis by (intro exI [of _ s']) simp
qed

section \<open>Properties\<close>

text \<open>
  Property C22: a request reaches the client of its own session and nothing else. When the
  client handles the data without an exception and the session is not to be closed, the
  response carries the first buffer the client published (or nothing) and the session's
  identifier, and the session is kept with the client's new state and a new time stamp; when
  the client throws a standard exception, the session is dropped and the answer is 400 or
  500 with the exception's text. The other sessions are the same in both cases.
\<close>

theorem servlet_request:
  assumes "InputPack_GetHeaders req session_header = Some sid" and "sid \<noteq> []"
    and "InputPack_GetData req = data" and "data \<noteq> []" and "\<not> is_request out"
    and "s = session_of c now v sid" and "oc = client (ss_client s) data"
    and "Servlet_OnRequest client (Inr c) now t v req out = (v', res)"
    and "\<forall>e. oc_error oc = Some e \<longrightarrow> is_std_exception e"
  shows "(\<forall>x. x \<noteq> sid \<longrightarrow> m_sessions v' x = m_sessions v x) \<and>
    (case oc_error oc of
       None \<Rightarrow> \<not> ss_needForClose s \<and> \<not> oc_close oc \<longrightarrow>
         (\<exists>r s'. res = Inr r \<and> m_buffer r = Some (case oc_published oc of [] \<Rightarrow> [] | b # _ \<Rightarrow> b) \<and>
            o_headers r (lower session_header) = Some sid \<and> m_sessions v' sid = Some s' \<and>
            ss_client s' = oc_client oc \<and> ss_timestamp s' = now)
     | Some e \<Rightarrow> m_sessions v' sid = None \<and>
         (\<exists>r. res = Inr r \<and> m_buffer r = Some (what e) \<and>
            o_status r = (if is_invalid_argument e then 400 else 500)))"
proof -
  obtain v1 where v1: "find_session (Inr c) now v sid = Inr (v1, s)" "m_sessions v1 = (m_sessions v)(sid \<mapsto> s)"
    using find_session_eq [of c now v sid] assms(6) by auto
  obtain s' r where od: "Session_OnData client now t data s = (s', r)" by force
  show ?thesis
  proof (cases "oc_error oc")
    case None
    then show ?thesis
      using servlet_answers [OF assms(1-4,6,7) None assms(8) refl] by (auto simp: OutputPack_SetHeader_def)
  next
    case (Some e)
    then have std: "is_std_exception e" using assms(9) by blast
    have err: "oc_error (client (ss_client s) data) = Some e" using Some assms(7) by simp
    note th = Session_OnData_throws [OF err std od]
    have "servlet_catch (v1\<lparr>m_sessions := (m_sessions v1)(sid \<mapsto> s'\<lparr>ss_exceptions := (ss_exceptions s')(t \<mapsto> None)\<rparr>)\<rparr>)
        sid (OutputPack_SetData out (Some [])) e = (v', res)"
      using assms(8) th
      unfolding Servlet_OnRequest_def assms(1,3) Session_GetException_def Let_def
      by (auto simp: assms(2,4) v1(1) od)
    then show ?thesis
      using Some std assms(2,5) v1(2)
      by (cases e) (auto simp: servlet_catch_def RemoveSession_def Servlet_OnExceptionResponse_def OutputPack_SetCode_def)
  qed
qed

definition sample_servlet_input :: InputPack where
  "sample_servlet_input =
     \<lparr>m_data = \<lparr>msg_verb = Some verb_post, msg_target = ''/'', msg_headers = [(''X-Mif-Session'', ''s1'')], msg_body = ''ping''\<rparr>,
      m_target = \<lparr>m_path = ''/'', m_query = []\<rparr>\<rparr>"

definition sample_served :: "nat \<Rightarrow> buffer \<Rightarrow> nat client_outcome" where
  "sample_served n data = \<lparr>oc_client = n + 1, oc_published = [data, ''x''], oc_close = False, oc_error = None\<rparr>"

definition sample_servlet :: "(nat, bool) servlet" where
  "sample_servlet = \<lparr>m_sessionTimeout = 60, m_sessions = Map.empty\<rparr>"

theorem servlet_request_witness:
  "\<exists>r. snd (Servlet_OnRequest sample_served (Inr 0) 7 True sample_servlet sample_servlet_input (OutputPack_new False 9)) =
     Inr r \<and> m_buffer r = Some ''ping''"
proof -
  obtain v' res where
    run: "Servlet_OnRequest sample_served (Inr 0) 7 True sample_servlet sample_servlet_input (OutputPack_new False 9) = (v', res)"
    by force
  have h: "InputPack_GetHeaders sample_servlet_input session_header = Some ''s1''"
    by (simp add: sample_servlet_input_def InputPack_GetHeaders_def emplace_all_eq session_header_def)
  have d: "InputPack_GetData sample_servlet_input = ''ping''"
    by (simp add: sample_servlet_input_def InputPack_GetData_def)
  have nr: "\<not> is_request (OutputPack_new False 9)" by (simp add: OutputPack_new_def)
  have nc: "\<not> ss_needForClose (session_of 0 7 sample_servlet ''s1'')"
    by (simp add: session_of_def Session_Init_def sample_servlet_def)
  from servlet_request [OF h _ d _ nr refl refl run, THEN conjunct2] nc
  have "\<exists>r. res = Inr r \<and> m_buffer r = Some ''ping''" by (auto simp: sample_served_def)
  then show ?thesis using run by simp
qed

end
