(* ===== verification/Http_Connection.thy ===== *)
theory Http_Connection
  imports Http_Session Http_Servlet Logging
begin

text \<open>
  The HTTP client connection (\<open>net/http/connection.cpp\<close>). A connection has a current session;
  an older one lives as long as an asynchronous operation of it is pending. The model keeps
  every session with its pending operations; the events are the completions of these
  operations, in any order, with the results the network gives them. The stream itself, the
  worker thread and the timeouts belong to Boost. The response handler is an argument that may
  change the connection, since a handler may make another request; \<open>'u\<close> is its own state.
\<close>

section \<open>Requests and sessions\<close>

text \<open>A request: the fields of the message that the connection sets, and the pack.\<close>

record client_request =
  q_version :: nat
  q_verb :: "verb option"
  q_target :: string
  q_keep_alive :: bool
  q_pack :: OutputPack

text \<open>The pending operations of a session, with what is bound to their handlers.\<close>

datatype async_op = Op_connect client_request | Op_write client_request string | Op_read string

record conn_session =
  cs_isClosed :: bool
  cs_ops :: "async_op list"

record http_connection =
  conn_sessions :: "conn_session list"
  conn_current :: "nat option"
  conn_aborted :: bool
  conn_log :: log_state

definition Http_Connection_new :: "unit result \<Rightarrow> string \<Rightarrow> string \<Rightarrow> log_state \<Rightarrow> log_state \<times> http_connection result" where
  "Http_Connection_new resolved host port log =
     (case resolved of
        Inl e \<Rightarrow>
          (if is_std_exception e
           then MIF_LOG Fatal (''[Mif::Net::Http::Connection::Impl] '' @ ''Failed to resolve address where host is '' @
                  dquote @ host @ dquote @ '' and port is '' @ dquote @ port @ dquote @ ''. Error: '' @ what e) log
           else log, Inl e)
      | Inr _ \<Rightarrow> (log, Inr \<lparr>conn_sessions = [], conn_current = None, conn_aborted = False, conn_log = log\<rparr>))"

definition conn_session_at :: "http_connection \<Rightarrow> nat \<Rightarrow> conn_session" where
  "conn_session_at c i = (if i < length (conn_sessions c) then conn_sessions c ! i else \<lparr>cs_isClosed = True, cs_ops = []\<rparr>)"

definition update_session :: "nat \<Rightarrow> (conn_session \<Rightarrow> conn_session) \<Rightarrow> http_connection \<Rightarrow> http_connection" where
  "update_session i f c = c\<lparr>conn_sessions := (conn_sessions c)[i := f (conn_session_at c i)]\<rparr>"

definition start_op :: "nat \<Rightarrow> async_op \<Rightarrow> http_connection \<Rightarrow> http_connection" where
  "start_op i x c = update_session i (\<lambda>s. s\<lparr>cs_ops := cs_ops s @ [x]\<rparr>) c"

abbreviation log_connection :: "log_level \<Rightarrow> string \<Rightarrow> http_connection \<Rightarrow> http_connection" where
  "log_connection level message c \<equiv> c\<lparr>conn_log := MIF_LOG level message (conn_log c)\<rparr>"

section \<open>Session\<close>

definition Conn_Run :: "nat \<Rightarrow> client_request \<Rightarrow> http_connection \<Rightarrow> http_connection" where
  "Conn_Run i q c = start_op i (Op_connect q) c"

definition Conn_Post :: "nat \<Rightarrow> client_request \<Rightarrow> http_connection \<Rightarrow> http_connection \<times> unit result" where
  "Conn_Post i q c =
     (if cs_isClosed (conn_session_at c i) then
        (c, Inl (Logic_error (''[Mif::Net::Http::Session::Post] '' @
           ''The connection has not been conn_opened or has already closed.'')))
      else if \<not> is_request (q_pack q) then (c, Inl Bad_cast)
      else let q' = q\<lparr>q_pack := OutputPack_GetData (q_pack q), q_keep_alive := False\<rparr>
           in (start_op i (Op_write q' (q_target q')) c, Inr ()))"

text \<open>\<open>OnClose\<close> marks the session and calls the handler; what that throws is logged.\<close>

definition Conn_OnClose :: "('u \<Rightarrow> 'u \<times> unit result) \<Rightarrow> nat \<Rightarrow> http_connection \<times> 'u \<Rightarrow> http_connection \<times> 'u" where
  "Conn_OnClose on_close i = (\<lambda>(c, u).
     let c1 = update_session i (\<lambda>s. s\<lparr>cs_isClosed := True\<rparr>) c
     in (case on_close u of
           (u', Inr _) \<Rightarrow> (c1, u')
         | (u', Inl e) \<Rightarrow>
             (log_connection Error (''[Mif::Net::Http::Session::OnClose] '' @ ''Failed to call OnClose handler. Error: '' @
                (if is_std_exception e then what e else ''unknown'')) c1, u')))"

text \<open>\<open>shutdown_failed\<close> is the error of shutting the socket down, which is only logged.\<close>

definition Conn_Close :: "('u \<Rightarrow> 'u \<times> unit result) \<Rightarrow> string option \<Rightarrow> nat \<Rightarrow> http_connection \<times> 'u \<Rightarrow> http_connection \<times> 'u" where
  "Conn_Close on_close shutdown_failed i = (\<lambda>(c, u).
     Conn_OnClose on_close i
       ((case shutdown_failed of
           None \<Rightarrow> c
         | Some m \<Rightarrow> log_connection Error (''[Mif::Net::Http::Session::OnClose] '' @ ''Failed to close connection. Error: '' @ m) c), u))"

text \<open>
  An exception that leaves a handler of the event loop is caught around \<open>run\<close>, and the process
  is aborted.
\<close>

definition Conn_OnConnect :: "nat \<Rightarrow> client_request \<Rightarrow> string option \<Rightarrow> http_connection \<Rightarrow> http_connection" where
  "Conn_OnConnect i q failed c =
     (case failed of
        Some m \<Rightarrow>
          log_connection Error (''[Mif::Net::Http::Session::OnConnect] '' @ ''Failed to connect to endpoint. Error: '' @ m)
            (update_session i (\<lambda>s. s\<lparr>cs_isClosed := True\<rparr>) c)
      | None \<Rightarrow>
          (case Conn_Post i q (update_session i (\<lambda>s. s\<lparr>cs_isClosed := False\<rparr>) c) of
             (c1, Inr _) \<Rightarrow> c1
           | (c1, Inl e) \<Rightarrow> c1\<lparr>conn_aborted := True\<rparr>))"

definition Conn_OnWrite :: "('u \<Rightarrow> 'u \<times> unit result) \<Rightarrow> string option \<Rightarrow> nat \<Rightarrow> client_request \<Rightarrow> string \<Rightarrow> write_result \<Rightarrow>
    http_connection \<times> 'u \<Rightarrow> http_connection \<times> 'u" where
  "Conn_OnWrite on_close shutdown_failed i q target result = (\<lambda>(c, u).
     case result of
       Write_need_buffer \<Rightarrow>
         (case OutputPack_GetNextPortion (q_pack q) of
            Inl e \<Rightarrow> (c\<lparr>conn_aborted := True\<rparr>, u)
          | Inr p \<Rightarrow> (start_op i (Op_write (q\<lparr>q_pack := p\<rparr>) (q_target q)) c, u))
     | Write_error \<Rightarrow>
         Conn_Close on_close shutdown_failed i
           (log_connection Error (''[Mif::Net::Http::Session::OnWrite] '' @ ''Failed to send request.'') c, u)
     | Write_ok \<Rightarrow> (start_op i (Op_read target) c, u))"

text \<open>The handler's own exceptions, and those of forming the pack, are logged.\<close>

definition Conn_OnResponse :: "(InputPack \<Rightarrow> http_connection \<times> 'u \<Rightarrow> (http_connection \<times> 'u) \<times> unit result) \<Rightarrow>
    message \<Rightarrow> string \<Rightarrow> http_connection \<times> 'u \<Rightarrow> http_connection \<times> 'u" where
  "Conn_OnResponse handler response target st =
     (case (case InputPack_of response target of Inl e \<Rightarrow> (st, Inl e) | Inr pack \<Rightarrow> handler pack st) of
        ((c, u), Inr _) \<Rightarrow> (c, u)
      | ((c, u), Inl Undefined_behaviour) \<Rightarrow> (c\<lparr>conn_aborted := True\<rparr>, u)
      | ((c, u), Inl e) \<Rightarrow>
          (log_connection Warning (''[Mif::Net::Http::Session::OnResponse] '' @ ''Failed to process response. Error: '' @
             (if is_std_exception e then what e else ''unknown'')) c, u))"

definition Conn_OnRead :: "(InputPack \<Rightarrow> http_connection \<times> 'u \<Rightarrow> (http_connection \<times> 'u) \<times> unit result) \<Rightarrow>
    ('u \<Rightarrow> 'u \<times> unit result) \<Rightarrow> string option \<Rightarrow> nat \<Rightarrow> string \<Rightarrow> message option \<Rightarrow>
    http_connection \<times> 'u \<Rightarrow> http_connection \<times> 'u" where
  "Conn_OnRead handler on_close shutdown_failed i target response = (\<lambda>(c, u).
     case response of
       None \<Rightarrow>
         Conn_Close on_close shutdown_failed i
           (log_connection Error (''[Mif::Net::Http::Session::OnRead] '' @ ''Failed to receive response.'') c, u)
     | Some r \<Rightarrow> Conn_Close on_close shutdown_failed i (Conn_OnResponse handler r target (c, u)))"

section \<open>Connection\<close>

definition Connection_IsClosed :: "http_connection \<Rightarrow> bool" where
  "Connection_IsClosed c = (case conn_current c of None \<Rightarrow> False | Some i \<Rightarrow> cs_isClosed (conn_session_at c i))"

definition Connection_CreateRequest :: client_request where
  "Connection_CreateRequest =
     \<lparr>q_version = 11, q_verb = None, q_target = [], q_keep_alive = True, q_pack = OutputPack_new True (256 * 1024)\<rparr>"

definition prepare_request :: "Method \<Rightarrow> string \<Rightarrow> client_request \<Rightarrow> client_request" where
  "prepare_request meth target q =
     (let p = OutputPack_GetData (q_pack q)
      in q\<lparr>q_version := 11, q_target := target, q_verb := Some (ConvertMethodType_verb meth),
           q_pack := p\<lparr>o_headers := (o_headers p)(''content-length'' := None, ''transfer-encoding'' \<mapsto> ''chunked'')\<rparr>\<rparr>)"

definition Connection_MakeRequest :: "Method \<Rightarrow> string \<Rightarrow> client_request \<Rightarrow> http_connection \<Rightarrow> http_connection \<times> unit result" where
  "Connection_MakeRequest meth target q c =
     (if \<not> is_request (q_pack q) then (c, Inl Bad_cast)
      else let q' = prepare_request meth target q;
               fresh = (Conn_Run (length (conn_sessions c)) q'
                          (c\<lparr>conn_sessions := conn_sessions c @ [\<lparr>cs_isClosed = False, cs_ops = []\<rparr>],
                             conn_current := Some (length (conn_sessions c))\<rparr>), Inr ())
           in (case conn_current c of
                 None \<Rightarrow> fresh
               | Some i \<Rightarrow> if cs_isClosed (conn_session_at c i) then fresh else Conn_Post i q' c))"

text \<open>
  A completion: the operation at position \<open>k\<close> of session \<open>i\<close> ends with a result, and its handler
  runs. A result that does not fit the operation is no event.
\<close>

datatype completion = Connected "string option" | Written write_result | Received "message option"

definition take_op :: "nat \<Rightarrow> nat \<Rightarrow> http_connection \<Rightarrow> (async_op \<times> http_connection) option" where
  "take_op i k c =
     (let ops = cs_ops (conn_session_at c i)
      in if k < length ops
         then Some (ops ! k, update_session i (\<lambda>s. s\<lparr>cs_ops := take k ops @ drop (Suc k) ops\<rparr>) c)
         else None)"

definition conn_step :: "(InputPack \<Rightarrow> http_connection \<times> 'u \<Rightarrow> (http_connection \<times> 'u) \<times> unit result) \<Rightarrow>
    ('u \<Rightarrow> 'u \<times> unit result) \<Rightarrow> string option \<Rightarrow> nat \<times> nat \<times> completion \<Rightarrow> http_connection \<times> 'u \<Rightarrow> http_connection \<times> 'u" where
  "conn_step handler on_close sf = (\<lambda>(i, k, x) (c, u).
     if conn_aborted c then (c, u)
     else (case take_op i k c of
             Some (Op_connect q, c1) \<Rightarrow> (case x of Connected r \<Rightarrow> (Conn_OnConnect i q r c1, u) | _ \<Rightarrow> (c, u))
           | Some (Op_write q target, c1) \<Rightarrow>
               (case x of Written r \<Rightarrow> Conn_OnWrite on_close sf i q target r (c1, u) | _ \<Rightarrow> (c, u))
           | Some (Op_read target, c1) \<Rightarrow>
               (case x of Received r \<Rightarrow> Conn_OnRead handler on_close sf i target r (c1, u) | _ \<Rightarrow> (c, u))
           | None \<Rightarrow> (c, u)))"

section \<open>Facts\<close>

text \<open>A connection with one more session, the current one, that has the given operations.\<close>

definition conn_opened :: "http_connection \<Rightarrow> bool \<Rightarrow> async_op list \<Rightarrow> http_connection" where
  "conn_opened c closed ops =
     c\<lparr>conn_sessions := conn_sessions c @ [\<lparr>cs_isClosed = closed, cs_ops = ops\<rparr>],
       conn_current := Some (length (conn_sessions c))\<rparr>"

lemma conn_opened_simps [simp]:
  "conn_session_at (conn_opened c b ops) (length (conn_sessions c)) = \<lparr>cs_isClosed = b, cs_ops = ops\<rparr>"
  "update_session (length (conn_sessions c)) f (conn_opened c b ops) =
     conn_opened c (cs_isClosed (f \<lparr>cs_isClosed = b, cs_ops = ops\<rparr>)) (cs_ops (f \<lparr>cs_isClosed = b, cs_ops = ops\<rparr>))"
  "start_op (length (conn_sessions c)) x (conn_opened c b ops) = conn_opened c b (ops @ [x])"
  "conn_aborted (conn_opened c b ops) = conn_aborted c"
  "Connection_IsClosed (conn_opened c b ops) = b"
  "conn_log (conn_opened c b ops) = conn_log c"
  by (simp_all add: conn_opened_def conn_session_at_def update_session_def start_op_def Connection_IsClosed_def)

lemma take_op_opened [simp]:
  "take_op (length (conn_sessions c)) 0 (conn_opened c b (x # ops)) = Some (x, conn_opened c b ops)"
  by (simp add: take_op_def Let_def)

fun next_portions :: "nat \<Rightarrow> OutputPack \<Rightarrow> OutputPack result" where
  "next_portions 0 p = Inr p"
| "next_portions (Suc n) p = (case OutputPack_GetNextPortion p of Inl e \<Rightarrow> Inl e | Inr p' \<Rightarrow> next_portions n p')"

abbreviation conn_run :: "(InputPack \<Rightarrow> http_connection \<times> 'u \<Rightarrow> (http_connection \<times> 'u) \<times> unit result) \<Rightarrow>
    ('u \<Rightarrow> 'u \<times> unit result) \<Rightarrow> string option \<Rightarrow> (nat \<times> nat \<times> completion) list \<Rightarrow> http_connection \<times> 'u \<Rightarrow> http_connection \<times> 'u" where
  "conn_run handler on_close sf xs st \<equiv> fold (conn_step handler on_close sf) xs st"

lemma write_portion_run:
  assumes "\<not> conn_aborted c" and "next_portions n (q_pack q) = Inr p"
  shows "conn_run h oc sf (replicate n (length (conn_sessions c), 0, Written Write_need_buffer))
      (conn_opened c False [Op_write q (q_target q)], u) = (conn_opened c False [Op_write (q\<lparr>q_pack := p\<rparr>) (q_target q)], u)"
  using assms(2)
proof (induction n arbitrary: q)
  case (Suc n)
  then obtain p1 where p1: "OutputPack_GetNextPortion (q_pack q) = Inr p1" and n: "next_portions n p1 = Inr p"
    by (auto split: sum.splits)
  show ?case
    using Suc.IH [of "q\<lparr>q_pack := p1\<rparr>"] n p1 assms(1) by (simp add: conn_step_def Conn_OnWrite_def)
qed auto

text \<open>The pack a request is posted with: making the request has already fixed its data.\<close>

lemma GetData_idem [simp]:
  "OutputPack_GetData (OutputPack_GetData p\<lparr>o_headers := h\<rparr>) = OutputPack_GetData p\<lparr>o_headers := h\<rparr>"
  by (simp add: OutputPack_GetData_def OutputPack_SetData_def Let_def)

lemma is_request_prepare [simp]: "is_request (q_pack (prepare_request m t q)) = is_request (q_pack q)"
  by (simp add: prepare_request_def Let_def OutputPack_GetData_def OutputPack_SetData_def split: option.split)

lemma q_target_prepare [simp]: "q_target (prepare_request m t q) = t"
  by (simp add: prepare_request_def Let_def)

lemma prepare_request_posted [simp]:
  "(prepare_request m t q)\<lparr>q_pack := OutputPack_GetData (q_pack (prepare_request m t q)), q_keep_alive := False\<rparr> =
     (prepare_request m t q)\<lparr>q_keep_alive := False\<rparr>"
  by (simp add: prepare_request_def Let_def)

lemma MakeRequest_opens:
  assumes "is_request (q_pack q)" and "conn_current c = None \<or> Connection_IsClosed c"
  shows "Connection_MakeRequest m t q c = (conn_opened c False [Op_connect (prepare_request m t q)], Inr ())"
  using assms
  by (auto simp: Connection_MakeRequest_def Connection_IsClosed_def Conn_Run_def conn_opened_def start_op_def update_session_def
      conn_session_at_def Let_def split: option.splits)

lemma request_exchange:
  assumes "is_request (q_pack q)" and "\<not> conn_aborted c" and "conn_current c = None \<or> Connection_IsClosed c"
    and "next_portions n (q_pack (prepare_request m t q)) = Inr p"
  shows "conn_run h oc sf ((length (conn_sessions c), 0, Connected None) #
        replicate n (length (conn_sessions c), 0, Written Write_need_buffer) @
        [(length (conn_sessions c), 0, Written Write_ok), (length (conn_sessions c), 0, Received (Some r))])
      (fst (Connection_MakeRequest m t q c), u) =
    Conn_Close oc sf (length (conn_sessions c)) (Conn_OnResponse h r t (conn_opened c False [], u))"
proof -
  let ?i = "length (conn_sessions c)"
  let ?q = "(prepare_request m t q)\<lparr>q_keep_alive := False\<rparr>"
  have "conn_step h oc sf (?i, 0, Connected None) (fst (Connection_MakeRequest m t q c), u) =
      (conn_opened c False [Op_write ?q (q_target ?q)], u)"
    using assms(1,2) by (simp add: MakeRequest_opens [OF assms(1,3)] conn_step_def Conn_OnConnect_def Conn_Post_def Let_def)
  moreover have "conn_run h oc sf (replicate n (?i, 0, Written Write_need_buffer)) (conn_opened c False [Op_write ?q (q_target ?q)], u) =
      (conn_opened c False [Op_write (?q\<lparr>q_pack := p\<rparr>) (q_target ?q)], u)"
    using assms(2,4) by (intro write_portion_run) simp_all
  ultimately show ?thesis
    using assms(2) by (simp add: conn_step_def Conn_OnWrite_def Conn_OnRead_def)
qed

lemma Conn_Close_opened:
  "\<exists>c'. Conn_Close oc sf (length (conn_sessions c)) (conn_opened c b ops, u) = (c', fst (oc u)) \<and> Connection_IsClosed c' \<and>
     conn_sessions c' = conn_sessions (conn_opened c True ops) \<and> conn_aborted c' = conn_aborted c"
  by (cases "oc u"; cases "snd (oc u)"; cases sf)
    (auto simp: Conn_Close_def Conn_OnClose_def Let_def conn_opened_def update_session_def conn_session_at_def Connection_IsClosed_def)

section \<open>Properties\<close>

text \<open>
  An exchange over HTTP. A request on a connection without an open session opens
  one; when connecting succeeds, the request is written portion by portion, and the response
  is read, the handler is called exactly once, with the response under the target of the
  request, then the close handler, and the session is closed with nothing pending, so that the
  next request opens another one.
\<close>

lemma http_exchange:
  assumes "is_request (q_pack q)" and "\<not> conn_aborted c" and "conn_current c = None \<or> Connection_IsClosed c"
    and "next_portions n (q_pack (prepare_request m t q)) = Inr p"
    and "InputPack_of r t = Inr pack"
    and "\<And>c u. handler pack (c, u) = ((c, u @ [pack]), Inr ())"
  shows "\<exists>c'. conn_run handler oc sf ((length (conn_sessions c), 0, Connected None) #
        replicate n (length (conn_sessions c), 0, Written Write_need_buffer) @
        [(length (conn_sessions c), 0, Written Write_ok), (length (conn_sessions c), 0, Received (Some r))])
      (fst (Connection_MakeRequest m t q c), u) = (c', fst (oc (u @ [pack]))) \<and>
    Connection_IsClosed c' \<and> \<not> conn_aborted c' \<and> cs_ops (conn_session_at c' (length (conn_sessions c))) = [] \<and>
    take (length (conn_sessions c)) (conn_sessions c') = conn_sessions c"
proof -
  have "Conn_OnResponse handler r t (conn_opened c False [], u) = (conn_opened c False [], u @ [pack])"
    using assms(5,6) by (simp add: Conn_OnResponse_def)
  moreover obtain c' where "Conn_Close oc sf (length (conn_sessions c)) (conn_opened c False [], u @ [pack]) = (c', fst (oc (u @ [pack])))"
    and "Connection_IsClosed c'" and s: "conn_sessions c' = conn_sessions (conn_opened c True [])" and "\<not> conn_aborted c'"
    using Conn_Close_opened [of oc sf c False "[]" "u @ [pack]"] assms(2) by auto
  moreover have "cs_ops (conn_session_at c' (length (conn_sessions c))) = []"
    and "take (length (conn_sessions c)) (conn_sessions c') = conn_sessions c"
    using s by (simp_all add: conn_opened_def conn_session_at_def)
  ultimately show ?thesis
    by (intro exI [of _ c'] conjI) (simp_all only: request_exchange [OF assms(1-4)] not_False_eq_True)
qed

definition collect :: "InputPack \<Rightarrow> http_connection \<times> InputPack list \<Rightarrow> (http_connection \<times> InputPack list) \<times> unit result" where
  "collect pack st = ((fst st, snd st @ [pack]), Inr ())"

definition sample_connection :: http_connection where
  "sample_connection = \<lparr>conn_sessions = [], conn_current = None, conn_aborted = False, conn_log = log_init\<rparr>"

definition sample_response :: message where
  "sample_response = \<lparr>msg_verb = None, msg_target = [], msg_headers = [], msg_body = ''pong''\<rparr>"

lemma http_exchange_example:
  "\<exists>c' pack. conn_run collect (\<lambda>u. (u, Inr ())) None
       [(0, 0, Connected None), (0, 0, Written Write_ok), (0, 0, Received (Some sample_response))]
       (fst (Connection_MakeRequest Post ''/x'' Connection_CreateRequest sample_connection), []) = (c', [pack]) \<and>
     InputPack_GetData pack = ''pong'' \<and> Connection_IsClosed c'"
proof -
  obtain pack where pack: "InputPack_of sample_response ''/x'' = Inr pack" and "InputPack_GetData pack = ''pong''"
    by (simp add: InputPack_of_def prepend_def Target_new_def is_line_end_def sample_response_def InputPack_GetData_def)
  then show ?thesis
    using http_exchange [of Connection_CreateRequest sample_connection 0 Post "''/x''" _ sample_response pack collect
        "\<lambda>u. (u, Inr ())" None "[]"]
    by (auto simp: Connection_CreateRequest_def OutputPack_new_def sample_connection_def collect_def)
qed

text \<open>
  A request made inside the response handler goes to the session that is closed as
  soon as the handler returns: it is posted there, no new session is conn_opened for it, and with the
  socket shut down its write can only fail, which closes the session once more and reports
  nothing to the handler.
\<close>

lemma request_in_handler_is_lost:
  assumes "\<not> conn_aborted c" and "is_request (q_pack q)" and "InputPack_of r t = Inr pack"
    and "\<And>c u. handler pack (c, u) = ((fst (Connection_MakeRequest m2 t2 q c), u), Inr ())"
    and "oc = (\<lambda>u. (u, Inr ()))"
  shows "\<exists>c' q'. conn_step handler oc None (length (conn_sessions c), 0, Received (Some r)) (conn_opened c False [Op_read t], u) = (c', u) \<and>
    Connection_IsClosed c' \<and> conn_sessions c' = conn_sessions (conn_opened c True [Op_write q' t2]) \<and>
    (\<exists>c''. conn_step handler oc None (length (conn_sessions c), 0, Written Write_error) (c', u) = (c'', u) \<and>
       Connection_IsClosed c'' \<and> conn_sessions c'' = conn_sessions (conn_opened c True []))"
proof -
  let ?i = "length (conn_sessions c)"
  let ?q = "(prepare_request m2 t2 q)\<lparr>q_keep_alive := False\<rparr>"
  have cur: "conn_current (conn_opened c False []) = Some ?i"
    by (simp add: conn_opened_def)
  have "Connection_MakeRequest m2 t2 q (conn_opened c False []) = (conn_opened c False [Op_write ?q t2], Inr ())"
    using assms(2) cur by (simp add: Connection_MakeRequest_def Conn_Post_def Let_def)
  then have 1: "conn_step handler oc None (?i, 0, Received (Some r)) (conn_opened c False [Op_read t], u) =
      (conn_opened c True [Op_write ?q t2], u)"
    using assms(1,3-5)
    by (simp add: conn_step_def Conn_OnRead_def Conn_OnResponse_def Conn_Close_def Conn_OnClose_def Let_def)
  let ?l = "MIF_LOG Error (''[Mif::Net::Http::Session::OnWrite] '' @ ''Failed to send request.'') (conn_log c)"
  have log: "conn_opened c True []\<lparr>conn_log := l\<rparr> = conn_opened (c\<lparr>conn_log := l\<rparr>) True []" for l
    by (simp add: conn_opened_def)
  have 2: "conn_step handler oc None (?i, 0, Written Write_error) (conn_opened c True [Op_write ?q t2], u) =
      Conn_Close oc None ?i (conn_opened (c\<lparr>conn_log := ?l\<rparr>) True [], u)"
    using assms(1) by (simp add: conn_step_def Conn_OnWrite_def log)
  obtain c'' where c'': "Conn_Close oc None ?i (conn_opened (c\<lparr>conn_log := ?l\<rparr>) True [], u) = (c'', u)"
    "Connection_IsClosed c''" "conn_sessions c'' = conn_sessions (conn_opened c True [])"
    using Conn_Close_opened [of oc None "c\<lparr>conn_log := ?l\<rparr>" True "[]" u] assms(5) by (auto simp: conn_opened_def)
  show ?thesis
    by (intro exI conjI, rule 1, simp, rule refl, rule trans [OF 2 c''(1)], rule c''(2), rule c''(3))
qed

lemma request_in_handler_is_lost_example:
  "\<exists>c' q'. conn_step (\<lambda>pack (c, u). ((fst (Connection_MakeRequest Get ''/y'' Connection_CreateRequest c), u), Inr ()))
       (\<lambda>u. (u, Inr ())) None (0, 0, Received (Some sample_response)) (conn_opened sample_connection False [Op_read ''/x''], ()) = (c', ()) \<and>
     conn_sessions c' = [\<lparr>cs_isClosed = True, cs_ops = [Op_write q' ''/y'']\<rparr>]"
proof -
  obtain pack where "InputPack_of sample_response ''/x'' = Inr pack"
    by (simp add: InputPack_of_def prepend_def Target_new_def is_line_end_def sample_response_def)
  then show ?thesis
    using request_in_handler_is_lost [of sample_connection Connection_CreateRequest sample_response "''/x''" pack
        "\<lambda>pack (c, u). ((fst (Connection_MakeRequest Get ''/y'' Connection_CreateRequest c), u), Inr ())" Get "''/y''"
        "\<lambda>u. (u, Inr ())" "()"]
    by (auto simp: sample_connection_def Connection_CreateRequest_def OutputPack_new_def conn_opened_def)
qed

text \<open>
  a connection that fails closes the session without a call of either handler.
\<close>

lemma connect_failure_is_silent:
  assumes "\<not> conn_aborted c"
  shows "\<exists>c'. conn_step handler oc sf (length (conn_sessions c), 0, Connected (Some e)) (conn_opened c False [Op_connect q], u) = (c', u) \<and>
    Connection_IsClosed c'"
  using assms by (simp add: conn_step_def Conn_OnConnect_def Connection_IsClosed_def conn_opened_def conn_session_at_def update_session_def take_op_def Let_def)

end
