(* ===== verification/Http_Clients.thy ===== *)
theory Http_Clients
  imports Http_Connection
begin

text \<open>
  Clients of the network layer over HTTP requests (\<open>net/http/clients.cpp\<close>): a session publishes
  every buffer as a POST request that carries the session identifier, and gives the body of the
  response to its client. The client is an argument, as for the servlet at the other end. The
  identifier generated for a session and the outcome of resolving the address are arguments.
\<close>

section \<open>Session\<close>

text \<open>
  The members of a session beside the connection, and whether \<open>Clients\<close> holds it.
  \<open>hc_registered\<close> is the entry of the map of sessions.
\<close>

record 'c http_client =
  hc_host :: string
  hc_port :: string
  hc_resource :: string
  hc_sessionId :: string
  hc_needForClose :: bool
  hc_registered :: bool
  hc_client :: 'c
  hc_resolve :: "unit result"

text \<open>What the client does when it is closed: a new state, or an exception, which is logged.\<close>

record 'c client_calls =
  call_OnData :: "'c \<Rightarrow> buffer \<Rightarrow> 'c client_outcome"
  call_OnClose :: "'c \<Rightarrow> 'c \<times> unit result"

abbreviation log_client :: "log_level \<Rightarrow> string \<Rightarrow> http_connection \<times> 'c http_client \<Rightarrow> http_connection \<times> 'c http_client" where
  "log_client level message st \<equiv> (log_connection level message (fst st), snd st)"

definition error_text :: "exn \<Rightarrow> string" where
  "error_text e = (if is_std_exception e then what e else ''unknown'')"

text \<open>
  \<open>GetConnection\<close>: a closed connection is replaced by a new one. Inside a handler of the old
  connection its destructor runs on the thread it has to join, which ends the process.
\<close>

definition GetConnection :: "bool \<Rightarrow> http_connection \<times> 'c http_client \<Rightarrow> (http_connection \<times> 'c http_client) \<times> unit result" where
  "GetConnection inside = (\<lambda>(c, s).
     if hc_needForClose s then ((c, s), Inl (Runtime_error ''Session marked for closure.''))
     else if Connection_IsClosed c then
       (case Http_Connection_new (hc_resolve s) (hc_host s) (hc_port s) (conn_log c) of
          (log, Inl e) \<Rightarrow> ((c\<lparr>conn_log := log\<rparr>, s), Inl e)
        | (log, Inr c') \<Rightarrow> ((c'\<lparr>conn_aborted := inside\<rparr>, s), Inr ()))
     else ((c, s), Inr ()))"

text \<open>\<open>CloseMe\<close>: the entry is dropped, the client told, the session marked.\<close>

definition forget_session :: "http_connection \<times> 'c http_client \<Rightarrow> http_connection \<times> 'c http_client" where
  "forget_session = (\<lambda>(c, s).
     if hc_registered s then (c, s\<lparr>hc_registered := False\<rparr>)
     else (log_connection Warning (''[Mif::Net::Http::Clients::Impl::RunClient] '' @ ''Session '' @ dquote @ hc_sessionId s @ dquote @
             '' not found.'') c, s))"

definition Client_session_CloseMe :: "'c client_calls \<Rightarrow> http_connection \<times> 'c http_client \<Rightarrow> http_connection \<times> 'c http_client" where
  "Client_session_CloseMe calls st =
     (case forget_session st of
        (c, s) \<Rightarrow>
          (case call_OnClose calls (hc_client s) of
             (k, Inr _) \<Rightarrow> (c, s\<lparr>hc_client := k, hc_needForClose := True\<rparr>)
           | (k, Inl e) \<Rightarrow>
               (log_connection Error (''[Mif::Net::Http::Clients::Impl::CloseMe] '' @ ''Failed to call OnClose for client. Error: '' @
                  error_text e) c, s\<lparr>hc_client := k, hc_needForClose := True\<rparr>)))"

definition publish_request :: "'c http_client \<Rightarrow> buffer \<Rightarrow> client_request" where
  "publish_request s b =
     (let q = Connection_CreateRequest
      in q\<lparr>q_pack := OutputPack_SetData (OutputPack_SetHeader (q_pack q) session_header (hc_sessionId s)) (Some b)\<rparr>)"

definition Client_session_Publish :: "'c client_calls \<Rightarrow> bool \<Rightarrow> http_connection \<times> 'c http_client \<Rightarrow> buffer \<Rightarrow>
    http_connection \<times> 'c http_client" where
  "Client_session_Publish calls inside st b =
     (case (case GetConnection inside st of
              (st1, Inl e) \<Rightarrow> (st1, Inl e)
            | ((c, s), Inr _) \<Rightarrow>
                (case Connection_MakeRequest Post (hc_resource s) (publish_request s b) c of
                   (c1, r) \<Rightarrow> ((c1, s), r))) of
        (st1, Inr _) \<Rightarrow> st1
      | (st1, Inl e) \<Rightarrow>
          Client_session_CloseMe calls
            (log_client Error (''[Mif::Net::Http::Clients::Impl::Publish] '' @ ''Failed tp Publish data. Error: '' @ error_text e) st1))"

text \<open>The checks of a response, and the data it gives to the client.\<close>

definition check_session_response :: "string \<Rightarrow> InputPack \<Rightarrow> buffer result" where
  "check_session_response sid pack =
     (case InputPack_GetHeaders pack session_header of
        None \<Rightarrow> Inl (Runtime_error ''No session from server.'')
      | Some v \<Rightarrow>
          if v = [] then Inl (Runtime_error ''Empty session from server.'')
          else if v \<noteq> sid then
            Inl (Runtime_error (''Bad session from server. Server session: '' @ dquote @ v @ dquote @
              '' Needed session: '' @ dquote @ sid @ dquote))
          else if InputPack_GetData pack = [] then Inl (Runtime_error ''No data in the server response.'')
          else Inr (InputPack_GetData pack))"

text \<open>
  \<open>OnRequestDone\<close>, the response handler: the buffers the client publishes are sent, then a request
  to close is followed, and an exception closes the session.
\<close>

definition OnRequestDone :: "'c client_calls \<Rightarrow> InputPack \<Rightarrow> http_connection \<times> 'c http_client \<Rightarrow>
    (http_connection \<times> 'c http_client) \<times> unit result" where
  "OnRequestDone calls pack st =
     (case check_session_response (hc_sessionId (snd st)) pack of
        Inl e \<Rightarrow>
          (log_client Error (''[Mif::Net::Http::Clients::Impl::OnRequestDone] '' @ ''Failed tp process data. Error: '' @ error_text e)
             (Client_session_CloseMe calls st), Inr ())
      | Inr data \<Rightarrow>
          (let oc = call_OnData calls (hc_client (snd st)) data;
               st1 = foldl (Client_session_Publish calls True) (fst st, (snd st)\<lparr>hc_client := oc_client oc\<rparr>) (oc_published oc);
               st2 = (if oc_close oc then Client_session_CloseMe calls st1 else st1)
           in case oc_error oc of
                None \<Rightarrow> (st2, Inr ())
              | Some e \<Rightarrow>
                  (log_client Error (''[Mif::Net::Http::Clients::Impl::OnRequestDone] '' @ ''Failed tp process data. Error: '' @
                     error_text e) (Client_session_CloseMe calls st2), Inr ())))"

text \<open>The close handler of the connection does nothing.\<close>

definition Client_session_OnClose :: "'c http_client \<Rightarrow> 'c http_client \<times> unit result" where
  "Client_session_OnClose s = (s, Inr ())"

section \<open>Clients\<close>

text \<open>
  \<open>RunClient\<close>: a session with a connection and the client the factory creates, held until it is
  closed.
\<close>

definition RunClient :: "unit result \<Rightarrow> 'c result \<Rightarrow> string \<Rightarrow> string \<Rightarrow> string \<Rightarrow> string \<Rightarrow> log_state \<Rightarrow>
    log_state \<times> (http_connection \<times> 'c http_client) result" where
  "RunClient resolved created sid host port resource log =
     (let fail = (\<lambda>e. if is_std_exception e
                      then Runtime_error (''[Mif::Net::Http::Clients::Impl::RunClient] '' @ ''Failed tp run client on host '' @
                             dquote @ host @ dquote @ '' and port '' @ dquote @ port @ dquote @ ''. Error: '' @ what e)
                      else e)
      in case Http_Connection_new resolved host port log of
           (log', Inl e) \<Rightarrow> (log', Inl (fail e))
         | (log', Inr c) \<Rightarrow>
             (case created of
                Inl e \<Rightarrow> (log', Inl (fail e))
              | Inr k \<Rightarrow>
                  (log', Inr (c, \<lparr>hc_host = host, hc_port = port, hc_resource = resource, hc_sessionId = sid,
                     hc_needForClose = False, hc_registered = True, hc_client = k, hc_resolve = resolved\<rparr>))))"

text \<open>What happens to a session: the client publishes or closes, or an operation completes.\<close>

datatype client_event = Publishes buffer | Closes | Completes "nat \<times> nat \<times> completion"

fun client_step :: "'c client_calls \<Rightarrow> string option \<Rightarrow> http_connection \<times> 'c http_client \<Rightarrow> client_event \<Rightarrow>
    http_connection \<times> 'c http_client" where
  "client_step calls sf st (Publishes b) = Client_session_Publish calls False st b"
| "client_step calls sf st Closes = Client_session_CloseMe calls st"
| "client_step calls sf st (Completes x) = conn_step (OnRequestDone calls) Client_session_OnClose sf x st"

section \<open>Facts\<close>

text \<open>A session that was closed: marked, and no longer held.\<close>

definition client_closed :: "http_connection \<times> 'c http_client \<Rightarrow> bool" where
  "client_closed st \<longleftrightarrow> hc_needForClose (snd st) \<and> \<not> hc_registered (snd st)"

lemma CloseMe_closes: "client_closed (Client_session_CloseMe calls st)"
  by (cases st) (auto simp: Client_session_CloseMe_def client_closed_def forget_session_def split: prod.split sum.split if_splits)

lemma CloseMe_sends_nothing: "conn_sessions (fst (Client_session_CloseMe calls st)) = conn_sessions (fst st)"
  by (cases st) (auto simp: Client_session_CloseMe_def forget_session_def split: prod.split sum.split)

lemma Publish_closed:
  assumes "client_closed st"
  shows "client_closed (Client_session_Publish calls inside st b)"
    and "conn_sessions (fst (Client_session_Publish calls inside st b)) = conn_sessions (fst st)"
proof -
  obtain c s where st: "st = (c, s)" by (cases st)
  have "Client_session_Publish calls inside st b = Client_session_CloseMe calls
      (log_client Error (''[Mif::Net::Http::Clients::Impl::Publish] '' @ ''Failed tp Publish data. Error: '' @
        error_text (Runtime_error ''Session marked for closure.'')) st)"
    using assms by (simp add: st client_closed_def Client_session_Publish_def GetConnection_def)
  then show "client_closed (Client_session_Publish calls inside st b)"
    and "conn_sessions (fst (Client_session_Publish calls inside st b)) = conn_sessions (fst st)"
    by (simp_all add: CloseMe_closes CloseMe_sends_nothing)
qed

interpretation publishing: machine "Client_session_Publish calls inside" client_closed for calls inside
  by unfold_locales (rule Publish_closed)

lemma client_closed_log [simp]: "client_closed (log_client level m st) = client_closed st"
  by (simp add: client_closed_def)

lemma client_closed_client [simp]: "client_closed (c, s\<lparr>hc_client := k\<rparr>) = client_closed (c, s)"
  by (simp add: client_closed_def)

lemma OnRequestDone_returns: "OnRequestDone calls pack st = (fst (OnRequestDone calls pack st), Inr ())"
  by (simp add: OnRequestDone_def Let_def split: sum.split option.split)

lemma OnRequestDone_closed:
  assumes "client_closed st"
  shows "client_closed (fst (OnRequestDone calls pack st))"
proof (cases "check_session_response (hc_sessionId (snd st)) pack")
  case (Inl e)
  then show ?thesis by (simp add: OnRequestDone_def CloseMe_closes)
next
  case (Inr data)
  let ?oc = "call_OnData calls (hc_client (snd st)) data"
  let ?st = "(fst st, (snd st)\<lparr>hc_client := oc_client ?oc\<rparr>)"
  have "client_closed ?st"
    using assms by (simp add: client_closed_def)
  then have "client_closed (foldl (Client_session_Publish calls True) ?st (oc_published ?oc))"
    by (rule publishing.run_inv)
  with Inr show ?thesis
    by (auto simp: OnRequestDone_def Let_def CloseMe_closes split: option.split)
qed

lemma Conn_Close_state: "snd (Conn_Close Client_session_OnClose sf i st) = snd st"
  by (cases st) (auto simp: Conn_Close_def Conn_OnClose_def Client_session_OnClose_def Let_def)

lemma client_closed_snd: "snd st = snd st' \<Longrightarrow> client_closed st \<longleftrightarrow> client_closed st'"
  by (simp add: client_closed_def)

lemma OnResponse_closed: "client_closed st \<Longrightarrow> client_closed (Conn_OnResponse (OnRequestDone calls) r t st)"
proof (cases "InputPack_of r t")
  case (Inl e)
  moreover assume "client_closed st"
  ultimately show ?thesis
    by (cases st; cases e) (simp_all add: Conn_OnResponse_def client_closed_def)
next
  case (Inr pack)
  moreover assume "client_closed st"
  ultimately show ?thesis
    using OnRequestDone_closed [of st calls pack] OnRequestDone_returns [of calls pack st]
    by (cases "fst (OnRequestDone calls pack st)") (simp add: Conn_OnResponse_def)
qed

text \<open>Once closed, a session stays closed whatever happens.\<close>

interpretation client_sessions: machine "client_step calls sf" client_closed for calls sf
proof
  fix st :: "http_connection \<times> 'a http_client" and e
  assume st: "client_closed st"
  obtain c s where cs: "st = (c, s)" by (cases st)
  show "client_closed (client_step calls sf st e)"
  proof (cases e)
    case (Completes x)
    have other: "client_closed (c1, s)" for c1
      using st cs by (simp add: client_closed_def)
    have close: "client_closed (Conn_Close Client_session_OnClose sf i st1)" if "client_closed st1" for i st1
      using that client_closed_snd [OF Conn_Close_state] by blast
    show ?thesis
      unfolding Completes cs
      by (auto simp: conn_step_def Conn_OnWrite_def Conn_OnRead_def other close OnResponse_closed
          split: prod.split option.split async_op.split completion.split write_result.split sum.split)
  qed (use st in \<open>simp_all add: CloseMe_closes Publish_closed\<close>)
qed

section \<open>Properties\<close>

text \<open>
  Which responses reach the client. The body of a response is given to the client
  exactly when the response carries the identifier of the session and the body is not empty;
  every other response closes the session and leaves the client's state to its close handler.
\<close>

lemma response_accepted:
  "(check_session_response sid pack = Inr data \<longleftrightarrow>
      InputPack_GetHeaders pack session_header = Some sid \<and> sid \<noteq> [] \<and> data = InputPack_GetData pack \<and> data \<noteq> []) \<and>
   (check_session_response (hc_sessionId (snd st)) pack = Inl e \<longrightarrow>
      client_closed (fst (OnRequestDone calls pack st)) \<and>
      conn_sessions (fst (fst (OnRequestDone calls pack st))) = conn_sessions (fst st)) \<and>
   (check_session_response (hc_sessionId (snd st)) pack = Inr data \<longrightarrow>
      call_OnData calls (hc_client (snd st)) data = \<lparr>oc_client = k, oc_published = [], oc_close = False, oc_error = None\<rparr> \<longrightarrow>
      OnRequestDone calls pack st = ((fst st, (snd st)\<lparr>hc_client := k\<rparr>), Inr ()))"
  by (auto simp: check_session_response_def OnRequestDone_def CloseMe_closes CloseMe_sends_nothing Let_def split: option.splits if_splits)

definition counting_client :: "nat client_calls" where
  "counting_client = \<lparr>call_OnData = (\<lambda>n b. \<lparr>oc_client = n + length b, oc_published = [], oc_close = False, oc_error = None\<rparr>),
     call_OnClose = (\<lambda>n. (n, Inr ()))\<rparr>"

definition sample_http_client :: "nat http_client" where
  "sample_http_client = \<lparr>hc_host = ''h'', hc_port = ''80'', hc_resource = ''/x'', hc_sessionId = ''id1'', hc_needForClose = False,
     hc_registered = True, hc_client = 0, hc_resolve = Inr ()\<rparr>"

definition sample_session_pack :: "string \<Rightarrow> InputPack" where
  "sample_session_pack sid = \<lparr>m_data = \<lparr>msg_verb = None, msg_target = [], msg_headers = [(''X-Mif-Session'', sid)], msg_body = ''pong''\<rparr>,
     m_target = \<lparr>m_path = ''/x'', m_query = []\<rparr>\<rparr>"

lemma response_accepted_example:
  "hc_client (snd (fst (OnRequestDone counting_client (sample_session_pack ''id1'') (sample_connection, sample_http_client)))) = 4 \<and>
   client_closed (fst (OnRequestDone counting_client (sample_session_pack ''id2'') (sample_connection, sample_http_client)))"
proof -
  note defs = check_session_response_def InputPack_GetHeaders_def sample_session_pack_def emplace_all_eq session_header_def
    InputPack_GetData_def sample_http_client_def counting_client_def
  have 1: "check_session_response (hc_sessionId sample_http_client) (sample_session_pack ''id1'') = Inr ''pong''"
    by (simp add: defs)
  obtain e where 2: "check_session_response (hc_sessionId sample_http_client) (sample_session_pack ''id2'') = Inl e"
    by (simp add: defs)
  have 3: "call_OnData counting_client 0 ''pong'' = \<lparr>oc_client = 4, oc_published = [], oc_close = False, oc_error = None\<rparr>"
    by (simp add: counting_client_def)
  have 4: "hc_client sample_http_client = 0"
    by (simp add: sample_http_client_def)
  from response_accepted [of "''id1''" "sample_session_pack ''id1''" "''pong''" "(sample_connection, sample_http_client)" _ counting_client 4]
    response_accepted [of "''id2''" "sample_session_pack ''id2''" "[]" "(sample_connection, sample_http_client)" e counting_client 0]
  show ?thesis using 1 2 3 4 by simp
qed

text \<open>
  Property C32: a closed session is never used again. After \<open>CloseMe\<close>, by the client or after a
  failure, the session stays marked and out of the map of sessions whatever the client publishes
  and whatever completions arrive, and publishing sends nothing.
\<close>

theorem closed_client_sends_nothing:
  assumes "client_closed st"
  shows "client_closed (foldl (client_step calls sf) st es) \<and>
    conn_sessions (fst (Client_session_Publish calls False (foldl (client_step calls sf) st es) b)) =
      conn_sessions (fst (foldl (client_step calls sf) st es))"
  using client_sessions.run_inv [OF assms] Publish_closed(2) by blast

theorem closed_client_sends_nothing_witness:
  "client_closed (foldl (client_step counting_client None)
     (Client_session_CloseMe counting_client (sample_connection, sample_http_client)) [Publishes ''a'', Closes])"
  using closed_client_sends_nothing [OF CloseMe_closes, of counting_client None counting_client "(sample_connection, sample_http_client)"
      "[Publishes ''a'', Closes]" "[]"] by blast

end
