(* ===== verification/Tcp_Transport.thy ===== *)
theory Tcp_Transport
  imports Http_Servlet Logging
begin

text \<open>
  The TCP transport (\<open>net/tcp/detail/session.cpp\<close>, \<open>clients.cpp\<close>, \<open>connection.cpp\<close>,
  \<open>server.cpp\<close>) and the thread pool (\<open>common/thread_pool.cpp\<close>). The event loop of Boost.Asio
  is the sequence of events; a function given to its executor runs at once on the loop's own
  thread and is queued otherwise. The client of a session is an argument, as in the servlet.
\<close>

section \<open>Session\<close>

datatype tcp_task = Task_write buffer | Task_close

text \<open>
  The state of a session: its client, whether the socket is open, whether a read is pending, the
  bytes that each pending \<open>async_write\<close> has still to send, the bytes sent so far, the functions
  queued by other threads, and whether an exception has left the event loop.
\<close>

record 'c tcp_session =
  ts_client :: 'c
  ts_open :: bool
  ts_reading :: bool
  ts_writes :: "buffer list"
  ts_wire :: buffer
  ts_tasks :: "tcp_task list"
  ts_terminated :: bool
  ts_log :: log_state

record 'c tcp_calls =
  tcp_OnData :: "'c \<Rightarrow> buffer \<Rightarrow> 'c client_outcome"
  tcp_OnClose :: "'c \<Rightarrow> 'c \<times> unit result"

definition read_size :: nat where
  "read_size = 8192"

abbreviation log_session :: "log_level \<Rightarrow> string \<Rightarrow> 'c tcp_session \<Rightarrow> 'c tcp_session" where
  "log_session level message s \<equiv> s\<lparr>ts_log := MIF_LOG level message (ts_log s)\<rparr>"

definition Tcp_DoRead :: "'c tcp_session \<Rightarrow> 'c tcp_session" where
  "Tcp_DoRead s = s\<lparr>ts_reading := True\<rparr>"

definition Tcp_Session_Start :: "'c result \<Rightarrow> log_state \<Rightarrow> 'c tcp_session result" where
  "Tcp_Session_Start created log =
     (case created of
        Inl e \<Rightarrow> Inl e
      | Inr c \<Rightarrow> Inr (Tcp_DoRead \<lparr>ts_client = c, ts_open = True, ts_reading = False, ts_writes = [], ts_wire = [],
          ts_tasks = [], ts_terminated = False, ts_log = log\<rparr>))"

text \<open>\<open>async_write\<close>: a write of an empty buffer is complete at once.\<close>

definition start_write :: "buffer \<Rightarrow> 'c tcp_session \<Rightarrow> 'c tcp_session" where
  "start_write b s = (if b = [] then s else s\<lparr>ts_writes := ts_writes s @ [b]\<rparr>)"

text \<open>The body of \<open>CloseMe\<close>; only standard exceptions of the client are caught.\<close>

definition close_session :: "'c tcp_calls \<Rightarrow> 'c tcp_session \<Rightarrow> 'c tcp_session" where
  "close_session calls s =
     (case tcp_OnClose calls (ts_client s) of
        (c, Inr _) \<Rightarrow> s\<lparr>ts_client := c, ts_open := False\<rparr>
      | (c, Inl e) \<Rightarrow>
          if is_std_exception e
          then log_session Warning (''[Mif::Net::Tcp::Detail::Session::CloseMe]. '' @
                 ''Failed to call OnClose for client. Error: '' @ what e) (s\<lparr>ts_client := c, ts_open := False\<rparr>)
          else s\<lparr>ts_client := c, ts_terminated := True\<rparr>)"

fun run_task :: "'c tcp_calls \<Rightarrow> 'c tcp_session \<Rightarrow> tcp_task \<Rightarrow> 'c tcp_session" where
  "run_task calls s (Task_write b) = start_write b s"
| "run_task calls s Task_close = close_session calls s"

text \<open>\<open>inside\<close> tells whether the caller is on the thread of the event loop.\<close>

definition execute :: "'c tcp_calls \<Rightarrow> bool \<Rightarrow> tcp_task \<Rightarrow> 'c tcp_session \<Rightarrow> 'c tcp_session" where
  "execute calls inside t s = (if inside then run_task calls s t else s\<lparr>ts_tasks := ts_tasks s @ [t]\<rparr>)"

definition Tcp_Publish :: "'c tcp_calls \<Rightarrow> bool \<Rightarrow> 'c tcp_session \<Rightarrow> buffer \<Rightarrow> 'c tcp_session" where
  "Tcp_Publish calls inside s b = execute calls inside (Task_write b) s"

definition Tcp_CloseMe :: "'c tcp_calls \<Rightarrow> bool \<Rightarrow> 'c tcp_session \<Rightarrow> 'c tcp_session" where
  "Tcp_CloseMe calls inside s = execute calls inside Task_close s"

text \<open>Data for the client: what it publishes, whether it closes, and its exception.\<close>

definition deliver_data :: "'c tcp_calls \<Rightarrow> buffer \<Rightarrow> 'c tcp_session \<Rightarrow> 'c tcp_session" where
  "deliver_data calls b s =
     (let oc = tcp_OnData calls (ts_client s) b;
          s1 = foldl (Tcp_Publish calls True) (s\<lparr>ts_client := oc_client oc\<rparr>) (oc_published oc);
          s2 = (if oc_close oc then Tcp_CloseMe calls True s1 else s1)
      in case oc_error oc of
           None \<Rightarrow> s2
         | Some e \<Rightarrow>
             if is_std_exception e
             then log_session Warning (''[Mif::Net::Tcp::Detail::Session::DoRead]. '' @ ''Failed to process data. Error: '' @ what e) s2
             else s2\<lparr>ts_terminated := True\<rparr>)"

text \<open>
  The handler of a read: data goes to the client and the next read is started; an error closes
  the session. \<open>Inl None\<close> is the end of the stream, \<open>Inl (Some m)\<close> another error.
\<close>

definition Tcp_OnRead :: "'c tcp_calls \<Rightarrow> string option + buffer \<Rightarrow> 'c tcp_session \<Rightarrow> 'c tcp_session" where
  "Tcp_OnRead calls r s =
     (case r of
        Inr b \<Rightarrow>
          (let s1 = deliver_data calls b s in if ts_terminated s1 then s1 else Tcp_DoRead s1)
      | Inl None \<Rightarrow> Tcp_CloseMe calls True s
      | Inl (Some m) \<Rightarrow>
          log_session Warning (''[Mif::Net::Tcp::Detail::Session::DoRead]. '' @ ''Failed to read data. Error: '' @ m)
            (Tcp_CloseMe calls True s))"

text \<open>The handler of a write: an error closes the session.\<close>

definition Tcp_OnWriteError :: "'c tcp_calls \<Rightarrow> string \<Rightarrow> 'c tcp_session \<Rightarrow> 'c tcp_session" where
  "Tcp_OnWriteError calls m s =
     Tcp_CloseMe calls True
       (log_session Warning (''[Mif::Net::Tcp::Detail::Session::Publisher]. '' @ ''Failed to write data. Error: '' @ m) s)"

text \<open>
  Events of a session: other threads publish or close, the loop takes a queued function, a
  pending write sends some bytes or fails, the pending read completes. A read brings between one
  and \<open>read_size\<close> bytes.
\<close>

datatype tcp_event = Published_by_other buffer | Closed_by_other | Take_task | Sent nat nat | Write_failed nat string
  | Read_done "string option + buffer"

definition drop_nth :: "nat \<Rightarrow> 'x list \<Rightarrow> 'x list" where
  "drop_nth k xs = take k xs @ drop (Suc k) xs"

fun tcp_step :: "'c tcp_calls \<Rightarrow> 'c tcp_session \<Rightarrow> tcp_event \<Rightarrow> 'c tcp_session" where
  "tcp_step calls s (Published_by_other b) = (if ts_terminated s then s else Tcp_Publish calls False s b)"
| "tcp_step calls s Closed_by_other = (if ts_terminated s then s else Tcp_CloseMe calls False s)"
| "tcp_step calls s Take_task =
     (if ts_terminated s then s
      else case ts_tasks s of [] \<Rightarrow> s | t # ts \<Rightarrow> run_task calls (s\<lparr>ts_tasks := ts\<rparr>) t)"
| "tcp_step calls s (Sent k n) =
     (if ts_terminated s \<or> \<not> ts_open s \<or> length (ts_writes s) \<le> k then s
      else let b = ts_writes s ! k; left = drop n b
           in s\<lparr>ts_wire := ts_wire s @ take n b,
                ts_writes := (if left = [] then drop_nth k (ts_writes s) else (ts_writes s)[k := left])\<rparr>)"
| "tcp_step calls s (Write_failed k m) =
     (if ts_terminated s \<or> length (ts_writes s) \<le> k then s
      else Tcp_OnWriteError calls m (s\<lparr>ts_writes := drop_nth k (ts_writes s)\<rparr>))"
| "tcp_step calls s (Read_done r) =
     (if ts_terminated s \<or> \<not> ts_reading s then s
      else case r of
             Inr b \<Rightarrow> if ts_open s \<and> b \<noteq> [] \<and> length b \<le> read_size
                      then Tcp_OnRead calls r (s\<lparr>ts_reading := False\<rparr>) else s
           | Inl _ \<Rightarrow> Tcp_OnRead calls r (s\<lparr>ts_reading := False\<rparr>))"

section \<open>Clients and connection\<close>

text \<open>\<open>connected\<close> is the outcome of resolving and connecting, \<open>created\<close> that of the client factory.\<close>

definition Tcp_RunClient :: "unit result \<Rightarrow> 'c result \<Rightarrow> log_state \<Rightarrow> 'c tcp_session result" where
  "Tcp_RunClient connected created log =
     (case (case connected of Inl e \<Rightarrow> Inl e | Inr _ \<Rightarrow> Tcp_Session_Start created log) of
        Inr s \<Rightarrow> Inr s
      | Inl e \<Rightarrow> Inl (if is_std_exception e
          then Runtime_error (''[Mif::Net::Tcp::Clients::Impl::RunClient] '' @ ''Failed tp run client. Error: '' @ what e) else e))"

text \<open>
  \<open>Connection::GetClient\<close>: the client of the connection, a new one when there is none or the old
  one is closed. \<open>IsClosed\<close> of a client and running a new one are arguments.
\<close>

definition Tcp_GetClient :: "('k \<Rightarrow> bool) \<Rightarrow> 'k result \<Rightarrow> 'k option \<Rightarrow> 'k option \<times> 'k result" where
  "Tcp_GetClient is_closed run_client m_client =
     (case m_client of
        Some k \<Rightarrow>
          if is_closed k then (case run_client of Inl e \<Rightarrow> (m_client, Inl e) | Inr k' \<Rightarrow> (Some k', Inr k'))
          else (m_client, Inr k)
      | None \<Rightarrow> (case run_client of Inl e \<Rightarrow> (m_client, Inl e) | Inr k' \<Rightarrow> (Some k', Inr k')))"

section \<open>Server\<close>

record 'c tcp_server =
  sv_accepting :: bool
  sv_sessions :: "'c tcp_session list"
  sv_terminated :: bool
  sv_log :: log_state

definition Tcp_DoAccept :: "'c tcp_server \<Rightarrow> 'c tcp_server" where
  "Tcp_DoAccept v = v\<lparr>sv_accepting := True\<rparr>"

definition Tcp_Server_new :: "unit result \<Rightarrow> log_state \<Rightarrow> 'c tcp_server result" where
  "Tcp_Server_new started log =
     (case started of
        Inl e \<Rightarrow> Inl (Runtime_error (''[Mif::Net::Tcp::Server::Impl] '' @ ''Failed to start server. Error: '' @
          (if is_std_exception e then what e else ''unknown.'')))
      | Inr _ \<Rightarrow> Inr (Tcp_DoAccept \<lparr>sv_accepting = False, sv_sessions = [], sv_terminated = False, sv_log = log\<rparr>))"

text \<open>The handler of an accept: \<open>error\<close> of accepting, or the outcome of creating the client.\<close>

definition Tcp_OnAccept :: "string + 'c result \<Rightarrow> 'c tcp_server \<Rightarrow> 'c tcp_server" where
  "Tcp_OnAccept r v =
     (if \<not> sv_accepting v \<or> sv_terminated v then v
      else let v0 = v\<lparr>sv_accepting := False\<rparr>
           in case r of
                Inl m \<Rightarrow>
                  Tcp_DoAccept (v0\<lparr>sv_log := MIF_LOG Warning (''[Mif::Net::Tcp::Server::Impl::DoAccept] '' @
                    ''Failed tp accept connection. Error: '' @ m) (sv_log v0)\<rparr>)
              | Inr created \<Rightarrow>
                  (case Tcp_Session_Start created (sv_log v0) of
                     Inr s \<Rightarrow> Tcp_DoAccept (v0\<lparr>sv_sessions := sv_sessions v0 @ [s]\<rparr>)
                   | Inl e \<Rightarrow>
                       if is_std_exception e
                       then v0\<lparr>sv_log := MIF_LOG Warning (''[Mif::Net::Tcp::Server::Impl::DoAccept] '' @
                              ''Failed to accept connection. Error: '' @ what e) (sv_log v0)\<rparr>
                       else v0\<lparr>sv_terminated := True\<rparr>))"

section \<open>Thread pool\<close>

text \<open>
  Posted tasks wait in the queue of the event loop. Each is tagged with the strand of the ordered
  poster it came through, if any; a worker takes the first task whose strand is not running.
\<close>

record 't worker_pool =
  tp_threads :: nat
  tp_queue :: "(nat option \<times> 't) list"
  tp_posters :: nat

definition ThreadPool_new :: "nat \<Rightarrow> 't worker_pool result" where
  "ThreadPool_new threads =
     (if threads = 0 then Inl (Invalid_argument (''[Mif::Common::ThreadPool] '' @ ''Thread count must be more than 0.''))
      else Inr \<lparr>tp_threads = threads, tp_queue = [], tp_posters = 0\<rparr>)"

definition ThreadPool_Post :: "'t worker_pool \<Rightarrow> 't \<Rightarrow> 't worker_pool" where
  "ThreadPool_Post p t = p\<lparr>tp_queue := tp_queue p @ [(None, t)]\<rparr>"

definition CreateOrderedPoster :: "'t worker_pool \<Rightarrow> 't worker_pool \<times> nat" where
  "CreateOrderedPoster p = (p\<lparr>tp_posters := Suc (tp_posters p)\<rparr>, tp_posters p)"

definition OrderedPoster_Post :: "nat \<Rightarrow> 't worker_pool \<Rightarrow> 't \<Rightarrow> 't worker_pool" where
  "OrderedPoster_Post strand p t = p\<lparr>tp_queue := tp_queue p @ [(Some strand, t)]\<rparr>"

section \<open>Facts\<close>

text \<open>What is on the wire or on its way there, in the order the writes were started.\<close>

definition outgoing :: "'c tcp_session \<Rightarrow> buffer" where
  "outgoing s = ts_wire s @ concat (ts_writes s)"

lemma outgoing_start_write [simp]: "outgoing (start_write b s) = outgoing s @ b"
  by (simp add: outgoing_def start_write_def)

lemma outgoing_simps [simp]:
  "outgoing (s\<lparr>ts_client := c\<rparr>) = outgoing s" "outgoing (s\<lparr>ts_open := b\<rparr>) = outgoing s"
  "outgoing (s\<lparr>ts_reading := b\<rparr>) = outgoing s" "outgoing (s\<lparr>ts_tasks := t\<rparr>) = outgoing s"
  "outgoing (s\<lparr>ts_terminated := b\<rparr>) = outgoing s" "outgoing (s\<lparr>ts_log := l\<rparr>) = outgoing s"
  by (simp_all add: outgoing_def)

lemma outgoing_close [simp]: "outgoing (close_session calls s) = outgoing s"
  by (auto simp: close_session_def split: prod.split sum.split)

lemma outgoing_CloseMe [simp]: "outgoing (Tcp_CloseMe calls inside s) = outgoing s"
  by (simp add: Tcp_CloseMe_def execute_def)

lemma outgoing_Publish_other [simp]: "outgoing (Tcp_Publish calls False s b) = outgoing s"
  by (simp add: Tcp_Publish_def execute_def)

lemma outgoing_Publish_inside [simp]: "outgoing (Tcp_Publish calls True s b) = outgoing s @ b"
  by (simp add: Tcp_Publish_def execute_def)

lemma outgoing_publish_all: "outgoing (foldl (Tcp_Publish calls True) s bs) = outgoing s @ concat bs"
  by (induction bs arbitrary: s) simp_all

lemma outgoing_deliver: "outgoing (deliver_data calls b s) = outgoing s @ concat (oc_published (tcp_OnData calls (ts_client s) b))"
  by (simp add: deliver_data_def Let_def outgoing_publish_all split: option.split)

text \<open>The bytes an event starts to send.\<close>

fun started :: "'c tcp_calls \<Rightarrow> 'c tcp_session \<Rightarrow> tcp_event \<Rightarrow> buffer" where
  "started calls s Take_task =
     (if ts_terminated s then [] else case ts_tasks s of Task_write b # _ \<Rightarrow> b | _ \<Rightarrow> [])"
| "started calls s (Read_done (Inr b)) =
     (if \<not> ts_terminated s \<and> ts_reading s \<and> ts_open s \<and> b \<noteq> [] \<and> length b \<le> read_size
      then concat (oc_published (tcp_OnData calls (ts_client s) b)) else [])"
| "started calls s _ = []"

fun started_all :: "'c tcp_calls \<Rightarrow> 'c tcp_session \<Rightarrow> tcp_event list \<Rightarrow> buffer" where
  "started_all calls s [] = []"
| "started_all calls s (e # es) = started calls s e @ started_all calls (tcp_step calls s e) es"

text \<open>A write progresses only when every write started before it is complete, and none fails.\<close>

fun serial :: "tcp_event \<Rightarrow> bool" where
  "serial (Sent k n) = (k = 0)"
| "serial (Write_failed k m) = False"
| "serial _ = True"

lemma outgoing_Sent: "outgoing (tcp_step calls s (Sent 0 n)) = outgoing s"
proof (cases "ts_writes s")
  case (Cons b bs)
  have "take n b @ drop n b @ concat bs = b @ concat bs"
    by (simp flip: append_assoc)
  with Cons show ?thesis
    by (auto simp: outgoing_def Let_def drop_nth_def)
qed simp

lemma outgoing_step:
  assumes "serial e"
  shows "outgoing (tcp_step calls s e) = outgoing s @ started calls s e"
proof (cases e)
  case Take_task
  show ?thesis
  proof (cases "ts_tasks s")
    case (Cons t ts)
    then show ?thesis using Take_task by (cases t) simp_all
  qed (simp add: Take_task)
next
  case (Sent k n)
  with assms show ?thesis using outgoing_Sent [of calls s n] by simp
next
  case (Read_done r)
  show ?thesis
  proof (cases r)
    case (Inl e)
    then show ?thesis using Read_done by (cases e) (simp_all add: Tcp_OnRead_def)
  next
    case (Inr b)
    then show ?thesis using Read_done by (simp add: Tcp_OnRead_def Let_def outgoing_deliver Tcp_DoRead_def)
  qed
qed (use assms in simp_all)

lemma accept_off: "\<not> sv_accepting v \<Longrightarrow> foldl (\<lambda>v r. Tcp_OnAccept r v) v rs = v"
  by (induction rs) (simp_all add: Tcp_OnAccept_def)

section \<open>Properties\<close>


definition echo_client :: "unit tcp_calls" where
  "echo_client = \<lparr>tcp_OnData = (\<lambda>_ b. \<lparr>oc_client = (), oc_published = [b], oc_close = False, oc_error = None\<rparr>),
     tcp_OnClose = (\<lambda>_. ((), Inr ()))\<rparr>"

definition sample_tcp_session :: "unit tcp_session" where
  "sample_tcp_session = \<lparr>ts_client = (), ts_open = True, ts_reading = True, ts_writes = [], ts_wire = [], ts_tasks = [],
     ts_terminated = False, ts_log = log_init\<rparr>"


text \<open>
  Accepting connections. A failed accept and a started session are both followed by
  the next accept; but when the client factory throws a standard exception, the handler ends
  without starting another accept, and no connection is ever accepted again.
\<close>

lemma tcp_accept_stops:
  assumes "sv_accepting v" and "\<not> sv_terminated v"
  shows "sv_accepting (Tcp_OnAccept (Inl m) v) \<and>
    sv_accepting (Tcp_OnAccept (Inr (Inr c)) v) \<and>
    length (sv_sessions (Tcp_OnAccept (Inr (Inr c)) v)) = Suc (length (sv_sessions v)) \<and>
    (is_std_exception e \<longrightarrow>
       sv_sessions (foldl (\<lambda>v r. Tcp_OnAccept r v) (Tcp_OnAccept (Inr (Inl e)) v) rs) = sv_sessions v)"
  using assms accept_off [of "Tcp_OnAccept (Inr (Inl e)) v" rs]
  by (auto simp: Tcp_OnAccept_def Tcp_DoAccept_def Tcp_Session_Start_def Let_def)

lemma tcp_accept_stops_example:
  "sv_sessions (foldl (\<lambda>v r. Tcp_OnAccept r v)
     (Tcp_OnAccept (Inr (Inl Bad_alloc)) \<lparr>sv_accepting = True, sv_sessions = [sample_tcp_session], sv_terminated = False, sv_log = log_init\<rparr>)
     [Inr (Inr ()), Inl ''e'']) = [sample_tcp_session]"
  using tcp_accept_stops [of "\<lparr>sv_accepting = True, sv_sessions = [sample_tcp_session], sv_terminated = False, sv_log = log_init\<rparr>"
      "''e''" "()" Bad_alloc "[Inr (Inr ()), Inl ''e'']"] by simp

end
