(* ===== verification/Db_Transaction.thy ===== *)
theory Db_Transaction
  imports Prelude
begin

text \<open>
  Transactions (\<open>db/transaction.cpp\<close>) over a connection. The connection's
  \<open>ExecuteDirect\<close> is an argument: a command changes the state of the connection, and it is
  accepted or throws. The facts here are about a connection that keeps the list of the commands
  it has executed; \<open>Db_Session\<close> uses the transaction on the PostgreSQL connection.
\<close>

datatype State = Unknown | Init | Begin | Commit | Rollback

record transaction =
  m_connection :: bool
  m_state :: State

text \<open>
  The connection as a transaction sees it; and one whose server decides on a command after the
  ones it has executed.
\<close>

type_synonym 'd executor = "'d \<Rightarrow> string \<Rightarrow> 'd \<times> exn option"

type_synonym server = "string list \<Rightarrow> string \<Rightarrow> exn option"

definition ExecuteDirect :: "server \<Rightarrow> string list executor" where
  "ExecuteDirect srv db cmd =
     (case srv db cmd of None \<Rightarrow> (db @ [cmd], None) | Some e \<Rightarrow> (db, Some e))"

text \<open>
  \<open>Begin\<close>, \<open>Commit\<close> and \<open>Rollback\<close> have the same shape: the pointer and the state are
  checked, the command is executed, and only then the state changes. A standard exception of
  the connection is turned into a \<open>std::logic_error\<close>.
\<close>

definition transition ::
    "string \<Rightarrow> string \<Rightarrow> string \<Rightarrow> State \<Rightarrow> State \<Rightarrow> 'd executor \<Rightarrow> transaction \<times> 'd \<Rightarrow>
       (transaction \<times> 'd) \<times> unit result" where
  "transition name doing cmd from to exec tdb =
     (case tdb of (t, db) \<Rightarrow>
        if \<not> m_connection t then
          ((t, db), Inl (Logic_error (''[Mif::Db::Transaction::'' @ name @ ''] Empty transaction pointer.'')))
        else if m_state t \<noteq> from then
          ((t, db), Inl (Logic_error (''[Mif::Db::Transaction::'' @ name @ ''] Bad transaction state.'')))
        else (case exec db cmd of
                (db', None) \<Rightarrow> ((t\<lparr>m_state := to\<rparr>, db'), Inr ())
              | (db', Some e) \<Rightarrow>
                  ((t, db'), Inl (if is_std_exception e
                     then Logic_error (''[Mif::Db::Transaction::'' @ name @ ''] Failed to '' @ doing @
                       '' transaction. Error: '' @ what e)
                     else e))))"

definition Transaction_Begin :: "'d executor \<Rightarrow> transaction \<times> 'd \<Rightarrow> (transaction \<times> 'd) \<times> unit result" where
  "Transaction_Begin = transition ''Begin'' ''start'' ''BEGIN;'' Init Begin"

definition Transaction_Commit :: "'d executor \<Rightarrow> transaction \<times> 'd \<Rightarrow> (transaction \<times> 'd) \<times> unit result" where
  "Transaction_Commit = transition ''Commit'' ''commit'' ''COMMIT;'' Begin Commit"

definition Transaction_Rollback :: "'d executor \<Rightarrow> transaction \<times> 'd \<Rightarrow> (transaction \<times> 'd) \<times> unit result" where
  "Transaction_Rollback = transition ''Rollback'' ''rollback'' ''ROLLBACK;'' Begin Rollback"

text \<open>The constructor; when it throws there is no transaction, and no destructor will run.\<close>

definition Transaction_new :: "'d executor \<Rightarrow> bool \<Rightarrow> bool \<Rightarrow> 'd \<Rightarrow> 'd \<times> transaction result" where
  "Transaction_new exec connection open db =
     (if \<not> connection then
        (db, Inl (Invalid_argument ''[Mif::Db::Transaction] Empty transaction pointer.''))
      else let t = \<lparr>m_connection = True, m_state = Init\<rparr>
           in if \<not> open then (db, Inr t)
              else case Transaction_Begin exec (t, db) of
                     ((t', db'), Inr _) \<Rightarrow> (db', Inr t')
                   | ((_, db'), Inl e) \<Rightarrow> (db', Inl e))"

definition moved_from :: transaction where
  "moved_from = \<lparr>m_connection = False, m_state = Unknown\<rparr>"

text \<open>Both moves give the new object the state and leave the old one empty.\<close>

definition Transaction_move :: "transaction \<Rightarrow> transaction \<times> transaction" where
  "Transaction_move t = (t, moved_from)"

definition Transaction_assign :: "transaction \<Rightarrow> transaction \<Rightarrow> transaction \<times> transaction" where
  "Transaction_assign this other = (other, moved_from)"

text \<open>
  The destructor rolls an open transaction back; a standard exception is logged, another one
  leaves a destructor and terminates the program.
\<close>

definition Transaction_destroy :: "'d executor \<Rightarrow> transaction \<times> 'd \<Rightarrow> 'd \<times> unit result" where
  "Transaction_destroy exec tdb =
     (case tdb of (t, db) \<Rightarrow>
        if \<not> m_connection t \<or> m_state t \<noteq> Begin then (db, Inr ())
        else (case Transaction_Rollback exec (t, db) of
                ((_, db'), Inr _) \<Rightarrow> (db', Inr ())
              | ((_, db'), Inl e) \<Rightarrow> if is_std_exception e then (db', Inr ()) else (db', Inl e)))"

section \<open>Facts\<close>

datatype call = Call_Begin | Call_Commit | Call_Rollback

text \<open>A member call by the user, who catches what it throws and goes on.\<close>

fun transaction_step :: "server \<Rightarrow> transaction \<times> string list \<Rightarrow> call \<Rightarrow> transaction \<times> string list" where
  "transaction_step srv tdb Call_Begin = fst (Transaction_Begin (ExecuteDirect srv) tdb)"
| "transaction_step srv tdb Call_Commit = fst (Transaction_Commit (ExecuteDirect srv) tdb)"
| "transaction_step srv tdb Call_Rollback = fst (Transaction_Rollback (ExecuteDirect srv) tdb)"

text \<open>The state of the object says which commands the server has executed.\<close>

fun commands_of :: "State \<Rightarrow> string list" where
  "commands_of Unknown = []"
| "commands_of Init = []"
| "commands_of Begin = [''BEGIN;'']"
| "commands_of Commit = [''BEGIN;'', ''COMMIT;'']"
| "commands_of Rollback = [''BEGIN;'', ''ROLLBACK;'']"

definition transaction_inv :: "string list \<Rightarrow> transaction \<times> string list \<Rightarrow> bool" where
  "transaction_inv db0 tdb \<longleftrightarrow> m_connection (fst tdb) \<and> snd tdb = db0 @ commands_of (m_state (fst tdb))"

lemmas transaction_ops = Transaction_Begin_def Transaction_Commit_def Transaction_Rollback_def

lemma transition_inv:
  assumes "transaction_inv db0 tdb" and "commands_of to = commands_of from @ [cmd]"
  shows "transaction_inv db0 (fst (transition name doing cmd from to (ExecuteDirect srv) tdb))"
  using assms
  by (cases tdb) (auto simp: transaction_inv_def transition_def ExecuteDirect_def split: option.splits)

interpretation transactions: machine "transaction_step srv" "transaction_inv db0" for srv db0
proof unfold_locales
  fix tdb c assume "transaction_inv db0 tdb"
  then show "transaction_inv db0 (transaction_step srv tdb c)"
    by (cases c) (simp_all add: transaction_ops transition_inv)
qed

lemma Transaction_new_inv:
  assumes "Transaction_new (ExecuteDirect srv) connection open db = (db', Inr t)"
  shows "transaction_inv db (t, db')"
proof -
  have "transaction_inv db (\<lparr>m_connection = True, m_state = Init\<rparr>, db)"
    by (simp add: transaction_inv_def)
  from transactions.step_inv [OF this, of srv Call_Begin] assms show ?thesis
    by (auto simp: Transaction_new_def transaction_inv_def Let_def split: if_splits prod.splits sum.splits)
qed

section \<open>Properties\<close>

text \<open>
  Property C12: a transaction object never leaves the database in an open transaction. Whatever
  sequence of calls is made on it, legal or not, and whichever commands the server refuses, if
  the server rolls back when asked, then after the object is destroyed the commands executed
  for it are none, \<open>BEGIN\<close> and \<open>COMMIT\<close>, or \<open>BEGIN\<close> and \<open>ROLLBACK\<close>; and \<open>COMMIT\<close> was
  executed only if the object's state says so.
\<close>

theorem transaction_always_closed:
  assumes "Transaction_new (ExecuteDirect srv) True open db0 = (db1, Inr t1)"
    and "tdb' = foldl (transaction_step srv) (t1, db1) calls"
    and "\<And>db. srv db ''ROLLBACK;'' = None"
  shows "\<exists>db. Transaction_destroy (ExecuteDirect srv) tdb' = (db, Inr ()) \<and>
    (db = db0 \<or> db = db0 @ [''BEGIN;'', ''COMMIT;''] \<or> db = db0 @ [''BEGIN;'', ''ROLLBACK;'']) \<and>
    (db = db0 @ [''BEGIN;'', ''COMMIT;''] \<longleftrightarrow> m_state (fst tdb') = Commit)"
proof -
  have inv: "transaction_inv db0 tdb'"
    unfolding assms(2) by (rule transactions.run_inv) (rule Transaction_new_inv [OF assms(1)])
  obtain t db where tdb': "tdb' = (t, db)" by force
  with inv have "m_connection t" "db = db0 @ commands_of (m_state t)" by (simp_all add: transaction_inv_def)
  then show ?thesis
    using tdb' assms(3)
    by (cases "m_state t")
      (auto simp: Transaction_destroy_def Transaction_Rollback_def transition_def ExecuteDirect_def)
qed

theorem transaction_always_closed_witness:
  "Transaction_destroy (ExecuteDirect (\<lambda>db c. if c = ''COMMIT;'' then Some Bad_alloc else None))
     (foldl (transaction_step (\<lambda>db c. if c = ''COMMIT;'' then Some Bad_alloc else None))
        (\<lparr>m_connection = True, m_state = Begin\<rparr>, [''BEGIN;'']) [Call_Begin, Call_Commit]) =
   ([''BEGIN;'', ''ROLLBACK;''], Inr ())"
proof -
  let ?srv = "\<lambda>db c. if c = ''COMMIT;'' then Some Bad_alloc else None"
  let ?t = "(\<lparr>m_connection = True, m_state = Begin\<rparr>, [''BEGIN;''])"
  have new: "Transaction_new (ExecuteDirect ?srv) True True [] = (snd ?t, Inr (fst ?t))"
    by (simp add: Transaction_new_def Transaction_Begin_def transition_def ExecuteDirect_def)
  have st: "m_state (fst (foldl (transaction_step ?srv) ?t [Call_Begin, Call_Commit])) = Begin"
    by (simp add: transaction_ops transition_def ExecuteDirect_def)
  obtain db where d: "Transaction_destroy (ExecuteDirect ?srv) (foldl (transaction_step ?srv) ?t [Call_Begin, Call_Commit]) = (db, Inr ())"
      "db = [] \<or> db = [''BEGIN;'', ''COMMIT;''] \<or> db = [''BEGIN;'', ''ROLLBACK;'']"
      "db \<noteq> [''BEGIN;'', ''COMMIT;'']"
    using transaction_always_closed [OF new refl, of "[Call_Begin, Call_Commit]"] st by auto
  moreover have "db \<noteq> []"
    using d(1) by (auto simp: Transaction_destroy_def transaction_ops transition_def ExecuteDirect_def)
  ultimately show ?thesis by blast
qed

end
