(* ===== verification/Db_Postgres.thy ===== *)
theory Db_Postgres
  imports Text_Stream
begin

text \<open>
  The PostgreSQL classes (\<open>db/postgresql/connection.cpp\<close>, \<open>connection_pool.cpp\<close>,
  \<open>detail/statement.cpp\<close>, \<open>detail/recordset.cpp\<close>). The client library is an argument: what
  \<open>PQconnectdb\<close>, \<open>PQprepare\<close>, \<open>PQexec\<close> and \<open>PQexecPrepared\<close> return, and the accessors
  of a result.
\<close>

section \<open>Results of the client library\<close>

datatype pg_status = Command_ok | Tuples_ok | Failed

record pg_result =
  PQresultStatus :: pg_status
  PQresultErrorMessage :: "string option"
  PQntuples :: int
  PQnfields :: int
  PQfname :: "int \<Rightarrow> string option"
  PQfnumber :: "string \<Rightarrow> int"
  PQgetisnull :: "int \<Rightarrow> int \<Rightarrow> bool"
  PQgetvalue :: "int \<Rightarrow> int \<Rightarrow> string option"

definition or_unknown :: "string option \<Rightarrow> string" where
  "or_unknown m = (case m of Some s \<Rightarrow> s | None \<Rightarrow> ''unknown'')"

section \<open>Recordset\<close>

record recordset =
  m_hasNext :: bool
  m_currentRow :: int
  m_fieldsCount :: nat
  m_result :: pg_result

text \<open>An empty parameter is passed as null, any other one up to its first NUL character.\<close>

definition param_value :: "string \<Rightarrow> string option" where
  "param_value prm = (if prm = [] then None else Some (takeWhile (\<lambda>c. c \<noteq> CHR 0x00) prm))"

definition Recordset_new ::
    "bool \<Rightarrow> bool \<Rightarrow> (string \<Rightarrow> string option list \<Rightarrow> pg_result option) \<Rightarrow> string \<Rightarrow> string list \<Rightarrow> recordset result" where
  "Recordset_new connection holder PQexecPrepared statementName parameters =
     (if \<not> connection then
        Inl (Invalid_argument ''[Mif::Db::PostgreSql::Detail::Recordset] Empty connection pointer.'')
      else if \<not> holder then
        Inl (Invalid_argument ''[Mif::Db::PostgreSql::Detail::Recordset] Empty connection holder pointer.'')
      else if statementName = [] then
        Inl (Invalid_argument ''[Mif::Db::PostgreSql::Detail::Recordset] Empty query.'')
      else case PQexecPrepared statementName (map param_value parameters) of
             None \<Rightarrow> Inl (Runtime_error ''[Mif::Db::PostgreSql::Detail::Recordset] Failed to open recordset.'')
           | Some r \<Rightarrow>
               if PQresultStatus r = Failed then
                 Inl (Runtime_error (''[Mif::Db::PostgreSql::Detail::Recordset] Failed to open recordset. '' @
                   ''Error: '' @ or_unknown (PQresultErrorMessage r)))
               else if PQnfields r < 0 then
                 Inl (Runtime_error (''[Mif::Db::PostgreSql::Detail::Recordset] '' @ ''Failed to get fields count.''))
               else Inr \<lparr>m_hasNext = True, m_currentRow = -1, m_fieldsCount = nat (PQnfields r), m_result = r\<rparr>)"

definition CheckIndex :: "recordset \<Rightarrow> nat \<Rightarrow> unit result" where
  "CheckIndex r index =
     (if m_fieldsCount r = 0 then
        Inl (Invalid_argument (''[Mif::Db::PostgreSql::Detail::Recordset::CheckIndex] '' @
          ''Failed to get value. There are no columns in the recordset.''))
      else if m_fieldsCount r \<le> index then
        Inl (Invalid_argument (''[Mif::Db::PostgreSql::Detail::Recordset::CheckIndex] '' @
          ''Failed to get value. Index '' @ nat_to_string index @ '' is out of range '' @
          ''[0 ... '' @ nat_to_string (m_fieldsCount r) @ ''].''))
      else Inr ())"

definition Recordset_Read :: "recordset \<Rightarrow> recordset \<times> bool" where
  "Recordset_Read r =
     (if \<not> m_hasNext r then (r, False)
      else if PQntuples (m_result r) \<le> m_currentRow r + 1 then (r\<lparr>m_hasNext := False\<rparr>, False)
      else (r\<lparr>m_currentRow := m_currentRow r + 1\<rparr>, True))"

definition Recordset_GetFieldsCount :: "recordset \<Rightarrow> nat" where
  "Recordset_GetFieldsCount r = m_fieldsCount r"

definition Recordset_IsNull :: "recordset \<Rightarrow> nat \<Rightarrow> bool result" where
  "Recordset_IsNull r index =
     (case CheckIndex r index of
        Inl e \<Rightarrow> Inl e
      | Inr _ \<Rightarrow> Inr (PQgetisnull (m_result r) (m_currentRow r) (int index)))"

definition Recordset_GetFieldName :: "recordset \<Rightarrow> nat \<Rightarrow> string result" where
  "Recordset_GetFieldName r index =
     (case CheckIndex r index of
        Inl e \<Rightarrow> Inl e
      | Inr _ \<Rightarrow>
          (case PQfname (m_result r) (int index) of
             Some name \<Rightarrow> Inr name
           | None \<Rightarrow> Inl (Runtime_error (''[Mif::Db::PostgreSql::Detail::Recordset::GetFieldName] '' @
               ''Failed to get '' @ nat_to_string index @ '' field name.''))))"

definition Recordset_GetFieldIndex :: "recordset \<Rightarrow> string \<Rightarrow> nat result" where
  "Recordset_GetFieldIndex r name =
     (if name = [] then
        Inl (Invalid_argument (''[Mif::Db::PostgreSql::Detail::Recordset::GetFieldIndex] '' @
          ''Failed to get field index. Empty field name.''))
      else let index = PQfnumber (m_result r) name
           in if index < 0 then
                Inl (Runtime_error (''[Mif::Db::PostgreSql::Detail::Recordset::GetFieldIndex] '' @
                  ''Failed to get field index for the field name '' @ dquote @ name @ dquote))
              else Inr (nat index))"

definition Recordset_GetAsString :: "recordset \<Rightarrow> nat \<Rightarrow> string result" where
  "Recordset_GetAsString r index =
     (case Recordset_IsNull r index of
        Inl e \<Rightarrow> Inl e
      | Inr True \<Rightarrow> Inl (Logic_error (''[Mif::Db::PostgreSql::Detail::Recordset::GetAsString] '' @
          ''Failed to get '' @ nat_to_string index @ '' field value from null.''))
      | Inr False \<Rightarrow>
          (case PQgetvalue (m_result r) (m_currentRow r) (int index) of
             Some value \<Rightarrow> Inr value
           | None \<Rightarrow> Inl (Runtime_error (''[Mif::Db::PostgreSql::Detail::Recordset::GetAsString] '' @
               ''Failed to get '' @ nat_to_string index @ '' field value.''))))"

definition get_as :: "string \<Rightarrow> (string \<Rightarrow> 'v result) \<Rightarrow> recordset \<Rightarrow> nat \<Rightarrow> 'v result" where
  "get_as fn conv r index =
     (case (case Recordset_GetAsString r index of Inl e \<Rightarrow> Inl e | Inr s \<Rightarrow> conv s) of
        Inr v \<Rightarrow> Inr v
      | Inl e \<Rightarrow>
          if is_std_exception e then
            Inl (Runtime_error (''[Mif::Db::PostgreSql::Detail::Recordset::'' @ fn @ ''] '' @
              ''Failed to get '' @ nat_to_string index @ '' field value. Error: '' @ what e))
          else Inl e)"

definition Recordset_GetAsInt32 :: "recordset \<Rightarrow> nat \<Rightarrow> int result" where
  "Recordset_GetAsInt32 = get_as ''GetAsInt32'' (sto_int ''stoi'' 32)"

definition Recordset_GetAsInt64 :: "recordset \<Rightarrow> nat \<Rightarrow> int result" where
  "Recordset_GetAsInt64 = get_as ''GetAsInt64'' (sto_int ''stoll'' 64)"

text \<open>Conversion to a floating-point number is an argument.\<close>

definition Recordset_GetAsDouble :: "(string \<Rightarrow> 'd result) \<Rightarrow> recordset \<Rightarrow> nat \<Rightarrow> 'd result" where
  "Recordset_GetAsDouble stod = get_as ''GetAsDouble'' stod"

section \<open>Statement\<close>

record statement =
  m_stmt_name :: string

definition statement_name :: "string \<Rightarrow> string" where
  "statement_name uuid = filter (\<lambda>c. c \<noteq> CHR ''-'') (''mif_ps_'' @ uuid)"

definition Statement_new ::
    "bool \<Rightarrow> bool \<Rightarrow> (string \<Rightarrow> string \<Rightarrow> pg_result option) \<Rightarrow> string \<Rightarrow> string \<Rightarrow> statement result" where
  "Statement_new connection holder PQprepare uuid query =
     (if \<not> connection then
        Inl (Invalid_argument ''[Mif::Db::PostgreSql::Detail::Statement] Empty connection pointer.'')
      else if \<not> holder then
        Inl (Invalid_argument ''[Mif::Db::PostgreSql::Detail::Statement] Empty connection holder pointer.'')
      else if query = [] then
        Inl (Invalid_argument ''[Mif::Db::PostgreSql::Detail::Statement] Empty query.'')
      else case PQprepare (statement_name uuid) query of
             None \<Rightarrow> Inl (Runtime_error (''[Mif::Db::PostgreSql::Detail::Statement] '' @
               ''Failed to create prepared statement for query '' @ dquote @ query @ dquote))
           | Some r \<Rightarrow>
               if PQresultStatus r \<noteq> Command_ok then
                 Inl (Runtime_error (''[Mif::Db::PostgreSql::Detail::Statement] '' @
                   ''Failed to create prepared statement for query '' @ dquote @ query @ dquote @ ''. '' @
                   ''Erro: '' @ or_unknown (PQresultErrorMessage r)))
               else Inr \<lparr>m_stmt_name = statement_name uuid\<rparr>)"

text \<open>The destructor deallocates the prepared statement; failures are only logged.\<close>

definition Statement_destroy :: "statement \<Rightarrow> string" where
  "Statement_destroy s = ''DEALLOCATE '' @ m_stmt_name s"

definition Statement_Execute ::
    "(string \<Rightarrow> string option list \<Rightarrow> pg_result option) \<Rightarrow> statement \<Rightarrow> string list \<Rightarrow> recordset result" where
  "Statement_Execute PQexecPrepared s parameters =
     Recordset_new True True PQexecPrepared (m_stmt_name s) parameters"

section \<open>Connection\<close>

definition connection_string :: "string \<Rightarrow> 16 word \<Rightarrow> string \<Rightarrow> string \<Rightarrow> string \<Rightarrow> 32 word \<Rightarrow> string" where
  "connection_string host port user password db timeout =
     ''host='' @ squote @ host @ squote @ '' port='' @ squote @ nat_to_string (unat port) @ squote @
     '' user='' @ squote @ user @ squote @ '' password='' @ squote @ password @ squote @
     '' dbname='' @ squote @ db @ squote @ '' connect_timeout='' @ squote @ nat_to_string (unat timeout) @ squote @
     '' sslmode='' @ squote @ ''disable'' @ squote"

text \<open>\<open>PQconnectdb\<close> gives a connection that is good or has an error message.\<close>

definition Connection_new :: "(string \<Rightarrow> 'c + string option) \<Rightarrow> string \<Rightarrow> 'c result" where
  "Connection_new PQconnectdb connectionString =
     (if connectionString = [] then
        Inl (Invalid_argument ''[Mif::Db::PostgreSql::Connection] Empty connection string.'')
      else case PQconnectdb connectionString of
             Inl c \<Rightarrow> Inr c
           | Inr message \<Rightarrow> Inl (Runtime_error (''[Mif::Db::PostgreSql::Connection] Failed to open connection. '' @
               ''Error: '' @ or_unknown message)))"

definition Connection_ExecuteDirect :: "(string \<Rightarrow> pg_result option) \<Rightarrow> string option \<Rightarrow> string \<Rightarrow> unit result" where
  "Connection_ExecuteDirect PQexec message query =
     (if query = [] then
        Inl (Invalid_argument ''[Mif::Db::PostgreSql::Connection::ExecuteDirect] Empry query string.'')
      else case PQexec query of
             Some r \<Rightarrow> if PQresultStatus r = Command_ok then Inr ()
                       else Inl (Runtime_error (''[Mif::Db::PostgreSql::Connection::ExecuteDirect] '' @
                         ''Failed to execute query '' @ dquote @ query @ dquote @ '' Error: '' @ or_unknown message))
           | None \<Rightarrow> Inl (Runtime_error (''[Mif::Db::PostgreSql::Connection::ExecuteDirect] '' @
               ''Failed to execute query '' @ dquote @ query @ dquote @ '' Error: '' @ or_unknown message)))"

text \<open>\<open>IsGood\<close>: a statement can be prepared and executed.\<close>

definition Connection_IsGood ::
    "(string \<Rightarrow> string \<Rightarrow> pg_result option) \<Rightarrow> (string \<Rightarrow> string option list \<Rightarrow> pg_result option) \<Rightarrow> string \<Rightarrow> bool" where
  "Connection_IsGood PQprepare PQexecPrepared uuid =
     (case Statement_new True True PQprepare uuid ''select 1;'' of
        Inl e \<Rightarrow> False
      | Inr s \<Rightarrow> (case Statement_Execute PQexecPrepared s [] of Inl e \<Rightarrow> False | Inr r \<Rightarrow> True))"

section \<open>Facts\<close>

text \<open>A number of reads in a row: the recordset after them and what they returned.\<close>

fun reads :: "nat \<Rightarrow> recordset \<Rightarrow> recordset \<times> bool list" where
  "reads 0 r = (r, [])"
| "reads (Suc n) r =
     (case Recordset_Read r of (r', b) \<Rightarrow> (case reads n r' of (r'', bs) \<Rightarrow> (r'', b # bs)))"

lemma reads_finished:
  assumes "PQntuples (m_result r) \<le> m_currentRow r + 1 \<or> \<not> m_hasNext r"
  shows "snd (reads n r) = replicate n False \<and> m_currentRow (fst (reads n r)) = m_currentRow r"
  using assms
proof (induction n arbitrary: r)
  case (Suc n)
  obtain r' where "Recordset_Read r = (r', False)" "m_currentRow r' = m_currentRow r" "\<not> m_hasNext r'"
    using Suc.prems by (cases "m_hasNext r") (auto simp: Recordset_Read_def)
  with Suc.IH [of r'] show ?case by (auto split: prod.splits)
qed simp

lemma reads_rows:
  assumes "m_hasNext r" and "int n \<le> PQntuples (m_result r) - (m_currentRow r + 1)"
  shows "reads n r = (r\<lparr>m_currentRow := m_currentRow r + int n\<rparr>, replicate n True)"
  using assms
proof (induction n arbitrary: r)
  case (Suc n)
  then have "Recordset_Read r = (r\<lparr>m_currentRow := m_currentRow r + 1\<rparr>, True)"
    by (auto simp: Recordset_Read_def)
  with Suc.IH [of "r\<lparr>m_currentRow := m_currentRow r + 1\<rparr>"] Suc.prems show ?case by (simp add: algebra_simps)
qed simp

lemma reads_add:
  "reads (n + k) r = (case reads n r of (r', bs) \<Rightarrow> (case reads k r' of (r'', cs) \<Rightarrow> (r'', bs @ cs)))"
  by (induction n arbitrary: r) (auto split: prod.splits)

section \<open>Properties\<close>

text \<open>
  A recordset is read row by row, every row once. On a newly opened recordset
  with \<open>n\<close> rows the first \<open>n\<close> calls of \<open>Read\<close> return true, the \<open>k\<close>-th of them selects row
  \<open>k - 1\<close>, and all later calls return false and keep the last row selected.
\<close>

lemma recordset_reads_every_row:
  assumes "Recordset_new True True exec name params = Inr r" and "PQntuples (m_result r) = int n"
  shows "(\<forall>k. k \<le> n \<longrightarrow> snd (reads k r) = replicate k True \<and> m_currentRow (fst (reads k r)) = int k - 1) \<and>
    (\<forall>j. snd (reads (n + j) r) = replicate n True @ replicate j False \<and>
       m_currentRow (fst (reads (n + j) r)) = int n - 1)"
proof -
  have r: "m_hasNext r" "m_currentRow r = -1"
    using assms(1) by (auto simp: Recordset_new_def split: if_splits option.splits)
  have first: "reads k r = (r\<lparr>m_currentRow := int k - 1\<rparr>, replicate k True)" if "k \<le> n" for k
    using reads_rows [OF r(1), of k] r(2) assms(2) that by simp
  have "snd (reads (n + j) r) = replicate n True @ replicate j False \<and>
      m_currentRow (fst (reads (n + j) r)) = int n - 1" for j
    using first [of n] reads_finished [of "r\<lparr>m_currentRow := int n - 1\<rparr>" j] assms(2)
    by (auto simp: reads_add split: prod.splits)
  with first show ?thesis by simp
qed

definition sample_result :: pg_result where
  "sample_result = \<lparr>PQresultStatus = Tuples_ok, PQresultErrorMessage = None, PQntuples = 2, PQnfields = 1,
     PQfname = (\<lambda>_. Some ''id''), PQfnumber = (\<lambda>_. 0), PQgetisnull = (\<lambda>_ _. False), PQgetvalue = (\<lambda>_ _. Some ''42'')\<rparr>"

lemma recordset_reads_every_row_example:
  "\<exists>r. Recordset_new True True (\<lambda>_ _. Some sample_result) ''q'' [] = Inr r \<and>
     snd (reads (2 + 1) r) = replicate 2 True @ replicate 1 False"
proof -
  obtain r where r: "Recordset_new True True (\<lambda>_ _. Some sample_result) ''q'' [] = Inr r" "m_result r = sample_result"
    by (simp add: Recordset_new_def sample_result_def)
  have "PQntuples (m_result r) = int 2" using r(2) by (simp add: sample_result_def)
  from recordset_reads_every_row [OF r(1) this] r(1) show ?thesis by blast
qed

end
