(* ===== verification/Db_Pool.thy ===== *)
theory Db_Pool
  imports Db_Postgres Service_Pool
begin

text \<open>
  The pool of database connections (\<open>db/postgresql/connection_pool.cpp\<close>): the parameters from the
  constructor or from a configuration, the service factory that makes connections with them,
  and the per-thread pool over that factory. Opening and checking a connection are those of
  \<open>Db_Postgres\<close>, over the functions of the client library.
\<close>

section \<open>Parameters\<close>

record pg_params =
  pg_host :: string
  pg_port :: "16 word"
  pg_user :: string
  pg_password :: string
  pg_dbname :: string
  pg_timeout :: "32 word"

definition pg_paths :: "string list" where
  "pg_paths = [''host'', ''port'', ''user'', ''password'', ''dbname'', ''connectiontimeout'']"

text \<open>
  The values are arguments of one call, so the order of reading them, and with it which missing
  one is reported, is left to the compiler. Numbers are read by the extraction of \<open>GetValue<T>\<close>.
\<close>

definition config_params :: "(nat \<Rightarrow> nat list) \<Rightarrow> ('c \<Rightarrow> string \<Rightarrow> string result) \<Rightarrow> 'c option \<Rightarrow> pg_params result" where
  "config_params order get_value config =
     (case config of
        None \<Rightarrow> Inl (Invalid_argument (''[Mif::Db::PostgreSql::ConnectionPool] '' @ ''Empty config ptr.''))
      | Some cfg \<Rightarrow>
          map_sum id
            (\<lambda>vs. \<lparr>pg_host = vs ! 0, pg_port = word_of_int (read_unsigned 16 (vs ! 1)), pg_user = vs ! 2,
               pg_password = vs ! 3, pg_dbname = vs ! 4, pg_timeout = word_of_int (read_unsigned 32 (vs ! 5))\<rparr>)
            (evaluate_args order (map (get_value cfg) pg_paths)))"

section \<open>Pool\<close>

record 't connection_pool =
  cp_params :: pg_params
  cp_threads :: "'t thread_pool"

definition ConnectionPool_Init :: "pg_params \<Rightarrow> 't connection_pool result" where
  "ConnectionPool_Init params =
     map_sum id (\<lambda>p. \<lparr>cp_params = params, cp_threads = p\<rparr>) (PerThreadPool_new True)"

definition ConnectionPool_new :: "(nat \<Rightarrow> nat list) \<Rightarrow> ('c \<Rightarrow> string \<Rightarrow> string result) \<Rightarrow> 'c option \<Rightarrow> 't connection_pool result" where
  "ConnectionPool_new order get_value config =
     (case config_params order get_value config of Inl e \<Rightarrow> Inl e | Inr params \<Rightarrow> ConnectionPool_Init params)"

text \<open>What the factory of the pool does: open a connection with the parameters of the pool.\<close>

definition open_connection :: "(string \<Rightarrow> addr + string option) \<Rightarrow> pg_params \<Rightarrow> addr result" where
  "open_connection PQconnectdb ps =
     Connection_new PQconnectdb
       (connection_string (pg_host ps) (pg_port ps) (pg_user ps) (pg_password ps) (pg_dbname ps) (pg_timeout ps))"

definition ConnectionPool_GetConnection :: "(string \<Rightarrow> addr + string option) \<Rightarrow> (addr \<Rightarrow> bool) \<Rightarrow> 't \<Rightarrow> 't connection_pool \<Rightarrow>
    't connection_pool \<times> addr result" where
  "ConnectionPool_GetConnection PQconnectdb is_good t cp =
     (case PerThreadPool_GetService (\<lambda>a. if is_good a then Good else Bad) (open_connection PQconnectdb (cp_params cp)) t (cp_threads cp) of
        (p, r) \<Rightarrow> (cp\<lparr>cp_threads := p\<rparr>, r))"

section \<open>Facts\<close>

lemma pg_paths_length [simp]: "length pg_paths = 6"
  by (simp add: pg_paths_def)

text \<open>A configuration that lacks one of the values makes no pool.\<close>

lemma pool_needs_every_value:
  assumes "path \<in> set pg_paths" and "get_value cfg path = Inl e" and "set (order 6) = {..<6}"
  shows "\<exists>e. ConnectionPool_new order get_value (Some cfg) = Inl e"
proof -
  have "Inl e \<in> set (map (get_value cfg) pg_paths)"
    using assms(1,2) by (metis image_eqI set_map)
  then obtain e' where "evaluate_args order (map (get_value cfg) pg_paths) = Inl e'"
    using evaluate_args_error [of e "map (get_value cfg) pg_paths" order] assms(3) by auto
  then show ?thesis
    by (simp add: ConnectionPool_new_def config_params_def)
qed

text \<open>
  A thread works on one connection. The first call opens it, later calls return it while it is
  good, and a dead one is replaced by another with the same parameters; an error of opening goes
  to the caller, and no other thread loses its connection.
\<close>

lemma connection_of_thread:
  assumes "ConnectionPool_GetConnection PQconnectdb is_good t cp = (cp', r)"
    and "\<And>a. t_services (cp_threads cp) t = Some a \<Longrightarrow> a \<noteq> 0"
  shows "r = (case t_services (cp_threads cp) t of
       Some a \<Rightarrow> if is_good a then Inr a else open_connection PQconnectdb (cp_params cp)
     | None \<Rightarrow> open_connection PQconnectdb (cp_params cp)) \<and>
    (\<forall>a. r = Inr a \<longrightarrow> t_services (cp_threads cp') t = Some a) \<and>
    (\<forall>u. u \<noteq> t \<longrightarrow> t_services (cp_threads cp') u = t_services (cp_threads cp) u) \<and> cp_params cp' = cp_params cp"
  using assms
  by (auto simp: ConnectionPool_GetConnection_def PerThreadPool_GetService_def thread_check_def thread_create_def
      map_emplace_def Let_def split: if_splits option.splits sum.splits)

end
