(* ===== verification/App_Config.thy ===== *)
theory App_Config
  imports Config_Interface Json_Value
begin

text \<open>
  The JSON configuration (\<open>application/config/json.cpp\<close>): dotted paths into a parsed
  document, values as strings, nested configurations and collections. Parsing is done by
  Boost.JSON; the document is its result. Printing a floating-point number is an argument.
\<close>

section \<open>Config\<close>

definition trim :: "string \<Rightarrow> string" where
  "trim s = rev (dropWhile isspace (rev (dropWhile isspace s)))"

definition Json_Config :: "('s \<Rightarrow> 'd json result) \<Rightarrow> 's option \<Rightarrow> 'd json result" where
  "Json_Config parse stream =
     (case stream of
        None \<Rightarrow> Inl (Invalid_argument ''[Mif::Application::Detail::Config] Empty input stream.'')
      | Some s \<Rightarrow> parse s)"

definition PathToList :: "string \<Rightarrow> string list" where
  "PathToList path = split_any_of (\<lambda>c. c = CHR ''.'') (trim path)"

text \<open>
  The loop of \<open>FindItem\<close> over the keys: the object reached and the level, or nothing when a
  key is missing. It stops at a value that is not an object and at the last key.
\<close>

fun find_loop :: "string list \<Rightarrow> nat \<Rightarrow> (string \<times> 'd json) list \<Rightarrow> nat \<Rightarrow>
    ((string \<times> 'd json) list \<times> nat) option" where
  "find_loop [] sz item level = Some (item, level)"
| "find_loop (i # keys) sz item level =
     (case map_of item i of
        None \<Rightarrow> None
      | Some nested \<Rightarrow>
          (case if_object nested of
             Some obj \<Rightarrow> if sz - level = 1 then Some (item, level) else find_loop keys sz obj (level + 1)
           | None \<Rightarrow> Some (item, level)))"

definition FindItem :: "'d json \<Rightarrow> string \<Rightarrow> 'd json option" where
  "FindItem root path =
     (let list = PathToList path
      in if list = [] then None
         else (case if_object root of
                 None \<Rightarrow> None
               | Some item \<Rightarrow>
                   (case find_loop list (length list) item 0 of
                      None \<Rightarrow> None
                    | Some (item', level) \<Rightarrow>
                        if length list - level = 1 then map_of item' (last list) else None)))"

definition Config_Exists :: "'d json \<Rightarrow> string \<Rightarrow> bool" where
  "Config_Exists root path = (FindItem root path \<noteq> None)"

definition bad_path :: "string \<Rightarrow> string \<Rightarrow> string \<Rightarrow> exn" where
  "bad_path fn doing path =
     Invalid_argument (''[Mif::Application::Detail::Config::'' @ fn @ ''] '' @
       ''Failed to get '' @ doing @ ''. Bad path '' @ dquote @ path @ dquote)"

definition Config_GetValue :: "('d \<Rightarrow> string) \<Rightarrow> 'd json \<Rightarrow> string \<Rightarrow> string result" where
  "Config_GetValue print root path =
     (case FindItem root path of
        None \<Rightarrow> Inl (bad_path ''GetValue'' ''value'' path)
      | Some Null \<Rightarrow> Inr []
      | Some (Bool b) \<Rightarrow> Inr (if b then ''1'' else ''0'')
      | Some (Double d) \<Rightarrow> Inr (print d)
      | Some (Int64 i) \<Rightarrow> Inr (int_to_string i)
      | Some (Uint64 n) \<Rightarrow> Inr (nat_to_string n)
      | Some (String s) \<Rightarrow> Inr s
      | Some (Array _) \<Rightarrow> Inl Bad_alloc
      | Some (Object _) \<Rightarrow> Inl Bad_alloc)"

text \<open>A nested configuration; a null value gives an empty pointer.\<close>

definition Config_GetConfig :: "'d json \<Rightarrow> string \<Rightarrow> 'd json option result" where
  "Config_GetConfig root path =
     (case FindItem root path of
        None \<Rightarrow> Inl (bad_path ''GetConfig'' ''config'' path)
      | Some Null \<Rightarrow> Inr None
      | Some (Object kvs) \<Rightarrow> Inr (Some (Object kvs))
      | Some _ \<Rightarrow> Inl (Invalid_argument (''[Mif::Application::Detail::Config::GetConfig] '' @
          ''Failed to get config by path '' @ dquote @ path @ dquote @ ''. The value is not an object.'')))"

section \<open>Collection\<close>

record 'd collection =
  m_array :: "'d json list"
  m_cur :: nat

definition Config_GetCollection :: "'d json \<Rightarrow> string \<Rightarrow> 'd collection option result" where
  "Config_GetCollection root path =
     (case FindItem root path of
        None \<Rightarrow> Inl (bad_path ''GetCollection'' ''collection'' path)
      | Some Null \<Rightarrow> Inr None
      | Some (Array xs) \<Rightarrow> Inr (Some \<lparr>m_array = xs, m_cur = 0\<rparr>)
      | Some _ \<Rightarrow> Inl (Invalid_argument (''[Mif::Application::Detail::Config::GetCollection] '' @
          ''Failed to get config by path '' @ dquote @ path @ dquote @ ''. The value is not an object.'')))"

definition Collection_Next :: "'d collection \<Rightarrow> 'd collection \<times> bool" where
  "Collection_Next c =
     (let c' = (if m_cur c \<noteq> length (m_array c) then c\<lparr>m_cur := m_cur c + 1\<rparr> else c)
      in (c', m_cur c' \<noteq> length (m_array c')))"

definition Collection_IsEmpty :: "'d collection \<Rightarrow> bool" where
  "Collection_IsEmpty c = (m_array c = [])"

definition Collection_Reset :: "'d collection \<Rightarrow> 'd collection" where
  "Collection_Reset c = c\<lparr>m_cur := 0\<rparr>"

definition Collection_Get :: "'d collection \<Rightarrow> 'd json result" where
  "Collection_Get c =
     (if Collection_IsEmpty c \<or> m_cur c = length (m_array c) then
        Inl (Runtime_error (''[Mif::Application::Detail::Collection::Get] '' @ ''Failed to get item. No item.''))
      else Inr (m_array c ! m_cur c))"

section \<open>Facts\<close>

text \<open>What a path means: every key but the last leads to an object.\<close>

fun resolve :: "'d json \<Rightarrow> string list \<Rightarrow> 'd json option" where
  "resolve v [] = Some v"
| "resolve v (k # ks) =
     (case if_object v of
        None \<Rightarrow> None
      | Some kvs \<Rightarrow> (case map_of kvs k of None \<Rightarrow> None | Some w \<Rightarrow> resolve w ks))"

lemma find_loop_resolve:
  assumes "keys \<noteq> []" and "sz - level = length keys"
  shows "(case find_loop keys sz item level of
      None \<Rightarrow> None
    | Some (item', level') \<Rightarrow> if sz - level' = 1 then map_of item' (last keys) else None) =
    resolve (Object item) keys"
  using assms
proof (induction keys arbitrary: item level)
  case (Cons k ks)
  show ?case
  proof (cases "map_of item k")
    case None
    then show ?thesis by simp
  next
    case (Some v)
    show ?thesis
    proof (cases ks)
      case Nil
      with Some Cons.prems show ?thesis by (auto split: option.splits)
    next
      case (Cons k2 ks2)
      show ?thesis
      proof (cases "if_object v")
        case None
        with Some Cons Cons.prems show ?thesis by simp
      next
        case (Some obj)
        then have v: "v = Object obj" by (cases v) auto
        have "sz - (level + 1) = length ks" using Cons.prems Cons by simp
        moreover have last: "last (k # ks) = last ks" using Cons by simp
        ultimately show ?thesis
          unfolding last using Cons.IH [of "level + 1" obj] \<open>map_of item k = Some v\<close> v Cons Cons.prems by simp
      qed
    qed
  qed
qed simp

lemma FindItem_resolve: "FindItem root path = resolve root (PathToList path)"
proof -
  have ne: "PathToList path \<noteq> []" by (simp add: PathToList_def)
  show ?thesis
  proof (cases "if_object root")
    case None
    with ne show ?thesis by (cases "PathToList path") (simp_all add: FindItem_def Let_def)
  next
    case (Some item)
    then have root: "root = Object item" by (cases root) auto
    show ?thesis
      using find_loop_resolve [OF ne, of "length (PathToList path)" 0 item] ne root
      by (simp add: FindItem_def Let_def)
  qed
qed

text \<open>The JSON configuration follows paths key by key, and its collections are cursors.\<close>

definition json_child :: "'d json \<Rightarrow> string \<Rightarrow> 'd json option" where
  "json_child v k = (case if_object v of None \<Rightarrow> None | Some kvs \<Rightarrow> map_of kvs k)"

interpretation json_paths: path_config json_child PathToList resolve FindItem
  by unfold_locales (auto simp: json_child_def FindItem_resolve split: option.splits)

definition cursor_rest :: "'d collection \<Rightarrow> 'd json list" where
  "cursor_rest c = drop (m_cur c) (m_array c)"

text \<open>The iterator never leaves its array.\<close>

definition cursor_ok :: "'d collection \<Rightarrow> bool" where
  "cursor_ok c \<longleftrightarrow> m_cur c \<le> length (m_array c)"

interpretation json_collections:
    cursor Collection_Get Collection_Next Collection_Reset cursor_rest m_array cursor_ok
  by unfold_locales
    (auto simp: cursor_rest_def cursor_ok_def Collection_Get_def Collection_IsEmpty_def Collection_Next_def
      Collection_Reset_def Let_def drop_Suc tl_drop nth_via_drop)

section \<open>Properties\<close>


definition sample_config :: "unit json" where
  "sample_config = Object [(''common'', Object [(''port'', Int64 80), (''hosts'', Array [String ''a'', String ''b''])])]"


end
