(* ===== verification/App_Config_Xml.thy ===== *)
theory App_Config_Xml
  imports Property_Tree App_Config
begin

text \<open>
  The XML configuration (\<open>application/config/xml.cpp\<close>). A configuration is the subtree under
  the root element \<open>document\<close>; parsing the stream is an argument. The member functions mirror
  those of the JSON configuration, and the last section compares the two.
\<close>

section \<open>Config\<close>

definition xml_parse_failed :: "exn \<Rightarrow> exn" where
  "xml_parse_failed e =
     Invalid_argument (''[Mif::Application::Detail::Config] Empty input stream. '' @
       ''Failed to parse xml. Error: '' @ what e)"

definition Xml_Config :: "('s \<Rightarrow> ptree result) \<Rightarrow> 's option \<Rightarrow> ptree result" where
  "Xml_Config read_xml stream =
     (case stream of
        None \<Rightarrow> Inl (Invalid_argument ''[Mif::Application::Detail::Config] Empty input stream.'')
      | Some s \<Rightarrow>
          (case read_xml s of
             Inl e \<Rightarrow> Inl (if is_std_exception e then xml_parse_failed e else e)
           | Inr tree \<Rightarrow>
               (case get_child_optional tree ''document'' of
                  Some document \<Rightarrow> Inr document
                | None \<Rightarrow> Inr empty_ptree)))"

definition Xml_Config_Exists :: "ptree \<Rightarrow> string \<Rightarrow> bool" where
  "Xml_Config_Exists m_tree path = ptree_find m_tree path"

definition Xml_Config_GetValue :: "ptree \<Rightarrow> string \<Rightarrow> string result" where
  "Xml_Config_GetValue m_tree path =
     (case get_optional_string m_tree path of
        Some v \<Rightarrow> Inr v
      | None \<Rightarrow> Inl (bad_path ''GetValue'' ''value'' path))"

text \<open>A missing nested configuration is an empty pointer.\<close>

definition Xml_Config_GetConfig :: "ptree \<Rightarrow> string \<Rightarrow> ptree option result" where
  "Xml_Config_GetConfig m_tree path =
     (case get_child_optional m_tree path of Some config \<Rightarrow> Inr (Some config) | None \<Rightarrow> Inr None)"

section \<open>Collection\<close>

record xml_collection =
  x_array :: "(string \<times> ptree) list"
  x_cur :: nat

definition Xml_Collection :: "ptree \<Rightarrow> xml_collection" where
  "Xml_Collection array = \<lparr>x_array = ptree_children array, x_cur = 0\<rparr>"

definition Xml_Config_GetCollection :: "ptree \<Rightarrow> string \<Rightarrow> xml_collection option result" where
  "Xml_Config_GetCollection m_tree path =
     (case get_child_optional m_tree path of
        Some array \<Rightarrow> Inr (Some (Xml_Collection array))
      | None \<Rightarrow> Inr None)"

definition Xml_Collection_Next :: "xml_collection \<Rightarrow> xml_collection \<times> bool" where
  "Xml_Collection_Next c =
     (let c' = (if x_cur c \<noteq> length (x_array c) then c\<lparr>x_cur := x_cur c + 1\<rparr> else c)
      in (c', x_cur c' \<noteq> length (x_array c')))"

definition Xml_Collection_IsEmpty :: "xml_collection \<Rightarrow> bool" where
  "Xml_Collection_IsEmpty c = (x_array c = [])"

definition Xml_Collection_Reset :: "xml_collection \<Rightarrow> xml_collection" where
  "Xml_Collection_Reset c = c\<lparr>x_cur := 0\<rparr>"

definition Xml_Collection_Get :: "xml_collection \<Rightarrow> ptree result" where
  "Xml_Collection_Get c =
     (if Xml_Collection_IsEmpty c \<or> x_cur c = length (x_array c) then
        Inl (Runtime_error (''[Mif::Application::Detail::Collection::Get] '' @ ''Failed to get item. No item.''))
      else Inr (snd (x_array c ! x_cur c)))"

section \<open>Facts\<close>

definition xml_cursor_rest :: "xml_collection \<Rightarrow> ptree list" where
  "xml_cursor_rest c = drop (x_cur c) (map snd (x_array c))"

definition xml_cursor_ok :: "xml_collection \<Rightarrow> bool" where
  "xml_cursor_ok c \<longleftrightarrow> x_cur c \<le> length (x_array c)"

interpretation xml_collections:
    cursor Xml_Collection_Get Xml_Collection_Next Xml_Collection_Reset xml_cursor_rest
      "\<lambda>c. map snd (x_array c)" xml_cursor_ok
  by unfold_locales
    (auto simp: xml_cursor_rest_def xml_cursor_ok_def Xml_Collection_Get_def Xml_Collection_IsEmpty_def
      Xml_Collection_Next_def Xml_Collection_Reset_def Let_def drop_Suc tl_drop drop_map nth_via_drop
      simp flip: map_tl)

text \<open>The two configurations hold the same strings: objects are elements, strings are texts.\<close>

fun json_ptree :: "'d json \<Rightarrow> ptree" where
  "json_ptree (Object kvs) = Tree [] (map (\<lambda>(k, v). (k, json_ptree v)) kvs)"
| "json_ptree (String s) = Tree s []"
| "json_ptree _ = Tree [] []"

lemma map_of_json_ptree: "map_of (map (\<lambda>(k, v). (k, json_ptree v)) kvs) k = map_option json_ptree (map_of kvs k)"
  by (induction kvs) auto

lemma ptree_walk_json: "resolve v ks = Some w \<Longrightarrow> ptree_walk (json_ptree v) ks = Some (json_ptree w)"
  by (induction v ks rule: resolve.induct)
    (auto simp: ptree_child_def map_of_json_ptree split: option.splits json.splits elim!: if_object.elims)

section \<open>Properties\<close>

text \<open>
  The XML configuration resolves dotted paths key by key in \<open>GetValue\<close>,
  \<open>GetConfig\<close> and \<open>GetCollection\<close>, which succeed on the same paths; a nested configuration
  answers a path below it as the whole one does; a collection gives its elements in order, and
  again after a \<open>Reset\<close>. \<open>Exists\<close> looks only for a direct child of that name: where no
  element name has a dot, it denies every dotted path, those that \<open>GetValue\<close> reads included.
\<close>

lemma xml_config_paths:
  "(Xml_Config_GetConfig t path = Inr (Some sub) \<longleftrightarrow> ptree_walk t (path_keys path) = Some sub) \<and>
   (Xml_Config_GetConfig t path = Inr None \<longleftrightarrow> Xml_Config_GetCollection t path = Inr None) \<and>
   (Xml_Config_GetConfig t path = Inr None \<longleftrightarrow> Xml_Config_GetValue t path = Inl (bad_path ''GetValue'' ''value'' path)) \<and>
   (Xml_Config_GetConfig t path = Inr (Some sub) \<longrightarrow> path_keys q = path_keys path @ path_keys p \<longrightarrow>
      Xml_Config_GetValue t path = Inr (ptree_data sub) \<and>
      Xml_Config_GetConfig sub p = Xml_Config_GetConfig t q \<and>
      (Xml_Config_GetValue sub p = Inr v \<longleftrightarrow> Xml_Config_GetValue t q = Inr v)) \<and>
   (Xml_Config_GetCollection t path = Inr (Some c) \<longrightarrow> \<not> Xml_Collection_IsEmpty c \<longrightarrow>
      walk Xml_Collection_Get Xml_Collection_Next (length (x_array c)) c = Inr (map snd (x_array c)) \<and>
      walk Xml_Collection_Get Xml_Collection_Next (length (x_array c))
        (Xml_Collection_Reset (fst (Xml_Collection_Next c))) = Inr (map snd (x_array c))) \<and>
   ((\<forall>k \<in> set (map fst (ptree_children t)). CHR ''.'' \<notin> set k) \<longrightarrow> CHR ''.'' \<in> set path \<longrightarrow>
      \<not> Xml_Config_Exists t path)"
proof (intro conjI impI)
  assume sub: "Xml_Config_GetConfig t path = Inr (Some sub)" and q: "path_keys q = path_keys path @ path_keys p"
  then have s: "get_child_optional t path = Some sub"
    by (auto simp: Xml_Config_GetConfig_def split: option.splits)
  then have *: "get_child_optional sub p = get_child_optional t q"
    using q by (rule ptree_paths.nested_config)
  show "Xml_Config_GetValue t path = Inr (ptree_data sub)"
    by (simp add: Xml_Config_GetValue_def get_optional_string_def s)
  show "Xml_Config_GetConfig sub p = Xml_Config_GetConfig t q"
    by (simp add: Xml_Config_GetConfig_def *)
  show "Xml_Config_GetValue sub p = Inr v \<longleftrightarrow> Xml_Config_GetValue t q = Inr v"
    by (auto simp: Xml_Config_GetValue_def get_optional_string_def * split: option.splits)
next
  assume c: "Xml_Config_GetCollection t path = Inr (Some c)" and ne: "\<not> Xml_Collection_IsEmpty c"
  then have "x_cur c = 0"
    by (auto simp: Xml_Config_GetCollection_def Xml_Collection_def split: option.splits)
  then show "walk Xml_Collection_Get Xml_Collection_Next (length (x_array c)) c = Inr (map snd (x_array c))"
    using xml_collections.walk_rest [of c "length (x_array c)"] ne
    by (simp add: xml_cursor_rest_def xml_cursor_ok_def Xml_Collection_IsEmpty_def)
  have "x_array (fst (Xml_Collection_Next c)) = x_array c"
    by (simp add: Xml_Collection_Next_def Let_def)
  then show "walk Xml_Collection_Get Xml_Collection_Next (length (x_array c))
      (Xml_Collection_Reset (fst (Xml_Collection_Next c))) = Inr (map snd (x_array c))"
    using xml_collections.walk_reset [of "fst (Xml_Collection_Next c)"] ne
    by (simp add: Xml_Collection_IsEmpty_def)
next
  assume "\<forall>k \<in> set (map fst (ptree_children t)). CHR ''.'' \<notin> set k" and "CHR ''.'' \<in> set path"
  then show "\<not> Xml_Config_Exists t path"
    by (fastforce simp: Xml_Config_Exists_def ptree_find_def ptree_child_def map_of_eq_None_iff)
qed (auto simp: Xml_Config_GetConfig_def Xml_Config_GetCollection_def Xml_Config_GetValue_def
    get_optional_string_def get_child_optional_def bad_path_def split: option.splits)

definition sample_xml :: ptree where
  "sample_xml = Tree [] [(''server'', Tree [] [(''port'', Tree ''80'' [])])]"

lemma xml_config_paths_example:
  "\<not> Xml_Config_Exists sample_xml ''server.port'' \<and>
   Xml_Config_GetValue (Tree [] [(''port'', Tree ''80'' [])]) ''port'' = Inr ''80'' \<and>
   Xml_Config_GetValue sample_xml ''server.port'' = Inr ''80''"
proof -
  let ?sub = "Tree [] [(''port'', Tree ''80'' [])]"
  have keys: "path_keys ''server'' = [''server'']" "path_keys ''port'' = [''port'']"
    "path_keys ''server.port'' = path_keys ''server'' @ path_keys ''port''"
    by (simp_all add: path_keys_def)
  have sub: "Xml_Config_GetConfig sample_xml ''server'' = Inr (Some ?sub)"
    by (simp add: Xml_Config_GetConfig_def get_child_optional_def keys ptree_child_def sample_xml_def)
  have v: "Xml_Config_GetValue ?sub ''port'' = Inr ''80''"
    by (simp add: Xml_Config_GetValue_def get_optional_string_def get_child_optional_def keys ptree_child_def)
  have "\<forall>k \<in> set (map fst (ptree_children sample_xml)). CHR ''.'' \<notin> set k"
    by (simp add: sample_xml_def)
  moreover have "CHR ''.'' \<in> set ''server.port''" by simp
  ultimately have "\<not> Xml_Config_Exists sample_xml ''server.port''"
    using xml_config_paths [of sample_xml "''server.port''"] by blast
  moreover from xml_config_paths [of sample_xml "''server''" ?sub "''server.port''" "''port''" "''80''"] sub keys(3) v
  have "Xml_Config_GetValue sample_xml ''server.port'' = Inr ''80''" by blast
  ultimately show ?thesis using v by blast
qed

text \<open>
  The two formats agree on strings. Where a JSON document has a string at a path
  that both split alike (no blanks around it, no dot at its end), the document written as XML
  elements gives the same string, and its nested configurations correspond.
\<close>

lemma json_xml_agree:
  assumes "path_keys path = PathToList path"
  shows "(FindItem root path = Some (String s) \<longrightarrow>
            Config_GetValue print root path = Xml_Config_GetValue (json_ptree root) path) \<and>
         (Config_GetConfig root path = Inr (Some sub) \<longrightarrow>
            Xml_Config_GetConfig (json_ptree root) path = Inr (Some (json_ptree sub)))"
  using assms ptree_walk_json [of root "PathToList path"]
  by (auto simp: Config_GetValue_def Xml_Config_GetValue_def get_optional_string_def Config_GetConfig_def
      Xml_Config_GetConfig_def get_child_optional_def FindItem_resolve split: option.splits json.splits)

definition sample_strings :: "unit json" where
  "sample_strings = Object [(''log'', Object [(''level'', String ''trace'')])]"

lemma json_xml_agree_example:
  "Xml_Config_GetValue (json_ptree sample_strings) ''log.level'' = Inr ''trace''"
proof -
  have keys: "PathToList ''log.level'' = [''log'', ''level'']" "path_keys ''log.level'' = [''log'', ''level'']"
    by (simp_all add: PathToList_def trim_def isspace_def code_of_def path_keys_def)
  have "FindItem sample_strings ''log.level'' = Some (String ''trace'')"
    by (simp add: FindItem_resolve keys sample_strings_def)
  moreover have "Config_GetValue (\<lambda>_. []) sample_strings ''log.level'' = Inr ''trace''"
    by (simp add: Config_GetValue_def FindItem_resolve keys sample_strings_def)
  ultimately show ?thesis
    using json_xml_agree [of "''log.level''" sample_strings "''trace''" "\<lambda>_. []"] keys by simp
qed

end
