(* ===== verification/App_Run.thy ===== *)
theory App_Run
  imports App_Config_Xml Logging Service_Locator
begin

text \<open>
  The application (\<open>application/application.cpp\<close>): command line and configuration, the log,
  starting and stopping in the foreground or as a daemon. The virtual functions a program
  overrides, the option parser, the file system and the process calls are arguments. Standard
  output is a list of lines.
\<close>

section \<open>Configurations behind the interface\<close>

datatype 'd config = Json_document "'d json" | Xml_document ptree

text \<open>
  The virtual calls through \<open>IConfigPtr\<close>. Printing a floating-point number is the argument
  \<open>print\<close>.
\<close>

fun IConfig_Exists :: "'d config \<Rightarrow> string \<Rightarrow> bool" where
  "IConfig_Exists (Json_document j) path = Config_Exists j path"
| "IConfig_Exists (Xml_document t) path = Xml_Config_Exists t path"

fun IConfig_GetValue :: "('d \<Rightarrow> string) \<Rightarrow> 'd config \<Rightarrow> string \<Rightarrow> string result" where
  "IConfig_GetValue print (Json_document j) path = Config_GetValue print j path"
| "IConfig_GetValue print (Xml_document t) path = Xml_Config_GetValue t path"

fun IConfig_GetConfig :: "'d config \<Rightarrow> string \<Rightarrow> 'd config option result" where
  "IConfig_GetConfig (Json_document j) path = map_sum id (map_option Json_document) (Config_GetConfig j path)"
| "IConfig_GetConfig (Xml_document t) path = map_sum id (map_option Xml_document) (Xml_Config_GetConfig t path)"

text \<open>A nested configuration that is used at once: the null pointer is dereferenced.\<close>

definition GetConfig_deref :: "'d config \<Rightarrow> string \<Rightarrow> 'd config result" where
  "GetConfig_deref c path =
     (case IConfig_GetConfig c path of
        Inl e \<Rightarrow> Inl e
      | Inr None \<Rightarrow> Inl Undefined_behaviour
      | Inr (Some sub) \<Rightarrow> Inr sub)"

section \<open>State\<close>

text \<open>An option of the command line: present without a value, or with a text or a number.\<close>

datatype opt_value = Opt_flag | Opt_text string | Opt_number nat

type_synonym options = "string \<rightharpoonup> opt_value"

definition opt_text :: "options \<Rightarrow> string \<Rightarrow> string \<Rightarrow> string" where
  "opt_text opts name old = (case opts name of Some (Opt_text v) \<Rightarrow> v | _ \<Rightarrow> old)"

definition opt_number :: "options \<Rightarrow> string \<Rightarrow> nat \<Rightarrow> nat" where
  "opt_number opts name old = (case opts name of Some (Opt_number v) \<Rightarrow> v | _ \<Rightarrow> old)"

definition opt_count :: "options \<Rightarrow> string \<Rightarrow> bool" where
  "opt_count opts name = (opts name \<noteq> None)"

text \<open>
  The members of \<open>Application\<close>, the log and the root locator it uses, and in \<open>m_derived\<close> the
  members of the class derived from it.
\<close>

record ('d, 's, 'm) app =
  m_argv :: "string list"
  m_runAsDaemon :: bool
  m_configFileName :: string
  m_configFileFormat :: string
  m_logDirName :: string
  m_logPattern :: string
  m_logLevel :: nat
  m_options :: options
  m_version :: string
  m_name :: string
  m_description :: string
  m_configRawData :: string
  m_config :: "'d config option"
  m_daemon :: bool
  m_derived :: 'm
  app_log :: log_state
  root_locator :: "'s locator"
  app_cout :: "string list"

text \<open>The operating system: files, the canonical directory and name of the program, \<open>daemon(0, 0)\<close>.\<close>

record environment =
  env_exists :: "string \<Rightarrow> bool"
  env_regular :: "string \<Rightarrow> bool"
  env_read :: "string \<Rightarrow> string option"
  env_create :: "string \<Rightarrow> bool result"
  env_program :: "(string \<times> string) result"
  env_daemon :: bool

text \<open>What the libraries provide: the option parser and the two document parsers.\<close>

record 'd parsers =
  parse_command_line :: "string list \<Rightarrow> options result"
  parse_json :: "string \<Rightarrow> 'd json result"
  read_xml :: "string \<Rightarrow> ptree result"
  print_number :: "'d \<Rightarrow> string"

text \<open>The virtual functions of the derived class, and how options are stored in its members.\<close>

record ('d, 's, 'm) overrides =
  v_PrepareConfigData :: "string \<Rightarrow> string \<Rightarrow> string"
  v_OnStart :: "('d, 's, 'm) app \<Rightarrow> ('d, 's, 'm) app \<times> unit result"
  v_OnStop :: "('d, 's, 'm) app \<Rightarrow> ('d, 's, 'm) app \<times> unit result"
  v_notify :: "options \<Rightarrow> 'm \<Rightarrow> 'm"

abbreviation log_message :: "log_level \<Rightarrow> string \<Rightarrow> ('d, 's, 'm) app \<Rightarrow> ('d, 's, 'm) app" where
  "log_message level message a \<equiv> a\<lparr>app_log := MIF_LOG level message (app_log a)\<rparr>"

abbreviation clear_locator :: "('d, 's, 'm) app \<Rightarrow> ('d, 's, 'm) app" where
  "clear_locator a \<equiv> a\<lparr>root_locator := Locator_Clear (root_locator a)\<rparr>"

text \<open>The file name of a path: what follows its last slash.\<close>

definition filename :: "string \<Rightarrow> string" where
  "filename path = rev (takeWhile (\<lambda>c. c \<noteq> CHR ''/'') (rev path))"

definition Application_new :: "string list \<Rightarrow> 'm \<Rightarrow> log_state \<Rightarrow> 's locator \<Rightarrow> ('d, 's, 'm) app" where
  "Application_new argv derived log locator =
     \<lparr>m_argv = argv, m_runAsDaemon = False, m_configFileName = [], m_configFileFormat = [],
      m_logDirName = [], m_logPattern = [], m_logLevel = level_number Trace, m_options = Map.empty,
      m_version = ''snapshot'', m_name = filename (hd argv), m_description = ''MIF application'',
      m_configRawData = [], m_config = None, m_daemon = False, m_derived = derived,
      app_log = log, root_locator = locator, app_cout = []\<rparr>"

definition Application_delete :: "('d, 's, 'm) app \<Rightarrow> ('d, 's, 'm) app" where
  "Application_delete a = clear_locator a"

definition Application_PrepareConfigData :: "string \<Rightarrow> string \<Rightarrow> string" where
  "Application_PrepareConfigData data format = data"

definition Application_OnStart :: "('d, 's, 'm) app \<Rightarrow> ('d, 's, 'm) app \<times> unit result" where
  "Application_OnStart a = (a, Inr ())"

definition Application_OnStop :: "('d, 's, 'm) app \<Rightarrow> ('d, 's, 'm) app \<times> unit result" where
  "Application_OnStop a = (a, Inr ())"

definition Application_SetName :: "('d, 's, 'm) app \<Rightarrow> string \<Rightarrow> ('d, 's, 'm) app" where
  "Application_SetName a name = a\<lparr>m_name := name\<rparr>"

definition Application_SetVersion :: "('d, 's, 'm) app \<Rightarrow> string \<Rightarrow> ('d, 's, 'm) app" where
  "Application_SetVersion a version = a\<lparr>m_version := version\<rparr>"

definition Application_SetDescription :: "('d, 's, 'm) app \<Rightarrow> string \<Rightarrow> ('d, 's, 'm) app" where
  "Application_SetDescription a description = a\<lparr>m_description := description\<rparr>"

text \<open>
  \<open>store\<close> and \<open>notify\<close>: the options are kept, and the variables given to the option
  descriptions are set; \<open>configformat\<close> has a default.
\<close>

definition Application_notify :: "(options \<Rightarrow> 'm \<Rightarrow> 'm) \<Rightarrow> options \<Rightarrow> ('d, 's, 'm) app \<Rightarrow> ('d, 's, 'm) app" where
  "Application_notify notify opts a =
     a\<lparr>m_options := opts,
       m_configFileName := opt_text opts ''config'' (m_configFileName a),
       m_configFileFormat := opt_text opts ''configformat'' ''xml'',
       m_logDirName := opt_text opts ''logdir'' (m_logDirName a),
       m_logPattern := opt_text opts ''logpattern'' (m_logPattern a),
       m_logLevel := opt_number opts ''loglevel'' (m_logLevel a),
       m_derived := notify opts (m_derived a)\<rparr>"

section \<open>LoadConfig\<close>

definition LoadConfig :: "environment \<Rightarrow> 'd parsers \<Rightarrow> ('d, 's, 'm) overrides \<Rightarrow> ('d, 's, 'm) app \<Rightarrow>
    ('d, 's, 'm) app \<times> 'd config result" where
  "LoadConfig env ps vs a =
     (let name = m_configFileName a
      in if \<not> env_exists env name then
           (a, Inl (Invalid_argument (''[Mif::Application::Application::LoadConfig] '' @
              ''Failed to load config from file '' @ dquote @ name @ dquote @ ''. File not found.'')))
         else if \<not> env_regular env name then
           (a, Inl (Invalid_argument (''[Mif::Application::Application::LoadConfig] '' @ ''Failed to load config file. '' @
              ''The path '' @ dquote @ name @ dquote @ '' is not a regular file.'')))
         else
           (case env_read env name of
              None \<Rightarrow> (a, Inl (Invalid_argument (''[Mif::Application::Application::LoadConfig] '' @
                ''Failed to open config file '' @ dquote @ name @ dquote)))
            | Some raw \<Rightarrow>
                let data = v_PrepareConfigData vs raw (m_configFileFormat a);
                    a' = a\<lparr>m_configRawData := data\<rparr>
                in (a', if m_configFileFormat a = ''json'' then
                          map_sum id Json_document (Json_Config (parse_json ps) (Some data))
                        else if m_configFileFormat a = ''xml'' then
                          map_sum id Xml_document (Xml_Config (read_xml ps) (Some data))
                        else Inl (Invalid_argument (''[Mif::Application::Application::LoadConfig] '' @
                          ''Unsupported format '' @ dquote @ m_configFileFormat a @ dquote)))))"

section \<open>Values of the configuration\<close>

text \<open>
  One setting: taken when the option is absent from the command line and the key exists. The
  flag tells whether it was taken.
\<close>

definition take_setting :: "('d \<Rightarrow> string) \<Rightarrow> (string \<Rightarrow> 't) \<Rightarrow> ('t \<Rightarrow> ('d, 's, 'm) app \<Rightarrow> ('d, 's, 'm) app) \<Rightarrow>
    string \<Rightarrow> 'd config \<Rightarrow> string \<Rightarrow> ('d, 's, 'm) app \<Rightarrow> ('d, 's, 'm) app \<times> bool result" where
  "take_setting print extract update opt cfg key a =
     (if \<not> opt_count (m_options a) opt \<and> IConfig_Exists cfg key then
        (case GetValue_as (IConfig_GetValue print) extract cfg key of
           Inl e \<Rightarrow> (a, Inl e)
         | Inr v \<Rightarrow> (update v a, Inr True))
      else (a, Inr False))"

text \<open>The branch \<open>common.log\<close>: whether the path and whether the level came from it.\<close>

definition read_log_section :: "('d \<Rightarrow> string) \<Rightarrow> 'd config \<Rightarrow> ('d, 's, 'm) app \<Rightarrow>
    ('d, 's, 'm) app \<times> (bool \<times> bool) result" where
  "read_log_section print cfg a =
     (case take_setting print id (\<lambda>v b. b\<lparr>m_logDirName := v\<rparr>) ''logdir'' cfg ''dir'' a of
        (a1, Inl e) \<Rightarrow> (a1, Inl e)
      | (a1, Inr p1) \<Rightarrow>
          (case take_setting print id (\<lambda>v b. b\<lparr>m_logPattern := v\<rparr>) ''logpattern'' cfg ''pattern'' a1 of
             (a2, Inl e) \<Rightarrow> (a2, Inl e)
           | (a2, Inr p2) \<Rightarrow>
               (case take_setting print (\<lambda>t. nat (read_unsigned 32 t)) (\<lambda>v b. b\<lparr>m_logLevel := v\<rparr>)
                       ''loglevel'' cfg ''level'' a2 of
                  (a3, Inl e) \<Rightarrow> (a3, Inl e)
                | (a3, Inr l) \<Rightarrow> (a3, Inr (p1 \<or> p2, l)))))"

definition read_common_section :: "('d \<Rightarrow> string) \<Rightarrow> 'd config \<Rightarrow> ('d, 's, 'm) app \<Rightarrow>
    ('d, 's, 'm) app \<times> (bool \<times> bool) result" where
  "read_common_section print common a =
     (case take_setting print read_bool (\<lambda>v b. b\<lparr>m_runAsDaemon := v\<rparr>) ''daemon'' common ''daemon'' a of
        (a1, Inl e) \<Rightarrow> (a1, Inl e)
      | (a1, Inr _) \<Rightarrow>
          if IConfig_Exists common ''log'' then
            (case GetConfig_deref common ''log'' of
               Inl e \<Rightarrow> (a1, Inl e)
             | Inr log \<Rightarrow> read_log_section print log a1)
          else (a1, Inr (False, False)))"

definition read_config :: "('d \<Rightarrow> string) \<Rightarrow> 'd config \<Rightarrow> ('d, 's, 'm) app \<Rightarrow>
    ('d, 's, 'm) app \<times> (bool \<times> bool) result" where
  "read_config print config a =
     (case (if IConfig_Exists config ''data''
            then map_sum id (\<lambda>d. a\<lparr>m_config := d\<rparr>) (IConfig_GetConfig config ''data'')
            else Inr a) of
        Inl e \<Rightarrow> (a, Inl e)
      | Inr a1 \<Rightarrow>
          if IConfig_Exists config ''common'' then
            (case GetConfig_deref config ''common'' of
               Inl e \<Rightarrow> (a1, Inl e)
             | Inr common \<Rightarrow> read_common_section print common a1)
          else (a1, Inr (False, False)))"

section \<open>InitLog\<close>

definition InitLog :: "environment \<Rightarrow> bool \<Rightarrow> bool \<Rightarrow> ('d, 's, 'm) app \<Rightarrow> ('d, 's, 'm) app \<times> unit result" where
  "InitLog env pathFromConfig levelFromConfig a =
     (let given = opt_count (m_options a)
      in if (given ''loglevel'' \<or> levelFromConfig) \<and> level_number Trace < m_logLevel a then
           (a, Inl (Invalid_argument (''[Mif::Application::Application::Run] '' @
              ''Invalid log level valie '' @ dquote @ nat_to_string (m_logLevel a) @ dquote @ ''. '' @
              ''The value of the logging level should not exceed '' @ dquote @ nat_to_string (level_number Trace) @ dquote @ ''.'')))
         else if given ''logdir'' \<or> given ''logpattern'' \<or> pathFromConfig then
           (case (if given ''logdir'' \<and> given ''logpattern'' then Inr ([], []) else env_program env) of
              Inl e \<Rightarrow> (a, Inl e)
            | Inr (dir, name) \<Rightarrow>
                let a1 = a\<lparr>m_logDirName := (if given ''logdir'' then m_logDirName a else dir),
                           m_logPattern := (if given ''logpattern'' then m_logPattern a else name @ ''_%5N.log''),
                           m_logLevel := (if given ''loglevel'' then m_logLevel a else level_number Trace)\<rparr>;
                    init = (\<lambda>b. case InitFileLog (app_log b) (m_logLevel b) (m_logDirName b) (m_logPattern b) 1 10 of
                                  (log, r) \<Rightarrow> (b\<lparr>app_log := log\<rparr>, r))
                in if env_exists env (m_logDirName a1) then init a1
                   else (case env_create env (m_logDirName a1) of
                           Inl e \<Rightarrow> (a1, Inl e)
                         | Inr True \<Rightarrow> init a1
                         | Inr False \<Rightarrow> (a1, Inl (Runtime_error (''[Mif::Application::Application::Run] '' @
                             ''Failed to create log directory '' @ dquote @ m_logDirName a1 @ dquote)))))
         else if given ''loglevel'' \<or> levelFromConfig then
           (case InitConsoleLog (app_log a) (m_logLevel a) of (log, r) \<Rightarrow> (a\<lparr>app_log := log\<rparr>, r))
         else (a, Inr ()))"

section \<open>Start and stop\<close>

text \<open>How a call ends: it returns, throws, or the process exits inside it.\<close>

datatype 'a outcome = Returned 'a | Thrown exn | Exited nat

fun of_result :: "'a result \<Rightarrow> 'a outcome" where
  "of_result (Inl e) = Thrown e"
| "of_result (Inr x) = Returned x"

definition EXIT_SUCCESS :: nat where
  "EXIT_SUCCESS = 0"

definition EXIT_FAILURE :: nat where
  "EXIT_FAILURE = 1"

definition Application_Stop :: "('d, 's, 'm) overrides \<Rightarrow> ('d, 's, 'm) app \<Rightarrow> ('d, 's, 'm) app \<times> unit result" where
  "Application_Stop vs a =
     (case v_OnStop vs a of
        (a1, Inr _) \<Rightarrow> (clear_locator a1, Inr ())
      | (a1, Inl e) \<Rightarrow>
          if is_std_exception e
          then (clear_locator (log_message Warning (''[Mif::Application::Application::Stop] '' @
                  ''Failed to call OnStop. Error: '' @ what e) a1), Inr ())
          else (a1, Inl e))"

definition RunInThisProcess :: "('d, 's, 'm) overrides \<Rightarrow> ('d, 's, 'm) app \<Rightarrow> ('d, 's, 'm) app \<times> unit result" where
  "RunInThisProcess vs a =
     (case v_OnStart vs a of
        (a1, Inl e) \<Rightarrow> (a1, Inl e)
      | (a1, Inr _) \<Rightarrow>
          Application_Stop vs (a1\<lparr>app_cout := app_cout a1 @ [''Press '' @ [CHR 0x27] @ ''Ctrl+C'' @ [CHR 0x27] @ '' for quit.'']\<rparr>))"

text \<open>
  The constructor of \<open>Daemon\<close>: it starts, waits for a signal and stops. The undefined
  evaluation is not an exception and is handed on.
\<close>

definition Daemon_new :: "environment \<Rightarrow> ('d, 's, 'm) overrides \<Rightarrow> ('d, 's, 'm) app \<Rightarrow> ('d, 's, 'm) app \<times> unit outcome" where
  "Daemon_new env vs a =
     (if \<not> env_daemon env then
        (a, Thrown (Runtime_error (''[Mif::Application::Daemon] '' @ ''The application could not be started in daemon mode.'')))
      else
        (case v_OnStart vs (log_message Info (''[Mif::Application::Daemon] '' @ ''Starting application in a daemon mode...'') a) of
           (a1, Inl Undefined_behaviour) \<Rightarrow> (a1, Thrown Undefined_behaviour)
         | (a1, Inl e) \<Rightarrow>
             (log_message Fatal (''[Mif::Application::Daemon] '' @ ''Failed to start application. Error: '' @
                (if is_std_exception e then what e else ''unknown error.'')) a1, Exited EXIT_FAILURE)
         | (a1, Inr _) \<Rightarrow>
             (let a2 = log_message Info (''[Mif::Application::Daemon] '' @ ''Stopping daemon ...'')
                         (log_message Info (''[Mif::Application::Daemon] '' @ ''The application is started in daemon mode.'') a1)
              in case v_OnStop vs a2 of
                   (a3, Inl Undefined_behaviour) \<Rightarrow> (a3, Thrown Undefined_behaviour)
                 | (a3, Inl e) \<Rightarrow>
                     (log_message Info (''[Mif::Application::Daemon] '' @ ''Stopped daemon.'')
                        (log_message Warning (''[Mif::Application::Daemon] '' @ ''Failed to correct stop application. Error: '' @
                           (if is_std_exception e then what e else ''unknown error.'')) a3), Returned ())
                 | (a3, Inr _) \<Rightarrow>
                     (log_message Info (''[Mif::Application::Daemon] '' @ ''Stopped daemon.'') a3, Returned ()))))"

definition RunAsDaemon :: "environment \<Rightarrow> ('d, 's, 'm) overrides \<Rightarrow> ('d, 's, 'm) app \<Rightarrow> ('d, 's, 'm) app \<times> unit outcome" where
  "RunAsDaemon env vs a =
     (if m_daemon a then (a, Returned ())
      else case Daemon_new env vs a of
             (a1, Returned _) \<Rightarrow> (a1\<lparr>m_daemon := True\<rparr>, Returned ())
           | (a1, r) \<Rightarrow> (a1, r))"

definition Application_Start :: "environment \<Rightarrow> ('d, 's, 'm) overrides \<Rightarrow> ('d, 's, 'm) app \<Rightarrow> ('d, 's, 'm) app \<times> unit outcome" where
  "Application_Start env vs a =
     (let a0 = (if opt_count (m_options a) ''daemon'' then a\<lparr>m_runAsDaemon := True\<rparr> else a)
      in case (if \<not> m_runAsDaemon a0
               then (case RunInThisProcess vs a0 of (a1, r) \<Rightarrow> (a1, of_result r))
               else RunAsDaemon env vs a0) of
           (a1, Thrown e) \<Rightarrow>
             if is_std_exception e
             then (log_message Fatal (''[Mif::Application::Application::Start] '' @ ''Failed to call OnStart. Error: '' @ what e)
                     (clear_locator a1), Thrown e)
             else (a1, Thrown e)
         | (a1, r) \<Rightarrow> (a1, r))"

section \<open>Run\<close>

text \<open>The part of \<open>Run\<close> after the help and version options: configuration, log, start.\<close>

definition Run_configured :: "environment \<Rightarrow> 'd parsers \<Rightarrow> ('d, 's, 'm) overrides \<Rightarrow> ('d, 's, 'm) app \<Rightarrow>
    ('d, 's, 'm) app \<times> unit outcome" where
  "Run_configured env ps vs a =
     (case (if opt_count (m_options a) ''config''
            then (case LoadConfig env ps vs a of
                    (a1, Inl e) \<Rightarrow> (a1, Inl e)
                  | (a1, Inr config) \<Rightarrow> read_config (print_number ps) config a1)
            else (a, Inr (False, False))) of
        (a1, Inl e) \<Rightarrow> (a1, Thrown e)
      | (a1, Inr (pathFromConfig, levelFromConfig)) \<Rightarrow>
          (case InitLog env pathFromConfig levelFromConfig a1 of
             (a2, Inl e) \<Rightarrow> (a2, Thrown e)
           | (a2, Inr _) \<Rightarrow> Application_Start env vs a2))"

definition version_lines :: "string \<Rightarrow> ('d, 's, 'm) app \<Rightarrow> string list" where
  "version_lines mif_version a =
     [''Application: '' @ m_name a, ''Veraion: '' @ m_version a, ''Description: '' @ m_description a,
      ''MIF '' @ mif_version @ '' https://github.com/tdv/mif'']"

text \<open>\<open>usage\<close> is the printed description of the options, \<open>mif_version\<close> the version of the library.\<close>

definition Application_Run :: "string \<Rightarrow> string \<Rightarrow> environment \<Rightarrow> 'd parsers \<Rightarrow> ('d, 's, 'm) overrides \<Rightarrow>
    ('d, 's, 'm) app \<Rightarrow> ('d, 's, 'm) app \<times> nat outcome" where
  "Application_Run usage mif_version env ps vs a =
     (case (case parse_command_line ps (m_argv a) of
              Inl e \<Rightarrow> (a, Thrown e)
            | Inr opts \<Rightarrow>
                let a1 = Application_notify (v_notify vs) opts a
                in if opt_count opts ''help'' then
                     (a1\<lparr>app_cout := app_cout a1 @ [usage]\<rparr>, Returned (Some EXIT_SUCCESS))
                   else if opt_count opts ''version'' then
                     (a1\<lparr>app_cout := app_cout a1 @ version_lines mif_version a1\<rparr>, Returned (Some EXIT_SUCCESS))
                   else
                     (case Run_configured env ps vs a1 of
                        (a2, Returned _) \<Rightarrow> (a2, Returned None)
                      | (a2, Thrown e) \<Rightarrow> (a2, Thrown e)
                      | (a2, Exited n) \<Rightarrow> (a2, Exited n))) of
        (a', Returned (Some code)) \<Rightarrow> (a', Returned code)
      | (a', Returned None) \<Rightarrow> (a', Returned EXIT_FAILURE)
      | (a', Thrown e) \<Rightarrow>
          if is_std_exception e
          then (log_message Fatal (''[Mif::Application::Application::Run] '' @ ''Failed to start application. Error: '' @ what e) a',
                Returned EXIT_FAILURE)
          else (a', Thrown e)
      | (a', Exited n) \<Rightarrow> (a', Exited n))"

text \<open>The function template \<open>Run<T>\<close>: the object is made, run and destroyed.\<close>

definition Run_application :: "string \<Rightarrow> string \<Rightarrow> environment \<Rightarrow> 'd parsers \<Rightarrow> ('d, 's, 'm) overrides \<Rightarrow>
    string list \<Rightarrow> 'm \<Rightarrow> log_state \<Rightarrow> 's locator \<Rightarrow> ('d, 's, 'm) app \<times> nat outcome" where
  "Run_application usage mif_version env ps vs argv derived log locator =
     (case Application_Run usage mif_version env ps vs (Application_new argv derived log locator) of
        (a, Returned code) \<Rightarrow> (Application_delete a, Returned code)
      | (a, r) \<Rightarrow> (a, r))"

section \<open>Facts\<close>

lemma take_setting_given [simp]: "opt_count (m_options a) opt \<Longrightarrow> take_setting print extract update opt cfg key a = (a, Inr False)"
  by (simp add: take_setting_def)

lemma Locator_Clear_empty [simp]: "m_services (Locator_Clear l) = Map.empty"
  by (simp add: Locator_Clear_def)

text \<open>What the command line has settled: the members whose option is given.\<close>

definition given_settings :: "('d, 's, 'm) app \<Rightarrow> options \<times> string option \<times> string option \<times> nat option \<times> bool option" where
  "given_settings a =
     (m_options a, if opt_count (m_options a) ''logdir'' then Some (m_logDirName a) else None,
          if opt_count (m_options a) ''logpattern'' then Some (m_logPattern a) else None,
          if opt_count (m_options a) ''loglevel'' then Some (m_logLevel a) else None,
          if opt_count (m_options a) ''daemon'' then Some (m_runAsDaemon a) else None)"

lemma given_settings_update [simp]:
  "\<not> opt_count (m_options a) ''logdir'' \<Longrightarrow> given_settings (a\<lparr>m_logDirName := d\<rparr>) = given_settings a"
  "\<not> opt_count (m_options a) ''logpattern'' \<Longrightarrow> given_settings (a\<lparr>m_logPattern := p\<rparr>) = given_settings a"
  "\<not> opt_count (m_options a) ''loglevel'' \<Longrightarrow> given_settings (a\<lparr>m_logLevel := l\<rparr>) = given_settings a"
  "\<not> opt_count (m_options a) ''daemon'' \<Longrightarrow> given_settings (a\<lparr>m_runAsDaemon := b\<rparr>) = given_settings a"
  "given_settings (a\<lparr>m_config := c\<rparr>) = given_settings a"
  by (simp_all add: given_settings_def)

lemma take_setting_keeps:
  assumes "take_setting print extract update opt cfg key a = (a', r)"
    and "\<And>v. \<not> opt_count (m_options a) opt \<Longrightarrow> given_settings (update v a) = given_settings a"
  shows "given_settings a' = given_settings a"
  using assms by (auto simp: take_setting_def split: if_splits sum.splits)

lemma read_log_section_keeps: "given_settings (fst (read_log_section print cfg a)) = given_settings a"
  unfolding read_log_section_def
  by (auto split: prod.split sum.split dest!: take_setting_keeps)

lemma read_common_section_keeps: "given_settings (fst (read_common_section print common a)) = given_settings a"
  unfolding read_common_section_def
  by (auto simp: read_log_section_keeps split: prod.split sum.split dest!: take_setting_keeps)

text \<open>The command line wins over the configuration.\<close>

lemma command_line_wins: "given_settings (fst (read_config print config a)) = given_settings a"
  unfolding read_config_def
  by (cases "IConfig_GetConfig config ''data''") (auto simp: read_common_section_keeps split: prod.split sum.split if_splits)

section \<open>Properties\<close>

text \<open>
  Property C28: how a program ends. \<open>Run\<close> returns success exactly for the options \<open>help\<close> and
  \<open>version\<close>; every other way of returning gives the failure code, an orderly start and stop
  included; and no standard exception leaves \<open>Run\<close>: each becomes a message of level \<open>Fatal\<close>.
\<close>

theorem run_exit_code:
  assumes "Application_Run usage ver env ps vs a = (a', r)"
  shows "(r = Returned EXIT_SUCCESS \<longleftrightarrow>
            (\<exists>opts. parse_command_line ps (m_argv a) = Inr opts \<and> (opt_count opts ''help'' \<or> opt_count opts ''version''))) \<and>
         (r = Returned code \<longrightarrow> code = EXIT_SUCCESS \<or> code = EXIT_FAILURE) \<and>
         (r = Thrown e \<longrightarrow> \<not> is_std_exception e) \<and>
         (parse_command_line ps (m_argv a) = Inr opts \<longrightarrow> \<not> opt_count opts ''help'' \<longrightarrow> \<not> opt_count opts ''version'' \<longrightarrow>
            Run_configured env ps vs (Application_notify (v_notify vs) opts a) = (b, Returned ()) \<longrightarrow>
            a' = b \<and> r = Returned EXIT_FAILURE)"
  using assms
  by (auto simp: Application_Run_def Let_def EXIT_SUCCESS_def EXIT_FAILURE_def
      split: sum.splits outcome.splits prod.splits if_splits)

definition sample_run_env :: environment where
  "sample_run_env = \<lparr>env_exists = (\<lambda>p. p \<in> {''app.xml'', ''/opt'', ''/var/log''}), env_regular = (\<lambda>p. p = ''app.xml''),
     env_read = (\<lambda>p. Some ''<document/>''), env_create = (\<lambda>_. Inr True), env_program = Inr (''/opt'', ''srv''),
     env_daemon = True\<rparr>"

definition sample_parsers :: "options \<Rightarrow> unit parsers" where
  "sample_parsers opts = \<lparr>parse_command_line = (\<lambda>_. Inr opts), parse_json = (\<lambda>_. Inl Bad_alloc),
     read_xml = (\<lambda>_. Inr (Tree [] [(''document'',
       Tree [] [(''common'', Tree [] [(''log'', Tree [] [(''dir'', Tree ''/var/log'' [])])])])])),
     print_number = (\<lambda>_. [])\<rparr>"

definition sample_overrides :: "(unit, nat, unit) overrides" where
  "sample_overrides = \<lparr>v_PrepareConfigData = Application_PrepareConfigData,
     v_OnStart = (\<lambda>a. (a\<lparr>root_locator := Locator_Put (root_locator a) 7 1\<rparr>, Inr ())),
     v_OnStop = Application_OnStop, v_notify = (\<lambda>_ m. m)\<rparr>"

definition sample_app :: "(unit, nat, unit) app" where
  "sample_app = Application_new [''/opt/srv''] () log_init Locator_new"

theorem run_exit_code_witness:
  "snd (Application_Run [] [] sample_run_env (sample_parsers Map.empty) sample_overrides sample_app) = Returned EXIT_FAILURE"
proof -
  obtain b where b: "Run_configured sample_run_env (sample_parsers Map.empty) sample_overrides
      (Application_notify (v_notify sample_overrides) Map.empty sample_app) = (b, Returned ())"
    by (simp add: Run_configured_def opt_count_def Application_notify_def InitLog_def Let_def Application_Start_def
        sample_app_def Application_new_def RunInThisProcess_def sample_overrides_def Application_Stop_def Application_OnStop_def)
  obtain a' r where run: "Application_Run [] [] sample_run_env (sample_parsers Map.empty) sample_overrides sample_app = (a', r)"
    by (cases "Application_Run [] [] sample_run_env (sample_parsers Map.empty) sample_overrides sample_app")
  have "parse_command_line (sample_parsers Map.empty) (m_argv sample_app) = Inr Map.empty"
    by (simp add: sample_parsers_def)
  with run_exit_code [OF run, where opts = Map.empty and b = b] b run show ?thesis
    by (simp add: opt_count_def)
qed

text \<open>
  The root locator after a run. In the foreground, whether \<open>OnStart\<close> fails with
  a standard exception or the program starts and stops, no service is left in the locator when
  \<open>Start\<close> ends, and a failure of \<open>OnStop\<close> is logged and does not fail the program. As a daemon
  \<open>OnStop\<close> is called without clearing the locator; only the destructor does that.
\<close>

lemma start_clears_locator:
  assumes "\<not> m_runAsDaemon a" and "\<not> opt_count (m_options a) ''daemon''"
    and "Application_Start env vs a = (a', r)" and "r = Returned () \<or> r = Thrown e \<and> is_std_exception e"
  shows "m_services (root_locator a') = Map.empty \<and>
    (\<forall>a1 a2 x. v_OnStart vs a = (a1, Inr ()) \<longrightarrow>
       v_OnStop vs (a1\<lparr>app_cout := app_cout a1 @ [''Press '' @ [CHR 0x27] @ ''Ctrl+C'' @ [CHR 0x27] @ '' for quit.'']\<rparr>) = (a2, Inl x) \<longrightarrow>
       is_std_exception x \<longrightarrow> r = Returned ()) \<and>
    (\<forall>a1 x. v_OnStart vs a = (a1, Inl x) \<longrightarrow> r = Thrown x)"
  using assms
  by (auto simp: Application_Start_def Let_def RunInThisProcess_def Application_Stop_def
      split: prod.splits sum.splits if_splits)

lemma start_clears_locator_example:
  "m_services (root_locator (fst (Application_Start sample_run_env sample_overrides sample_app))) = Map.empty \<and>
   m_services (root_locator (fst (v_OnStart sample_overrides sample_app))) 7 = Some 1"
proof -
  have r: "snd (Application_Start sample_run_env sample_overrides sample_app) = Returned ()"
    by (simp add: opt_count_def Application_Start_def sample_app_def Application_new_def Let_def
        RunInThisProcess_def sample_overrides_def Application_Stop_def Application_OnStop_def)
  have "m_services (root_locator (fst (Application_Start sample_run_env sample_overrides sample_app))) = Map.empty"
    using start_clears_locator [of sample_app sample_run_env sample_overrides
        "fst (Application_Start sample_run_env sample_overrides sample_app)" "Returned ()" Bad_cast]
    by (simp add: opt_count_def sample_app_def Application_new_def flip: r)
  then show ?thesis
    by (simp add: sample_overrides_def Locator_Put_def)
qed

text \<open>
  as a daemon the services stay registered after \<open>OnStop\<close>.
\<close>

lemma daemon_keeps_locator:
  assumes "env_daemon env" and "\<not> m_daemon a"
    and "v_OnStart vs = (\<lambda>a. (a, Inr ()))" and "v_OnStop vs = (\<lambda>a. (a, Inr ()))"
  shows "\<exists>a'. RunAsDaemon env vs a = (a', Returned ()) \<and> root_locator a' = root_locator a"
  using assms by (simp add: RunAsDaemon_def Daemon_new_def Let_def)

text \<open>
  The log is not set up as the configuration asks. When the directory and the
  pattern come from the configuration and not from the command line, the file log is made in
  the directory of the program, with a name made of the program's and with the level \<open>Trace\<close>
  unless the command line gives one: the values read from the configuration are overwritten.
\<close>

lemma log_settings_overwritten:
  assumes "InitLog env True levelFromConfig a = (a', Inr ())" and "env_program env = Inr (dir, name)"
    and "\<not> opt_count (m_options a) ''logdir''"
  shows "m_instance (app_log a') =
    Some (file_logger (if opt_count (m_options a) ''loglevel'' then m_logLevel a else level_number Trace) dir
      (if opt_count (m_options a) ''logpattern'' then m_logPattern a else name @ ''_%5N.log'') 1 10)"
  using assms
  by (auto simp: InitLog_def Let_def InitFileLog_def split: if_splits sum.splits bool.splits option.splits prod.splits)

lemma log_settings_overwritten_example:
  "m_instance (app_log (fst (InitLog sample_run_env True False (sample_app\<lparr>m_logDirName := ''/var/log''\<rparr>)))) =
     Some (file_logger 4 ''/opt'' ''srv_%5N.log'' 1 10)"
proof -
  let ?a = "sample_app\<lparr>m_logDirName := ''/var/log''\<rparr>"
  have "InitLog sample_run_env True False ?a = (fst (InitLog sample_run_env True False ?a), Inr ())"
    by (simp add: InitLog_def Let_def opt_count_def sample_app_def Application_new_def sample_run_env_def
        InitFileLog_def log_init_def)
  from log_settings_overwritten [OF this, of "''/opt''" "''srv''"] show ?thesis
    by (simp add: sample_run_env_def opt_count_def sample_app_def Application_new_def)
qed

end
