(* ===== verification/App_Net.thy ===== *)
theory App_Net
  imports App_Run Http_WebService
begin

text \<open>
  Network applications (\<open>application/net_base_application.cpp\<close>, \<open>http_server.cpp\<close>,
  \<open>tcp_service.cpp\<close>, \<open>tcp_service_client.cpp\<close>): the settings of the server from the command
  line and the configuration, and the servers they start. The functions a program overrides,
  the constructors of the servers and of the connection are arguments.
\<close>

section \<open>NetBaseApplication\<close>

record 'x net_members =
  m_host :: string
  m_port :: string
  m_workers :: nat
  m_timeout :: nat
  m_net_derived :: 'x

type_synonym ('d, 's, 'x) net_app = "('d, 's, 'x net_members) app"

definition NetBase_new :: "'x \<Rightarrow> 'x net_members" where
  "NetBase_new derived = \<lparr>m_host = [], m_port = [], m_workers = 0, m_timeout = 0, m_net_derived = derived\<rparr>"

text \<open>The network options with their defaults, as \<open>notify\<close> stores them.\<close>

definition NetBase_notify :: "(options \<Rightarrow> 'x \<Rightarrow> 'x) \<Rightarrow> options \<Rightarrow> 'x net_members \<Rightarrow> 'x net_members" where
  "NetBase_notify notify opts m =
     m\<lparr>m_host := opt_text opts ''host'' ''0.0.0.0'',
       m_port := opt_text opts ''port'' ''55555'',
       m_workers := opt_number opts ''workers'' 8,
       m_timeout := opt_number opts ''timeout'' (10 * 1000 * 1000),
       m_net_derived := notify opts (m_net_derived m)\<rparr>"

definition GetConfigBranch :: string where
  "GetConfigBranch = ''server''"

abbreviation set_members :: "('d, 's, 'x) net_app \<Rightarrow> 'x net_members \<Rightarrow> ('d, 's, 'x) net_app" where
  "set_members a m \<equiv> a\<lparr>m_derived := m\<rparr>"

text \<open>The branch \<open>server\<close>: four values, in this order; a missing one ends the start.\<close>

definition read_server_section :: "('d \<Rightarrow> string) \<Rightarrow> 'd config \<Rightarrow> ('d, 's, 'x) net_app \<Rightarrow> ('d, 's, 'x) net_app \<times> unit result" where
  "read_server_section print cfg a =
     (case IConfig_GetValue print cfg ''host'' of
        Inl e \<Rightarrow> (a, Inl e)
      | Inr host \<Rightarrow>
          let a1 = set_members a ((m_derived a)\<lparr>m_host := host\<rparr>)
          in (case IConfig_GetValue print cfg ''port'' of
               Inl e \<Rightarrow> (a1, Inl e)
             | Inr port \<Rightarrow>
                 let a2 = set_members a1 ((m_derived a1)\<lparr>m_port := port\<rparr>)
                 in (case GetValue_as (IConfig_GetValue print) (\<lambda>t. nat (read_unsigned 16 t)) cfg ''workers'' of
                      Inl e \<Rightarrow> (a2, Inl e)
                    | Inr workers \<Rightarrow>
                        let a3 = set_members a2 ((m_derived a2)\<lparr>m_workers := workers\<rparr>)
                        in (case GetValue_as (IConfig_GetValue print) (\<lambda>t. nat (read_unsigned 64 t)) cfg ''timeout'' of
                             Inl e \<Rightarrow> (a3, Inl e)
                           | Inr timeout \<Rightarrow> (set_members a3 ((m_derived a3)\<lparr>m_timeout := timeout\<rparr>), Inr ())))))"

definition NetBase_OnStart :: "('d \<Rightarrow> string) \<Rightarrow> (('d, 's, 'x) net_app \<Rightarrow> ('d, 's, 'x) net_app \<times> unit result) \<Rightarrow>
    ('d, 's, 'x) net_app \<Rightarrow> ('d, 's, 'x) net_app \<times> unit result" where
  "NetBase_OnStart print v_OnInit a =
     (case (case m_config a of
              None \<Rightarrow> (a, Inr ())
            | Some config \<Rightarrow>
                if IConfig_Exists config ''server'' then
                  (case GetConfig_deref config ''server'' of
                     Inl e \<Rightarrow> (a, Inl e)
                   | Inr cfg \<Rightarrow> read_server_section print cfg a)
                else (log_message Warning (''[Mif::Application::NetBaseApplication::OnStart] '' @
                        ''Config branch '' @ dquote @ ''server'' @ dquote @ '' not found. '' @
                        ''All network parameters will be taken from the command line arguments or default parameters will be used.'') a,
                      Inr ())) of
        (a1, Inl e) \<Rightarrow> (a1, Inl e)
      | (a1, Inr _) \<Rightarrow>
          (case v_OnInit (log_message Info (''Starting network application on '' @
                   m_host (m_derived a1) @ '':'' @ m_port (m_derived a1)) a1) of
             (a2, Inl e) \<Rightarrow> (a2, Inl e)
           | (a2, Inr _) \<Rightarrow> (log_message Info ''Network application is successfully started.'' a2, Inr ())))"

text \<open>
  Stopping: a standard exception of the overridden function is logged. The three classes
  derived from \<open>NetBaseApplication\<close> stop their own part the same way, each with its own
  messages.
\<close>

definition guarded_done :: "string \<Rightarrow> ('a \<Rightarrow> 'a \<times> unit result) \<Rightarrow> (log_level \<Rightarrow> string \<Rightarrow> 'a \<Rightarrow> 'a) \<Rightarrow> 'a \<Rightarrow> 'a \<times> unit result" where
  "guarded_done origin v_done log a =
     (case v_done a of
        (a1, Inr _) \<Rightarrow> (a1, Inr ())
      | (a1, Inl e) \<Rightarrow>
          if is_std_exception e
          then (log Warning (''[Mif::Application::'' @ origin @ ''] '' @ ''Failed to call '' @ dquote @ ''Done'' @ dquote @
                  ''. Error: '' @ what e) a1, Inr ())
          else (a1, Inl e))"

definition NetBase_OnStop :: "(('d, 's, 'x) net_app \<Rightarrow> ('d, 's, 'x) net_app \<times> unit result) \<Rightarrow>
    ('d, 's, 'x) net_app \<Rightarrow> ('d, 's, 'x) net_app \<times> unit result" where
  "NetBase_OnStop v_OnDone a =
     (case guarded_done ''NetBaseApplication::OnStop'' v_OnDone log_message
             (log_message Info ''Stopping network application ...'' a) of
        (a1, Inl e) \<Rightarrow> (a1, Inl e)
      | (a1, Inr _) \<Rightarrow> (log_message Info ''Network application is successfully stopped.'' a1, Inr ()))"

section \<open>HttpServer\<close>

text \<open>The running server: its address, workers and the parameters of its sessions.\<close>

record http_server =
  srv_host :: string
  srv_port :: string
  srv_workers :: nat
  srv_params :: session_params

record http_members =
  m_methods :: "Method set"
  m_headersLimit :: nat
  m_bodyLimit :: nat
  m_chunkLimit :: nat
  m_pipelineLimit :: nat
  m_server :: "http_server option"

definition HttpServer_new :: "Method set \<Rightarrow> http_members" where
  "HttpServer_new methods =
     \<lparr>m_methods = methods, m_headersLimit = 0, m_bodyLimit = 0, m_chunkLimit = 0, m_pipelineLimit = 0, m_server = None\<rparr>"

definition HttpServer_notify :: "options \<Rightarrow> http_members \<Rightarrow> http_members" where
  "HttpServer_notify opts m =
     m\<lparr>m_headersLimit := opt_number opts ''headerslimit'' (1024 * 1024),
       m_bodyLimit := opt_number opts ''bodylimit'' (10 * 1024 * 1024),
       m_chunkLimit := opt_number opts ''chunksize'' (10 * 1024 * 1024),
       m_pipelineLimit := opt_number opts ''pipelinelimit'' 8\<rparr>"

definition limit_value :: "('d \<Rightarrow> string) \<Rightarrow> 'd config \<Rightarrow> string \<Rightarrow> nat \<Rightarrow> nat result" where
  "limit_value print limits key old =
     (if IConfig_Exists limits key
      then GetValue_as (IConfig_GetValue print) (\<lambda>t. nat (read_unsigned 64 t)) limits key
      else Inr old)"

definition read_limits :: "('d \<Rightarrow> string) \<Rightarrow> 'd config \<Rightarrow> http_members \<Rightarrow> http_members \<times> unit result" where
  "read_limits print limits m =
     (case limit_value print limits ''headerslimit'' (m_headersLimit m) of
        Inl e \<Rightarrow> (m, Inl e)
      | Inr h \<Rightarrow>
          let m1 = m\<lparr>m_headersLimit := h\<rparr>
          in (case limit_value print limits ''bodylimit'' (m_bodyLimit m1) of
               Inl e \<Rightarrow> (m1, Inl e)
             | Inr b \<Rightarrow>
                 let m2 = m1\<lparr>m_bodyLimit := b\<rparr>
                 in (case limit_value print limits ''chunksize'' (m_chunkLimit m2) of
                      Inl e \<Rightarrow> (m2, Inl e)
                    | Inr c \<Rightarrow>
                        let m3 = m2\<lparr>m_chunkLimit := c\<rparr>
                        in (case limit_value print limits ''pipelinelimit'' (m_pipelineLimit m3) of
                             Inl e \<Rightarrow> (m3, Inl e)
                           | Inr p \<Rightarrow> (m3\<lparr>m_pipelineLimit := p\<rparr>, Inr ())))))"

text \<open>The limits of the branch \<open>server.http\<close>, where \<open>GetConfig\<close> gives one.\<close>

definition config_limits :: "('d \<Rightarrow> string) \<Rightarrow> 'd config option \<Rightarrow> http_members \<Rightarrow> http_members \<times> unit result" where
  "config_limits print config m =
     (case config of
        None \<Rightarrow> (m, Inr ())
      | Some c \<Rightarrow>
          (case IConfig_GetConfig c ((GetConfigBranch @ ''.'') @ ''http'') of
             Inl e \<Rightarrow> (m, Inl e)
           | Inr None \<Rightarrow> (m, Inr ())
           | Inr (Some limits) \<Rightarrow> read_limits print limits m))"

abbreviation set_http :: "('d, 's, http_members) net_app \<Rightarrow> http_members \<Rightarrow> ('d, 's, http_members) net_app" where
  "set_http a m \<equiv> set_members a ((m_derived a)\<lparr>m_net_derived := m\<rparr>)"

text \<open>
  \<open>v_Init\<close> fills the handlers, \<open>make_server\<close> is the constructor of \<open>Net::Http::Server\<close> after it
  has formed the session parameters: it opens the address and may throw.
\<close>

definition HttpServer_OnInit :: "('d \<Rightarrow> string) \<Rightarrow>
    (('d, 's, http_members) net_app \<Rightarrow> ('d, 's, http_members) net_app \<times> (string \<times> handler) list result) \<Rightarrow>
    (string \<Rightarrow> string \<Rightarrow> nat \<Rightarrow> unit result) \<Rightarrow>
    ('d, 's, http_members) net_app \<Rightarrow> ('d, 's, http_members) net_app \<times> unit result" where
  "HttpServer_OnInit print v_Init make_server a =
     (let host = m_host (m_derived a); port = m_port (m_derived a); workers = m_workers (m_derived a);
          timeout = max (m_timeout (m_derived a)) 100
      in (case config_limits print (m_config a) (m_net_derived (m_derived a)) of
           (m1, Inl e) \<Rightarrow> (set_http a m1, Inl e)
         | (m1, Inr _) \<Rightarrow>
             let headersLimit = max (m_headersLimit m1) 128; bodyLimit = max (m_bodyLimit m1) 256;
                 chunk = max (m_chunkLimit m1) 256; pipeline = max (m_pipelineLimit m1) 1;
                 a1 = log_message Info (''Starting server with host '' @ dquote @ host @ dquote @ '', '' @
                        ''port '' @ dquote @ port @ dquote @ '', '' @
                        ''timeout '' @ dquote @ nat_to_string timeout @ dquote @ '', '' @
                        ''workers '' @ dquote @ nat_to_string workers @ dquote @ '', '' @
                        ''headers limit '' @ dquote @ nat_to_string headersLimit @ dquote @ '', '' @
                        ''body limit '' @ dquote @ nat_to_string bodyLimit @ dquote @ '', '' @
                        ''chunk size '' @ dquote @ nat_to_string chunk @ dquote @ '', '' @
                        ''pipeline limit '' @ dquote @ nat_to_string pipeline @ dquote @ '' '') (set_http a m1)
             in (case v_Init a1 of
                  (a2, Inl e) \<Rightarrow> (a2, Inl e)
                | (a2, Inr hs) \<Rightarrow>
                    (case make_server host port workers of
                       Inl e \<Rightarrow> (a2, Inl e)
                     | Inr _ \<Rightarrow>
                         let m2 = m_net_derived (m_derived a2);
                             srv = \<lparr>srv_host = host, srv_port = port, srv_workers = workers,
                               srv_params = Server_params hs (m_methods m2) headersLimit bodyLimit chunk timeout pipeline\<rparr>
                         in (log_message Info ''Server is successfully started.''
                               (set_http a2 (m2\<lparr>m_server := Some srv\<rparr>)), Inr ())))))"

definition HttpServer_OnDone :: "(('d, 's, http_members) net_app \<Rightarrow> ('d, 's, http_members) net_app \<times> unit result) \<Rightarrow>
    ('d, 's, http_members) net_app \<Rightarrow> ('d, 's, http_members) net_app \<times> unit result" where
  "HttpServer_OnDone v_Done a =
     (let a1 = log_message Info ''Stopping server ...'' a
      in case guarded_done ''HttpServer::OnDone'' v_Done log_message
                (set_http a1 ((m_net_derived (m_derived a1))\<lparr>m_server := None\<rparr>)) of
           (a2, Inl e) \<Rightarrow> (a2, Inl e)
         | (a2, Inr _) \<Rightarrow> (log_message Info ''Server is successfully stopped.'' a2, Inr ()))"

section \<open>TcpService and TcpServiceClient\<close>

text \<open>
  The two applications of the remote services. \<open>'f\<close> is the client factory that
  \<open>m_clientFactory\<close> makes of the workers, the timeout and the service factory.
\<close>

record 'f tcp_members =
  m_tcp_server :: "(string \<times> string \<times> 'f) option"

definition TcpService_OnInit ::
    "(('d, 's, 'f tcp_members) net_app \<Rightarrow> 's factory \<Rightarrow> ('d, 's, 'f tcp_members) net_app \<times> 's factory result) \<Rightarrow>
    (nat \<Rightarrow> nat \<Rightarrow> 's factory \<Rightarrow> 'f result) \<Rightarrow> (string \<Rightarrow> string \<Rightarrow> 'f \<Rightarrow> unit result) \<Rightarrow>
    ('d, 's, 'f tcp_members) net_app \<Rightarrow> ('d, 's, 'f tcp_members) net_app \<times> unit result" where
  "TcpService_OnInit v_Init client_factory make_server a =
     (let host = m_host (m_derived a); port = m_port (m_derived a);
          workers = m_workers (m_derived a); timeout = m_timeout (m_derived a);
          a1 = log_message Info (''Starting server on '' @ host @ '':'' @ port) a
      in case v_Init a1 Factory_new of
           (a2, Inl e) \<Rightarrow> (a2, Inl e)
         | (a2, Inr factory) \<Rightarrow>
             (case client_factory workers timeout factory of
                Inl e \<Rightarrow> (a2, Inl e)
              | Inr cf \<Rightarrow>
                  (case make_server host port cf of
                     Inl e \<Rightarrow> (a2, Inl e)
                   | Inr _ \<Rightarrow>
                       (log_message Info ''Server is successfully started.''
                          (set_members a2 ((m_derived a2)\<lparr>m_net_derived := \<lparr>m_tcp_server = Some (host, port, cf)\<rparr>\<rparr>)), Inr ()))))"

definition TcpService_OnDone :: "(('d, 's, 'f tcp_members) net_app \<Rightarrow> ('d, 's, 'f tcp_members) net_app \<times> unit result) \<Rightarrow>
    ('d, 's, 'f tcp_members) net_app \<Rightarrow> ('d, 's, 'f tcp_members) net_app \<times> unit result" where
  "TcpService_OnDone v_Done a =
     (let a1 = log_message Info ''Stopping server ...'' a
      in case guarded_done ''TcpService::OnDone'' v_Done log_message
                (set_members a1 ((m_derived a1)\<lparr>m_net_derived := \<lparr>m_tcp_server = None\<rparr>\<rparr>)) of
           (a2, Inl e) \<Rightarrow> (a2, Inl e)
         | (a2, Inr _) \<Rightarrow> (log_message Info ''Server is successfully stopped.'' a2, Inr ()))"

text \<open>
  The client: the connection is opened before \<open>Init\<close>, which gets the remote factory made of the
  connection. \<open>'k\<close> is a connection, \<open>'r\<close> a remote factory.
\<close>

definition TcpServiceClient_OnInit ::
    "(('d, 's, 'x) net_app \<Rightarrow> 'r \<Rightarrow> ('d, 's, 'x) net_app \<times> unit result) \<Rightarrow>
    (nat \<Rightarrow> nat \<Rightarrow> 's factory \<Rightarrow> 'f result) \<Rightarrow> (string \<Rightarrow> string \<Rightarrow> 'f \<Rightarrow> 'k result) \<Rightarrow> ('k \<Rightarrow> 'r result) \<Rightarrow>
    ('d, 's, 'x) net_app \<Rightarrow> ('d, 's, 'x) net_app \<times> unit result" where
  "TcpServiceClient_OnInit v_Init client_factory connect remote_factory a =
     (let host = m_host (m_derived a); port = m_port (m_derived a);
          workers = m_workers (m_derived a); timeout = m_timeout (m_derived a);
          a1 = log_message Info (''Starting client on '' @ host @ '':'' @ port) a
      in case client_factory workers timeout Factory_new of
           Inl e \<Rightarrow> (a1, Inl e)
         | Inr cf \<Rightarrow>
             (case connect host port cf of
                Inl e \<Rightarrow> (a1, Inl e)
              | Inr connection \<Rightarrow>
                  (case remote_factory connection of
                     Inl e \<Rightarrow> (a1, Inl e)
                   | Inr remote \<Rightarrow>
                       (case v_Init a1 remote of
                          (a2, Inl e) \<Rightarrow> (a2, Inl e)
                        | (a2, Inr _) \<Rightarrow> (log_message Info ''Client is successfully started.'' a2, Inr ())))))"

definition TcpServiceClient_OnDone :: "(('d, 's, 'x) net_app \<Rightarrow> ('d, 's, 'x) net_app \<times> unit result) \<Rightarrow>
    ('d, 's, 'x) net_app \<Rightarrow> ('d, 's, 'x) net_app \<times> unit result" where
  "TcpServiceClient_OnDone v_Done a =
     (case guarded_done ''TcpServiceClient::OnDone'' v_Done log_message (log_message Info ''Stopping client ...'' a) of
        (a1, Inl e) \<Rightarrow> (a1, Inl e)
      | (a1, Inr _) \<Rightarrow> (log_message Info ''Client is successfully stopped.'' a1, Inr ()))"

section \<open>Facts\<close>

text \<open>Limits that fit \<open>std::size_t\<close>, as options and configuration values do.\<close>

definition limits_fit :: "http_members \<Rightarrow> bool" where
  "limits_fit m \<longleftrightarrow> m_headersLimit m < 2 ^ 64 \<and> m_bodyLimit m < 2 ^ 64 \<and> m_chunkLimit m < 2 ^ 64 \<and> m_pipelineLimit m < 2 ^ 64"

lemma limit_value_fits: "limit_value print limits key old = Inr v \<Longrightarrow> old < 2 ^ 64 \<Longrightarrow> v < 2 ^ 64"
  using read_unsigned_range [of 64]
  by (auto simp: limit_value_def GetValue_as_def nat_less_iff split: if_splits sum.splits)

lemma read_limits_fit: "read_limits print limits m = (m', r) \<Longrightarrow> limits_fit m \<Longrightarrow> limits_fit m'"
  by (auto simp: read_limits_def Let_def limits_fit_def split: sum.splits dest!: limit_value_fits)

lemma config_limits_fit: "config_limits print config m = (m', r) \<Longrightarrow> limits_fit m \<Longrightarrow> limits_fit m'"
  by (auto simp: config_limits_def split: option.splits sum.splits dest: read_limits_fit)

lemma or_default_bounds:
  assumes "l \<le> v" and "l \<le> d" and "v < 2 ^ 64" and "d < 2 ^ 64 - 1"
  shows "l \<le> or_default v d \<and> or_default v d < 2 ^ 64 - 1"
  using assms by (auto simp: or_default_def default_value_def)

lemma guarded_done_std: "guarded_done origin v_done log a = (a', Inl e) \<Longrightarrow> \<not> is_std_exception e"
  by (auto simp: guarded_done_def split: prod.splits sum.splits if_splits)

section \<open>Properties\<close>


definition sample_http_app :: "(unit, nat, http_members) net_app" where
  "sample_http_app =
     (Application_new [''/opt/srv''] (NetBase_notify HttpServer_notify Map.empty (NetBase_new (HttpServer_new {})))
        log_init Locator_new)
     \<lparr>m_config := Some (Xml_document (Tree [] [(''server'', Tree [] [(''http'', Tree [] [(''chunksize'', Tree ''0'' [])])])]))\<rparr>"


text \<open>
  A configuration without the branch \<open>server.http\<close>. In XML the limits of the
  command line stay in force; in JSON the start of the server fails with the error of a bad
  path, before the handlers are made.
\<close>

lemma http_branch_required_in_json:
  "(m_config a = Some (Json_document j) \<longrightarrow> FindItem j ''server.http'' = None \<longrightarrow>
      HttpServer_OnInit print v_Init make_server a =
        (a, Inl (bad_path ''GetConfig'' ''config'' ''server.http''))) \<and>
   (m_config a = Some (Xml_document t) \<longrightarrow> get_child_optional t ''server.http'' = None \<longrightarrow>
      config_limits print (m_config a) m = (m, Inr ()))"
  by (auto simp: HttpServer_OnInit_def config_limits_def GetConfigBranch_def Config_GetConfig_def
      Xml_Config_GetConfig_def Let_def)

definition sample_json_app :: "(unit, nat, http_members) net_app" where
  "sample_json_app = sample_http_app\<lparr>m_config := Some (Json_document (Object [(''server'', Object [])]))\<rparr>"

lemma http_branch_required_in_json_example:
  "HttpServer_OnInit (\<lambda>_. []) (\<lambda>a. (a, Inr [])) (\<lambda>_ _ _. Inr ()) sample_json_app =
     (sample_json_app, Inl (bad_path ''GetConfig'' ''config'' ''server.http''))"
proof -
  have "FindItem (Object [(''server'', Object [])] :: unit json) ''server.http'' = None"
    by (simp add: FindItem_resolve PathToList_def trim_def isspace_def code_of_def)
  then show ?thesis
    using http_branch_required_in_json [of sample_json_app "Object [(''server'', Object [])]"]
    by (simp add: sample_json_app_def)
qed

text \<open>
  The branch \<open>server\<close> of the configuration decides the address, the workers and the
  timeout, the command line only without it; a branch that lacks one of the four values ends
  the start. The workers are read modulo the 16 bits of their type. Stopping never fails with a
  standard exception.
\<close>

lemma net_settings_from_config:
  assumes "m_config a = Some config" and "IConfig_Exists config ''server''"
    and "GetConfig_deref config ''server'' = Inr cfg"
  shows "(IConfig_GetValue print cfg ''host'' = Inr h \<longrightarrow> IConfig_GetValue print cfg ''port'' = Inr p \<longrightarrow>
            IConfig_GetValue print cfg ''workers'' = Inr w \<longrightarrow> IConfig_GetValue print cfg ''timeout'' = Inr t \<longrightarrow>
            (\<exists>a1. NetBase_OnStart print v_OnInit a =
                (case v_OnInit a1 of
                   (a2, Inl e) \<Rightarrow> (a2, Inl e)
                 | (a2, Inr _) \<Rightarrow> (log_message Info ''Network application is successfully started.'' a2, Inr ())) \<and>
              m_host (m_derived a1) = h \<and> m_port (m_derived a1) = p \<and>
              m_workers (m_derived a1) = nat (read_unsigned 16 w) \<and> m_workers (m_derived a1) < 2 ^ 16 \<and>
              m_timeout (m_derived a1) = nat (read_unsigned 64 t))) \<and>
         ((\<exists>key \<in> {''host'', ''port'', ''workers'', ''timeout''}. \<exists>e. IConfig_GetValue print cfg key = Inl e) \<longrightarrow>
            (\<exists>a1 e. NetBase_OnStart print v_OnInit a = (a1, Inl e))) \<and>
         (NetBase_OnStop v_OnDone a = (a', Inl e) \<longrightarrow> \<not> is_std_exception e)"
proof (intro conjI impI)
  assume v: "IConfig_GetValue print cfg ''host'' = Inr h" "IConfig_GetValue print cfg ''port'' = Inr p"
    "IConfig_GetValue print cfg ''workers'' = Inr w" "IConfig_GetValue print cfg ''timeout'' = Inr t"
  let ?m = "(m_derived a)\<lparr>m_host := h, m_port := p, m_workers := nat (read_unsigned 16 w), m_timeout := nat (read_unsigned 64 t)\<rparr>"
  let ?a1 = "log_message Info (''Starting network application on '' @ h @ '':'' @ p) (set_members a ?m)"
  have "nat (read_unsigned 16 w) < 2 ^ 16"
    using read_unsigned_range [of 16 w] by (simp add: nat_less_iff)
  moreover have "NetBase_OnStart print v_OnInit a =
      (case v_OnInit ?a1 of
         (a2, Inl e) \<Rightarrow> (a2, Inl e)
       | (a2, Inr _) \<Rightarrow> (log_message Info ''Network application is successfully started.'' a2, Inr ()))"
    using assms v by (simp add: NetBase_OnStart_def read_server_section_def GetValue_as_def Let_def)
  ultimately show "\<exists>a1. NetBase_OnStart print v_OnInit a =
      (case v_OnInit a1 of
         (a2, Inl e) \<Rightarrow> (a2, Inl e)
       | (a2, Inr _) \<Rightarrow> (log_message Info ''Network application is successfully started.'' a2, Inr ())) \<and>
      m_host (m_derived a1) = h \<and> m_port (m_derived a1) = p \<and>
      m_workers (m_derived a1) = nat (read_unsigned 16 w) \<and> m_workers (m_derived a1) < 2 ^ 16 \<and>
      m_timeout (m_derived a1) = nat (read_unsigned 64 t)"
    by (intro exI [of _ ?a1]) simp
next
  assume "\<exists>key \<in> {''host'', ''port'', ''workers'', ''timeout''}. \<exists>e. IConfig_GetValue print cfg key = Inl e"
  then have "\<exists>a1 e. read_server_section print cfg a = (a1, Inl e)"
    by (auto simp: read_server_section_def GetValue_as_def Let_def split: sum.split)
  then show "\<exists>a1 e. NetBase_OnStart print v_OnInit a = (a1, Inl e)"
    using assms by (auto simp: NetBase_OnStart_def)
next
  assume "NetBase_OnStop v_OnDone a = (a', Inl e)"
  then show "\<not> is_std_exception e"
    by (auto simp: NetBase_OnStop_def split: prod.splits sum.splits dest: guarded_done_std)
qed

definition sample_server_section :: ptree where
  "sample_server_section =
     Tree [] [(''host'', Tree ''::1'' []), (''port'', Tree ''80'' []), (''workers'', Tree ''4'' []), (''timeout'', Tree ''99'' [])]"

lemma net_settings_from_config_example:
  "\<exists>a1. NetBase_OnStart (\<lambda>_. []) (\<lambda>a. (a, Inl Bad_cast))
       (sample_http_app\<lparr>m_config := Some (Xml_document (Tree [] [(''server'', sample_server_section)]))\<rparr>) = (a1, Inl Bad_cast) \<and>
     m_host (m_derived a1) = ''::1''"
proof -
  let ?cfg = "Xml_document (Tree [] [(''server'', sample_server_section)]) :: unit config"
  let ?a = "sample_http_app\<lparr>m_config := Some ?cfg\<rparr>"
  have keys: "path_keys ''server'' = [''server'']" "path_keys ''host'' = [''host'']" "path_keys ''port'' = [''port'']"
    "path_keys ''workers'' = [''workers'']" "path_keys ''timeout'' = [''timeout'']"
    by (simp_all add: path_keys_def)
  note defs = Xml_Config_GetValue_def get_optional_string_def get_child_optional_def keys ptree_child_def
    sample_server_section_def Xml_Config_Exists_def ptree_find_def GetConfig_deref_def Xml_Config_GetConfig_def
  have "IConfig_Exists ?cfg ''server''" and "GetConfig_deref ?cfg ''server'' = Inr (Xml_document sample_server_section)"
    and "IConfig_GetValue (\<lambda>_. []) (Xml_document sample_server_section) ''host'' = Inr ''::1''"
    and "IConfig_GetValue (\<lambda>_. []) (Xml_document sample_server_section) ''port'' = Inr ''80''"
    and "IConfig_GetValue (\<lambda>_. []) (Xml_document sample_server_section) ''workers'' = Inr ''4''"
    and "IConfig_GetValue (\<lambda>_. []) (Xml_document sample_server_section) ''timeout'' = Inr ''99''"
    by (simp_all add: defs)
  with net_settings_from_config [of ?a ?cfg "Xml_document sample_server_section" "\<lambda>_. []" "''::1''" "''80''" "''4''" "''99''"
      "\<lambda>a. (a, Inl Bad_cast)"]
  show ?thesis by fastforce
qed

end
