(* ===== verification/Remote_Message.thy ===== *)
theory Remote_Message
  imports Serialization_Json
begin

text \<open>
  The packs of the remote calls (\<open>remote/serialization/json.h\<close>,
  \<open>remote/serialization/detail/tag.h\<close>): a request or a response is a JSON object with the
  identifier of the call, its kind, the instance, the interface and the method, and the
  parameters, the result or the text of an exception. The printer and the parser are Boost.JSON.
\<close>

record 'd pack_env =
  js :: "'d json_env"
  print :: "'d json \<Rightarrow> buffer"
  parse :: "buffer \<Rightarrow> 'd json result"

type_synonym 'd pack = "(string \<times> 'd json) list"

section \<open>Tags\<close>

definition Tag_Uuid :: string where "Tag_Uuid = ''uuid''"
definition Tag_Type :: string where "Tag_Type = ''type''"
definition Tag_Request :: string where "Tag_Request = ''request''"
definition Tag_Response :: string where "Tag_Response = ''response''"
definition Tag_Instsnce :: string where "Tag_Instsnce = ''instance''"
definition Tag_Interface :: string where "Tag_Interface = ''interface''"
definition Tag_Method :: string where "Tag_Method = ''method''"
definition Tag_Param :: string where "Tag_Param = ''prm''"
definition Tag_Exception :: string where "Tag_Exception = ''exception''"

lemmas tag_defs = Tag_Uuid_def Tag_Type_def Tag_Request_def Tag_Response_def Tag_Instsnce_def
  Tag_Interface_def Tag_Method_def Tag_Param_def Tag_Exception_def

section \<open>Serializer\<close>

definition object_erase :: "'d pack \<Rightarrow> string \<Rightarrow> 'd pack" where
  "object_erase kvs k = filter (\<lambda>(k', j). k' \<noteq> k) kvs"

definition PutParams :: "'d pack \<Rightarrow> ty list \<Rightarrow> 'd val list \<Rightarrow> 'd pack result" where
  "PutParams m_value ts vs =
     (let m = object_erase m_value Tag_Param
      in case ValueToJson (Tuple ts) (V_list vs) of
           Inl e \<Rightarrow> Inl e
         | Inr j \<Rightarrow> Inr (object_put m Tag_Param j))"

definition PutParamsIfExists :: "'d pack \<Rightarrow> ty list \<Rightarrow> 'd val list \<Rightarrow> 'd pack result" where
  "PutParamsIfExists m_value ts vs = (if ts = [] then Inr m_value else PutParams m_value ts vs)"

definition Serializer_head :: "bool \<Rightarrow> string \<Rightarrow> string \<Rightarrow> string \<Rightarrow> string \<Rightarrow> 'd pack" where
  "Serializer_head isReques uuid instanceId interfaceId methodId =
     (let m = object_put [] Tag_Uuid (String uuid);
          m = object_put m Tag_Type (String (if isReques then Tag_Request else Tag_Response));
          m = object_put m Tag_Instsnce (String instanceId);
          m = object_put m Tag_Interface (String interfaceId)
      in object_put m Tag_Method (String methodId))"

definition Serializer_new :: "bool \<Rightarrow> string \<Rightarrow> string \<Rightarrow> string \<Rightarrow> string \<Rightarrow> ty list \<Rightarrow> 'd val list \<Rightarrow>
    'd pack result" where
  "Serializer_new isReques uuid instanceId interfaceId methodId ts vs =
     PutParamsIfExists (Serializer_head isReques uuid instanceId interfaceId methodId) ts vs"

text \<open>The text of an exception that is no \<open>std::exception\<close> is fixed.\<close>

definition exception_text :: "exn \<Rightarrow> string" where
  "exception_text e = (if is_std_exception e then what e else ''Unknown exception.'')"

definition PutException :: "'d pack \<Rightarrow> exn \<Rightarrow> 'd pack" where
  "PutException m_value e =
     object_put (object_erase m_value Tag_Exception) Tag_Exception (String (exception_text e))"

definition GetBuffer :: "'d pack_env \<Rightarrow> 'd pack \<Rightarrow> buffer" where
  "GetBuffer env m_value = print env (Object m_value)"

section \<open>Deserializer\<close>

definition pack_error :: "string \<Rightarrow> exn" where
  "pack_error m = Invalid_argument (''[Mif::Remote::Serialization::Json::Deserializer] '' @ m)"

definition Deserializer_new :: "'d pack_env \<Rightarrow> buffer \<Rightarrow> 'd pack result" where
  "Deserializer_new env b =
     (if b = [] then Inl (pack_error ''Empty buffer.'')
      else (case parse env b of
              Inl e \<Rightarrow> Inl e
            | Inr Null \<Rightarrow> Inl (pack_error ''Empty json object.'')
            | Inr (Object kvs) \<Rightarrow> Inr kvs
            | Inr _ \<Rightarrow> Inl (pack_error ''Json is no object type.'')))"

text \<open>\<open>at(tag).as_string().c_str()\<close>; both checked accesses throw.\<close>

definition get_text :: "'d pack_env \<Rightarrow> 'd pack \<Rightarrow> string \<Rightarrow> string result" where
  "get_text env m_value tag =
     (case map_of m_value tag of
        Some (String s) \<Rightarrow> Inr (c_str s)
      | _ \<Rightarrow> Inl (at_error (js env)))"

definition GetUuid :: "'d pack_env \<Rightarrow> 'd pack \<Rightarrow> string result" where
  "GetUuid env m_value = get_text env m_value Tag_Uuid"

definition GetType :: "'d pack_env \<Rightarrow> 'd pack \<Rightarrow> string result" where
  "GetType env m_value = get_text env m_value Tag_Type"

definition IsRequest :: "'d pack_env \<Rightarrow> 'd pack \<Rightarrow> bool result" where
  "IsRequest env m_value = map_sum id (\<lambda>t. t = Tag_Request) (GetType env m_value)"

definition IsResponse :: "'d pack_env \<Rightarrow> 'd pack \<Rightarrow> bool result" where
  "IsResponse env m_value = map_sum id (\<lambda>t. t = Tag_Response) (GetType env m_value)"

definition GetInstance :: "'d pack_env \<Rightarrow> 'd pack \<Rightarrow> string result" where
  "GetInstance env m_value = get_text env m_value Tag_Instsnce"

definition GetInterface :: "'d pack_env \<Rightarrow> 'd pack \<Rightarrow> string result" where
  "GetInterface env m_value = get_text env m_value Tag_Interface"

definition GetMethod :: "'d pack_env \<Rightarrow> 'd pack \<Rightarrow> string result" where
  "GetMethod env m_value = get_text env m_value Tag_Method"

definition GetParams :: "'d pack_env \<Rightarrow> ty list \<Rightarrow> 'd pack \<Rightarrow> 'd val list result" where
  "GetParams env ts m_value =
     (if ts = [] then Inr []
      else (case map_of m_value Tag_Param of
              None \<Rightarrow> Inl (at_error (js env))
            | Some j \<Rightarrow> map_sum id items
                (JsonToValue (js env) (Tuple ts) j (V_list (map (default_val (js env)) ts)))))"

definition HasException :: "'d pack \<Rightarrow> bool" where
  "HasException m_value = (map_of m_value Tag_Exception \<noteq> None)"

text \<open>
  \<open>GetException\<close> throws the text as a \<open>std::runtime_error\<close> and captures what is in flight; a
  member that is no text makes the access itself throw, and that is captured.
\<close>

definition GetException :: "'d pack_env \<Rightarrow> 'd pack \<Rightarrow> exn option" where
  "GetException env m_value =
     (if HasException m_value then
        Some (case get_text env m_value Tag_Exception of Inr m \<Rightarrow> Runtime_error m | Inl e \<Rightarrow> e)
      else None)"

section \<open>Facts\<close>

definition reparsed_pack :: "'d pack \<Rightarrow> 'd pack" where
  "reparsed_pack m = map (\<lambda>(k, j). (k, reparsed j)) m"

text \<open>What the parser of Boost.JSON does with the text its printer made of a document.\<close>

definition text_ok :: "'d pack_env \<Rightarrow> 'd pack \<Rightarrow> bool" where
  "text_ok env m = (print env (Object m) \<noteq> [] \<and> parse env (print env (Object m)) = Inr (reparsed (Object m)))"

lemma map_of_object_erase [simp]: "map_of (object_erase m k) = (map_of m)(k := None)"
  by (induction m) (auto simp: object_erase_def)

lemma map_of_reparsed_pack: "map_of (reparsed_pack m) k = map_option reparsed (map_of m k)"
  by (simp add: reparsed_pack_def map_of_map_snd)

lemma Deserializer_GetBuffer: "text_ok env m \<Longrightarrow> Deserializer_new env (GetBuffer env m) = Inr (reparsed_pack m)"
  by (simp add: text_ok_def Deserializer_new_def GetBuffer_def reparsed_pack_def)

lemma reparsed_idem: "reparsed (reparsed j) = reparsed j"
  by (induction j) auto

lemma reparsed_pack_idem: "reparsed_pack (reparsed_pack m) = reparsed_pack m"
  by (simp add: reparsed_pack_def reparsed_idem case_prod_beta)

text \<open>On packs that were parsed before, the wire is a codec.\<close>

interpretation packs: codec "GetBuffer env" "Deserializer_new env" "\<lambda>m. text_ok env m \<and> reparsed_pack m = m" for env
  by unfold_locales (simp add: Deserializer_GetBuffer)

text \<open>The head of a pack that was made for a call.\<close>

definition has_head :: "bool \<Rightarrow> string \<Rightarrow> string \<Rightarrow> string \<Rightarrow> string \<Rightarrow> 'd pack \<Rightarrow> bool" where
  "has_head isReques uuid inst iface meth m \<longleftrightarrow>
     map_of m Tag_Uuid = Some (String uuid) \<and>
     map_of m Tag_Type = Some (String (if isReques then Tag_Request else Tag_Response)) \<and>
     map_of m Tag_Instsnce = Some (String inst) \<and> map_of m Tag_Interface = Some (String iface) \<and>
     map_of m Tag_Method = Some (String meth)"

lemma Serializer_head_has_head: "has_head q u i f me (Serializer_head q u i f me)"
  by (simp add: has_head_def Serializer_head_def tag_defs Let_def)

lemma has_head_PutParams: "PutParams m ts vs = Inr m' \<Longrightarrow> has_head q u i f me m \<Longrightarrow> has_head q u i f me m'"
  by (auto simp: PutParams_def has_head_def tag_defs Let_def split: sum.splits)

lemma has_head_PutException: "has_head q u i f me m \<Longrightarrow> has_head q u i f me (PutException m e)"
  by (simp add: PutException_def has_head_def tag_defs)

lemma c_str_id: "NUL \<notin> set s \<Longrightarrow> c_str s = s"
  by (auto simp: c_str_def takeWhile_eq_all_conv)

lemma getters_of_head:
  assumes "has_head q u i f me m" "NUL \<notin> set u" "NUL \<notin> set i" "NUL \<notin> set f" "NUL \<notin> set me"
  shows "GetUuid env (reparsed_pack m) = Inr u" "GetInstance env (reparsed_pack m) = Inr i"
    "GetInterface env (reparsed_pack m) = Inr f" "GetMethod env (reparsed_pack m) = Inr me"
    "IsResponse env (reparsed_pack m) = Inr (\<not> q)"
  using assms
  by (auto simp: has_head_def GetUuid_def GetInstance_def GetInterface_def GetMethod_def IsResponse_def
      GetType_def get_text_def map_of_reparsed_pack c_str_id)
    (auto simp: tag_defs c_str_def)

lemma GetParams_PutParams:
  assumes d: "fresh_defaults (js env)" and g: "good (js env) (Tuple ts) (V_list vs)"
  shows "\<exists>m'. PutParams m ts vs = Inr m' \<and> GetParams env ts (reparsed_pack m') = Inr vs \<and>
    HasException m' = HasException m"
proof -
  have "fresh (Tuple ts) (V_list (map (default_val (js env)) ts))"
    using d by (simp add: fresh_defaults_def list_all2_map1 list_all2_map2 list_all2_same)
  then obtain j where j: "ValueToJson (Tuple ts) (V_list vs) = Inr j"
    "JsonToValue (js env) (Tuple ts) (reparsed j) (V_list (map (default_val (js env)) ts)) = Inr (V_list vs)"
    using ValueToJson_survives [OF d, of "Tuple ts"] g by (metis survivesE)
  have "ts = [] \<Longrightarrow> vs = []"
    using g by simp
  then show ?thesis
    using j by (auto simp del: ValueToJson.simps JsonToValue.simps simp: PutParams_def GetParams_def
        HasException_def map_of_reparsed_pack tag_defs)
qed

text \<open>
  A pack survives the wire. For every call whose identifiers are texts without a
  zero character and whose parameters their types can carry, the request is built, and the
  receiver of its text reads the same identifier, instance, interface, method, kind and
  parameters and sees no exception; once an exception was put in, the receiver gets a
  \<open>std::runtime_error\<close> with its text.
\<close>

lemma pack_roundtrip:
  assumes "fresh_defaults (js env)" and "good (js env) (Tuple ts) (V_list vs)"
    and "NUL \<notin> set (uuid @ inst @ iface @ meth)" and "NUL \<notin> set (exception_text e)"
  shows "\<exists>m. Serializer_new isReques uuid inst iface meth ts vs = Inr m
    \<and> (text_ok env m \<longrightarrow> (\<exists>d. Deserializer_new env (GetBuffer env m) = Inr d
         \<and> GetUuid env d = Inr uuid \<and> GetInstance env d = Inr inst \<and> GetInterface env d = Inr iface
         \<and> GetMethod env d = Inr meth \<and> IsResponse env d = Inr (\<not> isReques)
         \<and> GetParams env ts d = Inr vs \<and> GetException env d = None))
    \<and> (text_ok env (PutException m e) \<longrightarrow> (\<exists>d. Deserializer_new env (GetBuffer env (PutException m e)) = Inr d
         \<and> GetUuid env d = Inr uuid \<and> GetException env d = Some (Runtime_error (exception_text e))))"
proof -
  let ?h = "Serializer_head isReques uuid inst iface meth :: 'a pack"
  have no_exc: "\<not> HasException ?h"
    by (simp add: HasException_def Serializer_head_def tag_defs Let_def)
  obtain m where m: "Serializer_new isReques uuid inst iface meth ts vs = Inr m"
    and head: "has_head isReques uuid inst iface meth m"
    and params: "GetParams env ts (reparsed_pack m) = Inr vs" and exc: "\<not> HasException m"
  proof (cases "ts = []")
    case True
    with assms(2) that [of ?h] no_exc show ?thesis
      by (simp add: Serializer_new_def PutParamsIfExists_def Serializer_head_has_head GetParams_def)
  next
    case False
    obtain m where "PutParams ?h ts vs = Inr m" "GetParams env ts (reparsed_pack m) = Inr vs"
      "HasException m = HasException ?h"
      using GetParams_PutParams [OF assms(1,2), of ?h] by blast
    with False that [of m] no_exc show ?thesis
      using has_head_PutParams [OF _ Serializer_head_has_head]
      by (metis Serializer_new_def PutParamsIfExists_def)
  qed
  have nul: "NUL \<notin> set uuid" "NUL \<notin> set inst" "NUL \<notin> set iface" "NUL \<notin> set meth"
    using assms(3) by auto
  note get = getters_of_head [OF head nul] getters_of_head [OF has_head_PutException [OF head] nul]
  have "GetException env (reparsed_pack m) = None"
    using exc by (simp add: GetException_def HasException_def map_of_reparsed_pack)
  moreover have "GetException env (reparsed_pack (PutException m e)) = Some (Runtime_error (exception_text e))"
    using assms(4) by (simp add: GetException_def HasException_def map_of_reparsed_pack PutException_def
        get_text_def c_str_id)
  ultimately show ?thesis
    using m params get Deserializer_GetBuffer by blast
qed

text \<open>A sample request, and a printer and parser that agree on one document.\<close>

definition sample_request :: "int pack" where
  "sample_request = projr (Serializer_new True ''call-1'' ''7'' ''IList'' ''Add''
     [Simple Uint16_t, Optional (Simple String_t)] [V_int 65535, V_null])"

definition sample_pack_env :: "int pack \<Rightarrow> int pack_env" where
  "sample_pack_env m = \<lparr>js = sample_json_env, print = (\<lambda>j. ''{}''), parse = (\<lambda>b. Inr (reparsed (Object m)))\<rparr>"

lemma text_ok_sample: "text_ok (sample_pack_env m) m"
  by (simp add: text_ok_def sample_pack_env_def)

lemma pack_roundtrip_example:
  "\<exists>d. Deserializer_new (sample_pack_env sample_request) (GetBuffer (sample_pack_env sample_request) sample_request) = Inr d
    \<and> GetMethod (sample_pack_env sample_request) d = Inr ''Add''
    \<and> GetParams (sample_pack_env sample_request) [Simple Uint16_t, Optional (Simple String_t)] d =
        Inr [V_int 65535, V_null]"
proof -
  let ?env = "sample_pack_env sample_request"
  have "\<exists>m. Serializer_new True ''call-1'' ''7'' ''IList'' ''Add''
      [Simple Uint16_t, Optional (Simple String_t)] [V_int 65535, V_null] = Inr m
    \<and> (text_ok ?env m \<longrightarrow> (\<exists>d. Deserializer_new ?env (GetBuffer ?env m) = Inr d
         \<and> GetMethod ?env d = Inr ''Add''
         \<and> GetParams ?env [Simple Uint16_t, Optional (Simple String_t)] d = Inr [V_int 65535, V_null]))"
    using pack_roundtrip [of ?env "[Simple Uint16_t, Optional (Simple String_t)]" "[V_int 65535, V_null]"
        "''call-1''" "''7''" "''IList''" "''Add''" Bad_cast True]
    by (simp add: sample_pack_env_def fresh_defaults_sample exception_text_def) blast
  then show ?thesis
    using text_ok_sample [of sample_request] by (auto simp: sample_request_def)
qed

end
