(* ===== verification/Remote_PS.thy ===== *)
theory Remote_PS
  imports Remote_Message Service_Locator Net_Chain
begin

text \<open>
  Remote calls (\<open>remote/ps_client.h\<close>, \<open>remote/detail/ps.h\<close>, \<open>remote/ps.h\<close>,
  \<open>remote/detail/registry.h\<close>): a \<open>PSClient\<close> is one end of a connection. It keeps the stubs of
  the objects it serves under instance identifiers, its object manager under \<open>"0"\<close>, and the
  responses that have arrived. A \<open>Proxy\<close> turns a method call into a request; the other end's
  \<open>ProcessData\<close> finds the stub, calls the method and posts the response.

  Arguments of the model (\<open>ps_env\<close>): the services themselves (creating, querying, casting and
  calling them changes the application state), the identifiers of the generator, the other
  end's \<open>CloneReference\<close>, and the printer and parser of the packs.
\<close>

section \<open>Interfaces and objects\<close>

text \<open>
  What \<open>MIF_REMOTE_PS_BEGIN\<close>, \<open>MIF_REMOTE_METHOD\<close> and \<open>MIF_REMOTE_PS_END\<close> declare of an
  interface: its identifier, its methods in order and, in the order of \<open>MakeInheritedIist\<close>,
  the identifiers and methods of the interfaces it inherits from.
\<close>

datatype param_type = P_value ty | P_service string

datatype result_type = R_void | R_value ty | R_service string

record ps_method =
  pm_name :: string
  pm_params :: "param_type list"
  pm_result :: result_type

record ps_type =
  InterfaceId :: string
  own_methods :: "ps_method list"
  inherited :: "(string \<times> ps_method list) list"

text \<open>
  An object a pointer can refer to: the object manager of this end, an application's service,
  or a proxy of an object at the other end. A call passes values and object pointers.
\<close>

datatype 'o inst = Manager | Service 'o | Proxy_of string

datatype ('d, 'o) arg = A_val (arg_val: "'d val") | A_service "'o inst option"

record 'o stub =
  stub_instance :: "'o inst"
  stub_id :: string
  stub_type :: ps_type

text \<open>
  The state of a \<open>PSClient\<close>; an entry of \<open>m_stubs\<close> may be a null pointer. The base class
  \<open>Client\<close> is in \<open>ps_client\<close>; \<open>close_asked\<close> records a call of the control's \<open>CloseMe\<close>.
\<close>

record ('d, 'o, 'a) peer =
  m_stubs :: "string \<rightharpoonup> 'o stub option"
  m_responses :: "string \<rightharpoonup> int \<times> 'd pack"
  m_timeout :: int
  ps_client :: client
  close_asked :: bool
  generated :: nat
  app_state :: 'a

record ('d, 'o, 'a) ps_env =
  pk :: "'d pack_env"
  registry :: "ps_type list"
  new_uuid :: "nat \<Rightarrow> string"
  create_service :: "ServiceId \<Rightarrow> 'a \<Rightarrow> 'a \<times> 'o inst option result"
  query_service :: "'o inst \<Rightarrow> string \<Rightarrow> string \<Rightarrow> 'a \<Rightarrow> 'a \<times> 'o inst option result"
  cast_service :: "'o inst \<Rightarrow> string \<Rightarrow> exn option"
  call_method :: "'o inst \<Rightarrow> string \<Rightarrow> string \<Rightarrow> ('d, 'o) arg list \<Rightarrow> 'a \<Rightarrow> 'a \<times> ('d, 'o) arg result"
  remote_clone :: "string \<Rightarrow> string \<Rightarrow> ('d, 'o, 'a) peer \<Rightarrow> ('d, 'o, 'a) peer \<times> string result"

text \<open>\<open>Visitor::Accept\<close>: the registered types in order until one gives a result.\<close>

fun Visitor_Accept :: "(ps_type \<Rightarrow> 'r option) \<Rightarrow> ps_type list \<Rightarrow> 'r option" where
  "Visitor_Accept visit [] = None"
| "Visitor_Accept visit (T # Ts) =
     (case visit T of Some r \<Rightarrow> Some r | None \<Rightarrow> Visitor_Accept visit Ts)"

definition ContainInterfaceId :: "ps_type \<Rightarrow> string \<Rightarrow> bool" where
  "ContainInterfaceId T i = (InterfaceId T = i \<or> i \<in> fst ` set (inherited T))"

text \<open>
  The chain of \<open>InvokeMethod\<close> overrides: the class of the last declared method is the most
  derived one, the inherited interfaces come behind it; methods are told apart by name only.
\<close>

definition method_chain :: "ps_type \<Rightarrow> (string \<times> ps_method) list" where
  "method_chain T = map (\<lambda>m. (InterfaceId T, m)) (rev (own_methods T)) @
     concat (map (\<lambda>(i, ms). map (\<lambda>m. (i, m)) (rev ms)) (inherited T))"

definition InvokeMethod_find :: "ps_type \<Rightarrow> string \<Rightarrow> (string \<times> ps_method) option" where
  "InvokeMethod_find T name = find (\<lambda>(i, m). pm_name m = name) (method_chain T)"

section \<open>ObjectManager\<close>

definition AppendStub :: "('d, 'o, 'a) ps_env \<Rightarrow> 'o inst option \<Rightarrow> string \<Rightarrow> ('d, 'o, 'a) peer \<Rightarrow>
    ('d, 'o, 'a) peer \<times> string" where
  "AppendStub env inst interfaceId p =
     (case inst of
        None \<Rightarrow> (p, [])
      | Some i \<Rightarrow>
          (let instanceId = new_uuid env (generated p); p = p\<lparr>generated := Suc (generated p)\<rparr>
           in if m_stubs p instanceId \<noteq> None then (p, instanceId)
              else (let stub = Visitor_Accept (\<lambda>T. if InterfaceId T = interfaceId
                        then Some \<lparr>stub_instance = i, stub_id = instanceId, stub_type = T\<rparr> else None) (registry env)
                    in (p\<lparr>m_stubs := (m_stubs p)(instanceId \<mapsto> stub)\<rparr>, instanceId))))"

definition CreateObject :: "('d, 'o, 'a) ps_env \<Rightarrow> ServiceId \<Rightarrow> string \<Rightarrow> ('d, 'o, 'a) peer \<Rightarrow>
    ('d, 'o, 'a) peer \<times> string result" where
  "CreateObject env serviceId interfaceId p =
     (if interfaceId = [] then
        (p, Inl (Invalid_argument (''[Mif::Remote::PSClient::CreateObject] Parameter '' @ dquote @ ''interfaceId'' @
          dquote @ '' must not be empty.'')))
      else (case create_service env serviceId (app_state p) of
              (a, Inl e) \<Rightarrow> (p\<lparr>app_state := a\<rparr>, Inl e)
            | (a, Inr inst) \<Rightarrow>
                map_prod id Inr (AppendStub env inst interfaceId (p\<lparr>app_state := a\<rparr>))))"

definition not_found :: "string \<Rightarrow> string \<Rightarrow> exn" where
  "not_found fn instanceId =
     Invalid_argument (''[Mif::Remote::PSClient::'' @ fn @ ''] '' @
       ''Instance with id '' @ dquote @ instanceId @ dquote @ '' not found.'')"

definition DestroyObject :: "string \<Rightarrow> ('d, 'o, 'a) peer \<Rightarrow> ('d, 'o, 'a) peer \<times> unit result" where
  "DestroyObject instanceId p =
     (if instanceId = [] then
        (p, Inl (Invalid_argument (''[Mif::Remote::PSClient::DestrowObject] Parameter '' @ dquote @ ''instanceId'' @
          dquote @ '' must not be empty.'')))
      else (case m_stubs p instanceId of
              None \<Rightarrow> (p, Inl (not_found ''DestroyObject'' instanceId))
            | Some stub \<Rightarrow> (p\<lparr>m_stubs := (m_stubs p)(instanceId := None)\<rparr>, Inr ())))"

text \<open>
  \<open>Stub::Query\<close>: the first registered type with the interface identifier whose query gives an
  object; identifiers are unique in the registry, so it is at most one. A query may throw.
\<close>

definition Stub_Query :: "('d, 'o, 'a) ps_env \<Rightarrow> 'o stub \<Rightarrow> string \<Rightarrow> string \<Rightarrow> 'a \<Rightarrow> 'a \<times> 'o inst option result" where
  "Stub_Query env st interfaceId serviceId a =
     (case Visitor_Accept (\<lambda>T. if interfaceId = InterfaceId T then Some T else None) (registry env) of
        None \<Rightarrow> (a, Inr None)
      | Some T \<Rightarrow> query_service env (stub_instance st) interfaceId serviceId a)"

definition QueryInterface_remote :: "('d, 'o, 'a) ps_env \<Rightarrow> string \<Rightarrow> string \<Rightarrow> string \<Rightarrow> ('d, 'o, 'a) peer \<Rightarrow>
    ('d, 'o, 'a) peer \<times> string result" where
  "QueryInterface_remote env instanceId interfaceId serviceId p =
     (case m_stubs p instanceId of
        None \<Rightarrow> (p, Inl (not_found ''QueryInterface'' instanceId))
      | Some None \<Rightarrow> (p, Inl Undefined_behaviour)
      | Some (Some st) \<Rightarrow>
          (case Stub_Query env st interfaceId serviceId (app_state p) of
             (a, Inl e) \<Rightarrow> (p\<lparr>app_state := a\<rparr>, Inl e)
           | (a, Inr None) \<Rightarrow> (p\<lparr>app_state := a\<rparr>, Inr [])
           | (a, Inr (Some i)) \<Rightarrow>
               map_prod id Inr (AppendStub env (Some i) interfaceId (p\<lparr>app_state := a\<rparr>))))"

definition CloneReference :: "('d, 'o, 'a) ps_env \<Rightarrow> string \<Rightarrow> string \<Rightarrow> ('d, 'o, 'a) peer \<Rightarrow>
    ('d, 'o, 'a) peer \<times> string result" where
  "CloneReference env instanceId interfaceId p =
     (case m_stubs p instanceId of
        None \<Rightarrow> (p, Inl (not_found ''CloneReference'' instanceId))
      | Some None \<Rightarrow> (p, Inl Undefined_behaviour)
      | Some (Some st) \<Rightarrow>
          map_prod id Inr (AppendStub env (Some (stub_instance st)) interfaceId p))"

text \<open>The interface of the object manager, and a call of one of its methods.\<close>

definition IObjectManager_PS :: ps_type where
  "IObjectManager_PS = \<lparr>InterfaceId = ''IObjectManager'', own_methods = [
     \<lparr>pm_name = ''CreateObject'', pm_params = [P_value (Simple Uint32_t), P_value (Simple String_t)],
       pm_result = R_value (Simple String_t)\<rparr>,
     \<lparr>pm_name = ''DestroyObject'', pm_params = [P_value (Simple String_t)], pm_result = R_void\<rparr>,
     \<lparr>pm_name = ''QueryInterface'', pm_params = [P_value (Simple String_t), P_value (Simple String_t), P_value (Simple String_t)],
       pm_result = R_value (Simple String_t)\<rparr>,
     \<lparr>pm_name = ''CloneReference'', pm_params = [P_value (Simple String_t), P_value (Simple String_t)],
       pm_result = R_value (Simple String_t)\<rparr>], inherited = []\<rparr>"

definition ObjectManager_call :: "('d, 'o, 'a) ps_env \<Rightarrow> string \<Rightarrow> ('d, 'o) arg list \<Rightarrow> ('d, 'o, 'a) peer \<Rightarrow>
    ('d, 'o, 'a) peer \<times> ('d, 'o) arg result" where
  "ObjectManager_call env name args p =
     (let s = (\<lambda>i. the_string (arg_val (args ! i))); ret = map_prod id (map_sum id (\<lambda>r. A_val (V_string r)))
      in if name = ''CreateObject'' then ret (CreateObject env (word_of_int (the_int (arg_val (args ! 0)))) (s 1) p)
         else if name = ''DestroyObject'' then map_prod id (map_sum id (\<lambda>_. A_service None)) (DestroyObject (s 0) p)
         else if name = ''QueryInterface'' then ret (QueryInterface_remote env (s 0) (s 1) (s 2) p)
         else ret (CloneReference env (s 0) (s 1) p))"

section \<open>Stub\<close>

text \<open>\<open>InterfaceTypeToString\<close>: an object pointer travels as an instance identifier.\<close>

fun wire_type :: "param_type \<Rightarrow> ty" where
  "wire_type (P_value t) = t"
| "wire_type (P_service i) = Simple String_t"

fun Stub_PrepareParam :: "('d, 'o, 'a) ps_env \<Rightarrow> param_type \<Rightarrow> 'd val \<Rightarrow> ('d, 'o, 'a) peer \<Rightarrow>
    ('d, 'o, 'a) peer \<times> ('d, 'o) arg result" where
  "Stub_PrepareParam env (P_value t) v p = (p, Inr (A_val v))"
| "Stub_PrepareParam env (P_service i) v p =
     (if the_string v = [] then (p, Inr (A_service None))
      else map_prod id (map_sum id (\<lambda>c. A_service (Some (Proxy_of c)))) (remote_clone env (the_string v) i p))"

fun Stub_PrepareParams :: "('d, 'o, 'a) ps_env \<Rightarrow> param_type list \<Rightarrow> 'd val list \<Rightarrow> ('d, 'o, 'a) peer \<Rightarrow>
    ('d, 'o, 'a) peer \<times> ('d, 'o) arg list result" where
  "Stub_PrepareParams env (t # ts) (v # vs) p =
     (case Stub_PrepareParam env t v p of
        (p, Inl e) \<Rightarrow> (p, Inl e)
      | (p, Inr x) \<Rightarrow> map_prod id (map_sum id (\<lambda>xs. x # xs)) (Stub_PrepareParams env ts vs p))"
| "Stub_PrepareParams env _ _ p = (p, Inr [])"

text \<open>\<open>FunctionWrap::Call\<close>: packing what the method returned.\<close>

fun PackResult :: "('d, 'o, 'a) ps_env \<Rightarrow> result_type \<Rightarrow> ('d, 'o) arg \<Rightarrow> 'd pack \<Rightarrow> ('d, 'o, 'a) peer \<Rightarrow>
    ('d, 'o, 'a) peer \<times> 'd pack result" where
  "PackResult env R_void r serializer p = (p, Inr serializer)"
| "PackResult env (R_value t) r serializer p = (p, PutParams serializer [t] [arg_val r])"
| "PackResult env (R_service i) r serializer p =
     (case AppendStub env (case r of A_service s \<Rightarrow> s | A_val v \<Rightarrow> None) i p of
        (p, instanceId) \<Rightarrow> (p, PutParams serializer [Simple String_t] [V_string instanceId]))"

definition call_instance :: "('d, 'o, 'a) ps_env \<Rightarrow> 'o inst \<Rightarrow> string \<Rightarrow> string \<Rightarrow> ('d, 'o) arg list \<Rightarrow>
    ('d, 'o, 'a) peer \<Rightarrow> ('d, 'o, 'a) peer \<times> ('d, 'o) arg result" where
  "call_instance env i iface name args p =
     (case i of
        Manager \<Rightarrow> ObjectManager_call env name args p
      | _ \<Rightarrow> map_prod (\<lambda>a. p\<lparr>app_state := a\<rparr>) id (call_method env i iface name args (app_state p)))"

definition InvokeRealMethod :: "('d, 'o, 'a) ps_env \<Rightarrow> 'o stub \<Rightarrow> string \<Rightarrow> ps_method \<Rightarrow> 'd pack \<Rightarrow> 'd pack \<Rightarrow>
    ('d, 'o, 'a) peer \<Rightarrow> ('d, 'o, 'a) peer \<times> 'd pack result" where
  "InvokeRealMethod env st iface m deserializer serializer p =
     (case (if stub_instance st = Manager then None else cast_service env (stub_instance st) iface) of
        Some e \<Rightarrow> (p, Inl e)
      | None \<Rightarrow>
          (case GetParams (pk env) (map wire_type (pm_params m)) deserializer of
             Inl e \<Rightarrow> (p, Inl e)
           | Inr tmpParams \<Rightarrow>
               (case Stub_PrepareParams env (pm_params m) tmpParams p of
                  (p, Inl e) \<Rightarrow> (p, Inl e)
                | (p, Inr params) \<Rightarrow>
                    (case call_instance env (stub_instance st) iface (pm_name m) params p of
                       (p, Inl e) \<Rightarrow> (p, Inl e)
                     | (p, Inr r) \<Rightarrow> PackResult env (pm_result m) r serializer p))))"

definition InvokeMethod :: "('d, 'o, 'a) ps_env \<Rightarrow> 'o stub \<Rightarrow> string \<Rightarrow> 'd pack \<Rightarrow> 'd pack \<Rightarrow>
    ('d, 'o, 'a) peer \<Rightarrow> ('d, 'o, 'a) peer \<times> 'd pack result" where
  "InvokeMethod env st name deserializer serializer p =
     (case InvokeMethod_find (stub_type st) name of
        None \<Rightarrow> (p, Inl (Proxy_stub_exception (''[Mif::Remote::Stub::InvokeMethod] Method '' @ dquote @ name @
          dquote @ '' not found.'')))
      | Some (iface, m) \<Rightarrow> InvokeRealMethod env st iface m deserializer serializer p)"

text \<open>\<open>Stub::Call\<close>: whatever is thrown becomes the exception of the response.\<close>

definition Stub_Call_body :: "('d, 'o, 'a) ps_env \<Rightarrow> 'o stub \<Rightarrow> 'd pack \<Rightarrow> 'd pack \<Rightarrow>
    ('d, 'o, 'a) peer \<Rightarrow> ('d, 'o, 'a) peer \<times> 'd pack result" where
  "Stub_Call_body env st request response p =
     (case GetInterface (pk env) request of
        Inl e \<Rightarrow> (p, Inl e)
      | Inr interfaceId \<Rightarrow>
          if \<not> ContainInterfaceId (stub_type st) interfaceId then
            (p, Inl (Proxy_stub_exception (''[Mif::Remote::Stub::Call] Interface with id '' @ dquote @ interfaceId @
              dquote @ '' not supported for this object.'')))
          else (case GetMethod (pk env) request of
                  Inl e \<Rightarrow> (p, Inl e)
                | Inr name \<Rightarrow> InvokeMethod env st name request response p))"

definition Stub_Call :: "('d, 'o, 'a) ps_env \<Rightarrow> 'o stub \<Rightarrow> 'd pack \<Rightarrow> 'd pack \<Rightarrow>
    ('d, 'o, 'a) peer \<Rightarrow> ('d, 'o, 'a) peer \<times> 'd pack result" where
  "Stub_Call env st request response p =
     (case Stub_Call_body env st request response p of
        (p, Inr r) \<Rightarrow> (p, Inr r)
      | (p, Inl e) \<Rightarrow> (p, if e = Undefined_behaviour then Inl e else Inr (PutException response e)))"

section \<open>PSClient\<close>

definition psInstanceId :: string where
  "psInstanceId = ''0''"

definition PSClient_new :: "client \<Rightarrow> int \<Rightarrow> 'a \<Rightarrow> ('d, 'o, 'a) peer" where
  "PSClient_new c timeout a =
     \<lparr>m_stubs = [psInstanceId \<mapsto> Some \<lparr>stub_instance = Manager, stub_id = psInstanceId, stub_type = IObjectManager_PS\<rparr>],
      m_responses = Map.empty, m_timeout = timeout, ps_client = c, close_asked = False, generated = 0, app_state = a\<rparr>"

text \<open>\<open>CleanOldResponses\<close> erases while it iterates; the time is that of its one clock reading.\<close>

definition CleanOldResponses :: "int \<Rightarrow> ('d, 'o, 'a) peer \<Rightarrow> ('d, 'o, 'a) peer" where
  "CleanOldResponses now p = p\<lparr>m_responses := (\<lambda>uuid. case m_responses p uuid of
      None \<Rightarrow> None
    | Some (t, d) \<Rightarrow> if t < now \<and> now - t > m_timeout p then None else Some (t, d))\<rparr>"

text \<open>
  \<open>Post\<close> and, when it fails, \<open>CloseMe\<close> and the two exceptions of \<open>Send\<close> and \<open>ProcessData\<close>.
\<close>

definition post_or_close :: "string \<Rightarrow> string \<Rightarrow> buffer \<Rightarrow> ('d, 'o, 'a) peer \<Rightarrow>
    ('d, 'o, 'a) peer \<times> buffer result" where
  "post_or_close m1 m2 b p =
     (if Client_Post (ps_client p) then (p, Inr b)
      else if Client_CloseMe (ps_client p) then (p\<lparr>close_asked := True\<rparr>, Inl (Proxy_stub_exception m2))
      else (p, Inl (Proxy_stub_exception m1)))"

definition Send_post :: "('d, 'o, 'a) ps_env \<Rightarrow> 'd pack \<Rightarrow> ('d, 'o, 'a) peer \<Rightarrow>
    ('d, 'o, 'a) peer \<times> buffer result" where
  "Send_post env serializer p =
     post_or_close
       ''[Mif::Remote::PSClient::Send] Failed to post request. No channel for post data and failed to close self.''
       ''[Mif::Remote::PSClient::Send] Failed to post request. No channel for post data.''
       (GetBuffer (pk env) serializer) p"

text \<open>
  The loop of \<open>Send\<close>. An element of the list is one iteration: the time of the loop's check,
  what the other threads do until \<open>wait_for\<close> returns, and the time of the clean-up. The result
  is missing while the loop still waits.
\<close>

type_synonym ('d, 'o, 'a) wake_up = "int \<times> (('d, 'o, 'a) peer \<Rightarrow> ('d, 'o, 'a) peer) \<times> int"

fun Send_loop :: "int \<Rightarrow> string \<Rightarrow> ('d, 'o, 'a) wake_up list \<Rightarrow> ('d, 'o, 'a) peer \<Rightarrow>
    ('d, 'o, 'a) peer \<times> 'd pack result option" where
  "Send_loop t requestId [] p = (p, None)"
| "Send_loop t requestId ((check, others, now) # ws) p =
     (if check - t < m_timeout p then
        (let p = others p
         in if m_makredAsClosed (ps_client p) then
              (p, Some (Inl (Proxy_stub_exception (''[Mif::Remote::PSClient::Send] Failed to send data. '' @
                ''Connection was closed by remote server.''))))
            else (case m_responses p requestId of
                    Some (stamp, deserializer) \<Rightarrow>
                      (CleanOldResponses now (p\<lparr>m_responses := (m_responses p)(requestId := None)\<rparr>),
                        Some (Inr deserializer))
                  | None \<Rightarrow> Send_loop t requestId ws (CleanOldResponses now p)))
      else (p, Some (Inl (Proxy_stub_exception (''[Mif::Remote::PSClient::Send] Failed to send data. '' @
             ''Expired response timeout from remote server.'')))))"

text \<open>\<open>ProcessData\<close>: the pack is checked, then a response is kept and a request is served.\<close>

definition ps_error :: "string \<Rightarrow> exn" where
  "ps_error m = Proxy_stub_exception (''[Mif::Remote::PSClient::ProcessData] '' @ m)"

definition read_head :: "('d, 'o, 'a) ps_env \<Rightarrow> buffer \<Rightarrow> ('d pack \<times> string \<times> string \<times> string \<times> string \<times> bool) result" where
  "read_head env b =
     (if b = [] then Inl (ps_error ''Empty data.'')
      else (case Deserializer_new (pk env) b of Inl e \<Rightarrow> Inl e | Inr d \<Rightarrow>
       (case GetUuid (pk env) d of Inl e \<Rightarrow> Inl e | Inr uuid \<Rightarrow>
          if uuid = [] then Inl (ps_error ''Empty package id (no uuid).'')
          else (case GetInstance (pk env) d of Inl e \<Rightarrow> Inl e | Inr instanceId \<Rightarrow>
           if instanceId = [] then Inl (ps_error ''Empty instance id.'')
           else (case GetInterface (pk env) d of Inl e \<Rightarrow> Inl e | Inr interfaceId \<Rightarrow>
            if interfaceId = [] then Inl (ps_error (''Empty interface id for instanse '' @ dquote @ instanceId @ dquote))
            else (case GetMethod (pk env) d of Inl e \<Rightarrow> Inl e | Inr name \<Rightarrow>
             if name = [] then Inl (ps_error (''Empty method name of interface '' @ dquote @ interfaceId @ dquote @
               '' for instance '' @ dquote @ instanceId @ dquote))
             else map_sum id (\<lambda>r. (d, uuid, instanceId, interfaceId, name, r)) (IsResponse (pk env) d)))))))"

definition ProcessRequest :: "('d, 'o, 'a) ps_env \<Rightarrow> 'd pack \<Rightarrow> string \<Rightarrow> string \<Rightarrow> string \<Rightarrow> string \<Rightarrow>
    ('d, 'o, 'a) peer \<Rightarrow> ('d, 'o, 'a) peer \<times> buffer option result" where
  "ProcessRequest env d uuid instanceId interfaceId name p =
     (if m_responses p uuid \<noteq> None then
        (p, Inl (ps_error (''Response id '' @ dquote @ uuid @ dquote @ '' not unique.'')))
      else (case (case m_stubs p instanceId of Some s \<Rightarrow> s | None \<Rightarrow> None) of
              None \<Rightarrow> (p, Inl (ps_error (''Instance '' @ dquote @ instanceId @ dquote @ '' not found.'')))
            | Some st \<Rightarrow>
                (case Stub_Call env st d (Serializer_head False uuid instanceId interfaceId name) p of
                   (p, Inl e) \<Rightarrow> (p, Inl e)
                 | (p, Inr response) \<Rightarrow> map_prod id (map_sum id Some) (post_or_close
                     (''[Mif::Remote::PSClient::ProcessData] Failed to post response from instance '' @ dquote @ instanceId @
                       dquote @ ''. No channel for post data and failed to close self.'')
                     (''[Mif::Remote::PSClient::ProcessData] Failed to post response from instanse '' @ dquote @ instanceId @
                       dquote @ ''. No channel for post data.'')
                     (GetBuffer (pk env) response) p))))"

definition rethrow_ps :: "exn \<Rightarrow> exn" where
  "rethrow_ps e =
     (case e of
        Proxy_stub_exception m \<Rightarrow> e
      | Undefined_behaviour \<Rightarrow> e
      | _ \<Rightarrow> if is_std_exception e then ps_error (''Failed to process data. Error: '' @ what e)
             else ps_error ''Failed to process data. Error: unknown.'')"

definition PSClient_ProcessData :: "('d, 'o, 'a) ps_env \<Rightarrow> int \<Rightarrow> buffer \<Rightarrow> ('d, 'o, 'a) peer \<Rightarrow>
    ('d, 'o, 'a) peer \<times> buffer option result" where
  "PSClient_ProcessData env now b p =
     map_prod id (map_sum rethrow_ps id)
       (case read_head env b of
          Inl e \<Rightarrow> (p, Inl e)
        | Inr (d, uuid, instanceId, interfaceId, name, is_response) \<Rightarrow>
            if is_response then
              (let p = CleanOldResponses now p
               in (p\<lparr>m_responses := map_emplace (m_responses p) uuid (now, d)\<rparr>, Inr None))
            else ProcessRequest env d uuid instanceId interfaceId name p)"

section \<open>Proxy\<close>

text \<open>
  A proxy has an instance identifier and, unless it was made for a parameter, the object
  manager of the other end. The functions it is given (\<open>Sender\<close>, \<open>StubCreator\<close>, the generator
  and the manager's methods) act on a world \<open>'w\<close>.
\<close>

record proxy =
  px_manager :: bool
  px_instance :: string

record ('d, 'o, 'w) links =
  l_generate :: "'w \<Rightarrow> 'w \<times> string"
  l_sender :: "string \<Rightarrow> 'd pack \<Rightarrow> 'w \<Rightarrow> 'w \<times> 'd pack result"
  l_stub_creator :: "'o inst option \<Rightarrow> string \<Rightarrow> 'w \<Rightarrow> 'w \<times> string"
  l_create :: "ServiceId \<Rightarrow> string \<Rightarrow> 'w \<Rightarrow> 'w \<times> string result"
  l_destroy :: "string \<Rightarrow> 'w \<Rightarrow> 'w \<times> unit result"
  l_query :: "string \<Rightarrow> string \<Rightarrow> string \<Rightarrow> 'w \<Rightarrow> 'w \<times> string result"

definition Proxy_create :: "('d, 'o, 'w) links \<Rightarrow> ServiceId \<Rightarrow> string \<Rightarrow> 'w \<Rightarrow> 'w \<times> proxy result" where
  "Proxy_create l serviceId interfaceId w =
     map_prod id (map_sum id (\<lambda>i. \<lparr>px_manager = True, px_instance = i\<rparr>)) (l_create l serviceId interfaceId w)"

text \<open>\<open>~Proxy\<close>: a \<open>std::exception\<close> of the manager is logged; anything else would terminate.\<close>

definition Proxy_destroy :: "('d, 'o, 'w) links \<Rightarrow> proxy \<Rightarrow> 'w \<Rightarrow> 'w \<times> unit result" where
  "Proxy_destroy l px w =
     (if px_manager px then
        (case l_destroy l (px_instance px) w of
           (w, Inr u) \<Rightarrow> (w, Inr u)
         | (w, Inl e) \<Rightarrow> (w, if is_std_exception e then Inr () else Inl Undefined_behaviour))
      else (w, Inr ()))"

text \<open>
  \<open>PrepareParam\<close>: an object pointer is registered with this end's object manager; the cleaner's
  \<open>AppendId\<close> ignores the identifier, so its destructor has nothing to destroy.
\<close>

fun Proxy_PrepareParam :: "('d, 'o, 'w) links \<Rightarrow> param_type \<Rightarrow> ('d, 'o) arg \<Rightarrow> 'w \<Rightarrow> 'w \<times> 'd val" where
  "Proxy_PrepareParam l (P_value t) x w = (w, arg_val x)"
| "Proxy_PrepareParam l (P_service i) x w =
     (case x of
        A_service (Some s) \<Rightarrow> map_prod id V_string (l_stub_creator l (Some s) i w)
      | _ \<Rightarrow> (w, V_string []))"

fun Proxy_PrepareParams :: "('d, 'o, 'w) links \<Rightarrow> param_type list \<Rightarrow> ('d, 'o) arg list \<Rightarrow> 'w \<Rightarrow> 'w \<times> 'd val list" where
  "Proxy_PrepareParams l (t # ts) (x # xs) w =
     (case Proxy_PrepareParam l t x w of
        (w, v) \<Rightarrow> map_prod id (\<lambda>vs. v # vs) (Proxy_PrepareParams l ts xs w))"
| "Proxy_PrepareParams l _ _ w = (w, [])"

fun ExtractResult :: "'d pack_env \<Rightarrow> result_type \<Rightarrow> 'd pack \<Rightarrow> ('d, 'o) arg result" where
  "ExtractResult env R_void d = Inr (A_service None)"
| "ExtractResult env (R_value t) d = map_sum id (\<lambda>vs. A_val (hd vs)) (GetParams env [t] d)"
| "ExtractResult env (R_service i) d =
     (case GetParams env [Simple String_t] d of
        Inl e \<Rightarrow> Inl e
      | Inr vs \<Rightarrow> Inr (A_service
          (if the_string (hd vs) = [] then None else Some (Proxy_of (the_string (hd vs))))))"

definition call_error :: "string \<Rightarrow> exn" where
  "call_error m = Proxy_stub_exception (''[Mif::Remote::Proxy::RemoteCall] '' @ m)"

text \<open>The checks of the response, in order, and the result.\<close>

definition check_response :: "'d pack_env \<Rightarrow> string \<Rightarrow> string \<Rightarrow> ps_method \<Rightarrow> 'd pack \<Rightarrow> ('d, 'o) arg result" where
  "check_response env inst iface m d =
     (case IsResponse env d of Inl e \<Rightarrow> Inl e | Inr is_response \<Rightarrow>
      if \<not> is_response then
        (case GetType env d of Inl e \<Rightarrow> Inl e | Inr t \<Rightarrow> Inl (call_error (''Bad response type '' @ dquote @ t @ dquote)))
      else (case GetInstance env d of Inl e \<Rightarrow> Inl e | Inr i \<Rightarrow>
        if i \<noteq> inst then Inl (call_error (''Bad instance id '' @ dquote @ i @ dquote @ '' Needed instance id '' @
          dquote @ inst @ dquote))
        else (case GetInterface env d of Inl e \<Rightarrow> Inl e | Inr f \<Rightarrow>
          if f \<noteq> iface then Inl (call_error (''Bad interface for instance whith id '' @ dquote @ f @ dquote @
            '' Needed '' @ dquote @ iface @ dquote))
          else (case GetMethod env d of Inl e \<Rightarrow> Inl e | Inr n \<Rightarrow>
            if n \<noteq> pm_name m then Inl (call_error (''Method '' @ dquote @ n @ dquote @ '' of interface '' @ dquote @ iface @
              dquote @ '' for instance with id '' @ dquote @ inst @ dquote @ '' not found. Needed method '' @ dquote @
              pm_name m @ dquote))
            else (case GetException env d of
                    Some e \<Rightarrow> Inl e
                  | None \<Rightarrow> ExtractResult env (pm_result m) d)))))"

definition wrap_call_error :: "string \<Rightarrow> string \<Rightarrow> string \<Rightarrow> exn \<Rightarrow> exn" where
  "wrap_call_error iface name inst e =
     (if is_std_exception e then
        call_error (''Failed to call remote method '' @ dquote @ iface @ ''::'' @ name @ dquote @
          '' for instance with id '' @ dquote @ inst @ dquote @ ''. Error: '' @ what e)
      else e)"

definition RemoteCall :: "'d pack_env \<Rightarrow> ('d, 'o, 'w) links \<Rightarrow> proxy \<Rightarrow> string \<Rightarrow> ps_method \<Rightarrow> ('d, 'o) arg list \<Rightarrow>
    'w \<Rightarrow> 'w \<times> ('d, 'o) arg result" where
  "RemoteCall env l px iface m args w =
     map_prod id (map_sum (wrap_call_error iface (pm_name m) (px_instance px)) id)
       (case l_generate l w of (w, requestId) \<Rightarrow>
         (case Proxy_PrepareParams l (pm_params m) args w of (w, vs) \<Rightarrow>
           (case Serializer_new True requestId (px_instance px) iface (pm_name m) (map wire_type (pm_params m)) vs of
              Inl e \<Rightarrow> (w, Inl e)
            | Inr serializer \<Rightarrow>
                (case l_sender l requestId serializer w of
                   (w, Inl e) \<Rightarrow> (w, Inl e)
                 | (w, Inr d) \<Rightarrow> (w, check_response env (px_instance px) iface m d)))))"

text \<open>
  \<open>QueryRemoteInterface\<close>: asking the other end for another interface of the object. A proxy made
  for a parameter has no manager, and the call goes through the null pointer.
\<close>

definition QueryRemoteInterface :: "('d, 'o, 'w) links \<Rightarrow> ps_type list \<Rightarrow> proxy \<Rightarrow> string \<Rightarrow> string \<Rightarrow> 'w \<Rightarrow>
    'w \<times> proxy option result" where
  "QueryRemoteInterface l reg px interfaceId serviceId w =
     (case Visitor_Accept (\<lambda>T. if InterfaceId T = interfaceId then Some T else None) reg of
        None \<Rightarrow> (w, Inr None)
      | Some T \<Rightarrow>
          if \<not> px_manager px then (w, Inl Undefined_behaviour)
          else map_prod id (map_sum id (\<lambda>i. if i = [] then None else Some \<lparr>px_manager = True, px_instance = i\<rparr>))
            (l_query l (px_instance px) (InterfaceId T) serviceId w))"

definition CreateRemoteService :: "('d, 'o, 'w) links \<Rightarrow> ServiceId \<Rightarrow> ps_type \<Rightarrow> 'w \<Rightarrow> 'w \<times> proxy result" where
  "CreateRemoteService l serviceId T w =
     (case Proxy_create l serviceId (InterfaceId T) w of
        (w, Inr px) \<Rightarrow> (w, Inr px)
      | (w, Inl e) \<Rightarrow> (w, Inl (if is_std_exception e then
          Proxy_stub_exception (''[Mif::Remote::PSClient::CreateRemoteService] Failed to create service with id '' @
            dquote @ id_string serviceId @ dquote @ ''. Error: '' @ what e) else e)))"

section \<open>Two ends of a connection\<close>

text \<open>
  A connection that delivers at once: the request posted by one end is the other's data, the
  response comes back while \<open>Send\<close> waits, and without a response the wait expires. A world is the
  two ends; each has its own services, both use the same packs.
\<close>

definition deliver :: "('d, 'o, 'a) ps_env \<Rightarrow> int \<Rightarrow> buffer \<Rightarrow> ('d, 'o, 'a) peer \<Rightarrow> ('d, 'o, 'a) peer \<times> buffer option" where
  "deliver env now b p =
     (case Client_OnData (ps_client p) b of
        Process b \<Rightarrow> map_prod id (case_sum (\<lambda>_. None) id) (PSClient_ProcessData env now b p)
      | _ \<Rightarrow> (p, None))"

definition direct_sender :: "('d, 'o, 'a) ps_env \<Rightarrow> ('d, 'q, 'b) ps_env \<Rightarrow> int \<Rightarrow> string \<Rightarrow> 'd pack \<Rightarrow>
    ('d, 'o, 'a) peer \<times> ('d, 'q, 'b) peer \<Rightarrow> (('d, 'o, 'a) peer \<times> ('d, 'q, 'b) peer) \<times> 'd pack result" where
  "direct_sender envA envB now requestId serializer w =
     (case Send_post envA serializer (fst w) of
        (A, Inl e) \<Rightarrow> ((A, snd w), Inl e)
      | (A, Inr b) \<Rightarrow>
          (case deliver envB now b (snd w) of (B, reply) \<Rightarrow>
            (case Send_loop now requestId
                [(now, \<lambda>A. case reply of Some b \<Rightarrow> fst (deliver envA now b A) | None \<Rightarrow> A, now),
                 (now + m_timeout A, \<lambda>A. A, now + m_timeout A)] A of
               (A, r) \<Rightarrow> ((A, B), the r))))"

definition direct_links :: "('d, 'o, 'a) ps_env \<Rightarrow> ('d, 'q, 'b) ps_env \<Rightarrow> int \<Rightarrow>
    ('d, 'o, ('d, 'o, 'a) peer \<times> ('d, 'q, 'b) peer) links" where
  "direct_links envA envB now =
     \<lparr>l_generate = (\<lambda>(A, B). ((A\<lparr>generated := Suc (generated A)\<rparr>, B), new_uuid envA (generated A))),
      l_sender = direct_sender envA envB now,
      l_stub_creator = (\<lambda>i iface (A, B). (case AppendStub envA i iface A of (A, s) \<Rightarrow> ((A, B), s))),
      l_create = (\<lambda>s iface (A, B). (case CreateObject envB s iface B of (B, r) \<Rightarrow> ((A, B), r))),
      l_destroy = (\<lambda>i (A, B). (case DestroyObject i B of (B, r) \<Rightarrow> ((A, B), r))),
      l_query = (\<lambda>i iface s (A, B). (case QueryInterface_remote envB i iface s B of (B, r) \<Rightarrow> ((A, B), r)))\<rparr>"

text \<open>
  The situation of a call: both ends are open and use the same packs, the callee has a stub of
  an application's service that has the method, the identifiers are non-empty texts without a
  zero character and the call's identifier is not in use.
\<close>

definition name_ok :: "string \<Rightarrow> bool" where
  "name_ok s = (s \<noteq> [] \<and> NUL \<notin> set s)"

definition can_call :: "('d, 'o, 'a) ps_env \<Rightarrow> ('d, 'q, 'b) ps_env \<Rightarrow> ('d, 'o, 'a) peer \<Rightarrow> ('d, 'q, 'b) peer \<Rightarrow>
    string \<Rightarrow> string \<Rightarrow> 'q \<Rightarrow> string \<Rightarrow> ps_method \<Rightarrow> ty list \<Rightarrow> bool" where
  "can_call envA envB A B inst iface s decl m ts \<longleftrightarrow>
     pk envA = pk envB \<and> fresh_defaults (js (pk envA)) \<and>
     Client_Post (ps_client A) \<and> Client_Post (ps_client B) \<and> 0 < m_timeout A \<and>
     (case m_stubs B inst of
        Some (Some st) \<Rightarrow> stub_instance st = Service s \<and> ContainInterfaceId (stub_type st) iface \<and>
          InvokeMethod_find (stub_type st) (pm_name m) = Some (decl, m)
      | _ \<Rightarrow> False) \<and>
     cast_service envB (Service s) decl = None \<and> pm_params m = map P_value ts \<and>
     name_ok (new_uuid envA (generated A)) \<and> name_ok inst \<and> name_ok iface \<and> name_ok (pm_name m) \<and>
     m_responses A (new_uuid envA (generated A)) = None \<and> m_responses B (new_uuid envA (generated A)) = None"

section \<open>Facts\<close>

lemma read_head_of_pack:
  assumes "has_head q u i f n m" and "text_ok (pk env) m" and "name_ok u" "name_ok i" "name_ok f" "name_ok n"
  shows "read_head env (GetBuffer (pk env) m) = Inr (reparsed_pack m, u, i, f, n, \<not> q)"
proof -
  have nul: "NUL \<notin> set u" "NUL \<notin> set i" "NUL \<notin> set f" "NUL \<notin> set n"
    using assms by (auto simp: name_ok_def)
  have "GetBuffer (pk env) m \<noteq> []"
    using assms(2) by (simp add: text_ok_def GetBuffer_def)
  then show ?thesis
    using getters_of_head [OF assms(1) nul, of "pk env"] assms(3-) Deserializer_GetBuffer [OF assms(2)]
    by (simp add: read_head_def name_ok_def)
qed

lemma Stub_PrepareParams_values:
  "length vs = length ts \<Longrightarrow> Stub_PrepareParams env (map P_value ts) vs p = (p, Inr (map A_val vs))"
proof (induction ts arbitrary: vs)
  case (Cons t ts)
  then show ?case by (cases vs) auto
qed simp

lemma Proxy_PrepareParams_values:
  "length vs = length ts \<Longrightarrow> Proxy_PrepareParams l (map P_value ts) (map A_val vs) w = (w, vs)"
proof (induction ts arbitrary: vs)
  case (Cons t ts)
  then show ?case by (cases vs) auto
qed simp

lemma find_pm_name: "InvokeMethod_find T n = Some (i, m) \<Longrightarrow> pm_name m = n"
  by (auto simp: InvokeMethod_find_def find_Some_iff)

lemma map_wire_type_values [simp]: "map wire_type (map P_value ts) = ts"
  by (induction ts) auto

lemma CleanOldResponses_idem: "CleanOldResponses now (CleanOldResponses now p) = CleanOldResponses now p"
  unfolding CleanOldResponses_def
  by (intro peer.equality) (auto simp: fun_eq_iff split: option.split)

lemma CleanOldResponses_simps [simp]:
  "m_timeout (CleanOldResponses now p) = m_timeout p" "ps_client (CleanOldResponses now p) = ps_client p"
  "m_stubs (CleanOldResponses now p) = m_stubs p" "app_state (CleanOldResponses now p) = app_state p"
  "generated (CleanOldResponses now p) = generated p"
  by (simp_all add: CleanOldResponses_def)

lemma CleanOldResponses_None [simp]: "m_responses p u = None \<Longrightarrow> m_responses (CleanOldResponses now p) u = None"
  by (simp add: CleanOldResponses_def)

lemma map_upd_back: "f u = None \<Longrightarrow> (f(u \<mapsto> x))(u := None) = f"
  by (simp add: fun_eq_iff)

lemma deliver_response:
  assumes "has_head False u i f n m" and "text_ok (pk env) m" and "name_ok u" "name_ok i" "name_ok f" "name_ok n"
    and "Client_Post (ps_client p)"
  shows "deliver env now (GetBuffer (pk env) m) p =
    ((CleanOldResponses now p)\<lparr>m_responses :=
       map_emplace (m_responses (CleanOldResponses now p)) u (now, reparsed_pack m)\<rparr>, None)"
proof -
  have "GetBuffer (pk env) m \<noteq> []"
    using assms(2) by (simp add: text_ok_def GetBuffer_def)
  then show ?thesis
    using assms(7) read_head_of_pack [OF assms(1-6)]
    by (simp add: deliver_def Client_OnData_def Client_Post_def PSClient_ProcessData_def Let_def)
qed

lemma direct_sender_reply:
  assumes post: "Client_Post (ps_client A)" and "0 < m_timeout A" and "m_responses A u = None"
    and B: "deliver envB now (GetBuffer (pk envA) req) B = (B', Some (GetBuffer (pk envA) m))"
    and m: "has_head False u i f n m" "text_ok (pk envA) m" "name_ok u" "name_ok i" "name_ok f" "name_ok n"
  shows "direct_sender envA envB now u req (A, B) = ((CleanOldResponses now A, B'), Inr (reparsed_pack m))"
proof -
  let ?C = "CleanOldResponses now A"
  have C: "m_responses ?C u = None"
    using assms(3) by simp
  have 1: "Send_post envA req A = (A, Inr (GetBuffer (pk envA) req))"
    using post by (simp add: Send_post_def post_or_close_def)
  have 2: "fst (deliver envA now (GetBuffer (pk envA) m) A) = ?C\<lparr>m_responses := (m_responses ?C)(u \<mapsto> (now, reparsed_pack m))\<rparr>"
    using C by (simp add: deliver_response [OF m post] map_emplace_def)
  have 3: "CleanOldResponses now (?C\<lparr>m_responses := (m_responses ?C)(u := None)\<rparr>) = ?C"
    using C CleanOldResponses_idem [of now A] by (simp add: fun_upd_idem)
  show ?thesis
    using assms(2) post
    by (simp add: direct_sender_def 1 B 2 3 Let_def Client_Post_def)
qed

lemma Stub_Call_method:
  assumes st: "stub_instance st = Service s" "ContainInterfaceId (stub_type st) iface"
      "InvokeMethod_find (stub_type st) (pm_name m) = Some (decl, m)"
    and cast: "cast_service env (Service s) decl = None" and ts: "pm_params m = map P_value ts" "length vs = length ts"
    and d: "GetInterface (pk env) d = Inr iface" "GetMethod (pk env) d = Inr (pm_name m)"
      "GetParams (pk env) ts d = Inr vs"
  shows "Stub_Call_body env st d response p =
    (case call_method env (Service s) decl (pm_name m) (map A_val vs) (app_state p) of
       (a, Inl e) \<Rightarrow> (p\<lparr>app_state := a\<rparr>, Inl e)
     | (a, Inr r) \<Rightarrow> PackResult env (pm_result m) r response (p\<lparr>app_state := a\<rparr>))"
proof -
  have "InvokeRealMethod env st decl m d response p =
    (case call_method env (Service s) decl (pm_name m) (map A_val vs) (app_state p) of
       (a, Inl e) \<Rightarrow> (p\<lparr>app_state := a\<rparr>, Inl e)
     | (a, Inr r) \<Rightarrow> PackResult env (pm_result m) r response (p\<lparr>app_state := a\<rparr>))"
    unfolding InvokeRealMethod_def ts(1) map_wire_type_values
    by (cases "call_method env (Service s) decl (pm_name m) (map A_val vs) (app_state p)")
      (simp add: st(1) cast d(3) Stub_PrepareParams_values [OF ts(2)] call_instance_def split: sum.split)
  then show ?thesis
    unfolding Stub_Call_body_def InvokeMethod_def by (simp add: d(1,2) st(2,3))
qed

lemma deliver_request:
  assumes c: "can_call envA envB A B inst iface s decl m ts" and u: "u = new_uuid envA (generated A)"
    and req: "has_head True u inst iface (pm_name m) req" "text_ok (pk envB) req"
      "GetParams (pk envB) ts (reparsed_pack req) = Inr vs" "length vs = length ts"
    and call: "(case call_method envB (Service s) decl (pm_name m) (map A_val vs) (app_state B) of
       (a, Inl e) \<Rightarrow> (B\<lparr>app_state := a\<rparr>, if e = Undefined_behaviour then Inl e
          else Inr (PutException (Serializer_head False u inst iface (pm_name m)) e))
     | (a, Inr r) \<Rightarrow> PackResult envB (pm_result m) r (Serializer_head False u inst iface (pm_name m)) (B\<lparr>app_state := a\<rparr>))
     = (B', Inr resp)"
    and cl: "ps_client B' = ps_client B"
  shows "deliver envB now (GetBuffer (pk envB) req) B = (B', Some (GetBuffer (pk envB) resp))"
proof -
  obtain st where st: "m_stubs B inst = Some (Some st)" "stub_instance st = Service s"
      "ContainInterfaceId (stub_type st) iface" "InvokeMethod_find (stub_type st) (pm_name m) = Some (decl, m)"
    using c by (auto simp: can_call_def split: option.splits)
  have n: "name_ok u" "name_ok inst" "name_ok iface" "name_ok (pm_name m)"
    and open_B: "Client_Post (ps_client B)" and rB: "m_responses B u = None"
    and cast: "cast_service envB (Service s) decl = None" and ts: "pm_params m = map P_value ts"
    using c u by (auto simp: can_call_def)
  have nul: "NUL \<notin> set u" "NUL \<notin> set inst" "NUL \<notin> set iface" "NUL \<notin> set (pm_name m)"
    using n by (auto simp: name_ok_def)
  note g = getters_of_head [OF req(1) nul, of "pk envB"]
  have "Stub_Call envB st (reparsed_pack req) (Serializer_head False u inst iface (pm_name m)) B = (B', Inr resp)"
    unfolding Stub_Call_def Stub_Call_method [OF st(2-4) cast ts req(4) g(3,4) req(3)]
    using call by (auto split: prod.splits sum.splits if_splits)
  then have "ProcessRequest envB (reparsed_pack req) u inst iface (pm_name m) B = (B', Inr (Some (GetBuffer (pk envB) resp)))"
    using rB st(1) open_B cl by (simp add: ProcessRequest_def post_or_close_def)
  moreover have "GetBuffer (pk envB) req \<noteq> []"
    using req(2) by (simp add: text_ok_def GetBuffer_def)
  ultimately show ?thesis
    using open_B read_head_of_pack [OF req(1,2) n]
    by (simp add: deliver_def Client_OnData_def Client_Post_def PSClient_ProcessData_def)
qed

text \<open>A request built from values, as the callee sees it.\<close>

lemma request_pack:
  assumes "fresh_defaults (js env)" and "good (js env) (Tuple ts) (V_list vs)"
  obtains req where "Serializer_new q u i f n ts vs = Inr req" "has_head q u i f n req"
    "GetParams env ts (reparsed_pack req) = Inr vs" "length vs = length ts"
proof (cases "ts = []")
  case True
  with assms(2) that show ?thesis
    by (simp add: Serializer_new_def PutParamsIfExists_def Serializer_head_has_head GetParams_def)
next
  case False
  obtain req where "PutParams (Serializer_head q u i f n) ts vs = Inr req" "GetParams env ts (reparsed_pack req) = Inr vs"
    using GetParams_PutParams [OF assms, of "Serializer_head q u i f n"] by blast
  moreover have "length vs = length ts"
    using assms(2) by (auto dest: list_all2_lengthD)
  ultimately show ?thesis
    using False that has_head_PutParams [OF _ Serializer_head_has_head]
    by (metis Serializer_new_def PutParamsIfExists_def)
qed

text \<open>A call, given the response of the callee.\<close>

lemma RemoteCall_response:
  assumes c: "can_call envA envB A B inst iface s decl m ts" and u: "u = new_uuid envA (generated A)"
    and g: "good (js (pk envA)) (Tuple ts) (V_list vs)"
    and req_ok: "\<forall>req. Serializer_new True u inst iface (pm_name m) ts vs = Inr req \<longrightarrow> text_ok (pk envA) req"
    and call: "(case call_method envB (Service s) decl (pm_name m) (map A_val vs) (app_state B) of
       (a, Inl e) \<Rightarrow> (B\<lparr>app_state := a\<rparr>, if e = Undefined_behaviour then Inl e
          else Inr (PutException (Serializer_head False u inst iface (pm_name m)) e))
     | (a, Inr r) \<Rightarrow> PackResult envB (pm_result m) r (Serializer_head False u inst iface (pm_name m)) (B\<lparr>app_state := a\<rparr>))
     = (B', Inr resp)"
    and cl: "ps_client B' = ps_client B"
    and resp: "has_head False u inst iface (pm_name m) resp" "text_ok (pk envA) resp"
  shows "RemoteCall (pk envA) (direct_links envA envB now) \<lparr>px_manager = True, px_instance = inst\<rparr> iface m
      (map A_val vs) (A, B) =
    ((CleanOldResponses now (A\<lparr>generated := Suc (generated A)\<rparr>), B'),
     map_sum (wrap_call_error iface (pm_name m) inst) id
       (check_response (pk envA) inst iface m (reparsed_pack resp)))"
proof -
  let ?A = "A\<lparr>generated := Suc (generated A)\<rparr>"
  have env: "pk envB = pk envA" and d: "fresh_defaults (js (pk envA))" and ts: "pm_params m = map P_value ts"
    and A: "Client_Post (ps_client ?A)" "0 < m_timeout ?A" "m_responses ?A u = None"
    and n: "name_ok u" "name_ok inst" "name_ok iface" "name_ok (pm_name m)"
    using c u by (auto simp: can_call_def)
  obtain req where req: "Serializer_new True u inst iface (pm_name m) ts vs = Inr req"
      "has_head True u inst iface (pm_name m) req"
      "GetParams (pk envA) ts (reparsed_pack req) = Inr vs" "length vs = length ts"
    using request_pack [OF d g] by metis
  have B: "deliver envB now (GetBuffer (pk envB) req) B = (B', Some (GetBuffer (pk envB) resp))"
    using req req_ok by (intro deliver_request [OF c u _ _ _ _ call cl]) (simp_all add: env)
  have "direct_sender envA envB now u req (?A, B) = ((CleanOldResponses now ?A, B'), Inr (reparsed_pack resp))"
    using A B [unfolded env] resp n by (rule direct_sender_reply)
  then show ?thesis
    unfolding RemoteCall_def ts map_wire_type_values
    by (simp add: direct_links_def u [symmetric] req(1) Proxy_PrepareParams_values [OF req(4)])
qed

text \<open>A method without a result.\<close>

lemma RemoteCall_void:
  fixes envA :: "('d, 'o, 'a) ps_env"
  assumes c: "can_call envA envB A B inst iface s decl m ts" and u: "u = new_uuid envA (generated A)" and void: "pm_result m = R_void"
    and g: "good (js (pk envA)) (Tuple ts) (V_list vs)"
    and call: "call_method envB (Service s) decl (pm_name m) (map A_val vs) (app_state B) = (b, Inr r)"
    and ok: "\<forall>req. Serializer_new True u inst iface (pm_name m) ts vs = Inr req \<longrightarrow> text_ok (pk envA) req"
      "text_ok (pk envA) (Serializer_head False u inst iface (pm_name m))"
  shows "RemoteCall (pk envA) (direct_links envA envB now) \<lparr>px_manager = True, px_instance = inst\<rparr> iface m
      (map A_val vs) (A, B) =
    ((CleanOldResponses now (A\<lparr>generated := Suc (generated A)\<rparr>), B\<lparr>app_state := b\<rparr>), Inr (A_service None))"
proof -
  let ?h = "Serializer_head False u inst iface (pm_name m) :: 'd pack"
  have nul: "NUL \<notin> set u" "NUL \<notin> set inst" "NUL \<notin> set iface" "NUL \<notin> set (pm_name m)"
    using c u by (auto simp: can_call_def name_ok_def)
  have head: "has_head False u inst iface (pm_name m) ?h"
    by (rule Serializer_head_has_head)
  have "GetException (pk envA) (reparsed_pack ?h) = None"
    by (simp add: GetException_def HasException_def map_of_reparsed_pack Serializer_head_def tag_defs Let_def)
  then have "check_response (pk envA) inst iface m (reparsed_pack ?h) = (Inr (A_service None) :: ('d, 'o) arg result)"
    using getters_of_head [OF head nul, of "pk envA"] void by (simp add: check_response_def)
  then show ?thesis
    using RemoteCall_response [OF c u g ok(1) _ _ head ok(2), of "B\<lparr>app_state := b\<rparr>" now] call void by simp
qed

text \<open>
  The object manager as a machine: whatever the other end asks of it, a stub is kept under the
  identifier it was made with.
\<close>

datatype manager_op = Create ServiceId string | Destroy string | Query string string string | Clone string string

fun manager_step :: "('d, 'o, 'a) ps_env \<Rightarrow> ('d, 'o, 'a) peer \<Rightarrow> manager_op \<Rightarrow> ('d, 'o, 'a) peer" where
  "manager_step env p (Create s f) = fst (CreateObject env s f p)"
| "manager_step env p (Destroy i) = fst (DestroyObject i p)"
| "manager_step env p (Query i f s) = fst (QueryInterface_remote env i f s p)"
| "manager_step env p (Clone i f) = fst (CloneReference env i f p)"

definition stubs_keyed :: "('d, 'o, 'a) peer \<Rightarrow> bool" where
  "stubs_keyed p = (\<forall>k st. m_stubs p k = Some (Some st) \<longrightarrow> stub_id st = k)"

lemma stubs_keyed_app_state [simp]: "stubs_keyed (p\<lparr>app_state := a\<rparr>) = stubs_keyed p"
  by (simp add: stubs_keyed_def)

lemma Visitor_Accept_Some: "Visitor_Accept visit Ts = Some r \<Longrightarrow> \<exists>T \<in> set Ts. visit T = Some r"
  by (induction Ts) (auto split: option.splits)

lemma stubs_keyed_AppendStub: "stubs_keyed p \<Longrightarrow> stubs_keyed (fst (AppendStub env i f p))"
  by (cases i) (auto simp: AppendStub_def stubs_keyed_def Let_def dest!: Visitor_Accept_Some split: if_splits)

lemma stubs_keyed_step: "stubs_keyed p \<Longrightarrow> stubs_keyed (manager_step env p x)"
proof (cases x)
  case (Create s f)
  then show "stubs_keyed p \<Longrightarrow> ?thesis"
    by (auto simp: CreateObject_def stubs_keyed_AppendStub split: prod.split sum.split)
next
  case (Destroy i)
  then show "stubs_keyed p \<Longrightarrow> ?thesis"
    by (auto simp: DestroyObject_def stubs_keyed_def split: option.split)
next
  case (Query i f s)
  then show "stubs_keyed p \<Longrightarrow> ?thesis"
    by (auto simp: QueryInterface_remote_def stubs_keyed_AppendStub split: option.split prod.split sum.split)
next
  case (Clone i f)
  then show "stubs_keyed p \<Longrightarrow> ?thesis"
    by (auto simp: CloneReference_def stubs_keyed_AppendStub split: option.split)
qed

interpretation managers: machine "manager_step env" stubs_keyed for env
  by unfold_locales (rule stubs_keyed_step)

lemma every_stub_keyed: "stubs_keyed (foldl (manager_step env) (PSClient_new c t a) ops)"
  by (rule managers.run_inv) (simp add: stubs_keyed_def PSClient_new_def)

section \<open>Properties\<close>

text \<open>
  Property C2: A remote call returns what the method returns. When both ends are open, the
  callee has the object and the method, and the arguments and the result are values their types
  can carry, the proxy's call has the value the service's method has for the same arguments; the
  method runs once, and nothing but the callee's application state and the caller's generator
  and expired responses changes.
\<close>

theorem remote_call_returns:
  fixes envA :: "('d, 'o, 'a) ps_env"
  assumes "can_call envA envB A B inst iface s decl m ts" and "pm_result m = R_value t"
    and "u = new_uuid envA (generated A)"
    and "good (js (pk envA)) (Tuple ts) (V_list vs)" and "good (js (pk envA)) t v"
    and "call_method envB (Service s) decl (pm_name m) (map A_val vs) (app_state B) = (b, Inr (A_val v))"
    and "\<forall>req. Serializer_new True u inst iface (pm_name m) ts vs = Inr req \<longrightarrow> text_ok (pk envA) req"
    and "\<forall>resp. PutParams (Serializer_head False u inst iface (pm_name m)) [t] [v] = Inr resp \<longrightarrow>
      text_ok (pk envA) resp"
  shows "RemoteCall (pk envA) (direct_links envA envB now) \<lparr>px_manager = True, px_instance = inst\<rparr> iface m
      (map A_val vs) (A, B) =
    ((CleanOldResponses now (A\<lparr>generated := Suc (generated A)\<rparr>), B\<lparr>app_state := b\<rparr>), Inr (A_val v))"
proof -
  let ?h = "Serializer_head False u inst iface (pm_name m) :: 'd pack"
  have d: "fresh_defaults (js (pk envA))" and n: "name_ok u" "name_ok inst" "name_ok iface" "name_ok (pm_name m)"
    using assms(1,3) by (auto simp: can_call_def)
  have "good (js (pk envA)) (Tuple [t]) (V_list [v])"
    using assms(5) by simp
  then obtain resp where resp: "PutParams ?h [t] [v] = Inr resp" "GetParams (pk envA) [t] (reparsed_pack resp) = Inr [v]"
      "HasException resp = HasException ?h"
    using GetParams_PutParams [OF d, of "[t]" "[v]" ?h] by blast
  have head: "has_head False u inst iface (pm_name m) resp"
    using resp(1) Serializer_head_has_head by (rule has_head_PutParams)
  have nul: "NUL \<notin> set u" "NUL \<notin> set inst" "NUL \<notin> set iface" "NUL \<notin> set (pm_name m)"
    using n by (auto simp: name_ok_def)
  have no_exc: "GetException (pk envA) (reparsed_pack resp) = None"
    using resp(3) by (simp add: GetException_def HasException_def map_of_reparsed_pack Serializer_head_def tag_defs Let_def)
  have ok: "text_ok (pk envA) resp"
    using assms(8) resp(1) by blast
  have call: "(case call_method envB (Service s) decl (pm_name m) (map A_val vs) (app_state B) of
       (a, Inl e) \<Rightarrow> (B\<lparr>app_state := a\<rparr>, if e = Undefined_behaviour then Inl e else Inr (PutException ?h e))
     | (a, Inr r) \<Rightarrow> PackResult envB (pm_result m) r ?h (B\<lparr>app_state := a\<rparr>)) = (B\<lparr>app_state := b\<rparr>, Inr resp)"
    using assms(2,6) resp(1) by simp
  have "check_response (pk envA) inst iface m (reparsed_pack resp) = (Inr (A_val v) :: ('d, 'o) arg result)"
    using getters_of_head [OF head nul, of "pk envA"] no_exc resp(2) assms(2) by (simp add: check_response_def)
  then show ?thesis
    using RemoteCall_response [OF assms(1,3,4,7) call _ head ok, of now] by simp
qed

text \<open>
  A sample: a counter whose only method adds to it and fails on zero. The printer and parser
  know one request and one response.
\<close>

definition sample_method :: ps_method where
  "sample_method = \<lparr>pm_name = ''Add'', pm_params = [P_value (Simple Int32_t)], pm_result = R_value (Simple Int32_t)\<rparr>"

definition sample_type :: ps_type where
  "sample_type = \<lparr>InterfaceId = ''ICounter'', own_methods = [sample_method], inherited = []\<rparr>"

definition sample_add :: "unit inst \<Rightarrow> string \<Rightarrow> string \<Rightarrow> (int, unit) arg list \<Rightarrow> int \<Rightarrow> int \<times> (int, unit) arg result" where
  "sample_add i iface name args n =
     (let k = the_int (arg_val (hd args))
      in if k = 0 then (n, Inl (Logic_error ''zero'')) else (n + k, Inr (A_val (V_int (n + k)))))"

definition sample_wire :: "int pack \<Rightarrow> int pack \<Rightarrow> int pack_env" where
  "sample_wire req resp = \<lparr>js = sample_json_env,
     print = (\<lambda>j. case if_object j of Some m \<Rightarrow> (if map_of m Tag_Type = Some (String Tag_Request) then ''q'' else ''r'') | None \<Rightarrow> ''r''),
     parse = (\<lambda>b. if b = ''q'' then Inr (reparsed (Object req)) else Inr (reparsed (Object resp)))\<rparr>"

definition sample_env :: "int pack_env \<Rightarrow> (int, unit, int) ps_env" where
  "sample_env wire = \<lparr>pk = wire, registry = [sample_type], new_uuid = (\<lambda>n. ''id-'' @ nat_to_string n),
     create_service = (\<lambda>s a. (a, Inr (Some (Service ())))), query_service = (\<lambda>i f s a. (a, Inr None)),
     cast_service = (\<lambda>i f. None), call_method = sample_add,
     remote_clone = (\<lambda>s f p. (p, Inl Unknown_exn))\<rparr>"

definition sample_client :: client where
  "sample_client = \<lparr>m_makredAsClosed = False, control_alive = True, publisher_alive = True\<rparr>"

definition sample_A :: "(int, unit, int) peer" where
  "sample_A = PSClient_new sample_client 1000 0"

definition sample_B :: "(int, unit, int) peer" where
  "sample_B = (PSClient_new sample_client 1000 40)\<lparr>m_stubs := [''7'' \<mapsto>
     Some \<lparr>stub_instance = Service (), stub_id = ''7'', stub_type = sample_type\<rparr>]\<rparr>"

definition sample_req :: "int \<Rightarrow> int pack" where
  "sample_req k = projr (Serializer_new True ''id-0'' ''7'' ''ICounter'' ''Add'' [Simple Int32_t] [V_int k])"

definition sample_resp :: "int \<Rightarrow> int pack" where
  "sample_resp k = projr (PutParams (Serializer_head False ''id-0'' ''7'' ''ICounter'' ''Add'') [Simple Int32_t] [V_int k])"

definition sample_error :: "int pack" where
  "sample_error = PutException (Serializer_head False ''id-0'' ''7'' ''ICounter'' ''Add'') (Logic_error ''zero'')"

lemmas sample_wire_defs = sample_wire_def sample_req_def sample_resp_def sample_error_def text_ok_def
  Serializer_new_def PutParamsIfExists_def PutParams_def PutException_def Serializer_head_def tag_defs
  object_erase_def Let_def

lemma sample_req_ok: "text_ok (sample_wire (sample_req k) resp) (sample_req k)"
  by (simp add: sample_wire_defs)

lemma sample_resp_ok: "text_ok (sample_wire req (sample_resp k)) (sample_resp k)"
  by (simp add: sample_wire_defs)

lemma sample_error_ok: "text_ok (sample_wire req sample_error) sample_error"
  by (simp add: sample_wire_defs)

lemma sample_env_pk [simp]: "pk (sample_env w) = w"
  by (simp add: sample_env_def)

lemma sample_digits: "nat_to_string 0 = ''0''" "nat_to_string 1 = ''1''"
  by code_simp+

lemma sample_can_call: "can_call (sample_env (sample_wire req resp)) (sample_env (sample_wire req resp))
    sample_A sample_B ''7'' ''ICounter'' () ''ICounter'' sample_method [Simple Int32_t]"
  by (simp add: can_call_def sample_env_def sample_wire_def sample_A_def sample_B_def PSClient_new_def
      sample_client_def Client_Post_def fresh_defaults_sample ContainInterfaceId_def InvokeMethod_find_def
      method_chain_def sample_type_def sample_method_def name_ok_def sample_digits)

lemma sample_uuid: "''id-0'' = new_uuid (sample_env w) (generated sample_A)"
  by (simp add: sample_env_def sample_A_def PSClient_new_def sample_digits [simplified])

theorem remote_call_returns_witness:
  "\<exists>w. RemoteCall (sample_wire (sample_req 2) (sample_resp 42))
     (direct_links (sample_env (sample_wire (sample_req 2) (sample_resp 42)))
       (sample_env (sample_wire (sample_req 2) (sample_resp 42))) 5)
     \<lparr>px_manager = True, px_instance = ''7''\<rparr> ''ICounter'' sample_method [A_val (V_int 2)] (sample_A, sample_B) =
   (w, Inr (A_val (V_int 42))) \<and> app_state (snd w) = 42"
proof -
  let ?e = "sample_env (sample_wire (sample_req 2) (sample_resp 42))"
  have "RemoteCall (pk ?e) (direct_links ?e ?e 5) \<lparr>px_manager = True, px_instance = ''7''\<rparr> ''ICounter''
      sample_method (map A_val [V_int 2]) (sample_A, sample_B) =
    ((CleanOldResponses 5 (sample_A\<lparr>generated := Suc (generated sample_A)\<rparr>), sample_B\<lparr>app_state := 42\<rparr>),
     Inr (A_val (V_int 42)))"
  proof (rule remote_call_returns [OF sample_can_call _ sample_uuid])
    show "pm_result sample_method = R_value (Simple Int32_t)"
      by (simp add: sample_method_def)
    show "good (js (pk ?e)) (Tuple [Simple Int32_t]) (V_list [V_int 2])" "good (js (pk ?e)) (Simple Int32_t) (V_int 42)"
      by simp_all
    show "call_method ?e (Service ()) ''ICounter'' (pm_name sample_method) (map A_val [V_int 2]) (app_state sample_B) =
        (42, Inr (A_val (V_int 42)))"
      by (simp add: sample_env_def sample_add_def sample_B_def PSClient_new_def)
    show "\<forall>r. Serializer_new True ''id-0'' ''7'' ''ICounter'' (pm_name sample_method) [Simple Int32_t] [V_int 2] = Inr r \<longrightarrow>
        text_ok (pk ?e) r"
      using sample_req_ok [of 2] by (auto simp: sample_req_def sample_method_def)
    show "\<forall>r. PutParams (Serializer_head False ''id-0'' ''7'' ''ICounter'' (pm_name sample_method)) [Simple Int32_t] [V_int 42] =
        Inr r \<longrightarrow> text_ok (pk ?e) r"
      using sample_resp_ok [of _ 42] by (auto simp: sample_resp_def sample_method_def)
  qed
  then show ?thesis
    by simp
qed

text \<open>
  Property C26: An exception of the method reaches the caller. In the same situation, when the
  method throws, the caller gets a \<open>ProxyStubException\<close> that names the interface, the method and
  the instance and ends in the text of the exception, or in a fixed text when it was not a
  \<open>std::exception\<close>; the callee's connection stays in use.
\<close>

theorem remote_call_throws:
  fixes envA :: "('d, 'o, 'a) ps_env"
  assumes "can_call envA envB A B inst iface s decl m ts"
    and "u = new_uuid envA (generated A)"
    and "good (js (pk envA)) (Tuple ts) (V_list vs)"
    and "call_method envB (Service s) decl (pm_name m) (map A_val vs) (app_state B) = (b, Inl e)"
    and "e \<noteq> Undefined_behaviour" and "NUL \<notin> set (exception_text e)"
    and "\<forall>req. Serializer_new True u inst iface (pm_name m) ts vs = Inr req \<longrightarrow> text_ok (pk envA) req"
    and "text_ok (pk envA) (PutException (Serializer_head False u inst iface (pm_name m)) e)"
  shows "RemoteCall (pk envA) (direct_links envA envB now) \<lparr>px_manager = True, px_instance = inst\<rparr> iface m
      (map A_val vs) (A, B) =
    ((CleanOldResponses now (A\<lparr>generated := Suc (generated A)\<rparr>), B\<lparr>app_state := b\<rparr>),
     Inl (call_error (''Failed to call remote method '' @ dquote @ iface @ ''::'' @ pm_name m @ dquote @
       '' for instance with id '' @ dquote @ inst @ dquote @ ''. Error: '' @ exception_text e)))"
proof -
  let ?h = "Serializer_head False u inst iface (pm_name m) :: 'd pack"
  have n: "name_ok u" "name_ok inst" "name_ok iface" "name_ok (pm_name m)"
    using assms(1,2) by (auto simp: can_call_def)
  have head: "has_head False u inst iface (pm_name m) (PutException ?h e)"
    using Serializer_head_has_head by (rule has_head_PutException)
  have nul: "NUL \<notin> set u" "NUL \<notin> set inst" "NUL \<notin> set iface" "NUL \<notin> set (pm_name m)"
    using n by (auto simp: name_ok_def)
  have exc: "GetException (pk envA) (reparsed_pack (PutException ?h e)) = Some (Runtime_error (exception_text e))"
    using assms(6) by (simp add: GetException_def HasException_def map_of_reparsed_pack PutException_def get_text_def c_str_id)
  have call: "(case call_method envB (Service s) decl (pm_name m) (map A_val vs) (app_state B) of
       (a, Inl e) \<Rightarrow> (B\<lparr>app_state := a\<rparr>, if e = Undefined_behaviour then Inl e else Inr (PutException ?h e))
     | (a, Inr r) \<Rightarrow> PackResult envB (pm_result m) r ?h (B\<lparr>app_state := a\<rparr>)) = (B\<lparr>app_state := b\<rparr>, Inr (PutException ?h e))"
    using assms(4,5) by simp
  have "check_response (pk envA) inst iface m (reparsed_pack (PutException ?h e)) =
      (Inl (Runtime_error (exception_text e)) :: ('d, 'o) arg result)"
    using getters_of_head [OF head nul, of "pk envA"] exc by (simp add: check_response_def)
  then show ?thesis
    using RemoteCall_response [OF assms(1,2,3,7) call _ head assms(8), of now] by (simp add: wrap_call_error_def)
qed

theorem remote_call_throws_witness:
  "\<exists>w. RemoteCall (sample_wire (sample_req 0) sample_error)
     (direct_links (sample_env (sample_wire (sample_req 0) sample_error))
       (sample_env (sample_wire (sample_req 0) sample_error)) 5)
     \<lparr>px_manager = True, px_instance = ''7''\<rparr> ''ICounter'' sample_method [A_val (V_int 0)] (sample_A, sample_B) =
   (w, Inl (call_error (''Failed to call remote method '' @ dquote @ ''ICounter::Add'' @ dquote @
       '' for instance with id '' @ dquote @ ''7'' @ dquote @ ''. Error: zero'')))"
proof -
  let ?e = "sample_env (sample_wire (sample_req 0) sample_error)"
  have "RemoteCall (pk ?e) (direct_links ?e ?e 5) \<lparr>px_manager = True, px_instance = ''7''\<rparr> ''ICounter''
      sample_method (map A_val [V_int 0]) (sample_A, sample_B) =
    ((CleanOldResponses 5 (sample_A\<lparr>generated := Suc (generated sample_A)\<rparr>), sample_B\<lparr>app_state := 40\<rparr>),
     Inl (call_error (''Failed to call remote method '' @ dquote @ ''ICounter'' @ ''::'' @ pm_name sample_method @ dquote @
       '' for instance with id '' @ dquote @ ''7'' @ dquote @ ''. Error: '' @ exception_text (Logic_error ''zero''))))"
  proof (rule remote_call_throws [OF sample_can_call sample_uuid])
    show "good (js (pk ?e)) (Tuple [Simple Int32_t]) (V_list [V_int 0])"
      by simp
    show "call_method ?e (Service ()) ''ICounter'' (pm_name sample_method) (map A_val [V_int 0]) (app_state sample_B) =
        (40, Inl (Logic_error ''zero''))"
      by (simp add: sample_env_def sample_add_def sample_B_def PSClient_new_def)
    show "\<forall>r. Serializer_new True ''id-0'' ''7'' ''ICounter'' (pm_name sample_method) [Simple Int32_t] [V_int 0] = Inr r \<longrightarrow>
        text_ok (pk ?e) r"
      using sample_req_ok [of 0] by (auto simp: sample_req_def sample_method_def)
    show "text_ok (pk ?e) (PutException (Serializer_head False ''id-0'' ''7'' ''ICounter'' (pm_name sample_method)) (Logic_error ''zero''))"
      using sample_error_ok by (simp add: sample_error_def sample_method_def)
  qed (simp_all add: exception_text_def)
  then show ?thesis
    by (simp add: exception_text_def sample_method_def)
qed

text \<open>
  Property C27: The life of a served object. A created object is served under a new identifier
  by a stub of the interface asked for, beside all the others; a cloned reference is a second
  stub of the same object that survives the destruction of the first; destroying an identifier
  removes exactly its stub, and destroying it again is refused.
\<close>

theorem remote_object_lifetime:
  assumes "create_service env sid (app_state p) = (a, Inr (Some i))" and "iface \<noteq> []"
    and "find (\<lambda>T. InterfaceId T = iface) (registry env) = Some T"
    and "n1 = new_uuid env (generated p)" and "n2 = new_uuid env (Suc (generated p))"
    and "m_stubs p n1 = None" and "m_stubs p n2 = None" and "n1 \<noteq> n2" and "n1 \<noteq> []"
  shows "\<exists>p1 p2 p3. CreateObject env sid iface p = (p1, Inr n1) \<and> app_state p1 = a
    \<and> m_stubs p1 = (m_stubs p)(n1 \<mapsto> Some \<lparr>stub_instance = i, stub_id = n1, stub_type = T\<rparr>)
    \<and> CloneReference env n1 iface p1 = (p2, Inr n2)
    \<and> DestroyObject n1 p2 = (p3, Inr ())
    \<and> m_stubs p3 = (m_stubs p)(n2 \<mapsto> Some \<lparr>stub_instance = i, stub_id = n2, stub_type = T\<rparr>)
    \<and> DestroyObject n1 p3 = (p3, Inl (not_found ''DestroyObject'' n1))
    \<and> m_stubs (fst (DestroyObject n1 p1)) = m_stubs p"
proof -
  have V: "Visitor_Accept (\<lambda>T. if InterfaceId T = iface then Some (f T) else None) Ts =
      map_option f (find (\<lambda>T. InterfaceId T = iface) Ts)" for f :: "ps_type \<Rightarrow> 'b stub" and Ts
    by (induction Ts) auto
  define p1 where "p1 = p\<lparr>app_state := a, generated := Suc (generated p),
    m_stubs := (m_stubs p)(n1 \<mapsto> Some \<lparr>stub_instance = i, stub_id = n1, stub_type = T\<rparr>)\<rparr>"
  define p2 where "p2 = p1\<lparr>generated := Suc (Suc (generated p)),
    m_stubs := (m_stubs p1)(n2 \<mapsto> Some \<lparr>stub_instance = i, stub_id = n2, stub_type = T\<rparr>)\<rparr>"
  define p3 where "p3 = p2\<lparr>m_stubs := (m_stubs p2)(n1 := None)\<rparr>"
  have "CreateObject env sid iface p = (p1, Inr n1)"
    using assms(1-4,6) by (simp add: CreateObject_def AppendStub_def V Let_def p1_def)
  moreover have "CloneReference env n1 iface p1 = (p2, Inr n2)"
    using assms(3,5,7,8) by (simp add: CloneReference_def AppendStub_def V Let_def p1_def p2_def)
  moreover have "DestroyObject n1 p2 = (p3, Inr ())"
    using assms(8,9) by (simp add: DestroyObject_def p3_def p2_def p1_def)
  moreover have "DestroyObject n1 p3 = (p3, Inl (not_found ''DestroyObject'' n1))"
    using assms(9) by (simp add: DestroyObject_def p3_def)
  moreover have "m_stubs p3 = (m_stubs p)(n2 \<mapsto> Some \<lparr>stub_instance = i, stub_id = n2, stub_type = T\<rparr>)"
    using assms(6,8) by (auto simp: p3_def p2_def p1_def fun_eq_iff)
  moreover have "m_stubs (fst (DestroyObject n1 p1)) = m_stubs p"
    using assms(6,9) by (auto simp: DestroyObject_def p1_def fun_eq_iff)
  ultimately show ?thesis
    by (auto simp: p1_def)
qed

theorem remote_object_lifetime_witness:
  "\<exists>p1. CreateObject (sample_env (sample_wire [] [])) 5 ''ICounter'' sample_A = (p1, Inr ''id-0'')
    \<and> m_stubs p1 ''id-0'' = Some (Some \<lparr>stub_instance = Service (), stub_id = ''id-0'', stub_type = sample_type\<rparr>)
    \<and> m_stubs (fst (DestroyObject ''id-0'' p1)) = m_stubs sample_A"
proof -
  let ?e = "sample_env (sample_wire [] [])"
  have "new_uuid ?e (Suc (generated sample_A)) = ''id-1''"
    by (simp add: sample_env_def sample_A_def PSClient_new_def sample_digits [simplified])
  then show ?thesis
    using remote_object_lifetime [of ?e 5 sample_A 0 "Service ()" "''ICounter''" sample_type, OF _ _ _ sample_uuid refl]
    by (auto simp: sample_env_def sample_A_def PSClient_new_def sample_type_def psInstanceId_def)
qed

lemma Visitor_Accept_None: "(\<And>T. T \<in> set Ts \<Longrightarrow> visit T = None) \<Longrightarrow> Visitor_Accept visit Ts = None"
  by (induction Ts) auto

text \<open>
  An interface that is not registered: the object is given an identifier and a null stub, which
  the next clone or query dereferences. The object manager's own stub can be destroyed by the
  other end.
\<close>

lemma unknown_interface_null_stub:
  assumes "\<And>T. T \<in> set (registry env) \<Longrightarrow> InterfaceId T \<noteq> iface" and "m_stubs p (new_uuid env (generated p)) = None"
  shows "\<exists>p'. AppendStub env (Some i) iface p = (p', new_uuid env (generated p)) \<and>
    snd (CloneReference env (new_uuid env (generated p)) iface p') = Inl Undefined_behaviour \<and>
    snd (QueryInterface_remote env (new_uuid env (generated p)) iface s p') = Inl Undefined_behaviour"
proof -
  have "Visitor_Accept (\<lambda>T. if InterfaceId T = iface then Some (f T) else None) (registry env) = None"
    for f :: "ps_type \<Rightarrow> 'b stub"
    using assms(1) by (intro Visitor_Accept_None) auto
  then show ?thesis
    using assms(2) by (simp add: AppendStub_def Let_def CloneReference_def QueryInterface_remote_def)
qed

lemma manager_can_be_destroyed:
  "snd (DestroyObject psInstanceId (PSClient_new c t a)) = Inr () \<and>
   m_stubs (fst (DestroyObject psInstanceId (PSClient_new c t a))) = Map.empty"
  by (simp add: DestroyObject_def PSClient_new_def psInstanceId_def)

end
