(* ===== verification/Remote_Boost.thy ===== *)
theory Remote_Boost
  imports Remote_Message Text_Stream
begin

text \<open>
  The packs over Boost archives (\<open>remote/serialization/boost.h\<close>). An archive is the sequence of
  the named values put into it. Arguments are: turning the sequence into bytes and back, which is
  the archive's own work; the order in which a call evaluates its arguments, which C++ leaves
  open and in which the parameters are saved; and whether the archive compares the names of the
  values it loads (the XML archive does, the text and binary archives do not).
\<close>

section \<open>Archives\<close>

datatype 'p archived = Ar_string string | Ar_bool bool | Ar_param 'p

type_synonym 'p archive = "(string \<times> 'p archived) list"

definition Tag_HasException :: string where
  "Tag_HasException = ''has_exception''"

definition archive_error :: exn where
  "archive_error = Runtime_error ''input stream error''"

definition load :: "bool \<Rightarrow> string \<Rightarrow> 'p archive \<Rightarrow> ('p archived \<times> 'p archive) result" where
  "load checks name ar =
     (case ar of
        [] \<Rightarrow> Inl archive_error
      | (n, v) # rest \<Rightarrow> if checks \<and> n \<noteq> name then Inl archive_error else Inr (v, rest))"

section \<open>Serializer\<close>

record 'p boost_serializer =
  b_type :: string
  b_uuid :: string
  b_instanceId :: string
  b_interfaceId :: string
  b_methodId :: string
  b_exception :: "exn option"
  b_params :: "'p list"

definition BoostSerializer_new :: "bool \<Rightarrow> string \<Rightarrow> string \<Rightarrow> string \<Rightarrow> string \<Rightarrow> 'p list \<Rightarrow> 'p boost_serializer" where
  "BoostSerializer_new isReques uuid instanceId interfaceId methodId params =
     \<lparr>b_type = (if isReques then Tag_Request else Tag_Response), b_uuid = uuid, b_instanceId = instanceId,
      b_interfaceId = interfaceId, b_methodId = methodId, b_exception = None, b_params = params\<rparr>"

definition BoostSerializer_PutParams :: "'p boost_serializer \<Rightarrow> 'p list \<Rightarrow> 'p boost_serializer" where
  "BoostSerializer_PutParams s params = s\<lparr>b_params := params\<rparr>"

definition BoostSerializer_PutException :: "'p boost_serializer \<Rightarrow> exn option \<Rightarrow> 'p boost_serializer" where
  "BoostSerializer_PutException s e = s\<lparr>b_exception := e\<rparr>"

text \<open>\<open>SaveTupleParams\<close>: one argument per parameter, saved when it is evaluated.\<close>

definition SaveTupleParams :: "(nat \<Rightarrow> nat list) \<Rightarrow> 'p list \<Rightarrow> 'p archive" where
  "SaveTupleParams order params =
     map (\<lambda>i. (Tag_Param @ nat_to_string i, Ar_param (params ! i))) (order (length params))"

definition saved_values :: "(nat \<Rightarrow> nat list) \<Rightarrow> 'p boost_serializer \<Rightarrow> 'p archive" where
  "saved_values order s =
     [(Tag_Uuid, Ar_string (b_uuid s)), (Tag_Type, Ar_string (b_type s)), (Tag_Instsnce, Ar_string (b_instanceId s)),
      (Tag_Interface, Ar_string (b_interfaceId s)), (Tag_Method, Ar_string (b_methodId s)),
      (Tag_HasException, Ar_bool (b_exception s \<noteq> None))] @
     (case b_exception s of None \<Rightarrow> [] | Some e \<Rightarrow> [(Tag_Exception, Ar_string (exception_text e))]) @
     SaveTupleParams order (b_params s)"

definition BoostSerializer_GetBuffer :: "('p archive \<Rightarrow> buffer) \<Rightarrow> (nat \<Rightarrow> nat list) \<Rightarrow> 'p boost_serializer \<Rightarrow> buffer" where
  "BoostSerializer_GetBuffer write_archive order s = write_archive (saved_values order s)"

section \<open>Deserializer\<close>

record 'p boost_deserializer =
  d_uuid :: string
  d_type :: string
  d_instance :: string
  d_interface :: string
  d_method :: string
  d_exception :: "exn option"
  d_archive :: "'p archive"

fun load_string :: "bool \<Rightarrow> string \<Rightarrow> 'p archive \<Rightarrow> (string \<times> 'p archive) result" where
  "load_string checks name ar =
     (case load checks name ar of
        Inr (Ar_string s, rest) \<Rightarrow> Inr (s, rest)
      | Inr _ \<Rightarrow> Inl archive_error
      | Inl e \<Rightarrow> Inl e)"

fun load_bool :: "bool \<Rightarrow> string \<Rightarrow> 'p archive \<Rightarrow> (bool \<times> 'p archive) result" where
  "load_bool checks name ar =
     (case load checks name ar of
        Inr (Ar_bool b, rest) \<Rightarrow> Inr (b, rest)
      | Inr _ \<Rightarrow> Inl archive_error
      | Inl e \<Rightarrow> Inl e)"

fun load_param :: "bool \<Rightarrow> string \<Rightarrow> 'p archive \<Rightarrow> ('p \<times> 'p archive) result" where
  "load_param checks name ar =
     (case load checks name ar of
        Inr (Ar_param p, rest) \<Rightarrow> Inr (p, rest)
      | Inr _ \<Rightarrow> Inl archive_error
      | Inl e \<Rightarrow> Inl e)"

definition read_exception :: "bool \<Rightarrow> 'p archive \<Rightarrow> (exn option \<times> 'p archive) result" where
  "read_exception checks ar =
     (case load_bool checks Tag_HasException ar of
        Inl e \<Rightarrow> Inl e
      | Inr (False, rest) \<Rightarrow> Inr (None, rest)
      | Inr (True, rest) \<Rightarrow>
          (case load_string checks Tag_Exception rest of
             Inl e \<Rightarrow> Inl e
           | Inr (m, rest') \<Rightarrow> Inr (Some (Runtime_error m), rest')))"

text \<open>
  The constructor opens the archive before it tests the buffer. Opening reads the archive's
  header, so what an empty buffer gives depends on the archive.
\<close>

definition BoostDeserializer_new :: "(buffer \<Rightarrow> 'p archive result) \<Rightarrow> bool \<Rightarrow> buffer \<Rightarrow> 'p boost_deserializer result" where
  "BoostDeserializer_new open_archive checks b =
     (case open_archive b of Inl e \<Rightarrow> Inl e | Inr ar0 \<Rightarrow>
      if b = [] then Inl (Invalid_argument ''[Mif::Remote::Serialization::Boost::Deserializer] Empty buffer.'')
      else
        (case load_string checks Tag_Uuid ar0 of Inl e \<Rightarrow> Inl e | Inr (uuid, ar1) \<Rightarrow>
        (case load_string checks Tag_Type ar1 of Inl e \<Rightarrow> Inl e | Inr (typ, ar2) \<Rightarrow>
        (case load_string checks Tag_Instsnce ar2 of Inl e \<Rightarrow> Inl e | Inr (inst, ar3) \<Rightarrow>
        (case load_string checks Tag_Interface ar3 of Inl e \<Rightarrow> Inl e | Inr (iface, ar4) \<Rightarrow>
        (case load_string checks Tag_Method ar4 of Inl e \<Rightarrow> Inl e | Inr (meth, ar5) \<Rightarrow>
        (case read_exception checks ar5 of Inl e \<Rightarrow> Inl e | Inr (ex, ar6) \<Rightarrow>
           Inr \<lparr>d_uuid = uuid, d_type = typ, d_instance = inst, d_interface = iface, d_method = meth,
                d_exception = ex, d_archive = ar6\<rparr>)))))))"

definition Boost_IsRequest :: "'p boost_deserializer \<Rightarrow> bool" where
  "Boost_IsRequest d = (d_type d = Tag_Request)"

definition Boost_IsResponse :: "'p boost_deserializer \<Rightarrow> bool" where
  "Boost_IsResponse d = (d_type d = Tag_Response)"

text \<open>\<open>LoadParams\<close>: the last parameter first, under a name with its number from 1.\<close>

fun LoadParams :: "bool \<Rightarrow> nat \<Rightarrow> 'p archive \<Rightarrow> ('p list \<times> 'p archive) result" where
  "LoadParams checks 0 ar = Inr ([], ar)"
| "LoadParams checks (Suc n) ar =
     (case load_param checks (Tag_Param @ nat_to_string (Suc n)) ar of
        Inl e \<Rightarrow> Inl e
      | Inr (p, rest) \<Rightarrow>
          (case LoadParams checks n rest of Inl e \<Rightarrow> Inl e | Inr (ps, rest') \<Rightarrow> Inr (ps @ [p], rest')))"

definition Boost_GetParams :: "bool \<Rightarrow> nat \<Rightarrow> 'p boost_deserializer \<Rightarrow> ('p boost_deserializer \<times> 'p list) result" where
  "Boost_GetParams checks n d =
     (case LoadParams checks n (d_archive d) of
        Inl e \<Rightarrow> Inl e
      | Inr (ps, rest) \<Rightarrow> Inr (d\<lparr>d_archive := rest\<rparr>, ps))"

section \<open>Facts\<close>

lemma load_simps [simp]:
  "load checks name ((name, v) # rest) = Inr (v, rest)"
  "load False name ((n, v) # rest) = Inr (v, rest)"
  by (simp_all add: load_def)

lemma header_read:
  assumes "open_archive (write_archive (saved_values order s)) = Inr (saved_values order s)"
    and "write_archive (saved_values order s) \<noteq> []"
  shows "BoostDeserializer_new open_archive checks (BoostSerializer_GetBuffer write_archive order s) =
     Inr \<lparr>d_uuid = b_uuid s, d_type = b_type s, d_instance = b_instanceId s, d_interface = b_interfaceId s,
       d_method = b_methodId s, d_exception = map_option (\<lambda>e. Runtime_error (exception_text e)) (b_exception s),
       d_archive = SaveTupleParams order (b_params s)\<rparr>"
  using assms
  by (cases "b_exception s")
    (simp_all add: BoostDeserializer_new_def BoostSerializer_GetBuffer_def saved_values_def read_exception_def)

lemma LoadParams_values:
  "LoadParams False (length xs) (map (\<lambda>x. (fst x, Ar_param (snd x))) xs @ rest) = Inr (rev (map snd xs), rest)"
  by (induction xs) simp_all

lemma LoadParams_order:
  assumes "length (order (length params)) = length params"
  shows "LoadParams False (length params) (SaveTupleParams order params) = Inr (rev (map ((!) params) (order (length params))), [])"
  using LoadParams_values [of "map (\<lambda>i. (Tag_Param @ nat_to_string i, params ! i)) (order (length params))" "[]"]
  unfolding length_map assms by (simp add: SaveTupleParams_def comp_def)

section \<open>Properties\<close>

text \<open>
  A pack over a Boost archive. Identifiers, type and exception text always come
  back. With an archive that does not compare names, the parameters come back in their order when
  the compiler evaluates arguments from right to left, and reversed when it evaluates them from
  left to right. With an archive that compares names a call with parameters cannot be read, in
  whatever order they were saved. An empty buffer is always refused. The archive is assumed to
  give back the values it was given, from bytes that are not empty.
\<close>

lemma boost_pack_parameters:
  assumes "s = BoostSerializer_PutException (BoostSerializer_new isReques uuid inst iface meth params) ex"
    and "d = \<lparr>d_uuid = uuid, d_type = (if isReques then Tag_Request else Tag_Response), d_instance = inst,
      d_interface = iface, d_method = meth, d_exception = map_option (\<lambda>e. Runtime_error (exception_text e)) ex,
      d_archive = SaveTupleParams order params\<rparr>"
    and "open_archive (write_archive (saved_values order s)) = Inr (saved_values order s)"
    and "write_archive (saved_values order s) \<noteq> []"
  shows "BoostDeserializer_new open_archive checks (BoostSerializer_GetBuffer write_archive order s) = Inr d \<and>
    (\<exists>e. BoostDeserializer_new open_archive checks [] = Inl e) \<and>
    (order = right_to_left \<longrightarrow> Boost_GetParams False (length params) d = Inr (d\<lparr>d_archive := []\<rparr>, params)) \<and>
    (order = left_to_right \<longrightarrow> Boost_GetParams False (length params) d = Inr (d\<lparr>d_archive := []\<rparr>, rev params)) \<and>
    (params \<noteq> [] \<longrightarrow> set (order (length params)) = {..<length params} \<longrightarrow>
       Boost_GetParams True (length params) d = Inl archive_error)"
proof (intro conjI impI)
  show "BoostDeserializer_new open_archive checks (BoostSerializer_GetBuffer write_archive order s) = Inr d"
    using header_read [of open_archive write_archive order s checks] assms(3,4) by (simp add: assms(1,2) BoostSerializer_PutException_def BoostSerializer_new_def)
  show "\<exists>e. BoostDeserializer_new open_archive checks [] = Inl e"
    by (cases "open_archive []") (simp_all add: BoostDeserializer_new_def)
  show "Boost_GetParams False (length params) d = Inr (d\<lparr>d_archive := []\<rparr>, params)" if "order = right_to_left"
    using that LoadParams_order [of order params] assms(2)
    by (simp add: Boost_GetParams_def right_to_left_def rev_map map_nth)
  show "Boost_GetParams False (length params) d = Inr (d\<lparr>d_archive := []\<rparr>, rev params)" if "order = left_to_right"
    using that LoadParams_order [of order params] assms(2)
    by (simp add: Boost_GetParams_def left_to_right_def map_nth)
next
  assume "params \<noteq> []" and perm: "set (order (length params)) = {..<length params}"
  then obtain n where n: "length params = Suc n" by (cases params) auto
  then obtain i js where o: "order (length params) = i # js"
    using perm by (cases "order (length params)") auto
  then have "i \<noteq> length params" using perm by (metis lessThan_iff list.set_intros(1) nat_neq_iff)
  then have "nat_to_string i \<noteq> nat_to_string (Suc n)" using nat_to_string_inj n by metis
  then have "LoadParams True (Suc n) (SaveTupleParams order params) = Inl archive_error"
    using o by (simp add: SaveTupleParams_def load_def)
  then show "Boost_GetParams True (length params) d = Inl archive_error"
    using n assms(2) by (simp add: Boost_GetParams_def)
qed

definition sample_boost :: "nat boost_serializer" where
  "sample_boost = BoostSerializer_PutException (BoostSerializer_new True ''u'' ''1'' ''I'' ''M'' [1, 2]) None"

lemma boost_pack_parameters_example:
  "\<exists>d d'. BoostDeserializer_new (\<lambda>_. Inr (saved_values left_to_right sample_boost)) False
       (BoostSerializer_GetBuffer (\<lambda>_. ''a'') left_to_right sample_boost) = Inr d \<and>
     Boost_GetParams False (length [1, 2 :: nat]) d = Inr (d', rev [1, 2])"
  using boost_pack_parameters [OF sample_boost_def refl, where order = left_to_right and checks = False
      and write_archive = "\<lambda>_. ''a''" and open_archive = "\<lambda>_. Inr (saved_values left_to_right sample_boost)"] by auto

end
