(* ===== verification/Remote_Xml.thy ===== *)
theory Remote_Xml
  imports Remote_Message
begin

text \<open>
  The packs of the remote calls as XML (\<open>remote/serialization/xml.h\<close>), for calls without
  parameters and results: with parameters the class hands its nodes to functions of another
  library and cannot be compiled. A document is a list of nodes, an element has a name and its
  children, a text is a node of its own; \<open>save\<close> and \<open>load\<close> of a document are arguments.
\<close>

section \<open>Nodes\<close>

datatype xml_node = Xml_declaration "(string \<times> string) list" | Xml_element string "xml_node list" | Xml_pcdata string

fun named :: "string \<Rightarrow> xml_node \<Rightarrow> bool" where
  "named n (Xml_element m cs) = (m = n)"
| "named n _ = False"

fun node_children :: "xml_node \<Rightarrow> xml_node list" where
  "node_children (Xml_element m cs) = cs"
| "node_children _ = []"

text \<open>\<open>child\<close>: the first child with the name, or the null node, which has no children.\<close>

definition xml_child :: "xml_node list option \<Rightarrow> string \<Rightarrow> xml_node list option" where
  "xml_child node n = (case node of None \<Rightarrow> None | Some cs \<Rightarrow> map_option node_children (find (named n) cs))"

text \<open>\<open>child_value\<close>: the first text below the node, empty when there is none.\<close>

fun first_pcdata :: "xml_node list \<Rightarrow> string" where
  "first_pcdata [] = []"
| "first_pcdata (Xml_pcdata s # cs) = s"
| "first_pcdata (_ # cs) = first_pcdata cs"

definition child_value :: "xml_node list option \<Rightarrow> string" where
  "child_value node = (case node of None \<Rightarrow> [] | Some cs \<Rightarrow> first_pcdata cs)"

fun remove_child :: "string \<Rightarrow> xml_node list \<Rightarrow> xml_node list" where
  "remove_child n [] = []"
| "remove_child n (c # cs) = (if named n c then cs else c # remove_child n cs)"

text \<open>\<open>append_child(tag).append_child(node_pcdata).set_value(text)\<close>: a text ends at its first zero.\<close>

definition append_text :: "xml_node list \<Rightarrow> string \<Rightarrow> string \<Rightarrow> xml_node list" where
  "append_text cs tag s = cs @ [Xml_element tag [Xml_pcdata (c_str s)]]"

section \<open>Serializer\<close>

definition Tag_Pack :: string where
  "Tag_Pack = ''package''"

record xml_serializer =
  x_doc :: "xml_node list"
  x_root :: "xml_node list"

definition XmlSerializer_new :: "bool \<Rightarrow> string \<Rightarrow> string \<Rightarrow> string \<Rightarrow> string \<Rightarrow> xml_serializer" where
  "XmlSerializer_new isReques uuid instanceId interfaceId methodId =
     (let root = append_text [] Tag_Uuid uuid;
          root = append_text root Tag_Type (if isReques then Tag_Request else Tag_Response);
          root = append_text root Tag_Instsnce instanceId;
          root = append_text root Tag_Interface interfaceId;
          root = append_text root Tag_Method methodId
      in \<lparr>x_doc = [Xml_declaration [(''version'', ''1.0''), (''encoding'', ''UTF-8'')]], x_root = root\<rparr>)"

definition XmlSerializer_PutException :: "xml_serializer \<Rightarrow> exn \<Rightarrow> xml_serializer" where
  "XmlSerializer_PutException s e =
     s\<lparr>x_root := append_text (remove_child Tag_Exception (x_root s)) Tag_Exception (exception_text e)\<rparr>"

text \<open>The root is a child of the document.\<close>

definition xml_document :: "xml_serializer \<Rightarrow> xml_node list" where
  "xml_document s = x_doc s @ [Xml_element Tag_Pack (x_root s)]"

definition XmlSerializer_GetBuffer :: "(xml_node list \<Rightarrow> buffer) \<Rightarrow> xml_serializer \<Rightarrow> buffer" where
  "XmlSerializer_GetBuffer save s = save (xml_document s)"

section \<open>Deserializer\<close>

text \<open>\<open>m_root\<close> is a null node when the document has no pack; \<open>load\<close> fails with a description.\<close>

type_synonym xml_deserializer = "xml_node list option"

definition XmlDeserializer_new :: "(buffer \<Rightarrow> string + xml_node list) \<Rightarrow> buffer \<Rightarrow> xml_deserializer result" where
  "XmlDeserializer_new load buffer =
     (if buffer = [] then Inl (Invalid_argument ''[Mif::Remote::Serialization::Xml::Deserializer] Empty buffer.'')
      else case load buffer of
        Inl description \<Rightarrow> Inl (Invalid_argument (''[Mif::Remote::Serialization::Xml::Deserializer] Bad xml. '' @ ''Error'' @ description))
      | Inr doc \<Rightarrow> Inr (xml_child (Some doc) Tag_Pack))"

definition Xml_GetUuid :: "xml_deserializer \<Rightarrow> string" where
  "Xml_GetUuid root = child_value (xml_child root Tag_Uuid)"

definition Xml_GetType :: "xml_deserializer \<Rightarrow> string" where
  "Xml_GetType root = child_value (xml_child root Tag_Type)"

definition Xml_IsRequest :: "xml_deserializer \<Rightarrow> bool" where
  "Xml_IsRequest root \<longleftrightarrow> Xml_GetType root = Tag_Request"

definition Xml_IsResponse :: "xml_deserializer \<Rightarrow> bool" where
  "Xml_IsResponse root \<longleftrightarrow> Xml_GetType root = Tag_Response"

definition Xml_GetInstance :: "xml_deserializer \<Rightarrow> string" where
  "Xml_GetInstance root = child_value (xml_child root Tag_Instsnce)"

definition Xml_GetInterface :: "xml_deserializer \<Rightarrow> string" where
  "Xml_GetInterface root = child_value (xml_child root Tag_Interface)"

definition Xml_GetMethod :: "xml_deserializer \<Rightarrow> string" where
  "Xml_GetMethod root = child_value (xml_child root Tag_Method)"

definition Xml_HasException :: "xml_deserializer \<Rightarrow> bool" where
  "Xml_HasException root \<longleftrightarrow> xml_child root Tag_Exception \<noteq> None"

definition Xml_GetException :: "xml_deserializer \<Rightarrow> exn option" where
  "Xml_GetException root =
     (if Xml_HasException root then Some (Runtime_error (child_value (xml_child root Tag_Exception))) else None)"

section \<open>Facts\<close>

text \<open>
  What comes back from its own text: the library drops texts of white space, joins carriage
  returns into line ends and ends texts at a zero character, and keeps the others.
\<close>

definition plain_text :: "string \<Rightarrow> bool" where
  "plain_text s \<longleftrightarrow> NUL \<notin> set s \<and> CHR 0x0D \<notin> set s \<and> (\<exists>c \<in> set s. c \<notin> {CHR '' '', CHR 0x09, CHR 0x0A})"

fun plain_node :: "xml_node \<Rightarrow> bool" where
  "plain_node (Xml_declaration as) = True"
| "plain_node (Xml_element n cs) = list_all plain_node cs"
| "plain_node (Xml_pcdata s) = plain_text s"

definition text_kept :: "(xml_node list \<Rightarrow> buffer) \<Rightarrow> (buffer \<Rightarrow> string + xml_node list) \<Rightarrow> xml_node list \<Rightarrow> bool" where
  "text_kept save load doc \<longleftrightarrow> save doc \<noteq> [] \<and> (list_all plain_node doc \<longrightarrow> load (save doc) = Inr doc)"

lemma find_append: "find P (xs @ ys) = (case find P xs of Some x \<Rightarrow> Some x | None \<Rightarrow> find P ys)"
  by (induction xs) auto

lemma append_text_child:
  "xml_child (Some (append_text cs tag s)) tag' =
     (case xml_child (Some cs) tag' of
        Some x \<Rightarrow> Some x
      | None \<Rightarrow> if tag' = tag then Some [Xml_pcdata (c_str s)] else None)"
  by (auto simp: xml_child_def append_text_def find_append split: option.splits)

lemma c_str_plain: "plain_text s \<Longrightarrow> c_str s = s"
  by (simp add: plain_text_def c_str_id)

lemma child_of_empty [simp]: "xml_child (Some []) tag = None" "xml_child None tag = None"
  by (simp_all add: xml_child_def)

lemma append_text_plain [simp]: "list_all plain_node (append_text cs tag s) \<longleftrightarrow> list_all plain_node cs \<and> plain_text (c_str s)"
  by (simp add: append_text_def)

lemma remove_absent: "xml_child (Some cs) n = None \<Longrightarrow> remove_child n cs = cs"
  by (induction n cs rule: remove_child.induct) (auto simp: xml_child_def split: if_splits)

lemma pack_tags_plain: "plain_text Tag_Request" "plain_text Tag_Response"
  by (simp_all add: plain_text_def tag_defs)

lemma read_own_document:
  assumes "list_all plain_node (x_root s)" and "x_doc s = [Xml_declaration as]" and "text_kept save load (xml_document s)"
  shows "XmlDeserializer_new load (XmlSerializer_GetBuffer save s) = Inr (Some (x_root s))"
  using assms by (simp add: XmlDeserializer_new_def XmlSerializer_GetBuffer_def text_kept_def xml_document_def xml_child_def)

text \<open>A document without a pack is accepted, and all its names are empty.\<close>

lemma xml_without_pack:
  assumes "buffer \<noteq> []" and "load buffer = Inr doc" and "list_all (\<lambda>c. \<not> named Tag_Pack c) doc"
  shows "XmlDeserializer_new load buffer = Inr None" and "Xml_GetUuid None = []" and "\<not> Xml_IsRequest None" and "\<not> Xml_IsResponse None"
  using assms
  by (simp_all add: XmlDeserializer_new_def xml_child_def find_None_iff list_all_iff Xml_GetUuid_def Xml_IsRequest_def Xml_IsResponse_def
      Xml_GetType_def child_value_def tag_defs)

section \<open>Properties\<close>


definition sample_xml :: xml_serializer where
  "sample_xml = foldl XmlSerializer_PutException (XmlSerializer_new False ''u1'' ''7'' ''ICounter'' ''Add'')
     [Logic_error ''first'', Logic_error ''no sum'']"


end
