(* ===== verification/Remote_Factory.thy ===== *)
theory Remote_Factory
  imports Tcp_Transport Service_Locator
begin

text \<open>
  Setting up remote services: the remote factory (\<open>remote/factory.cpp\<close>) over a connection, and
  the predefined pieces (\<open>remote/predefined/utility.h\<close>) it is made of. The client chain, the
  proxies and the thread pool are modelled in their own theories; here they are arguments.
\<close>

section \<open>Factory\<close>

text \<open>
  The factory holds a connection, which in turn holds its current client. \<open>'k\<close> is a client,
  \<open>'s\<close> a service.
\<close>

record 'k remote_factory =
  rf_client :: "'k option"

definition Remote_Factory_new :: "'k option option \<Rightarrow> 'k remote_factory result" where
  "Remote_Factory_new connection =
     (case connection of
        None \<Rightarrow> Inl (Invalid_argument ''[Mif::Remote::Factory] Empty connection ptr.'')
      | Some client \<Rightarrow> Inr \<lparr>rf_client = client\<rparr>)"

definition Remote_Factory_Create :: "('k \<Rightarrow> bool) \<Rightarrow> 'k result \<Rightarrow> ('k option \<Rightarrow> ServiceId \<Rightarrow> 's result) \<Rightarrow>
    'k remote_factory \<Rightarrow> ServiceId \<Rightarrow> 'k remote_factory \<times> 's result" where
  "Remote_Factory_Create is_closed run_client creator f i =
     (case Tcp_GetClient is_closed run_client (rf_client f) of
        (c, Inl e) \<Rightarrow> (f\<lparr>rf_client := c\<rparr>, Inl e)
      | (c, Inr k) \<Rightarrow> (f\<lparr>rf_client := c\<rparr>, creator (Some k) i))"

section \<open>Predefined pieces\<close>

text \<open>\<open>ps_of\<close> finds the proxy/stub client in the chain, \<open>create\<close> asks it for a service.\<close>

definition Predefined_CreateService :: "('k \<Rightarrow> 'p) \<Rightarrow> ('p \<Rightarrow> ServiceId \<Rightarrow> 's result) \<Rightarrow> 'k option \<Rightarrow> ServiceId \<Rightarrow> 's result" where
  "Predefined_CreateService ps_of create client i =
     (case client of
        None \<Rightarrow> Inl (Invalid_argument (''[Mif::Remote::Predefined::CreateService] '' @ ''Empty client ptr.''))
      | Some k \<Rightarrow> create (ps_of k) i)"

text \<open>
  \<open>MakeClientFactory\<close>: a thread pool for the parallel handler, and the two creators. A number of
  threads of zero is refused by the pool.
\<close>

definition MakeClientFactory :: "('t worker_pool \<Rightarrow> nat \<Rightarrow> 's factory \<Rightarrow> 'f) \<Rightarrow> nat \<Rightarrow> nat \<Rightarrow> 's factory \<Rightarrow> 'f result" where
  "MakeClientFactory build threads timeout factory =
     (case ThreadPool_new threads of Inl e \<Rightarrow> Inl e | Inr workers \<Rightarrow> Inr (build workers timeout factory))"

text \<open>
  \<open>CreateTcpClientServiceFactory\<close>: the client factory, a connection that has no client yet, and
  the factory over it.
\<close>

definition CreateTcpClientServiceFactory :: "('t worker_pool \<Rightarrow> nat \<Rightarrow> 's factory \<Rightarrow> 'f) \<Rightarrow> 's factory \<Rightarrow> string \<Rightarrow> string \<Rightarrow>
    nat \<Rightarrow> nat \<Rightarrow> ((string \<times> string \<times> 'f) \<times> 'k remote_factory) result" where
  "CreateTcpClientServiceFactory build factory host port threads timeout =
     and_then (MakeClientFactory build threads timeout factory) (\<lambda>clientFactory.
     and_then (Remote_Factory_new (Some None)) (\<lambda>f. Inr ((host, port, clientFactory), f)))"

lemma CreateTcpClientServiceFactory_iff:
  "\<not> isl (CreateTcpClientServiceFactory build factory host port threads timeout) \<longleftrightarrow> 0 < threads"
  by (simp add: CreateTcpClientServiceFactory_def MakeClientFactory_def ThreadPool_new_def Remote_Factory_new_def)

section \<open>Properties\<close>

text \<open>
  One connection serves many services. As long as the client of the connection is
  open, every service is created through that same client and the factory does not change; after
  it is closed, the next call connects anew and the services after it use the new client; when
  connecting fails, the caller gets the error and the factory keeps its state.
\<close>

lemma remote_factory_reconnects:
  "(rf_client f = Some k \<longrightarrow> \<not> is_closed k \<longrightarrow>
      Remote_Factory_Create is_closed run_client creator f i = (f, creator (Some k) i)) \<and>
   (rf_client f = None \<or> (\<exists>k. rf_client f = Some k \<and> is_closed k) \<longrightarrow>
      (run_client = Inr k' \<longrightarrow>
         Remote_Factory_Create is_closed run_client creator f i = (\<lparr>rf_client = Some k'\<rparr>, creator (Some k') i)) \<and>
      (run_client = Inl e \<longrightarrow>
         Remote_Factory_Create is_closed run_client creator f i = (f, Inl e)))"
  by (cases f) (auto simp: Remote_Factory_Create_def Tcp_GetClient_def)

lemma remote_factory_reconnects_example:
  "Remote_Factory_Create (\<lambda>k. k = (1 :: nat)) (Inr 2) (\<lambda>k i. Inr k) \<lparr>rf_client = Some 1\<rparr> 7 =
     (\<lparr>rf_client = Some 2\<rparr>, Inr (Some 2))"
  using remote_factory_reconnects [of "\<lparr>rf_client = Some (1 :: nat)\<rparr>" 1 "\<lambda>k. k = 1" "Inr 2" "\<lambda>k i. Inr k" 7 2 Bad_cast] by simp

end
