(* ===== verification/Serialization_Boost.thy ===== *)
theory Serialization_Boost
  imports Prelude
begin

text \<open>
  Reflected classes in Boost archives (\<open>serialization/boost.h\<close>): one function that puts the bases
  and then the fields of an object into an archive, each under its name, or takes them out of it.
  The archive is the sequence of what goes through it; how a value that is no reflected class is
  written is the work of Boost, so such values are atoms of a type \<open>'p\<close>. As in the packs of remote
  calls, an archive may compare the names it reads with those it is asked for.
\<close>

section \<open>Archives\<close>

text \<open>A value of a class is enclosed by a start and an end, as in an XML archive.\<close>

datatype bty = B_atom | B_class "(string \<times> bty) list" "(string \<times> bty) list"

datatype 'p bval = Atom (atom: 'p) | Object_of (bv_bases: "'p bval list") (bv_fields: "'p bval list")

datatype 'p token = T_atom string 'p | T_start string | T_end

type_synonym 'p saver = "string \<Rightarrow> 'p bval \<Rightarrow> 'p token list"
type_synonym 'p loader = "string \<Rightarrow> 'p token list \<Rightarrow> ('p bval \<times> 'p token list) result"

definition boost_error :: exn where
  "boost_error = Runtime_error ''archive exception''"

section \<open>Saving\<close>

text \<open>
  \<open>BasesSerializer<TBases, I>\<close> and \<open>Serializer<I>\<close>: the first \<open>I - 1\<close> members, then the member
  \<open>I - 1\<close>.
\<close>

fun Save_members :: "nat \<Rightarrow> (string \<times> 'p saver) list \<Rightarrow> 'p bval list \<Rightarrow> 'p token list" where
  "Save_members 0 ms vs = []"
| "Save_members (Suc i) ms vs = Save_members i ms vs @ snd (ms ! i) (fst (ms ! i)) (vs ! i)"

definition Save_object :: "(string \<times> 'p saver) list \<Rightarrow> (string \<times> 'p saver) list \<Rightarrow> 'p bval \<Rightarrow> 'p token list" where
  "Save_object bs fs v = Save_members (length bs) bs (bv_bases v) @ Save_members (length fs) fs (bv_fields v)"

primrec Boost_Save :: "bty \<Rightarrow> 'p saver" where
  "Boost_Save B_atom = (\<lambda>n v. [T_atom n (atom v)])"
| "Boost_Save (B_class bs fs) = (\<lambda>n v.
     T_start n # Save_object (map (map_prod id Boost_Save) bs) (map (map_prod id Boost_Save) fs) v @ [T_end])"

section \<open>Loading\<close>

fun Load_members :: "nat \<Rightarrow> (string \<times> 'p loader) list \<Rightarrow> 'p token list \<Rightarrow> ('p bval list \<times> 'p token list) result" where
  "Load_members 0 ms ts = Inr ([], ts)"
| "Load_members (Suc i) ms ts =
     (case Load_members i ms ts of
        Inl e \<Rightarrow> Inl e
      | Inr (vs, ts1) \<Rightarrow>
          (case snd (ms ! i) (fst (ms ! i)) ts1 of Inl e \<Rightarrow> Inl e | Inr (v, ts2) \<Rightarrow> Inr (vs @ [v], ts2)))"

definition Load_object :: "(string \<times> 'p loader) list \<Rightarrow> (string \<times> 'p loader) list \<Rightarrow> 'p token list \<Rightarrow>
    ('p bval \<times> 'p token list) result" where
  "Load_object bs fs ts =
     (case Load_members (length bs) bs ts of
        Inl e \<Rightarrow> Inl e
      | Inr (us, ts1) \<Rightarrow>
          (case Load_members (length fs) fs ts1 of Inl e \<Rightarrow> Inl e | Inr (vs, ts2) \<Rightarrow> Inr (Object_of us vs, ts2)))"

definition load_atom :: "bool \<Rightarrow> 'p loader" where
  "load_atom checks n ts =
     (case ts of
        T_atom m p # rest \<Rightarrow> if checks \<and> m \<noteq> n then Inl boost_error else Inr (Atom p, rest)
      | _ \<Rightarrow> Inl boost_error)"

definition load_class :: "bool \<Rightarrow> ('p token list \<Rightarrow> ('p bval \<times> 'p token list) result) \<Rightarrow> 'p loader" where
  "load_class checks body n ts =
     (case ts of
        T_start m # rest \<Rightarrow>
          if checks \<and> m \<noteq> n then Inl boost_error
          else (case body rest of Inr (v, T_end # rest') \<Rightarrow> Inr (v, rest') | Inl e \<Rightarrow> Inl e | _ \<Rightarrow> Inl boost_error)
      | _ \<Rightarrow> Inl boost_error)"

primrec Boost_Load :: "bool \<Rightarrow> bty \<Rightarrow> 'p loader" where
  "Boost_Load checks B_atom = load_atom checks"
| "Boost_Load checks (B_class bs fs) =
     load_class checks (Load_object (map (map_prod id (Boost_Load checks)) bs) (map (map_prod id (Boost_Load checks)) fs))"

section \<open>Facts\<close>

text \<open>The values of a type.\<close>

primrec boost_typed :: "bty \<Rightarrow> 'p bval \<Rightarrow> bool" where
  "boost_typed B_atom = is_Atom"
| "boost_typed (B_class bs fs) = (\<lambda>v. \<not> is_Atom v \<and>
     list_all2 snd (map (map_prod id boost_typed) bs) (bv_bases v) \<and>
     list_all2 snd (map (map_prod id boost_typed) fs) (bv_fields v))"

lemma Load_Save_members:
  assumes "i \<le> length ms" and "length vs = length ms"
    and "\<And>m v n ts. (m, v) \<in> set (zip ms vs) \<Longrightarrow> snd (ld m) n (snd (sv m) n v @ ts) = Inr (v, ts)"
    and "\<And>m. fst (ld m) = fst (sv m)"
  shows "Load_members i (map ld ms) (Save_members i (map sv ms) vs @ ts) = Inr (take i vs, ts)"
  using assms(1)
proof (induction i arbitrary: ts)
  case (Suc i)
  then have "(ms ! i, vs ! i) \<in> set (zip ms vs)"
    using assms(2) by (auto simp: in_set_zip)
  with Suc assms(2,3,4) show ?case
    by (simp add: take_Suc_conv_app_nth)
qed simp

section \<open>Properties\<close>


definition sample_boost_type :: bty where
  "sample_boost_type = B_class [(''Base'', B_class [] [(''id'', B_atom)])] [(''name'', B_atom), (''age'', B_atom)]"


end
