(* ===== verification/Json_Writer.thy ===== *)
theory Json_Writer
  imports Json_Value Text_Stream
begin

text \<open>
  The writer of JSON text (\<open>Write\<close> of \<open>serialization/json.h\<close>), which the build uses unless it is
  asked for the compact one: every member and item on a line of its own, indented by four spaces
  for each level. Strings are written by Boost.JSON and floating-point numbers by the stream.
\<close>

section \<open>Write\<close>

record 'd writer_env =
  w_string :: "string \<Rightarrow> string"
  w_double :: "'d \<Rightarrow> string"

text \<open>The loops write a separator before every element but the first.\<close>

fun joined_by :: "'a list \<Rightarrow> 'a list list \<Rightarrow> 'a list" where
  "joined_by sep [] = []"
| "joined_by sep [x] = x"
| "joined_by sep (x # y # xs) = x @ sep @ joined_by sep (y # xs)"

definition indent :: "nat \<Rightarrow> string" where
  "indent level = replicate (level * 4) (CHR '' '')"

definition line_end :: "nat \<Rightarrow> string" where
  "line_end level = (if level = 0 then newline else [])"

fun Write :: "'d writer_env \<Rightarrow> 'd json \<Rightarrow> nat \<Rightarrow> string" where
  "Write w (Object kvs) level =
     ''{'' @ newline @
     joined_by ('','' @ newline)
       (map (\<lambda>(k, j). indent (Suc level) @ w_string w k @ '': '' @ Write w j (Suc level)) kvs) @
     newline @ indent level @ ''}'' @ line_end level"
| "Write w (Array js) level =
     ''['' @ newline @
     joined_by ('','' @ newline) (map (\<lambda>j. indent (Suc level) @ Write w j (Suc level)) js) @
     newline @ indent level @ '']'' @ line_end level"
| "Write w (String s) level = w_string w s @ line_end level"
| "Write w (Uint64 n) level = nat_to_string n @ line_end level"
| "Write w (Int64 i) level = int_to_string i @ line_end level"
| "Write w (Double d) level = w_double w d @ line_end level"
| "Write w (Bool b) level = (if b then ''true'' else ''false'') @ line_end level"
| "Write w Null level = ''null'' @ line_end level"

section \<open>Tokens\<close>

text \<open>
  The tokens of a document, as its grammar has them: a comma before every element but the first.
\<close>

definition separated :: "'a \<Rightarrow> 'a list list \<Rightarrow> 'a list" where
  "separated sep xs = tl (concat (map ((#) sep) xs))"

fun json_tokens :: "'d writer_env \<Rightarrow> 'd json \<Rightarrow> string list" where
  "json_tokens w (Object kvs) = [''{''] @ separated '','' (map (\<lambda>(k, j). [w_string w k, '':''] @ json_tokens w j) kvs) @ [''}'']"
| "json_tokens w (Array js) = [''['' ] @ separated '','' (map (json_tokens w) js) @ ['']'']"
| "json_tokens w (String s) = [w_string w s]"
| "json_tokens w (Uint64 n) = [nat_to_string n]"
| "json_tokens w (Int64 i) = [int_to_string i]"
| "json_tokens w (Double d) = [w_double w d]"
| "json_tokens w (Bool b) = [if b then ''true'' else ''false'']"
| "json_tokens w Null = [''null'']"

text \<open>A text in pieces: tokens and what stands between them.\<close>

datatype piece = Token string | Blank string

fun piece_text :: "piece \<Rightarrow> string" where
  "piece_text (Token s) = s"
| "piece_text (Blank s) = s"

fun piece_token :: "piece \<Rightarrow> string list" where
  "piece_token (Token s) = [s]"
| "piece_token (Blank s) = []"

fun piece_ok :: "piece \<Rightarrow> bool" where
  "piece_ok (Token s) = True"
| "piece_ok (Blank s) = list_all (\<lambda>c. c = CHR '' '' \<or> c = CHR 0x0A) s"

definition written_as :: "piece list \<Rightarrow> string \<Rightarrow> string list \<Rightarrow> bool" where
  "written_as ps txt tokens \<longleftrightarrow> concat (map piece_text ps) = txt \<and> concat (map piece_token ps) = tokens \<and> list_all piece_ok ps"

lemma written_as_append: "written_as ps a s \<Longrightarrow> written_as qs b t \<Longrightarrow> written_as (ps @ qs) (a @ b) (s @ t)"
  by (simp add: written_as_def)

lemma written_token: "written_as [Token s] s [s]"
  by (simp add: written_as_def)

lemma written_blank:
  "written_as [Blank (indent n)] (indent n) []" "written_as [Blank newline] newline []" "written_as [Blank (line_end n)] (line_end n) []"
  by (simp_all add: written_as_def indent_def newline_def line_end_def list_all_iff)

lemma written_nothing: "written_as [] [] []"
  by (simp add: written_as_def)

text \<open>
  That a text has these tokens, with nothing but spaces and line ends between them.
\<close>

definition text_of_tokens :: "string \<Rightarrow> string list \<Rightarrow> bool" where
  "text_of_tokens txt tokens \<longleftrightarrow> (\<exists>ps. written_as ps txt tokens)"

lemma text_of_append: "text_of_tokens a s \<Longrightarrow> text_of_tokens b t \<Longrightarrow> text_of_tokens (a @ b) (s @ t)"
  unfolding text_of_tokens_def by (blast intro: written_as_append)

lemma text_of_token: "text_of_tokens s [s]"
  unfolding text_of_tokens_def by (blast intro: written_token)

lemma text_of_blank: "text_of_tokens (indent n) []" "text_of_tokens newline []" "text_of_tokens (line_end n) []"
  unfolding text_of_tokens_def by (blast intro: written_blank)+

lemma text_of_space: "text_of_tokens '': '' ['':'']"
  unfolding text_of_tokens_def written_as_def by (rule exI [of _ "[Token '':'', Blank '' '']"]) simp

text \<open>A part of a text before its blanks, after them, and between a token and a blank.\<close>

lemma text_of_blank_before: "text_of_tokens a [] \<Longrightarrow> text_of_tokens b t \<Longrightarrow> text_of_tokens (a @ b) t"
  using text_of_append [of a "[]" b t] by simp

lemma text_of_token_before: "text_of_tokens a [s] \<Longrightarrow> text_of_tokens b t \<Longrightarrow> text_of_tokens (a @ b) (s # t)"
  using text_of_append [of a "[s]" b t] by simp

lemma text_of_separator: "text_of_tokens ('','' @ newline) ['','']"
  by (rule text_of_token_before [OF text_of_token text_of_blank(2)])

lemma text_of_joined:
  assumes "text_of_tokens sep [sep']" and "list_all2 text_of_tokens as ss"
  shows "text_of_tokens (joined_by sep as) (separated sep' ss)"
  using assms(2)
proof (induction as arbitrary: ss)
  case Nil
  then show ?case
    using text_of_blank(1) [of 0] by (simp add: indent_def separated_def)
next
  case (Cons x xs)
  then obtain t ts where ss: "ss = t # ts" and x: "text_of_tokens x t" and xs: "list_all2 text_of_tokens xs ts"
    by (auto simp: list_all2_Cons1)
  note rest = Cons.IH [OF xs]
  show ?case
  proof (cases xs)
    case Nil
    with ss x xs show ?thesis by (simp add: separated_def)
  next
    case (Cons y ys)
    with xs obtain u us where ts: "ts = u # us"
      by (auto simp: list_all2_Cons1)
    show ?thesis
      using text_of_append [OF x text_of_append [OF assms(1) rest]] ss ts Cons by (simp add: separated_def)
  qed
qed

text \<open>A document's text, at the end of a line: a part follows its opening token, its blanks and so on.\<close>

lemma written_container:
  assumes "list_all2 text_of_tokens as ss"
  shows "text_of_tokens (op @ newline @ joined_by ('','' @ newline) as @ newline @ indent n @ cl @ line_end n)
           (op # separated '','' ss @ [cl])"
proof -
  have "text_of_tokens (newline @ indent n @ cl @ line_end n) [cl]"
    by (intro text_of_blank_before text_of_token_before text_of_token text_of_blank)
  with text_of_joined [OF text_of_separator assms] show ?thesis
    by (intro text_of_token_before text_of_blank_before text_of_token text_of_blank text_of_append)
qed

lemma written_scalar: "text_of_tokens (s @ line_end n) [s]"
  by (intro text_of_token_before text_of_token text_of_blank)

lemma Write_tokens: "text_of_tokens (Write w j level) (json_tokens w j)"
proof (induction w j level rule: Write.induct)
  case (1 w kvs level)
  have member: "text_of_tokens (indent (Suc level) @ w_string w k @ '': '' @ Write w j (Suc level)) ([w_string w k, '':''] @ json_tokens w j)"
    if "(k, j) \<in> set kvs" for k j
    using text_of_blank_before [OF text_of_blank(1) text_of_token_before [OF text_of_token
        text_of_token_before [OF text_of_space 1 [OF that refl]]]]
    by simp
  have "list_all2 text_of_tokens
      (map (\<lambda>(k, j). indent (Suc level) @ w_string w k @ '': '' @ Write w j (Suc level)) kvs)
      (map (\<lambda>(k, j). [w_string w k, '':''] @ json_tokens w j) kvs)"
    unfolding list_all2_map1 list_all2_map2 by (rule list_all2_same [THEN iffD2]) (use member in auto)
  from written_container [OF this, of "''{''" level "''}''"] show ?case
    by simp
next
  case (2 w js level)
  then show ?case
    using written_container [of "map (\<lambda>j. indent (Suc level) @ Write w j (Suc level)) js" "map (json_tokens w) js" "''[''" level "'']''"]
    by (simp add: list_all2_conv_all_nth text_of_blank_before text_of_blank)
qed (simp_all only: Write.simps json_tokens.simps written_scalar)

text \<open>
  Property C24: the writer that is on by default writes, for every document and at every level, the
  tokens of the document in the order of its grammar and between them nothing but spaces and line
  ends; and the text of a whole document ends with a line end. The laid-out text and the compact one
  therefore are the same document to a reader of JSON.
\<close>

theorem pretty_writer_tokens:
  "text_of_tokens (Write w j level) (json_tokens w j) \<and> last (Write w j 0) = CHR 0x0A"
  by (cases j) (simp_all only: Write_tokens simp_thms, simp_all add: line_end_def newline_def)

end
