(* ===== verification/Hash_Calc.thy ===== *)
theory Hash_Calc
  imports Crc32 Http_Pack Text_Stream
begin

text \<open>
  The texts of hashes (\<open>common/hash_calc.cpp\<close>): the checksum in decimal digits, the digest of MD5 in
  hexadecimal digits and the name-based identifier of SHA-1. A buffer is a pointer, which may be
  null, to its bytes. The two digests are computed by Boost and are arguments here.
\<close>

section \<open>Operations\<close>

type_synonym buffer_pointer = "char list option"

definition nothing_to_hash :: "buffer_pointer \<Rightarrow> nat \<Rightarrow> bool" where
  "nothing_to_hash data sz = (data = None \<or> sz = 0)"

text \<open>The bytes that a digest reads; reading behind the end of a buffer is undefined.\<close>

definition bytes_at :: "buffer_pointer \<Rightarrow> nat \<Rightarrow> char list result" where
  "bytes_at data sz =
     (case data of
        Some bytes \<Rightarrow> if sz \<le> length bytes then Inr (take sz bytes) else Inl Undefined_behaviour
      | None \<Rightarrow> if sz = 0 then Inr [] else Inl Undefined_behaviour)"

text \<open>\<open>Hash::Crc32\<close>: the size is narrowed to 32 bits by the call.\<close>

definition Hash_Crc32 :: "buffer_pointer \<Rightarrow> nat \<Rightarrow> string result" where
  "Hash_Crc32 data sz =
     (let bytes = word_of_nat sz :: 32 word
      in and_then (bytes_at data (unat bytes)) (\<lambda>buf. Inr (nat_to_string (unat (Crc32_runtime buf bytes)))))"

text \<open>\<open>boost::algorithm::hex\<close>: two digits for every byte, the high one first.\<close>

definition hex_bytes :: "char list \<Rightarrow> string" where
  "hex_bytes bytes = concat (map (\<lambda>c. [hex_upper (code_of c div 16), hex_upper (code_of c mod 16)]) bytes)"

definition Md5 :: "(char list \<Rightarrow> char list) \<Rightarrow> buffer_pointer \<Rightarrow> nat \<Rightarrow> string result" where
  "Md5 md5 data sz =
     (if nothing_to_hash data sz then Inl (Invalid_argument ''Failed to calc md5 for empty data.'')
      else and_then (bytes_at data sz) (\<lambda>bytes. Inr (lower (hex_bytes (md5 bytes)))))"

definition Sha1 :: "(string \<Rightarrow> string) \<Rightarrow> buffer_pointer \<Rightarrow> nat \<Rightarrow> string result" where
  "Sha1 name_generator_sha1 data sz =
     (if nothing_to_hash data sz then Inl (Invalid_argument ''Failed to calc sha1 for empty data.'')
      else and_then (bytes_at data sz) (\<lambda>bytes. Inr (name_generator_sha1 bytes)))"

section \<open>Facts\<close>

lemma lower_hex_digit: "n < 16 \<Longrightarrow> lower_char (hex_upper n) = char_of (if n < 10 then n + 48 else n + 87)"
  by (cases "n < 10") (simp_all add: lower_char_def code_of_def Let_def hex_upper_def)

lemma lower_hex_inj:
  assumes "m < 16" and "n < 16"
  shows "lower_char (hex_upper m) = lower_char (hex_upper n) \<longleftrightarrow> m = n"
proof
  assume "lower_char (hex_upper m) = lower_char (hex_upper n)"
  then have "(of_char (lower_char (hex_upper m)) :: nat) = of_char (lower_char (hex_upper n))"
    by simp
  with assms show "m = n"
    by (auto simp: lower_hex_digit split: if_splits)
qed simp

lemma length_hex_bytes: "length (lower (hex_bytes bs)) = 2 * length bs"
  by (induction bs) (simp_all add: hex_bytes_def lower_def)

text \<open>The digits of a digest determine it.\<close>

lemma hex_bytes_inj: "lower (hex_bytes as) = lower (hex_bytes bs) \<longleftrightarrow> as = bs"
proof (induction as arbitrary: bs)
  case Nil
  show ?case
    using length_hex_bytes [of bs] by (auto simp: hex_bytes_def lower_def)
next
  case (Cons a as)
  show ?case
  proof (cases bs)
    case (Cons b bs')
    have "code_of a div 16 = code_of b div 16 \<and> code_of a mod 16 = code_of b mod 16 \<longleftrightarrow> a = b"
      by (metis char_of_code_of div_mult_mod_eq)
    then show ?thesis
      using Cons.IH [of bs'] code_of_less [of a] code_of_less [of b] by (simp add: Cons hex_bytes_def lower_def lower_hex_inj) blast
  qed (simp add: hex_bytes_def lower_def)
qed

text \<open>
  What the functions return: for a buffer that is there and not empty, the checksum of its bytes in
  decimal digits and two lower case hexadecimal digits for each byte of the digest; for no bytes, the
  digests throw and the checksum is that of nothing.
\<close>

lemma Hash_Crc32_reference:
  assumes "n < 2 ^ 32" and "n \<le> length bytes"
  shows "Hash_Crc32 (Some bytes) n = Inr (nat_to_string (unat (crc32_reference (take n bytes))))"
  using assms by (simp add: Hash_Crc32_def bytes_at_def unat_of_nat Crc32_runtime_bits)

lemma Md5_digits:
  assumes "Md5 md5 (Some bytes) n = Inr s"
  shows "0 < n \<and> n \<le> length bytes \<and> length s = 2 * length (md5 (take n bytes)) \<and>
    (lower (hex_bytes digest) = s \<longleftrightarrow> digest = md5 (take n bytes))"
  using assms
  by (auto simp: Md5_def bytes_at_def nothing_to_hash_def length_hex_bytes hex_bytes_inj split: if_splits)

lemma empty_digests_throw:
  "nothing_to_hash data n \<Longrightarrow> Md5 md5 data n = Inl (Invalid_argument ''Failed to calc md5 for empty data.'') \<and>
     Sha1 sha1 data n = Inl (Invalid_argument ''Failed to calc sha1 for empty data.'')"
  by (simp add: Md5_def Sha1_def)

text \<open>The size of a buffer is narrowed: the checksum of four gigabytes is the one of no bytes.\<close>

lemma Hash_Crc32_narrows: "Hash_Crc32 (Some bytes) (2 ^ 32) = Inr ''0''"
proof -
  have zero: "(word_of_nat (2 ^ 32) :: 32 word) = 0"
    by (simp add: word_of_nat_eq_0_iff)
  show ?thesis
    unfolding Hash_Crc32_def zero by (simp add: bytes_at_def Crc32_runtime_def nat_to_string_unfold) code_simp
qed

end
