(* ===== verification/Http_Members.thy ===== *)
theory Http_Members
  imports Http_Handler
begin

text \<open>
  A class derived from \<open>WebService\<close> with a state of its own: \<open>AddHandler(path, this, &T::Method)\<close>
  stores closures over the object, so a handler works on the state at the time of the request.
  The members of the class are given by their paths, the kinds of their arguments and their
  bodies; a request changes the statistics of the service, and the state of the object when a
  member is called. The web services of the examples are instances.
\<close>

section \<open>Members\<close>

record ('s, 'd) web_member =
  wm_path :: string
  wm_kinds :: "'d arg_kind list"
  wm_call :: "'d arg_value list \<Rightarrow> 's \<Rightarrow> OutputPack \<Rightarrow> 's \<times> OutputPack \<times> handler_result option result"

definition member_handler :: "(nat \<Rightarrow> nat list) \<Rightarrow> 'd url_env \<Rightarrow> 's \<Rightarrow> ('s, 'd) web_member \<Rightarrow> web_handler" where
  "member_handler order env s m =
     ProcessRequest_handler order env (wm_kinds m) (\<lambda>args out. snd (wm_call m args s out))"

definition add_members :: "(nat \<Rightarrow> nat list) \<Rightarrow> 'd url_env \<Rightarrow> ('s, 'd) web_member list \<Rightarrow> 's \<Rightarrow> WebService" where
  "add_members order env ms s = foldl (\<lambda>w m. AddHandler w (wm_path m) (member_handler order env s m)) WebService_new ms"

text \<open>The service with the closures as they are in the state \<open>s\<close>.\<close>

definition service_at :: "(nat \<Rightarrow> nat list) \<Rightarrow> 'd url_env \<Rightarrow> ('s, 'd) web_member list \<Rightarrow> WebService \<times> 's \<Rightarrow> WebService" where
  "service_at order env ms ws = (fst ws)\<lparr>w_handlers := w_handlers (add_members order env ms (snd ws))\<rparr>"

definition called_member :: "('s, 'd) web_member list \<Rightarrow> WebService \<Rightarrow> string \<Rightarrow> ('s, 'd) web_member option" where
  "called_member ms w path =
     (case find_handler w path of None \<Rightarrow> None | Some (p, h) \<Rightarrow> find (\<lambda>m. wm_path m = p) ms)"

definition state_after :: "(nat \<Rightarrow> nat list) \<Rightarrow> 'd url_env \<Rightarrow> ('s, 'd) web_member option \<Rightarrow> InputPack \<Rightarrow> OutputPack \<Rightarrow> 's \<Rightarrow> 's" where
  "state_after order env mo req out s =
     (case mo of
        None \<Rightarrow> s
      | Some m \<Rightarrow>
          (case evaluate_args order (map (\<lambda>k. GetArg env k req) (wm_kinds m)) of
             Inl e \<Rightarrow> s
           | Inr args \<Rightarrow> fst (wm_call m args s out)))"

definition service_OnRequest :: "(nat \<Rightarrow> nat list) \<Rightarrow> 'd url_env \<Rightarrow> ('s, 'd) web_member list \<Rightarrow> WebService \<times> 's \<Rightarrow>
    InputPack \<Rightarrow> OutputPack \<Rightarrow> (WebService \<times> 's) \<times> OutputPack result" where
  "service_OnRequest order env ms ws req out =
     (let w = service_at order env ms ws
      in case WebService_OnRequest default_hooks w req out of
           (w', answer) \<Rightarrow>
             ((w', state_after order env (called_member ms w (InputPack_GetPath req)) req out (snd ws)), answer))"

text \<open>A member that returns a result, and the arguments it gets.\<close>

fun arg_prm :: "'d arg_value \<Rightarrow> 'd val Prm" where
  "arg_prm (Arg_prm p) = p"
| "arg_prm _ = \<lparr>m_name = [], m_value = None\<rparr>"

fun arg_content :: "'d arg_value \<Rightarrow> 'd val option" where
  "arg_content (Arg_content v) = v"
| "arg_content _ = None"

definition result_member :: "string \<Rightarrow> 'd arg_kind list \<Rightarrow> ('d arg_value list \<Rightarrow> 's \<Rightarrow> 's \<times> handler_result result) \<Rightarrow>
    ('s, 'd) web_member" where
  "result_member path kinds f =
     \<lparr>wm_path = path, wm_kinds = kinds,
      wm_call = (\<lambda>args s out. case f args s of (s', r) \<Rightarrow> (s', out, map_sum (\<lambda>e. e) Some r))\<rparr>"

section \<open>Facts\<close>

lemma add_members_handlers:
  assumes "sorted_wrt (<) (map fst (w_handlers w))"
  shows "sorted_wrt (<) (map fst (w_handlers (foldl (\<lambda>w m. AddHandler w (wm_path m) (h m)) w ms))) \<and>
    map_of (w_handlers (foldl (\<lambda>w m. AddHandler w (wm_path m) (h m)) w ms)) =
      foldl (\<lambda>f m. map_emplace f (wm_path m) (h m)) (map_of (w_handlers w)) ms"
  using assms
proof (induction ms arbitrary: w)
  case (Cons m ms)
  then show ?case
    using Cons.IH [of "AddHandler w (wm_path m) (h m)"]
    by (simp add: AddHandler_def ordered_emplace_sorted ordered_emplace_map)
qed simp

lemma foldl_emplace_kept: "f k = Some x \<Longrightarrow> foldl (\<lambda>f m. map_emplace f (p m) (h m)) f ms k = Some x"
proof (induction ms arbitrary: f)
  case (Cons m ms)
  then show ?case by (cases "p m = k") (simp_all add: map_emplace_same)
qed simp

lemma foldl_emplace_found:
  assumes "distinct (map p ms)" and "m \<in> set ms" and "f (p m) = None"
  shows "foldl (\<lambda>f m. map_emplace f (p m) (h m)) f ms (p m) = Some (h m)"
  using assms
proof (induction ms arbitrary: f)
  case (Cons a ms)
  show ?case
  proof (cases "a = m")
    case True
    with Cons.prems(3) show ?thesis by (simp add: foldl_emplace_kept map_emplace_same)
  next
    case False
    then have "p a \<noteq> p m"
      using Cons.prems(1,2) by force
    with False Cons show ?thesis by simp
  qed
qed simp

lemma find_member:
  assumes "distinct (map wm_path ms)" and "m \<in> set ms"
  shows "find_handler (service_at order env ms ws) (wm_path m) = Some (wm_path m, member_handler order env (snd ws) m)"
    and "called_member ms (service_at order env ms ws) (wm_path m) = Some m"
proof -
  have "map_of (w_handlers (add_members order env ms (snd ws))) (wm_path m) = Some (member_handler order env (snd ws) m)"
    using add_members_handlers [of WebService_new "member_handler order env (snd ws)" ms]
      foldl_emplace_found [OF assms, of Map.empty "member_handler order env (snd ws)"]
    by (simp add: add_members_def WebService_new_def)
  then show f: "find_handler (service_at order env ms ws) (wm_path m) = Some (wm_path m, member_handler order env (snd ws) m)"
    by (simp add: find_handler_def service_at_def)
  have "find (\<lambda>x. wm_path x = wm_path m) ms = Some m"
    using assms by (induction ms) (auto simp: image_iff)
  with f show "called_member ms (service_at order env ms ws) (wm_path m) = Some m"
    by (simp add: called_member_def)
qed

text \<open>
  A request to a member: its state is that after the call, and the answer is its response, with
  the value of its result as body, or the status and text of its exception.
\<close>

lemma service_calls_member:
  assumes "distinct (map wm_path ms)" and "m \<in> set ms" and "InputPack_GetPath req = wm_path m"
    and args: "evaluate_args order (map (\<lambda>k. GetArg env k req) (wm_kinds m)) = Inr args"
    and call: "wm_call m args s out = (s', out', r)" and "\<not> is_request out'" and "r \<noteq> Inl Undefined_behaviour"
  obtains w' out'' where "service_OnRequest order env ms (w, s) req out = ((w', s'), Inr out'')"
    and "case r of
        Inl e \<Rightarrow> o_status out'' = ConvertCode (exception_code e) \<and> m_buffer out'' = Some (exception_text e)
      | Inr None \<Rightarrow> out'' = out'
      | Inr (Some res) \<Rightarrow> out'' = ProcessRequest_result res out'"
proof -
  let ?w = "service_at order env ms (w, s)"
  note find = find_member [OF assms(1,2), where order = order and env = env and ws = "(w, s)"]
  have h: "member_handler order env s m req out =
      (case r of Inl e \<Rightarrow> (out', Some e) | Inr None \<Rightarrow> (out', None) | Inr (Some res) \<Rightarrow> (ProcessRequest_result res out', None))"
    using args call by (auto simp: member_handler_def ProcessRequest_handler_def split: sum.splits option.splits)
  obtain w' answer where a: "WebService_OnRequest default_hooks ?w req out = (w', answer)" by fastforce
  have s: "state_after order env (called_member ms ?w (InputPack_GetPath req)) req out s = s'"
    using find(2) assms(3) args call by (simp add: state_after_def)
  have run: "service_OnRequest order env ms (w, s) req out = ((w', s'), answer)"
    using a s by (simp add: service_OnRequest_def Let_def)
  show thesis
  proof (cases r)
    case (Inl e)
    then have "e \<noteq> Undefined_behaviour" using assms(7) by simp
    then have "answer = Inr (OutputPack_SetData (out'\<lparr>o_status := ConvertCode (exception_code e)\<rparr>) (Some (exception_text e)))"
      using a find(1) h Inl assms(3,6)
      by (auto simp: WebService_OnRequest_def Let_def count_general_total_def default_catch)
    then show thesis
      using that run Inl by auto
  next
    case (Inr res)
    then have "answer = Inr (case res of None \<Rightarrow> out' | Some x \<Rightarrow> ProcessRequest_result x out')"
      using a find(1) h assms(3)
      by (auto simp: WebService_OnRequest_def Let_def count_general_total_def finish_request_def split: option.splits)
    then show thesis
      using that run Inr by (auto split: option.splits)
  qed
qed

lemma ProcessRequest_result_body [simp]: "m_buffer (ProcessRequest_result res out) = Some (r_value res)"
  by (simp add: ProcessRequest_result_def)

text \<open>When an argument cannot be formed, the state stays as it is.\<close>

lemma service_refuses_arguments:
  assumes "distinct (map wm_path ms)" and "m \<in> set ms" and "InputPack_GetPath req = wm_path m"
    and "evaluate_args order (map (\<lambda>k. GetArg env k req) (wm_kinds m)) = Inl e"
  shows "snd (fst (service_OnRequest order env ms (w, s) req out)) = s"
  using find_member(2) [OF assms(1,2), where order = order and env = env and ws = "(w, s)"] assms(3,4)
  by (simp add: service_OnRequest_def Let_def state_after_def split: prod.splits)

text \<open>A single argument, and one that is a text among the parameters of the query.\<close>

lemma single_argument: "set (order (Suc 0)) = {0} \<Longrightarrow> GetArg uenv k req = Inr a \<Longrightarrow>
    evaluate_args order (map (\<lambda>k. GetArg uenv k req) [k]) = Inr [a]"
  by (rule evaluate_args_all) (simp_all add: lessThan_Suc)

lemma text_parameter:
  assumes "InputPack_GetParams req = [name \<mapsto> ID]"
  shows "GetArg uenv (K_prm (Crc32str name) (U_simple String_t)) req = Inr (Arg_prm \<lparr>m_name = name, m_value = Some (V_string ID)\<rparr>)"
proof -
  note ps = params_list_map [of "InputPack_GetQuery req", folded InputPack_GetParams_def]
  have "(name, ID) \<in> set (params_list (InputPack_GetQuery req))"
    using ps(1) assms by (metis fun_upd_same map_of_SomeD)
  moreover have "k = name" if "(k, y) \<in> set (params_list (InputPack_GetQuery req))" for k y
    using that ps assms by (metis fun_upd_apply map_of_eq_Some_iff option.distinct(1))
  ultimately have "GetPrm (Url_Convert uenv (U_simple String_t)) (Crc32str name) (params_list (InputPack_GetQuery req)) =
      map_sum id (\<lambda>x. \<lparr>m_name = name, m_value = Some x\<rparr>) (Url_Convert uenv (U_simple String_t) ID)"
    by (intro GetPrm_finds [OF ps(2)])
  then show ?thesis
    unfolding GetArg.simps by simp
qed

text \<open>A request to a member that returns a result.\<close>

lemma service_returns:
  assumes "m \<in> set ms" and "distinct (map wm_path ms)" and "m = result_member path [kind] f" and "InputPack_GetPath req = path"
    and "set (order (Suc 0)) = {0}" and "GetArg uenv kind req = Inr a" and "f [a] s = (s', Inr res)" and "\<not> is_request out"
  shows "\<exists>w' out'. service_OnRequest order uenv ms (w, s) req out = ((w', s'), Inr out') \<and> m_buffer out' = Some (r_value res)"
proof -
  have m: "wm_path m = path" "wm_kinds m = [kind]" "wm_call m [a] s out = (s', out, Inr (Some res))"
    using assms(3,7) by (simp_all add: result_member_def)
  obtain w' out'' where "service_OnRequest order uenv ms (w, s) req out = ((w', s'), Inr out'')"
    and "case Inr (Some res) of
        Inl e \<Rightarrow> o_status out'' = ConvertCode (exception_code e) \<and> m_buffer out'' = Some (exception_text e)
      | Inr None \<Rightarrow> out'' = out
      | Inr (Some res) \<Rightarrow> out'' = ProcessRequest_result res out"
    using assms(2,1) _ _ m(3) assms(8)
    by (rule service_calls_member) (use assms(4) m single_argument [of order uenv kind req a, OF assms(5,6)] in auto)
  then show ?thesis by auto
qed

end
