(* ===== verification/Db_Session.thy ===== *)
theory Db_Session
  imports Db_Transaction Db_Pool
begin

text \<open>
  A connection in use (\<open>db/postgresql/connection.cpp\<close>, \<open>detail/statement.cpp\<close> and
  \<open>db/transaction.cpp\<close> together): direct commands, prepared statements and a transaction share
  the state of one connection, and the destructors of the statement and of the transaction run
  at the end of the scope. The client library is an argument: every function changes the state
  of the connection and gives a result. What a server promises is stated as laws over a view of
  that state.
\<close>

section \<open>The connection\<close>

record 's pg_client =
  lib_exec :: "'s \<Rightarrow> string \<Rightarrow> 's \<times> pg_result option"
  lib_prepare :: "'s \<Rightarrow> string \<Rightarrow> string \<Rightarrow> 's \<times> pg_result option"
  lib_execPrepared :: "'s \<Rightarrow> string \<Rightarrow> string option list \<Rightarrow> 's \<times> pg_result option"
  lib_errorMessage :: "'s \<Rightarrow> string option"
  lib_uuid :: "'s \<Rightarrow> 's \<times> string"

definition session_ExecuteDirect :: "'s pg_client \<Rightarrow> 's executor" where
  "session_ExecuteDirect c s query =
     (case (if query = [] then (s, None) else lib_exec c s query) of
        (s', r) \<Rightarrow>
          (case Connection_ExecuteDirect (\<lambda>_. r) (lib_errorMessage c s') query of
             Inl e \<Rightarrow> (s', Some e)
           | Inr _ \<Rightarrow> (s', None)))"

definition session_CreateStatement :: "'s pg_client \<Rightarrow> string \<Rightarrow> 's \<Rightarrow> 's \<times> statement result" where
  "session_CreateStatement c query s =
     (case lib_uuid c s of
        (s1, uuid) \<Rightarrow>
          (case (if query = [] then (s1, None) else lib_prepare c s1 (statement_name uuid) query) of
             (s2, r) \<Rightarrow> (s2, Statement_new True True (\<lambda>_ _. r) uuid query)))"

definition session_Execute :: "'s pg_client \<Rightarrow> statement \<Rightarrow> string list \<Rightarrow> 's \<Rightarrow> 's \<times> recordset result" where
  "session_Execute c st parameters s =
     (case (if m_stmt_name st = [] then (s, None)
            else lib_execPrepared c s (m_stmt_name st) (map param_value parameters)) of
        (s', r) \<Rightarrow> (s', Statement_Execute (\<lambda>_ _. r) st parameters))"

text \<open>The last reference to a statement goes away.\<close>

definition session_release :: "'s pg_client \<Rightarrow> statement \<Rightarrow> 's \<Rightarrow> 's" where
  "session_release c st s = fst (lib_exec c s (Statement_destroy st))"

definition session_IsGood :: "'s pg_client \<Rightarrow> 's \<Rightarrow> 's \<times> bool" where
  "session_IsGood c s =
     (case session_CreateStatement c ''select 1;'' s of
        (s1, Inl e) \<Rightarrow> (s1, False)
      | (s1, Inr st) \<Rightarrow>
          (case session_Execute c st [] s1 of (s2, r) \<Rightarrow> (session_release c st s2, \<not> isl r)))"

section \<open>Scopes\<close>

text \<open>
  Code between the construction and the destruction of a transaction works on the transaction
  and the connection and may throw; a statement lives inside of it. The parameters of the
  execution are evaluated when the statement already exists.
\<close>

type_synonym ('s, 'a) scope = "transaction \<times> 's \<Rightarrow> (transaction \<times> 's) \<times> 'a result"

definition on_statement :: "'s pg_client \<Rightarrow> string \<Rightarrow> string list result \<Rightarrow> (recordset \<Rightarrow> ('s, 'a) scope) \<Rightarrow> ('s, 'a) scope" where
  "on_statement c query params body ts =
     (case session_CreateStatement c query (snd ts) of
        (s1, Inl e) \<Rightarrow> ((fst ts, s1), Inl e)
      | (s1, Inr st) \<Rightarrow>
          (case (case params of
                   Inl e \<Rightarrow> ((fst ts, s1), Inl e)
                 | Inr ps \<Rightarrow>
                     (case session_Execute c st ps s1 of
                        (s2, Inl e) \<Rightarrow> ((fst ts, s2), Inl e)
                      | (s2, Inr rs) \<Rightarrow> body rs (fst ts, s2))) of
             ((t', s3), r) \<Rightarrow> ((t', session_release c st s3), r)))"

definition in_transaction :: "'s pg_client \<Rightarrow> ('s, 'a) scope \<Rightarrow> 's \<Rightarrow> 's \<times> 'a result" where
  "in_transaction c body s =
     (case Transaction_new (session_ExecuteDirect c) True True s of
        (s1, Inl e) \<Rightarrow> (s1, Inl e)
      | (s1, Inr t) \<Rightarrow>
          (case body (t, s1) of
             (ts, r) \<Rightarrow>
               (case Transaction_destroy (session_ExecuteDirect c) ts of
                  (s2, Inr _) \<Rightarrow> (s2, r)
                | (s2, Inl e) \<Rightarrow> (s2, Inl e))))"

text \<open>The interface \<open>IConnectionPool\<close> as its users see it.\<close>

type_synonym 's connections = "'s \<Rightarrow> 's \<times> 's pg_client result"

definition on_connection :: "'s connections \<Rightarrow> ('s pg_client \<Rightarrow> 's \<Rightarrow> 's \<times> 'a result) \<Rightarrow> 's \<Rightarrow> 's \<times> 'a result" where
  "on_connection GetConnection body s =
     (case GetConnection s of (s1, Inl e) \<Rightarrow> (s1, Inl e) | (s1, Inr c) \<Rightarrow> body c s1)"

text \<open>
  What the users of statements do with the rows: read them only, or read them, commit, and
  finish.
\<close>

definition read_only :: "(recordset \<Rightarrow> 'a result) \<Rightarrow> recordset \<Rightarrow> ('s, 'a) scope" where
  "read_only reader rs ts = (ts, reader rs)"

definition read_then_commit :: "'s pg_client \<Rightarrow> (recordset \<Rightarrow> 'a result) \<Rightarrow> ('a \<Rightarrow> 'b result) \<Rightarrow> recordset \<Rightarrow> ('s, 'b) scope" where
  "read_then_commit c reader finish rs ts =
     (case reader rs of
        Inl e \<Rightarrow> (ts, Inl e)
      | Inr x \<Rightarrow>
          (case Transaction_Commit (session_ExecuteDirect c) ts of
             (ts', Inl e) \<Rightarrow> (ts', Inl e)
           | (ts', Inr _) \<Rightarrow> (ts', finish x)))"

section \<open>What a server promises\<close>

text \<open>
  A view of the state of a connection: the committed data, the data as the open transaction
  sees it, whether an error has aborted that transaction, and the prepared statements by name. A query with its parameters has a meaning on
  the data, or is refused.
\<close>

record ('s, 'd) db_view =
  committed :: "'s \<Rightarrow> 'd"
  working :: "'s \<Rightarrow> 'd option"
  aborted :: "'s \<Rightarrow> bool"
  prepared :: "'s \<Rightarrow> string \<rightharpoonup> string"

type_synonym 'd sql = "string \<Rightarrow> string option list \<Rightarrow> 'd \<Rightarrow> ('d \<times> pg_result) option"

definition accepted :: "pg_result option \<Rightarrow> bool" where
  "accepted r = (case r of Some x \<Rightarrow> PQresultStatus x = Command_ok | None \<Rightarrow> False)"

definition begin_law :: "'s pg_client \<Rightarrow> ('s, 'd) db_view \<Rightarrow> bool" where
  "begin_law c v \<longleftrightarrow> (\<forall>s s' r. lib_exec c s ''BEGIN;'' = (s', r) \<longrightarrow>
     committed v s' = committed v s \<and>
     (if accepted r then working v s = None \<longrightarrow> working v s' = Some (committed v s) \<and> \<not> aborted v s'
      else working v s' = working v s))"

definition commit_law :: "'s pg_client \<Rightarrow> ('s, 'd) db_view \<Rightarrow> bool" where
  "commit_law c v \<longleftrightarrow> (\<forall>s s' r. lib_exec c s ''COMMIT;'' = (s', r) \<longrightarrow>
     (if accepted r then \<forall>d. working v s = Some d \<longrightarrow> committed v s' = d \<and> working v s' = None
      else committed v s' = committed v s))"

definition rollback_law :: "'s pg_client \<Rightarrow> ('s, 'd) db_view \<Rightarrow> bool" where
  "rollback_law c v \<longleftrightarrow> (\<forall>s s' r. lib_exec c s ''ROLLBACK;'' = (s', r) \<longrightarrow>
     committed v s' = committed v s \<and> (accepted r \<longrightarrow> working v s' = None))"

definition deallocate_law :: "'s pg_client \<Rightarrow> ('s, 'd) db_view \<Rightarrow> bool" where
  "deallocate_law c v \<longleftrightarrow> (\<forall>s s' st r. lib_exec c s (Statement_destroy st) = (s', r) \<longrightarrow>
     committed v s' = committed v s \<and> working v s' = working v s)"

definition prepare_law :: "'s pg_client \<Rightarrow> ('s, 'd) db_view \<Rightarrow> bool" where
  "prepare_law c v \<longleftrightarrow>
     (\<forall>s s' name q r. lib_prepare c s name q = (s', r) \<longrightarrow>
        committed v s' = committed v s \<and>
        (accepted r \<longrightarrow> working v s' = working v s \<and> aborted v s' = aborted v s \<and>
           prepared v s' = (prepared v s)(name \<mapsto> q))) \<and>
     (\<forall>s s' u. lib_uuid c s = (s', u) \<longrightarrow>
        committed v s' = committed v s \<and> working v s' = working v s \<and> aborted v s' = aborted v s \<and>
        prepared v s' = prepared v s)"

text \<open>Inside of a transaction a statement that is refused changes nothing that is committed.\<close>

definition execute_law :: "'s pg_client \<Rightarrow> ('s, 'd) db_view \<Rightarrow> 'd sql \<Rightarrow> bool" where
  "execute_law c v sql \<longleftrightarrow> (\<forall>s s' name q ps d r.
     working v s = Some d \<and> prepared v s name = Some q \<and> lib_execPrepared c s name ps = (s', r) \<longrightarrow>
       committed v s' = committed v s \<and>
       (\<forall>x. r = Some x \<and> PQresultStatus x \<noteq> Failed \<longrightarrow>
          (\<exists>d'. sql q ps d = Some (d', x) \<and> working v s' = Some d')))"

definition transactional :: "'s pg_client \<Rightarrow> ('s, 'd) db_view \<Rightarrow> 'd sql \<Rightarrow> bool" where
  "transactional c v sql \<longleftrightarrow> begin_law c v \<and> commit_law c v \<and> rollback_law c v \<and> deallocate_law c v \<and>
     prepare_law c v \<and> execute_law c v sql"

text \<open>
  A server that is there: it accepts the commands of a transaction in their order, and a
  statement exactly when its query has a meaning.
\<close>

definition available :: "'s pg_client \<Rightarrow> ('s, 'd) db_view \<Rightarrow> 'd sql \<Rightarrow> bool" where
  "available c v sql \<longleftrightarrow>
     (\<forall>s. accepted (snd (lib_exec c s ''BEGIN;''))) \<and>
     (\<forall>s. working v s \<noteq> None \<longrightarrow> accepted (snd (lib_exec c s ''COMMIT;''))) \<and>
     (\<forall>s. accepted (snd (lib_exec c s ''ROLLBACK;''))) \<and>
     (\<forall>s name q. \<not> aborted v s \<longrightarrow> accepted (snd (lib_prepare c s name q))) \<and>
     (\<forall>s name q ps d d' x. working v s = Some d \<and> \<not> aborted v s \<and> prepared v s name = Some q \<and> sql q ps d = Some (d', x) \<longrightarrow>
        snd (lib_execPrepared c s name ps) = Some x \<and> PQresultStatus x \<noteq> Failed)"

text \<open>A server that rolls back when asked.\<close>

definition rolls_back :: "'s pg_client \<Rightarrow> bool" where
  "rolls_back c \<longleftrightarrow> (\<forall>s. accepted (snd (lib_exec c s ''ROLLBACK;'')))"

text \<open>The recordset that a successful execution opens.\<close>

definition opened :: "pg_result \<Rightarrow> recordset" where
  "opened r = \<lparr>m_hasNext = True, m_currentRow = -1, m_fieldsCount = nat (PQnfields r), m_result = r\<rparr>"

section \<open>Facts\<close>

lemma session_ExecuteDirect_reply:
  assumes "cmd \<noteq> []" and "session_ExecuteDirect c s cmd = (s', eo)"
  obtains r where "lib_exec c s cmd = (s', r)" and "eo = None \<longleftrightarrow> accepted r"
    and "\<And>e. eo = Some e \<Longrightarrow> is_std_exception e"
proof -
  obtain s1 r where "lib_exec c s cmd = (s1, r)" by fastforce
  then show thesis
    using assms that [of r]
    by (auto simp: session_ExecuteDirect_def Connection_ExecuteDirect_def accepted_def split: option.splits if_splits)
qed

lemma session_CreateStatement_reply:
  assumes "query \<noteq> []" and "session_CreateStatement c query s = (s', res)"
  obtains s1 uuid r where "lib_uuid c s = (s1, uuid)" and "lib_prepare c s1 (statement_name uuid) query = (s', r)"
    and "if accepted r then res = Inr \<lparr>m_stmt_name = statement_name uuid\<rparr> else \<exists>e. res = Inl e \<and> is_std_exception e"
proof -
  obtain s1 uuid where u: "lib_uuid c s = (s1, uuid)" by fastforce
  obtain s2 r where r: "lib_prepare c s1 (statement_name uuid) query = (s2, r)" by fastforce
  have "s2 = s'" "res = Statement_new True True (\<lambda>_ _. r) uuid query"
    using assms u r by (simp_all add: session_CreateStatement_def)
  then show thesis
    using assms(1) u r that [of s1 uuid r] by (cases r) (simp_all add: Statement_new_def accepted_def)
qed

lemma statement_name_not_Nil [simp]: "statement_name uuid \<noteq> []"
  by (simp add: statement_name_def)

lemma session_Execute_reply:
  assumes "session_Execute c \<lparr>m_stmt_name = statement_name uuid\<rparr> ps s = (s', res)"
  obtains r where "lib_execPrepared c s (statement_name uuid) (map param_value ps) = (s', r)"
    and "\<And>rs. res = Inr rs \<Longrightarrow> \<exists>x. r = Some x \<and> PQresultStatus x \<noteq> Failed \<and> rs = opened x"
    and "\<And>x. r = Some x \<Longrightarrow> PQresultStatus x \<noteq> Failed \<Longrightarrow> 0 \<le> PQnfields x \<Longrightarrow> res = Inr (opened x)"
    and "\<And>e. res = Inl e \<Longrightarrow> is_std_exception e"
proof -
  obtain s1 r where r: "lib_execPrepared c s (statement_name uuid) (map param_value ps) = (s1, r)" by fastforce
  then have "s1 = s'" "res = Recordset_new True True (\<lambda>_ _. r) (statement_name uuid) ps"
    using assms by (simp_all add: session_Execute_def Statement_Execute_def)
  then show thesis
    using r that [of r] by (cases r) (auto simp: Recordset_new_def opened_def split: if_splits)
qed

lemma Transaction_new_session:
  assumes "Transaction_new exec True True s = (s', res)"
  shows "case exec s ''BEGIN;'' of
      (s1, None) \<Rightarrow> s' = s1 \<and> res = Inr \<lparr>m_connection = True, m_state = Begin\<rparr>
    | (s1, Some e) \<Rightarrow> s' = s1 \<and> (\<exists>e'. res = Inl e' \<and> (is_std_exception e \<longrightarrow> is_std_exception e'))"
  using assms by (auto simp: Transaction_new_def Transaction_Begin_def transition_def Let_def split: prod.splits option.splits)

lemma Transaction_Commit_session:
  assumes "Transaction_Commit exec (\<lparr>m_connection = True, m_state = Begin\<rparr>, s) = (ts', res)"
  shows "case exec s ''COMMIT;'' of
      (s1, None) \<Rightarrow> ts' = (\<lparr>m_connection = True, m_state = Commit\<rparr>, s1) \<and> res = Inr ()
    | (s1, Some e) \<Rightarrow> ts' = (\<lparr>m_connection = True, m_state = Begin\<rparr>, s1) \<and>
        (\<exists>e'. res = Inl e' \<and> (is_std_exception e \<longrightarrow> is_std_exception e'))"
  using assms by (auto simp: Transaction_Commit_def transition_def split: prod.splits option.splits)

text \<open>The destructor of a transaction over a connection never throws, and only a transaction that is still open is rolled back.\<close>

lemma Transaction_destroy_session:
  "Transaction_destroy (session_ExecuteDirect c) (t, s) =
     (if m_connection t \<and> m_state t = Begin then fst (lib_exec c s ''ROLLBACK;'') else s, Inr ())"
proof (cases "m_connection t \<and> m_state t = Begin")
  case True
  obtain s' eo where x: "session_ExecuteDirect c s ''ROLLBACK;'' = (s', eo)"
    by fastforce
  then obtain r where "lib_exec c s ''ROLLBACK;'' = (s', r)" "\<And>e. eo = Some e \<Longrightarrow> is_std_exception e"
    by (rule session_ExecuteDirect_reply [rotated]) auto
  with x True show ?thesis
    by (cases eo) (auto simp: Transaction_destroy_def Transaction_Rollback_def transition_def)
qed (auto simp: Transaction_destroy_def)

lemma transactionalD:
  assumes "transactional c v sql"
  shows "begin_law c v" "commit_law c v" "rollback_law c v" "deallocate_law c v" "prepare_law c v" "execute_law c v sql"
  using assms by (simp_all add: transactional_def)

lemma law_uuid:
  assumes "prepare_law c v" and "lib_uuid c s = (s', u)"
  shows "committed v s' = committed v s" "working v s' = working v s" "prepared v s' = prepared v s"
    "aborted v s' = aborted v s"
  using assms unfolding prepare_law_def by blast+

lemma law_rollback: "rollback_law c v \<Longrightarrow> committed v (fst (lib_exec c s ''ROLLBACK;'')) = committed v s"
  unfolding rollback_law_def by (metis prod.collapse)

lemma law_rolled_back: "rollback_law c v \<Longrightarrow> rolls_back c \<Longrightarrow> working v (fst (lib_exec c s ''ROLLBACK;'')) = None"
  unfolding rollback_law_def rolls_back_def by (metis prod.collapse)

lemma availableD:
  assumes "available c v sql"
  shows "accepted (snd (lib_exec c s ''BEGIN;''))" "working v s \<noteq> None \<Longrightarrow> accepted (snd (lib_exec c s ''COMMIT;''))"
    "accepted (snd (lib_exec c s ''ROLLBACK;''))" "\<not> aborted v s \<Longrightarrow> accepted (snd (lib_prepare c s name q))"
    "working v s = Some d \<Longrightarrow> \<not> aborted v s \<Longrightarrow> prepared v s name = Some q \<Longrightarrow> sql q ps d = Some (d', x) \<Longrightarrow>
       snd (lib_execPrepared c s name ps) = Some x \<and> PQresultStatus x \<noteq> Failed"
  using assms by (auto simp: available_def)

lemma session_release_view:
  assumes "transactional c v sql"
  shows "committed v (session_release c st s) = committed v s" "working v (session_release c st s) = working v s"
  using transactionalD(4) [OF assms] unfolding deallocate_law_def session_release_def by (metis prod.collapse)+

text \<open>
  A statement in a transaction: either it fails and nothing that is committed has changed, or
  its rows are those of the query on the data of the transaction.
\<close>

lemma on_statement_cases:
  assumes db: "transactional c v sql" and "q \<noteq> []" and w: "working v s = Some d"
    and run: "on_statement c q params body (t, s) = ((t', s'), res)"
  obtains (failed) e where "res = Inl e" "t' = t" "committed v s' = committed v s"
      "is_std_exception e \<or> params = Inl e"
      "\<And>ps d' r. available c v sql \<Longrightarrow> \<not> aborted v s \<Longrightarrow> params = Inr ps \<Longrightarrow>
         sql q (map param_value ps) d = Some (d', r) \<Longrightarrow> PQnfields r < 0"
  | (executed) ps d' r s2 s3 where "params = Inr ps" "sql q (map param_value ps) d = Some (d', r)"
      "PQresultStatus r \<noteq> Failed"
      "committed v s2 = committed v s" "working v s2 = Some d'" "body (opened r) (t, s2) = ((t', s3), res)"
      "committed v s' = committed v s3" "working v s' = working v s3"
proof -
  note laws = transactionalD [OF db]
  note rel = session_release_view [OF db]
  obtain s1 cres where cs: "session_CreateStatement c q s = (s1, cres)" by fastforce
  obtain s0 uuid r0 where u: "lib_uuid c s = (s0, uuid)" "lib_prepare c s0 (statement_name uuid) q = (s1, r0)"
    and cres: "if accepted r0 then cres = Inr \<lparr>m_stmt_name = statement_name uuid\<rparr> else \<exists>e. cres = Inl e \<and> is_std_exception e"
    using cs by (rule session_CreateStatement_reply [OF \<open>q \<noteq> []\<close>])
  have s0: "committed v s0 = committed v s" "working v s0 = Some d" "prepared v s0 = prepared v s"
      "aborted v s0 = aborted v s"
    using law_uuid [OF laws(5) u(1)] w by simp_all
  have s1: "committed v s1 = committed v s"
      "accepted r0 \<Longrightarrow> working v s1 = Some d \<and> prepared v s1 (statement_name uuid) = Some q \<and> aborted v s1 = aborted v s"
    using laws(5) u(2) s0 by (auto simp: prepare_law_def)
  show thesis
  proof (cases "accepted r0")
    case False
    then have "\<not> available c v sql \<or> aborted v s"
      using availableD(4) [of c v sql s0 "statement_name uuid" q] u(2) s0(4) by auto
    with False show thesis
      using run cs cres s1(1) failed by (auto simp: on_statement_def)
  next
    case True
    let ?st = "\<lparr>m_stmt_name = statement_name uuid\<rparr>"
    from True cres have st: "cres = Inr ?st" by simp
    show thesis
    proof (cases params)
      case (Inl e)
      then show thesis
        using run cs st s1(1) rel failed by (auto simp: on_statement_def)
    next
      case (Inr ps)
      obtain s2 xres where x: "session_Execute c ?st ps s1 = (s2, xres)" by fastforce
      obtain r where r: "lib_execPrepared c s1 (statement_name uuid) (map param_value ps) = (s2, r)"
        "\<And>rs. xres = Inr rs \<Longrightarrow> \<exists>x. r = Some x \<and> PQresultStatus x \<noteq> Failed \<and> rs = opened x"
        "\<And>e. xres = Inl e \<Longrightarrow> is_std_exception e"
        "\<And>x. r = Some x \<Longrightarrow> PQresultStatus x \<noteq> Failed \<Longrightarrow> 0 \<le> PQnfields x \<Longrightarrow> xres = Inr (opened x)"
        using x by (rule session_Execute_reply) blast
      have s2: "committed v s2 = committed v s"
          "\<And>x. r = Some x \<Longrightarrow> PQresultStatus x \<noteq> Failed \<Longrightarrow>
             \<exists>d'. sql q (map param_value ps) d = Some (d', x) \<and> working v s2 = Some d'"
        using laws(6) r(1) s1 True by (auto simp: execute_law_def)
      show thesis
      proof (cases xres)
        case (Inl e)
        have "PQnfields y < 0" if "available c v sql" "sql q (map param_value ps) d = Some (d', y)" "\<not> aborted v s" for d' y
          using that(3) availableD(5) [OF that(1) _ _ _ that(2), of s1 "statement_name uuid"] s1(2) [OF True] r(1) r(4) [of y] Inl
          by fastforce
        then show thesis
          using run cs st Inr Inl x s2(1) rel r(3) failed by (auto simp: on_statement_def)
      next
        case rs: (Inr rs)
        obtain y where y: "r = Some y" "PQresultStatus y \<noteq> Failed" "rs = opened y"
          using r(2) [OF rs] by blast
        obtain d' where d': "sql q (map param_value ps) d = Some (d', y)" "working v s2 = Some d'"
          using s2(2) [OF y(1,2)] by blast
        obtain t3 s3 res3 where b: "body (opened y) (t, s2) = ((t3, s3), res3)"
          by (metis surj_pair)
        have "t' = t3" "s' = session_release c ?st s3" "res = res3"
          using run cs st Inr x rs y(3) b by (auto simp: on_statement_def)
        then show thesis
          using executed [of ps d' y s2 s3] Inr d' y(2) s2(1) b rel by simp
      qed
    qed
  qed
qed

text \<open>Opening the transaction and leaving it.\<close>

lemma in_transaction_cases:
  assumes db: "transactional c v sql" and w: "working v s = None" and run: "in_transaction c body s = (s', res)"
  obtains (refused) e where "res = Inl e" "is_std_exception e" "committed v s' = committed v s" "\<not> available c v sql"
      "working v s' = None"
  | (opened) s1 ts where "committed v s1 = committed v s" "working v s1 = Some (committed v s)" "\<not> aborted v s1"
      "body (\<lparr>m_connection = True, m_state = Begin\<rparr>, s1) = (ts, res)"
      "s' = (if m_connection (fst ts) \<and> m_state (fst ts) = Begin then fst (lib_exec c (snd ts) ''ROLLBACK;'') else snd ts)"
      "committed v s' = committed v (snd ts)"
      "m_connection (fst ts) \<Longrightarrow> m_state (fst ts) = Begin \<Longrightarrow> rolls_back c \<Longrightarrow> working v s' = None"
proof -
  obtain s1 eo where x: "session_ExecuteDirect c s ''BEGIN;'' = (s1, eo)" by fastforce
  then obtain r where r: "lib_exec c s ''BEGIN;'' = (s1, r)" "eo = None \<longleftrightarrow> accepted r"
      "\<And>e. eo = Some e \<Longrightarrow> is_std_exception e"
    by (rule session_ExecuteDirect_reply [rotated]) auto
  have s1: "committed v s1 = committed v s" "eo = None \<Longrightarrow> working v s1 = Some (committed v s) \<and> \<not> aborted v s1"
      "eo \<noteq> None \<Longrightarrow> working v s1 = None"
    using transactionalD(1) [OF db] r(1,2) w by (auto simp: begin_law_def)
  obtain s1' nres where n: "Transaction_new (session_ExecuteDirect c) True True s = (s1', nres)" by fastforce
  note new = Transaction_new_session [OF n]
  show thesis
  proof (cases eo)
    case (Some e)
    then have "\<not> available c v sql"
      using availableD(1) [of c v sql s] r(1,2) by auto
    with Some show thesis
      using new x n r run s1(1,3) refused by (auto simp: in_transaction_def)
  next
    case None
    obtain ts bres where b: "body (\<lparr>m_connection = True, m_state = Begin\<rparr>, s1) = (ts, bres)" by fastforce
    have run': "res = bres" "s' = (if m_connection (fst ts) \<and> m_state (fst ts) = Begin
        then fst (lib_exec c (snd ts) ''ROLLBACK;'') else snd ts)"
      using run new x n None b by (cases ts; auto simp: in_transaction_def Transaction_destroy_session)+
    then have "committed v s' = committed v (snd ts)"
      using law_rollback [OF transactionalD(3) [OF db]] by simp
    then show thesis
      using opened [of s1 ts] s1 None b run' law_rolled_back [OF transactionalD(3) [OF db]] by simp
  qed
qed

text \<open>
  A scope that only reads: no data changes, and its result is that of the reader on the rows of
  the query, unless an exception came before.
\<close>

lemma statement_reads:
  assumes db: "transactional c v sql" and q: "q \<noteq> []" and w: "working v s = None"
    and run: "in_transaction c (on_statement c q params (read_only reader)) s = (s', res)"
  obtains (failed) e where "res = Inl e" "committed v s' = committed v s" "is_std_exception e \<or> params = Inl e"
      "rolls_back c \<Longrightarrow> working v s' = None"
      "\<And>ps d' r. available c v sql \<Longrightarrow> params = Inr ps \<Longrightarrow>
         sql q (map param_value ps) (committed v s) = Some (d', r) \<Longrightarrow> PQnfields r < 0"
  | (executed) ps d' r where "params = Inr ps" "sql q (map param_value ps) (committed v s) = Some (d', r)"
      "res = reader (opened r)" "committed v s' = committed v s" "rolls_back c \<Longrightarrow> working v s' = None"
  using db w run
proof (cases rule: in_transaction_cases)
  case (refused e)
  with failed show thesis by blast
next
  case (opened s1 ts)
  obtain t2 s2 where ts: "ts = (t2, s2)" by fastforce
  have c: "committed v s2 = committed v s'"
    using opened(6) ts by simp
  from db q opened(2) opened(4) [unfolded ts] show thesis
  proof (cases rule: on_statement_cases)
    case (failed e)
    with that(1) [of e] opened(1,3,7) ts c show thesis by fastforce
  next
    case (executed ps d' r s3 s4)
    with that(2) [of ps d' r] opened(1,3,7) ts c show thesis by (auto simp: read_only_def)
  qed
qed

text \<open>
  A scope that commits: either it throws and the committed data is as before, or the data is
  that of the query and the commit came after the rows were read.
\<close>

lemma statement_commits:
  assumes db: "transactional c v sql" and q: "q \<noteq> []" and w: "working v s = None"
    and run: "in_transaction c (on_statement c q params (read_then_commit c reader finish)) s = (s', res)"
  obtains (failed) e where "res = Inl e" "committed v s' = committed v s" "rolls_back c \<Longrightarrow> working v s' = None"
      "is_std_exception e \<or> params = Inl e \<or> (\<exists>r. reader (opened r) = Inl e)"
      "\<And>ps d' r x. available c v sql \<Longrightarrow> params = Inr ps \<Longrightarrow>
         sql q (map param_value ps) (committed v s) = Some (d', r) \<Longrightarrow> reader (opened r) = Inr x \<Longrightarrow> PQnfields r < 0"
  | (finished) ps d' r x where "params = Inr ps" "sql q (map param_value ps) (committed v s) = Some (d', r)"
      "reader (opened r) = Inr x" "res = finish x" "committed v s' = d'" "working v s' = None"
  using db w run
proof (cases rule: in_transaction_cases)
  case (refused e)
  with failed show thesis by blast
next
  case (opened s1 ts)
  obtain t2 s2 where ts: "ts = (t2, s2)" by fastforce
  have c: "committed v s2 = committed v s'"
    using opened(6) ts by simp
  let ?t = "\<lparr>m_connection = True, m_state = Begin\<rparr>"
  from db q opened(2) opened(4) [unfolded ts] show thesis
  proof (cases rule: on_statement_cases)
    case (failed e)
    with that(1) [of e] opened(1,3,7) ts c show thesis by fastforce
  next
    case (executed ps d' r s3 s4)
    show thesis
    proof (cases "reader (opened r)")
      case (Inl e)
      then have "((t2, s4), res) = ((?t, s3), Inl e)"
        using executed(6) by (simp add: read_then_commit_def)
      with executed Inl opened(1,3,7) ts c show thesis by (intro that(1) [of e]) auto
    next
      case (Inr x)
      obtain s5 eo where y: "session_ExecuteDirect c s3 ''COMMIT;'' = (s5, eo)" by fastforce
      then obtain r5 where r5: "lib_exec c s3 ''COMMIT;'' = (s5, r5)" "eo = None \<longleftrightarrow> accepted r5"
          "\<And>e. eo = Some e \<Longrightarrow> is_std_exception e"
        by (rule session_ExecuteDirect_reply [rotated]) auto
      obtain ts5 cres where cm: "Transaction_Commit (session_ExecuteDirect c) (?t, s3) = (ts5, cres)" by fastforce
      note com = Transaction_Commit_session [OF cm, unfolded y]
      show thesis
      proof (cases "accepted r5")
        case True
        then have s5: "committed v s5 = d'" "working v s5 = None"
          using transactionalD(2) [OF db] r5(1) executed(5) by (auto simp: commit_law_def)
        have b: "t2 = \<lparr>m_connection = True, m_state = Commit\<rparr>" "s4 = s5" "res = finish x"
          using executed(6) Inr cm com True r5(2) by (auto simp: read_then_commit_def)
        have "s' = s2"
          using opened(5) by (simp add: ts b(1))
        then have "committed v s' = d'" "working v s' = None"
          using executed(7,8) s5 b(2) by simp_all
        then show thesis
          by (intro that(2) [OF executed(1,2) Inr b(3)])
      next
        case False
        then have "committed v s5 = committed v s3"
          using transactionalD(2) [OF db] r5(1) by (auto simp: commit_law_def)
        moreover obtain e where "((t2, s4), res) = ((?t, s5), Inl e)" "is_std_exception e"
          using executed(6) Inr cm com False r5(2,3) by (auto simp: read_then_commit_def)
        moreover have "\<not> available c v sql"
          using availableD(2) [of c v sql s3] False r5(1) executed(5) by auto
        ultimately show thesis
          using executed(4,7) opened(1,3,7) ts c by (intro that(1) [of e]) auto
      qed
    qed
  qed
qed

end
