(* ===== verification/Example_Employees.thy ===== *)
theory Example_Employees
  imports Db_Session Reflection "HOL-Library.Multiset"
begin

text \<open>
  What the two employee examples (\<open>examples/http_crud\<close>, \<open>examples/microservices\<close>) share: the
  employees, the SQL statements with their parameters, and how rows are read. What the
  statements mean on the table of the schema (\<open>db/schema.sql\<close>) is stated as laws of the server.
  The conversions of floating-point numbers are arguments.
\<close>

section \<open>Employees\<close>

definition Position_meta :: "(unit, int) meta_info" where
  "Position_meta =
     MIF_REFLECT_FIELD ''Manager'' 2 (MIF_REFLECT_FIELD ''Developer'' 1 (MIF_REFLECT_FIELD ''Unknown'' 0
       (MIF_REFLECT_BEGIN ''Position'' [])))"

record 'd Employee =
  e_name :: string
  e_lastName :: string
  e_age :: "32 word"
  e_email :: string
  e_position :: int
  e_rate :: 'd

text \<open>The conversions of \<open>double\<close>: \<open>std::to_string\<close> and \<open>std::stod\<close>.\<close>

record 'd fp_env =
  fp_to_string :: "'d \<Rightarrow> string"
  fp_stod :: "string \<Rightarrow> 'd result"

section \<open>Statements\<close>

definition insert_query :: string where
  "insert_query =
     ''INSERT INTO employees (name, last_name, age, email, position, rate) '' @
     ''VALUES ($1::text, $2::text, $3::integer, $4::text, $5::'' @ dquote @ ''Position'' @ dquote @ '', $6::numeric(10, 2))'' @
     ''RETURNING employee_id ; ''"

definition select_query :: string where
  "select_query =
     ''SELECT name, last_name, age, email, position, rate '' @ ''FROM employees '' @ ''WHERE employee_id = $1::bigint ;''"

definition update_query :: string where
  "update_query =
     ''UPDATE employees '' @ ''SET name=$1::text, last_name=$2::text, age=$3::integer, email=$4::text, '' @
     ''position=$5::'' @ dquote @ ''Position'' @ dquote @ '', rate=$6::numeric(10, 2)  '' @
     ''WHERE employee_id = $7::bigint '' @ ''RETURNING employee_id ; ''"

definition delete_query :: string where
  "delete_query = ''DELETE FROM employees '' @ ''WHERE employee_id = $1::bigint '' @ ''RETURNING employee_id ; ''"

text \<open>The text of the statement of \<open>List\<close> and its parameters, for an offset and a limit that may be missing.\<close>

definition list_query :: "nat option \<Rightarrow> nat option \<Rightarrow> string" where
  "list_query offset limit =
     ''SELECT name, last_name, age, email, position, rate, employee_id '' @ ''FROM employees '' @
     (if offset \<noteq> None then ''OFFSET $1::integer '' else []) @
     (if limit \<noteq> None then ''LIMIT $'' @ nat_to_string (if offset = None then 1 else 2) @ ''::integer '' else []) @ '';''"

definition list_params :: "nat option \<Rightarrow> nat option \<Rightarrow> string list" where
  "list_params offset limit =
     (case offset of Some n \<Rightarrow> [nat_to_string n] | None \<Rightarrow> []) @ (case limit of Some n \<Rightarrow> [nat_to_string n] | None \<Rightarrow> [])"

definition employee_params :: "'d fp_env \<Rightarrow> 'd Employee \<Rightarrow> string list result" where
  "employee_params fp employee =
     and_then (Enum_ToString Position_meta (e_position employee)) (\<lambda>position.
       Inr [e_name employee, e_lastName employee, nat_to_string (unat (e_age employee)), e_email employee,
            position, fp_to_string fp (e_rate employee)])"

text \<open>The columns of the current row, from the first one.\<close>

definition read_employee :: "'d fp_env \<Rightarrow> recordset \<Rightarrow> 'd Employee result" where
  "read_employee fp result =
     and_then (Recordset_GetAsString result 0) (\<lambda>name.
     and_then (Recordset_GetAsString result 1) (\<lambda>lastName.
     and_then (Recordset_GetAsInt32 result 2) (\<lambda>age.
     and_then (Recordset_GetAsString result 3) (\<lambda>email.
     and_then (and_then (Recordset_GetAsString result 4) (Enum_FromString Position_meta)) (\<lambda>position.
     and_then (Recordset_GetAsDouble (fp_stod fp) result 5) (\<lambda>rate.
       Inr \<lparr>e_name = name, e_lastName = lastName, e_age = word_of_int age, e_email = email,
         e_position = position, e_rate = rate\<rparr>))))))"

definition employee_not_found :: "string \<Rightarrow> string" where
  "employee_not_found ID = ''Employee with id '' @ dquote @ ID @ dquote @ '' not found.''"

text \<open>Reading the first row, if there is one.\<close>

definition first_row :: "exn \<Rightarrow> (recordset \<Rightarrow> 'a result) \<Rightarrow> recordset \<Rightarrow> 'a result" where
  "first_row e f result = (case Recordset_Read result of (result', ok) \<Rightarrow> if ok then f result' else Inl e)"

text \<open>The loop of \<open>List\<close>: the rows go into a \<open>std::map\<close>; an identifier that is there is not replaced.\<close>

function read_employees :: "'d fp_env \<Rightarrow> recordset \<Rightarrow> (string \<times> 'd Employee) list \<Rightarrow> (string \<times> 'd Employee) list result" where
  "read_employees fp result employees =
     (case Recordset_Read result of
        (result', ok) \<Rightarrow>
          if \<not> ok then Inr employees
          else and_then (read_employee fp result') (\<lambda>employee.
               and_then (Recordset_GetAsString result' 6) (\<lambda>ID.
                 read_employees fp result' (ordered_emplace employees ID employee))))"
  by pat_completeness auto

termination
proof (relation "measure (\<lambda>(fp, r, m). nat (PQntuples (m_result r) - m_currentRow r))")
  show "wf (measure (\<lambda>(fp, r, m). nat (PQntuples (m_result r) - m_currentRow r)))" by simp
qed (auto simp: Recordset_Read_def split: if_splits)

declare read_employees.simps [simp del]

section \<open>The table\<close>

text \<open>
  The rows of \<open>employees\<close> with their keys, every column as the text the server sends. A result
  shows rows. \<open>col\<close> is the input conversion of a column's type followed by its output, \<open>bigint\<close>
  the input of a key.
\<close>

type_synonym table = "(int \<times> string list) list"

definition shows_rows :: "pg_result \<Rightarrow> nat \<Rightarrow> string list list \<Rightarrow> bool" where
  "shows_rows r n rows \<longleftrightarrow>
     PQresultStatus r = Tuples_ok \<and> PQntuples r = int (length rows) \<and> PQnfields r = int n \<and>
     (\<forall>i < length rows. length (rows ! i) = n \<and>
        (\<forall>j < n. \<not> PQgetisnull r (int i) (int j) \<and> PQgetvalue r (int i) (int j) = Some (rows ! i ! j)))"

definition row_of :: "(nat \<Rightarrow> string \<Rightarrow> string option) \<Rightarrow> string option list \<Rightarrow> string list option" where
  "row_of col ps =
     (if length ps = 6 then those (map2 (\<lambda>i p. Option.bind p (col i)) [0..<6] ps) else None)"

text \<open>A table has unique keys and six columns besides the key.\<close>

definition table_inv :: "table \<Rightarrow> bool" where
  "table_inv d \<longleftrightarrow> distinct (map fst d) \<and> (\<forall>row \<in> snd ` set d. length row = 6)"

text \<open>The condition \<open>employee_id = $n::bigint\<close>, if the parameter is a number or null.\<close>

definition key_is :: "(string \<Rightarrow> int option) \<Rightarrow> string option \<Rightarrow> (int \<Rightarrow> bool) option" where
  "key_is bigint p =
     (case p of None \<Rightarrow> Some (\<lambda>i. False) | Some x \<Rightarrow> map_option (\<lambda>k i. i = k) (bigint x))"

definition ids :: "table \<Rightarrow> string list list" where
  "ids d = map (\<lambda>(i, row). [int_to_string i]) d"

text \<open>A new row gets a key that no row has, and whose text is read as that key.\<close>

definition insert_means :: "table sql \<Rightarrow> (nat \<Rightarrow> string \<Rightarrow> string option) \<Rightarrow> (string \<Rightarrow> int option) \<Rightarrow> bool" where
  "insert_means sql col bigint \<longleftrightarrow> (\<forall>ps d. table_inv d \<longrightarrow>
     (case row_of col ps of
       None \<Rightarrow> sql insert_query ps d = None
     | Some row \<Rightarrow> \<exists>k r. k \<notin> fst ` set d \<and> bigint (int_to_string k) = Some k \<and> shows_rows r 1 [[int_to_string k]] \<and>
         sql insert_query ps d = Some (d @ [(k, row)], r)))"

definition select_means :: "table sql \<Rightarrow> (string \<Rightarrow> int option) \<Rightarrow> bool" where
  "select_means sql bigint \<longleftrightarrow> (\<forall>p d. table_inv d \<longrightarrow>
     (case key_is bigint p of
       None \<Rightarrow> sql select_query [p] d = None
     | Some m \<Rightarrow> \<exists>r. shows_rows r 6 (map snd (filter (\<lambda>(i, row). m i) d)) \<and> sql select_query [p] d = Some (d, r)))"

text \<open>An update with a parameter that no row can take is refused or touches no row.\<close>

definition update_means :: "table sql \<Rightarrow> (nat \<Rightarrow> string \<Rightarrow> string option) \<Rightarrow> (string \<Rightarrow> int option) \<Rightarrow> bool" where
  "update_means sql col bigint \<longleftrightarrow> (\<forall>ps p d. table_inv d \<and> length ps = 6 \<longrightarrow>
     (case (key_is bigint p, row_of col ps) of
        (None, _) \<Rightarrow> sql update_query (ps @ [p]) d = None
      | (Some m, None) \<Rightarrow> sql update_query (ps @ [p]) d = None \<or>
          (\<exists>r. shows_rows r 1 [] \<and> sql update_query (ps @ [p]) d = Some (d, r))
      | (Some m, Some row) \<Rightarrow> \<exists>r. shows_rows r 1 (ids (filter (\<lambda>(i, x). m i) d)) \<and>
          sql update_query (ps @ [p]) d = Some (map (\<lambda>(i, x). (i, if m i then row else x)) d, r)))"

definition delete_means :: "table sql \<Rightarrow> (string \<Rightarrow> int option) \<Rightarrow> bool" where
  "delete_means sql bigint \<longleftrightarrow> (\<forall>p d. table_inv d \<longrightarrow>
     (case key_is bigint p of
       None \<Rightarrow> sql delete_query [p] d = None
     | Some m \<Rightarrow> \<exists>r. shows_rows r 1 (ids (filter (\<lambda>(i, x). m i) d)) \<and>
         sql delete_query [p] d = Some (filter (\<lambda>(i, x). \<not> m i) d, r)))"

text \<open>
  A selection without an order: some rows of the table, each at most once, all of them behind
  the offset up to the limit. A number that is no \<open>integer\<close> is refused.
\<close>

definition list_means :: "table sql \<Rightarrow> bool" where
  "list_means sql \<longleftrightarrow> (\<forall>offset limit d. table_inv d \<longrightarrow>
     (if (\<forall>n. offset = Some n \<or> limit = Some n \<longrightarrow> n < 2 ^ 31) then
       \<exists>r xs ys zs. mset d = mset (xs @ ys @ zs) \<and>
         shows_rows r 7 (map (\<lambda>(i, row). row @ [int_to_string i]) ys) \<and>
         length xs = min (case offset of None \<Rightarrow> 0 | Some n \<Rightarrow> n) (length d) \<and>
         length ys = (case limit of None \<Rightarrow> length d - length xs | Some n \<Rightarrow> min n (length d - length xs)) \<and>
         sql (list_query offset limit) (map Some (list_params offset limit)) d = Some (d, r)
     else sql (list_query offset limit) (map Some (list_params offset limit)) d = None))"

definition employees_table :: "table sql \<Rightarrow> (nat \<Rightarrow> string \<Rightarrow> string option) \<Rightarrow> (string \<Rightarrow> int option) \<Rightarrow> bool" where
  "employees_table sql col bigint \<longleftrightarrow> insert_means sql col bigint \<and> select_means sql bigint \<and>
     update_means sql col bigint \<and> delete_means sql bigint \<and> list_means sql"

text \<open>The row an employee is stored as, the employee a row is read as, and the key of an identifier.\<close>

definition employee_row :: "'d fp_env \<Rightarrow> (nat \<Rightarrow> string \<Rightarrow> string option) \<Rightarrow> 'd Employee \<Rightarrow> string list option" where
  "employee_row fp col employee =
     (case employee_params fp employee of Inl e \<Rightarrow> None | Inr ps \<Rightarrow> row_of col (map param_value ps))"

definition row_employee :: "'d fp_env \<Rightarrow> string list \<Rightarrow> 'd Employee option" where
  "row_employee fp row =
     (case (sto_int ''stoi'' 32 (row ! 2), Enum_FromString Position_meta (row ! 4), fp_stod fp (row ! 5)) of
        (Inr age, Inr pos, Inr rate) \<Rightarrow>
          Some \<lparr>e_name = row ! 0, e_lastName = row ! 1, e_age = word_of_int age, e_email = row ! 3,
            e_position = pos, e_rate = rate\<rparr>
      | _ \<Rightarrow> None)"

definition key_of :: "(string \<Rightarrow> int option) \<Rightarrow> string \<Rightarrow> int option" where
  "key_of bigint ID = Option.bind (param_value ID) bigint"

definition listed_count :: "nat option \<Rightarrow> nat option \<Rightarrow> nat \<Rightarrow> nat" where
  "listed_count offset limit n =
     (let rest = n - (case offset of None \<Rightarrow> 0 | Some k \<Rightarrow> k)
      in case limit of None \<Rightarrow> rest | Some k \<Rightarrow> min k rest)"

text \<open>
  The types of the columns: text is kept as it is, an \<open>integer\<close> has 31 bits and a sign, and the
  enumeration \<open>Position\<close> of the schema has the names of the program's one.
\<close>

definition column_types :: "(nat \<Rightarrow> string \<Rightarrow> string option) \<Rightarrow> bool" where
  "column_types col \<longleftrightarrow>
     (\<forall>x. col 0 x = Some x \<and> col 1 x = Some x \<and> col 3 x = Some x) \<and>
     (\<forall>n. col 2 (nat_to_string n) = (if n < 2 ^ 31 then Some (nat_to_string n) else None)) \<and>
     (\<forall>x \<in> {''Unknown'', ''Developer'', ''Manager''}. col 4 x = Some x)"

section \<open>Facts\<close>

definition at_row :: "pg_result \<Rightarrow> nat \<Rightarrow> recordset" where
  "at_row r i = (opened r)\<lparr>m_currentRow := int i\<rparr>"

lemma shows_rowsD:
  assumes "shows_rows r n rows"
  shows "PQntuples r = int (length rows)" "PQnfields r = int n" "PQresultStatus r \<noteq> Failed"
    "i < length rows \<Longrightarrow> length (rows ! i) = n"
    "i < length rows \<Longrightarrow> j < n \<Longrightarrow> \<not> PQgetisnull r (int i) (int j) \<and> PQgetvalue r (int i) (int j) = Some (rows ! i ! j)"
  using assms by (auto simp: shows_rows_def)

lemma GetAsString_row:
  assumes "shows_rows r n rows" and "i < length rows" and "j < n"
  shows "Recordset_GetAsString (at_row r i) j = Inr (rows ! i ! j)"
  using shows_rowsD [OF assms(1)] assms(2,3)
  by (auto simp: Recordset_GetAsString_def Recordset_IsNull_def CheckIndex_def at_row_def opened_def)

lemma get_as_row:
  assumes "shows_rows r n rows" and "i < length rows" and "j < n"
  shows "get_as fn conv (at_row r i) j = Inr x \<longleftrightarrow> conv (rows ! i ! j) = Inr x"
    and "get_as fn conv (at_row r i) j = Inl e \<Longrightarrow> \<forall>e'. conv (rows ! i ! j) = Inl e' \<longrightarrow> is_std_exception e' \<Longrightarrow> is_std_exception e"
  using GetAsString_row [OF assms] by (auto simp: get_as_def split: sum.splits if_splits)

lemma Recordset_Read_opened:
  assumes "shows_rows r n rows"
  shows "Recordset_Read (opened r) = (if rows = [] then ((opened r)\<lparr>m_hasNext := False\<rparr>, False) else (at_row r 0, True))"
  using shows_rowsD(1) [OF assms] by (auto simp: Recordset_Read_def opened_def at_row_def)

lemma first_row_shows:
  assumes "shows_rows r n rows"
  shows "first_row e f (opened r) = (if rows = [] then Inl e else f (at_row r 0))"
  using Recordset_Read_opened [OF assms] by (simp add: first_row_def)

text \<open>An exception that a reader can meet; that of \<open>std::stod\<close> is a standard one.\<close>

definition std_stod_throws_std :: "'d fp_env \<Rightarrow> bool" where
  "std_stod_throws_std fp \<longleftrightarrow> (\<forall>s e. fp_stod fp s = Inl e \<longrightarrow> is_std_exception e)"

lemma StringToEnumValue_error: "StringToEnumValue its n s = Inl e \<Longrightarrow> is_std_exception e"
  by (induction n) (auto simp: Let_def split: if_splits)

lemma sto_int_error: "sto_int fn bits s = Inl e \<Longrightarrow> is_std_exception e"
  by (auto simp: sto_int_def Let_def split: option.splits if_splits)

lemma read_employee_row:
  assumes "shows_rows r n rows" and "i < length rows" and "6 \<le> n"
  shows "read_employee fp (at_row r i) = Inr employee \<longleftrightarrow> row_employee fp (rows ! i) = Some employee"
  using assms(2,3) GetAsString_row [OF assms(1,2)]
  by (auto simp: read_employee_def and_then_eq_Inr row_employee_def Recordset_GetAsInt32_def Recordset_GetAsDouble_def
      get_as_row [OF assms(1,2)] split: sum.splits)

lemma read_employee_error:
  assumes "shows_rows r n rows" and "i < length rows" and "6 \<le> n" and "std_stod_throws_std fp"
    and "read_employee fp (at_row r i) = Inl e"
  shows "is_std_exception e"
proof -
  have "is_std_exception x" if "get_as ''GetAsInt32'' (sto_int ''stoi'' 32) (at_row r i) 2 = Inl x" for x
    using get_as_row(2) [OF assms(1,2) _ that] sto_int_error assms(3) by auto
  moreover have "is_std_exception x" if "get_as ''GetAsDouble'' (fp_stod fp) (at_row r i) 5 = Inl x" for x
    using get_as_row(2) [OF assms(1,2) _ that] assms(3,4) by (auto simp: std_stod_throws_std_def)
  ultimately show ?thesis
    using assms(2,3,5) GetAsString_row [OF assms(1,2)]
    by (auto simp: read_employee_def and_then_def Recordset_GetAsInt32_def Recordset_GetAsDouble_def
        Enum_FromString_def dest: StringToEnumValue_error split: sum.splits)
qed

text \<open>The loop over all rows.\<close>

fun rows_employees :: "'d fp_env \<Rightarrow> string list list \<Rightarrow> (string \<times> 'd Employee) list \<Rightarrow> (string \<times> 'd Employee) list option" where
  "rows_employees fp [] employees = Some employees"
| "rows_employees fp (row # rows) employees =
     (case row_employee fp row of
        None \<Rightarrow> None
      | Some employee \<Rightarrow> rows_employees fp rows (ordered_emplace employees (row ! 6) employee))"

lemma opened_before: "opened r = (opened r)\<lparr>m_currentRow := int 0 - 1\<rparr>"
  by (simp add: opened_def)

lemma read_employees_rows:
  assumes "shows_rows r 7 rows" and "k \<le> length rows"
  shows "(read_employees fp ((opened r)\<lparr>m_currentRow := int k - 1\<rparr>) acc = Inr m \<longleftrightarrow>
      rows_employees fp (drop k rows) acc = Some m) \<and>
    (std_stod_throws_std fp \<longrightarrow> read_employees fp ((opened r)\<lparr>m_currentRow := int k - 1\<rparr>) acc = Inl e \<longrightarrow> is_std_exception e)"
  using assms(2)
proof (induction "length rows - k" arbitrary: k acc)
  case 0
  then show ?case
    using shows_rowsD(1) [OF assms(1)]
    by (subst (1 2) read_employees.simps) (simp add: Recordset_Read_def opened_def)
next
  case (Suc n)
  then have k: "k < length rows" by simp
  then have read: "Recordset_Read ((opened r)\<lparr>m_currentRow := int k - 1\<rparr>) = (at_row r k, True)"
    using shows_rowsD(1) [OF assms(1)] by (simp add: Recordset_Read_def opened_def at_row_def)
  have ID: "Recordset_GetAsString (at_row r k) 6 = Inr (rows ! k ! 6)"
    using GetAsString_row [OF assms(1) k, of 6] by simp
  have at: "at_row r k = (opened r)\<lparr>m_currentRow := int (Suc k) - 1\<rparr>"
    by (simp add: at_row_def)
  have d: "drop k rows = rows ! k # drop (Suc k) rows"
    using k by (simp add: Cons_nth_drop_Suc)
  show ?case
  proof (cases "read_employee fp (at_row r k)")
    case (Inl x)
    then show ?thesis
      using read_employee_row [OF assms(1) k, of fp] read_employee_error [OF assms(1) k _ _ Inl]
      by (subst (1 2) read_employees.simps) (auto simp: read d split: option.splits)
  next
    case (Inr employee)
    then have "row_employee fp (rows ! k) = Some employee"
      using read_employee_row [OF assms(1) k, of fp] by simp
    then show ?thesis
      using Inr Suc.hyps(1) [of "Suc k"] Suc.hyps(2) k
      by (subst (1 2) read_employees.simps) (simp add: read d ID [unfolded at_row_def] at)
  qed
qed

lemma rows_employees_spec:
  assumes "rows_employees fp rows acc = Some m" and "sorted_wrt (<) (map fst acc)"
    and "distinct (map fst acc @ map (\<lambda>row. row ! 6) rows)"
  shows "sorted_wrt (<) (map fst m) \<and> length m = length acc + length rows \<and>
    (\<forall>(ID, employee) \<in> set m. (ID, employee) \<in> set acc \<or>
       (\<exists>row \<in> set rows. ID = row ! 6 \<and> row_employee fp row = Some employee))"
  using assms
proof (induction rows arbitrary: acc)
  case (Cons row rows)
  obtain employee where e: "row_employee fp row = Some employee"
      "rows_employees fp rows (ordered_emplace acc (row ! 6) employee) = Some m"
    using Cons.prems(1) by (auto split: option.splits)
  have new: "row ! 6 \<notin> fst ` set acc"
    using Cons.prems(3) by auto
  have em: "length (ordered_emplace acc (row ! 6) employee) = Suc (length acc)"
      "set (ordered_emplace acc (row ! 6) employee) = insert (row ! 6, employee) (set acc)"
    using ordered_emplace_new [OF new] by auto
  have "sorted_wrt (<) (map fst (ordered_emplace acc (row ! 6) employee))"
    using Cons.prems(2) by (rule ordered_emplace_sorted)
  moreover have "distinct (map fst (ordered_emplace acc (row ! 6) employee) @ map (\<lambda>row. row ! 6) rows)"
    using Cons.prems(3) calculation by (auto simp: strict_sorted_iff em(2))
  ultimately show ?case
    using Cons.IH [OF e(2)] em e(1) by fastforce
qed auto

lemma queries_not_Nil [simp]: "insert_query \<noteq> []" "select_query \<noteq> []" "update_query \<noteq> []" "delete_query \<noteq> []"
    "list_query offset limit \<noteq> []"
  by (simp_all add: insert_query_def select_query_def update_query_def delete_query_def list_query_def)

lemma employee_params_error: "employee_params fp employee = Inl e \<Longrightarrow> is_std_exception e"
  by (auto simp: employee_params_def and_then_def Enum_ToString_def dest: EnumValueToString_error split: sum.splits)

lemma length_employee_params: "employee_params fp employee = Inr ps \<Longrightarrow> length ps = 6"
  by (auto simp: employee_params_def and_then_def split: sum.splits)

lemma first_row_error:
  "first_row e0 f (opened r) = Inl e \<Longrightarrow> e = e0 \<or> (\<exists>rs. f rs = Inl e)"
  by (auto simp: first_row_def split: prod.splits if_splits)

lemma GetAsString_error: "Recordset_GetAsString rs i = Inl e \<Longrightarrow> is_std_exception e"
  by (auto simp: Recordset_GetAsString_def Recordset_IsNull_def CheckIndex_def split: sum.splits if_splits bool.splits option.splits)

lemma insert_meansD:
  assumes "insert_means sql col bigint" and "table_inv d" and "sql insert_query ps d = Some (d', r)"
  obtains k row where "row_of col ps = Some row" "k \<notin> fst ` set d" "shows_rows r 1 [[int_to_string k]]" "d' = d @ [(k, row)]"
    "bigint (int_to_string k) = Some k"
  using assms(1) [unfolded insert_means_def, rule_format, OF assms(2), of ps] assms(3)
  by (cases "row_of col ps") auto

lemma select_meansD:
  assumes "select_means sql bigint" and "table_inv d" and "sql select_query [p] d = Some (d', r)"
  obtains m where "key_is bigint p = Some m" "shows_rows r 6 (map snd (filter (\<lambda>(i, row). m i) d))" "d' = d"
  using assms(1) [unfolded select_means_def, rule_format, OF assms(2), of p] assms(3)
  by (cases "key_is bigint p") auto

lemma update_meansD:
  assumes "update_means sql col bigint" and "table_inv d \<and> length ps = 6" and "sql update_query (ps @ [p]) d = Some (d', r)"
  obtains (none) m where "key_is bigint p = Some m" "shows_rows r 1 []" "d' = d"
  | (some) m row where "key_is bigint p = Some m" "row_of col ps = Some row"
      "shows_rows r 1 (ids (filter (\<lambda>(i, x). m i) d))" "d' = map (\<lambda>(i, x). (i, if m i then row else x)) d"
  using assms(1) [unfolded update_means_def, rule_format, OF assms(2), of p] assms(3)
  by (cases "key_is bigint p"; cases "row_of col ps") auto

lemma delete_meansD:
  assumes "delete_means sql bigint" and "table_inv d" and "sql delete_query [p] d = Some (d', r)"
  obtains m where "key_is bigint p = Some m" "shows_rows r 1 (ids (filter (\<lambda>(i, x). m i) d))" "d' = filter (\<lambda>(i, x). \<not> m i) d"
  using assms(1) [unfolded delete_means_def, rule_format, OF assms(2), of p] assms(3)
  by (cases "key_is bigint p") auto

lemma key_is_matches:
  assumes "key_is bigint (param_value ID) = Some m" and "filter (\<lambda>(i, x). m i) d \<noteq> []"
  obtains k where "key_of bigint ID = Some k" "m = (\<lambda>i. i = k)" "map_of d k \<noteq> None"
  using assms by (force simp: map_of_eq_None_iff key_is_def key_of_def filter_empty_conv split: option.splits)

lemma filter_key: "distinct (map fst d) \<Longrightarrow> filter (\<lambda>(i, x). i = k) d = (case map_of d k of None \<Rightarrow> [] | Some x \<Rightarrow> [(k, x)])"
proof (induction d)
  case (Cons p d)
  then show ?case
    by (cases p) (auto split: option.splits simp: map_of_eq_None_iff image_iff)
qed simp

lemma param_value_number: "param_value (nat_to_string n) = Some (nat_to_string n)"
proof -
  have "CHR 0x00 \<notin> set (nat_to_string n)"
    using nat_to_string_digits [of "CHR 0x00" n] by (auto simp: isdigit_def code_of_def)
  then show ?thesis
    by (auto simp: param_value_def takeWhile_eq_all_conv)
qed

lemma param_value_int: "param_value (int_to_string k) = Some (int_to_string k)"
  using param_value_number [of "nat k"] param_value_number [of "nat (- k)"]
  by (auto simp: int_to_string_def param_value_def)

lemma param_value_list_params: "map param_value (list_params offset limit) = map Some (list_params offset limit)"
  by (auto simp: list_params_def param_value_number split: option.splits)

lemma list_meansD:
  assumes "list_means sql" and "table_inv d" and "sql (list_query offset limit) (map Some (list_params offset limit)) d = Some (d', r)"
  obtains xs ys zs where "mset d = mset (xs @ ys @ zs)" "shows_rows r 7 (map (\<lambda>(i, row). row @ [int_to_string i]) ys)"
    "length ys = listed_count offset limit (length d)"
proof -
  obtain xs ys zs where "mset d = mset (xs @ ys @ zs)" "shows_rows r 7 (map (\<lambda>(i, row). row @ [int_to_string i]) ys)"
    "length xs = min (case offset of None \<Rightarrow> 0 | Some n \<Rightarrow> n) (length d)"
    "length ys = (case limit of None \<Rightarrow> length d - length xs | Some n \<Rightarrow> min n (length d - length xs))"
    using assms(1) [unfolded list_means_def, rule_format, OF assms(2), of offset limit] assms(3) by (auto split: if_splits)
  then show thesis
    using that [of xs ys zs] by (auto simp: listed_count_def Let_def split: option.splits)
qed

lemma row_employee_append: "length row = 6 \<Longrightarrow> row_employee fp (row @ xs) = row_employee fp row"
  by (auto simp: row_employee_def nth_append split: sum.splits)

lemma keys_update: "map (fst \<circ> (\<lambda>(i, x). (i, f i x))) d = map fst d"
  by (induction d) auto

lemma length_row_of: "row_of col ps = Some row \<Longrightarrow> length row = 6"
proof -
  have "length ys = length xs" if "those xs = Some ys" for xs :: "'a option list" and ys
    using that by (induction xs arbitrary: ys) (auto split: option.splits)
  then show "row_of col ps = Some row \<Longrightarrow> length row = 6"
    by (fastforce simp: row_of_def split: if_splits)
qed

lemma map_of_append_new: "k \<notin> fst ` set d \<Longrightarrow> map_of (d @ [(k, row)]) = (map_of d)(k \<mapsto> row)"
  by (induction d) (auto simp: fun_eq_iff)

lemma length_employee_row: "employee_row fp col employee = Some row \<Longrightarrow> length row = 6"
  by (auto simp: employee_row_def dest: length_row_of split: sum.splits)

lemma table_inv_append: "table_inv d \<Longrightarrow> k \<notin> fst ` set d \<Longrightarrow> length row = 6 \<Longrightarrow> table_inv (d @ [(k, row)])"
  by (auto simp: table_inv_def)

lemma table_inv_update: "table_inv d \<Longrightarrow> length row = 6 \<Longrightarrow> table_inv (map (\<lambda>(i, x). (i, if i = k then row else x)) d)"
  by (force simp: table_inv_def keys_update)

lemma table_inv_filter: "table_inv d \<Longrightarrow> table_inv (filter P d)"
  by (auto simp: table_inv_def distinct_map_filter)

lemma Position_names:
  "Enum_ToString Position_meta p =
     (if p = 0 then Inr ''Unknown'' else if p = 1 then Inr ''Developer'' else if p = 2 then Inr ''Manager''
      else Enum_ToString Position_meta p)"
  "Enum_FromString Position_meta ''Unknown'' = Inr 0" "Enum_FromString Position_meta ''Developer'' = Inr 1"
  "Enum_FromString Position_meta ''Manager'' = Inr 2"
  by (simp_all add: Enum_ToString_def Enum_FromString_def Position_meta_def MIF_REFLECT_FIELD_def MIF_REFLECT_BEGIN_def
      FieldsCount_def Field_def numeral_3_eq_3)

text \<open>Text that reaches the database as it is: not empty, and without a zero character.\<close>

definition sent_whole :: "string \<Rightarrow> bool" where
  "sent_whole x \<longleftrightarrow> x \<noteq> [] \<and> CHR 0x00 \<notin> set x"

lemma param_value_sent: "sent_whole x \<Longrightarrow> param_value x = Some x"
  by (auto simp: sent_whole_def param_value_def takeWhile_eq_all_conv)

lemma row_of_six: "row_of col [p0, p1, p2, p3, p4, p5] =
    those [Option.bind p0 (col 0), Option.bind p1 (col 1), Option.bind p2 (col 2), Option.bind p3 (col 3),
      Option.bind p4 (col 4), Option.bind p5 (col 5)]"
proof -
  have "[0..<6] = [0, 1, 2, 3, 4, 5 :: nat]" by code_simp
  then show ?thesis by (simp add: row_of_def)
qed

lemma sto_int_nat: "n < 2 ^ 31 \<Longrightarrow> sto_int ''stoi'' 32 (nat_to_string n) = Inr (int n)"
  using sto_int_int_to_string [of "''stoi''" 32 "int n"] by (simp add: int_to_string_def)

text \<open>An employee that the table can hold, and the rate that is read back.\<close>

definition storable :: "'d fp_env \<Rightarrow> (nat \<Rightarrow> string \<Rightarrow> string option) \<Rightarrow> 'd Employee \<Rightarrow> 'd \<Rightarrow> bool" where
  "storable fp col e x \<longleftrightarrow>
     sent_whole (e_name e) \<and> sent_whole (e_lastName e) \<and> sent_whole (e_email e) \<and>
     unat (e_age e) < 2 ^ 31 \<and> e_position e \<in> {0, 1, 2} \<and> sent_whole (fp_to_string fp (e_rate e)) \<and>
     (case col 5 (fp_to_string fp (e_rate e)) of None \<Rightarrow> False | Some y \<Rightarrow> fp_stod fp y = Inr x)"

lemma employee_row_stored:
  assumes "column_types col" and "storable fp col e x"
  obtains row where "employee_row fp col e = Some row" "row_employee fp row = Some (e\<lparr>e_rate := x\<rparr>)"
proof -
  obtain y where y: "col 5 (fp_to_string fp (e_rate e)) = Some y" "fp_stod fp y = Inr x"
    using assms(2) by (auto simp: storable_def split: option.splits)
  have age: "unat (e_age e) < 2 ^ 31" and p: "e_position e \<in> {0, 1, 2}"
    using assms(2) by (simp_all add: storable_def)
  obtain pos where pos: "Enum_ToString Position_meta (e_position e) = Inr pos" "Enum_FromString Position_meta pos = Inr (e_position e)"
      "col 4 pos = Some pos" "param_value pos = Some pos"
    using assms(1) p Position_names(2-4) Position_names(1) [of "e_position e"] by (auto simp: column_types_def param_value_def)
  let ?row = "[e_name e, e_lastName e, nat_to_string (unat (e_age e)), e_email e, pos, y]"
  have "employee_row fp col e = Some ?row"
    using assms y(1) age pos(1,3,4)
    by (simp add: storable_def employee_row_def employee_params_def row_of_six param_value_sent param_value_number column_types_def)
  moreover have "row_employee fp ?row = Some (e\<lparr>e_rate := x\<rparr>)"
    using y(2) pos(2) sto_int_nat [OF age] by (simp add: row_employee_def)
  ultimately show thesis by (rule that)
qed

lemma employee_row_refused:
  assumes "column_types col" and "e_name e = [] \<or> e_lastName e = [] \<or> e_email e = [] \<or> 2 ^ 31 \<le> unat (e_age e)"
  shows "employee_row fp col e = None"
proof (cases "Enum_ToString Position_meta (e_position e)")
  case (Inr pos)
  then show ?thesis
    using assms
    by (auto simp: employee_row_def employee_params_def row_of_six param_value_number column_types_def
        param_value_def [of "[]"] split: option.splits)
qed (simp add: employee_row_def employee_params_def)

section \<open>The statements in their scopes\<close>

lemma insert_scope:
  assumes db: "transactional c v sql" and tab: "insert_means sql col bigint" "table_inv (committed v s)" and w: "working v s = None"
    and run: "in_transaction c (on_statement c insert_query (employee_params fp employee)
      (read_then_commit c (first_row e0 f) finish)) s = (s', res)"
  obtains (failed) e where "res = Inl e" "committed v s' = committed v s" "rolls_back c \<Longrightarrow> working v s' = None"
      "is_std_exception e \<or> e = e0 \<or> (\<exists>rs. f rs = Inl e)"
      "available c v sql \<Longrightarrow> (\<forall>x k. shows_rows x 1 [[int_to_string k]] \<longrightarrow> (\<exists>y. f (at_row x 0) = Inr y)) \<Longrightarrow>
         employee_row fp col employee = None"
  | (inserted) k row x y where "k \<notin> fst ` set (committed v s)" "bigint (int_to_string k) = Some k"
      "employee_row fp col employee = Some row" "shows_rows x 1 [[int_to_string k]]" "f (at_row x 0) = Inr y"
      "res = finish y" "committed v s' = committed v s @ [(k, row)]" "working v s' = None"
proof -
  from db queries_not_Nil(1) w run show thesis
  proof (cases rule: statement_commits)
    case (failed e)
    have "is_std_exception e \<or> e = e0 \<or> (\<exists>rs. f rs = Inl e)"
      using failed(4) by (elim disjE exE) (auto dest!: employee_params_error first_row_error)
    moreover have "employee_row fp col employee = None" if av: "available c v sql"
      "\<forall>x k. shows_rows x 1 [[int_to_string k]] \<longrightarrow> (\<exists>y. f (at_row x 0) = Inr y)"
    proof (rule ccontr)
      assume "employee_row fp col employee \<noteq> None"
      then obtain ps row where ps: "employee_params fp employee = Inr ps" "row_of col (map param_value ps) = Some row"
        by (auto simp: employee_row_def split: sum.splits)
      then obtain k x where x: "shows_rows x 1 [[int_to_string k]]"
          "sql insert_query (map param_value ps) (committed v s) = Some (committed v s @ [(k, row)], x)"
        using tab(1) [unfolded insert_means_def, rule_format, OF tab(2), of "map param_value ps"] by auto
      obtain y where "f (at_row x 0) = Inr y"
        using av(2) x(1) by blast
      then show False
        using failed(5) [OF av(1) ps(1) x(2)] shows_rowsD(2) [OF x(1)] by (simp add: first_row_shows [OF x(1)])
    qed
    ultimately show thesis
      using failed(1-3) that(1) [of e] by blast
  next
    case (finished ps d' x y)
    from tab finished(2) obtain k row where row: "row_of col (map param_value ps) = Some row"
      and k: "k \<notin> fst ` set (committed v s)" "shows_rows x 1 [[int_to_string k]]" "d' = committed v s @ [(k, row)]"
        "bigint (int_to_string k) = Some k"
      by (rule insert_meansD)
    have "employee_row fp col employee = Some row" "f (at_row x 0) = Inr y"
      using finished(1,3) row by (simp_all add: employee_row_def first_row_shows [OF k(2)])
    then show thesis
      using finished(4-6) k by (intro that(2)) simp_all
  qed
qed

lemma select_scope:
  assumes db: "transactional c v sql" and tab: "select_means sql bigint" "table_inv (committed v s)" and w: "working v s = None"
    and run: "in_transaction c (on_statement c select_query (Inr [ID]) (read_only (first_row e0 f))) s = (s', res)"
  obtains (failed) e where "res = Inl e" "is_std_exception e \<or> e = e0" "committed v s' = committed v s"
      "rolls_back c \<Longrightarrow> working v s' = None"
      "available c v sql \<Longrightarrow> Option.bind (key_of bigint ID) (map_of (committed v s)) = None"
  | (found) k row x where "key_of bigint ID = Some k" "map_of (committed v s) k = Some row" "shows_rows x 6 [row]"
      "res = f (at_row x 0)" "committed v s' = committed v s" "rolls_back c \<Longrightarrow> working v s' = None"
proof -
  have dist: "distinct (map fst (committed v s))" using tab(2) by (simp add: table_inv_def)
  have one: "map snd (filter (\<lambda>(i, x). i = k) (committed v s)) = [row]" if "map_of (committed v s) k = Some row" for k row
    using filter_key [OF dist, of k] that by simp
  from db queries_not_Nil(2) w run show thesis
  proof (cases rule: statement_reads)
    case (failed e)
    have "Option.bind (key_of bigint ID) (map_of (committed v s)) = None" if av: "available c v sql"
    proof (rule ccontr)
      assume "Option.bind (key_of bigint ID) (map_of (committed v s)) \<noteq> None"
      then obtain k row where k: "key_of bigint ID = Some k" "map_of (committed v s) k = Some row"
        by (auto simp: bind_eq_Some_conv)
      then have "key_is bigint (param_value ID) = Some (\<lambda>i. i = k)"
        by (auto simp: key_is_def key_of_def split: option.splits)
      then obtain x where x: "shows_rows x 6 [row]" "sql select_query [param_value ID] (committed v s) = Some (committed v s, x)"
        using tab(1) [unfolded select_means_def, rule_format, OF tab(2), of "param_value ID"] one [OF k(2)] by auto
      then show False
        using failed(5) [OF av refl] shows_rowsD(2) [OF x(1)] by fastforce
    qed
    then show thesis
      using failed(1-4) by (intro that(1)) auto
  next
    case (executed ps d' x)
    have ps: "map param_value ps = [param_value ID]" using executed(1) by auto
    from tab executed(2) [unfolded ps] obtain m where m: "key_is bigint (param_value ID) = Some m"
      and rows: "shows_rows x 6 (map snd (filter (\<lambda>(i, row). m i) (committed v s)))"
      by (rule select_meansD)
    show thesis
    proof (cases "filter (\<lambda>(i, row). m i) (committed v s) = []")
      case True
      then have "Option.bind (key_of bigint ID) (map_of (committed v s)) = None"
        using m by (auto simp: key_is_def key_of_def filter_empty_conv map_of_eq_None_iff bind_eq_None_conv split: option.splits)
      with True show thesis
        using executed(3-5) by (intro that(1) [of e0]) (simp_all add: first_row_shows [OF rows])
    next
      case False
      with m obtain k where k: "key_of bigint ID = Some k" "m = (\<lambda>i. i = k)" "map_of (committed v s) k \<noteq> None"
        by (rule key_is_matches)
      then obtain row where row: "map_of (committed v s) k = Some row" by blast
      have "shows_rows x 6 [row]"
        using rows one [OF row] by (simp add: k(2))
      then show thesis
        using executed(3-5) k(1) row by (intro that(2)) (simp_all add: first_row_shows)
    qed
  qed
qed

lemma update_scope:
  assumes db: "transactional c v sql" and tab: "update_means sql col bigint" and inv: "table_inv (committed v s)"
    and w: "working v s = None"
    and run: "in_transaction c (on_statement c update_query (map_sum (\<lambda>e. e) (\<lambda>ps. ps @ [ID]) (employee_params fp employee))
      (read_then_commit c (first_row e0 (\<lambda>result. Inr ())) finish)) s = (s', res)"
  obtains (failed) e where "res = Inl e" "is_std_exception e \<or> e = e0" "committed v s' = committed v s"
      "rolls_back c \<Longrightarrow> working v s' = None"
  | (updated) k row where "key_of bigint ID = Some k" "map_of (committed v s) k \<noteq> None"
      "employee_row fp col employee = Some row" "res = finish ()"
      "committed v s' = map (\<lambda>(i, x). (i, if i = k then row else x)) (committed v s)" "working v s' = None"
proof -
  from db queries_not_Nil(3) w run show thesis
  proof (cases rule: statement_commits)
    case (failed e)
    have "is_std_exception e \<or> e = e0"
      using failed(4)
      by (elim disjE exE) (auto dest!: employee_params_error first_row_error simp: map_sum_def split: sum.splits)
    then show thesis
      using failed(1-3) by (intro that(1))
  next
    case (finished ps d' x u)
    obtain qs where qs: "employee_params fp employee = Inr qs" "ps = qs @ [ID]"
      using finished(1) by (cases "employee_params fp employee") auto
    have ps: "map param_value ps = map param_value qs @ [param_value ID]"
      and len: "table_inv (committed v s) \<and> length (map param_value qs) = 6"
      using qs length_employee_params inv by simp_all
    from tab len finished(2) [unfolded ps] show thesis
    proof (cases rule: update_meansD)
      case (none m)
      then show thesis
        using finished(3) by (simp add: first_row_shows [OF none(2)])
    next
      case (some m row)
      have "filter (\<lambda>(i, x). m i) (committed v s) \<noteq> []"
        using finished(3) by (auto simp: first_row_shows [OF some(3)] ids_def)
      with some(1) obtain k where k: "key_of bigint ID = Some k" "m = (\<lambda>i. i = k)" "map_of (committed v s) k \<noteq> None"
        by (rule key_is_matches)
      then show thesis
        using finished(4-6) some(2,4) qs by (intro that(2)) (auto simp: employee_row_def)
    qed
  qed
qed

lemma delete_scope:
  assumes db: "transactional c v sql" and tab: "delete_means sql bigint" and inv: "table_inv (committed v s)"
    and w: "working v s = None"
    and run: "in_transaction c (on_statement c delete_query (Inr [ID])
      (read_then_commit c (first_row e0 (\<lambda>result. Inr ())) finish)) s = (s', res)"
  obtains (failed) e where "res = Inl e" "is_std_exception e \<or> e = e0" "committed v s' = committed v s"
      "rolls_back c \<Longrightarrow> working v s' = None"
  | (deleted) k where "key_of bigint ID = Some k" "map_of (committed v s) k \<noteq> None" "res = finish ()"
      "committed v s' = filter (\<lambda>(i, x). i \<noteq> k) (committed v s)" "working v s' = None"
proof -
  from db queries_not_Nil(4) w run show thesis
  proof (cases rule: statement_commits)
    case (failed e)
    have "is_std_exception e \<or> e = e0"
      using failed(4) by (elim disjE exE) (auto dest!: first_row_error)
    then show thesis
      using failed(1-3) by (intro that(1))
  next
    case (finished ps d' x u)
    have ps: "map param_value ps = [param_value ID]" using finished(1) by auto
    from tab inv finished(2) [unfolded ps] obtain m where m: "key_is bigint (param_value ID) = Some m"
      and rows: "shows_rows x 1 (ids (filter (\<lambda>(i, x). m i) (committed v s)))"
      and d': "d' = filter (\<lambda>(i, x). \<not> m i) (committed v s)"
      by (rule delete_meansD)
    have "filter (\<lambda>(i, x). m i) (committed v s) \<noteq> []"
      using finished(3) by (auto simp: first_row_shows [OF rows] ids_def)
    with m obtain k where "key_of bigint ID = Some k" "m = (\<lambda>i. i = k)" "map_of (committed v s) k \<noteq> None"
      by (rule key_is_matches)
    then show thesis
      using finished(4-6) d' by (intro that(2)) simp_all
  qed
qed

text \<open>What a list of employees shows of the rows by key.\<close>

definition lists_rows :: "'d fp_env \<Rightarrow> nat option \<Rightarrow> nat option \<Rightarrow> (int \<rightharpoonup> string list) \<Rightarrow> (string \<times> 'd Employee) list \<Rightarrow> bool" where
  "lists_rows fp offset limit m employees \<longleftrightarrow>
     sorted_wrt (<) (map fst employees) \<and> length employees = listed_count offset limit (card (dom m)) \<and>
     (\<forall>(ID, employee) \<in> set employees.
        \<exists>k row. ID = int_to_string k \<and> m k = Some row \<and> row_employee fp row = Some employee)"

lemma listed_rows:
  assumes rows: "shows_rows x 7 (map (\<lambda>(i, row). row @ [int_to_string i]) ys)" (is "shows_rows x 7 ?rows")
    and inv: "table_inv d" and d: "mset d = mset (xs @ ys @ zs)" and len: "length ys = listed_count offset limit (length d)"
    and read: "read_employees fp (opened x) [] = Inr employees"
  shows "lists_rows fp offset limit (map_of d) employees"
proof -
  have dist: "distinct (map fst d)"
    using inv by (simp add: table_inv_def)
  have six: "length row = 6" if "(i, row) \<in> set d" for i row
    using inv that by (force simp: table_inv_def)
  have "mset (map fst d) = mset (map fst (xs @ ys @ zs))"
    using d by (metis mset_map)
  then have "distinct (map fst (xs @ ys @ zs))"
    using dist by (metis mset_eq_imp_distinct_iff)
  then have sub: "set ys \<subseteq> set d" "distinct (map fst ys)"
    using mset_eq_setD [OF d] by auto
  have ids: "map (\<lambda>row. row ! 6) ?rows = map (int_to_string \<circ> fst) ys"
    using sub(1) six by (auto simp: nth_append)
  have keys: "distinct (map (int_to_string \<circ> fst) ys)"
    using sub(2) by (auto simp: distinct_map inj_on_def dest: int_to_string_inj)
  have "rows_employees fp ?rows [] = Some employees"
    using read_employees_rows [OF rows, of 0 fp "[]" employees, folded opened_before] read by simp
  then have spec: "sorted_wrt (<) (map fst employees)" "length employees = length ys"
      "\<And>ID employee. (ID, employee) \<in> set employees \<Longrightarrow> \<exists>row \<in> set ?rows. ID = row ! 6 \<and> row_employee fp row = Some employee"
    using rows_employees_spec [of fp ?rows "[]" employees] keys unfolding ids by auto
  have "card (dom (map_of d)) = length d"
    using dist by (metis distinct_card dom_map_of_conv_image_fst length_map set_map)
  moreover have "\<exists>k row. ID = int_to_string k \<and> map_of d k = Some row \<and> row_employee fp row = Some employee"
    if mem: "(ID, employee) \<in> set employees" for ID employee
  proof -
    obtain k row where row: "(k, row) \<in> set ys" "ID = (row @ [int_to_string k]) ! 6"
        "row_employee fp (row @ [int_to_string k]) = Some employee"
      using spec(3) [OF mem] by auto
    then have "map_of d k = Some row" "length row = 6"
      using sub(1) dist six by (auto intro: map_of_is_SomeI)
    with row show ?thesis
      by (auto simp: nth_append row_employee_append)
  qed
  ultimately show ?thesis
    using spec(1,2) len by (auto simp: lists_rows_def)
qed

lemma list_scope:
  assumes db: "transactional c v sql" and tab: "list_means sql" "table_inv (committed v s)" and w: "working v s = None"
    and run: "in_transaction c (on_statement c (list_query offset limit) (Inr (list_params offset limit)) (read_only f)) s = (s', res)"
  obtains (failed) e where "res = Inl e" "is_std_exception e" "committed v s' = committed v s" "rolls_back c \<Longrightarrow> working v s' = None"
  | (listed) x where "res = f (opened x)" "committed v s' = committed v s" "rolls_back c \<Longrightarrow> working v s' = None"
      "\<And>employees. read_employees fp (opened x) [] = Inr employees \<Longrightarrow>
         lists_rows fp offset limit (map_of (committed v s)) employees"
      "\<And>e. std_stod_throws_std fp \<Longrightarrow> read_employees fp (opened x) [] = Inl e \<Longrightarrow> is_std_exception e"
proof -
  from db queries_not_Nil(5) w run show thesis
  proof (cases rule: statement_reads)
    case (failed e)
    then show thesis by (intro that(1)) auto
  next
    case (executed ps d' x)
    have ps: "map param_value ps = map Some (list_params offset limit)"
      using executed(1) param_value_list_params by auto
    from tab executed(2) [unfolded ps] obtain xs ys zs where d: "mset (committed v s) = mset (xs @ ys @ zs)"
      and rows: "shows_rows x 7 (map (\<lambda>(i, row). row @ [int_to_string i]) ys)"
      and len: "length ys = listed_count offset limit (length (committed v s))"
      by (rule list_meansD)
    show thesis
      using executed(3-5) listed_rows [OF rows tab(2) d len] read_employees_rows [OF rows, of 0 fp "[]", folded opened_before]
      by (intro that(2)) auto
  qed
qed

end
