(* ===== verification/Reference_Database.thy ===== *)
theory Reference_Database
  imports Example_Employees
begin

text \<open>
  A small database that keeps the promises of \<open>Db_Session\<close> and of \<open>Example_Employees\<close>: one
  connection with an employees table, an open transaction that an error aborts, and prepared
  statements. It shows that the laws can hold together and lets the examples run; nothing in it
  models code of the framework.
\<close>

record ref_db =
  rd_table :: table
  rd_open :: "table option"
  rd_failed :: bool
  rd_prepared :: "(string \<times> string) list"
  rd_uuid :: nat

definition pg_reply :: "pg_status \<Rightarrow> nat \<Rightarrow> string list list \<Rightarrow> pg_result" where
  "pg_reply st n rows =
     \<lparr>PQresultStatus = st, PQresultErrorMessage = None, PQntuples = int (length rows), PQnfields = int n,
      PQfname = (\<lambda>_. None), PQfnumber = (\<lambda>_. -1), PQgetisnull = (\<lambda>_ _. False),
      PQgetvalue = (\<lambda>i j. Some (rows ! nat i ! nat j))\<rparr>"

definition done_reply :: "pg_result option" where
  "done_reply = Some (pg_reply Command_ok 0 [])"

definition error_reply :: "pg_result option" where
  "error_reply = Some (pg_reply Failed 0 [])"

section \<open>Statements\<close>

definition fresh_key :: "table \<Rightarrow> int" where
  "fresh_key d = (if d = [] then 1 else Max (fst ` set d) + 1)"

definition select_rows :: "nat option \<Rightarrow> nat option \<Rightarrow> table \<Rightarrow> table" where
  "select_rows offset limit d =
     (let rest = drop (case offset of None \<Rightarrow> 0 | Some n \<Rightarrow> n) d
      in case limit of None \<Rightarrow> rest | Some n \<Rightarrow> take n rest)"

definition list_reply :: "nat option \<Rightarrow> nat option \<Rightarrow> table \<Rightarrow> (table \<times> pg_result) option" where
  "list_reply offset limit d =
     (if (\<forall>n \<in> set_option offset \<union> set_option limit. n < 2 ^ 31)
      then Some (d, pg_reply Tuples_ok 7 (map (\<lambda>(i, row). row @ [int_to_string i]) (select_rows offset limit d)))
      else None)"

definition number_param :: "string option \<Rightarrow> nat option" where
  "number_param p = (case p of None \<Rightarrow> None | Some s \<Rightarrow> Some (nat (digits_value s)))"

definition with_key :: "(string \<Rightarrow> int option) \<Rightarrow> string option \<Rightarrow> ((int \<Rightarrow> bool) \<Rightarrow> 'a option) \<Rightarrow> 'a option" where
  "with_key bigint p f = Option.bind (key_is bigint p) f"

definition ref_sql :: "(nat \<Rightarrow> string \<Rightarrow> string option) \<Rightarrow> (string \<Rightarrow> int option) \<Rightarrow> table sql" where
  "ref_sql col bigint q ps d =
     (if q = insert_query then
        map_option (\<lambda>row. (d @ [(fresh_key d, row)], pg_reply Tuples_ok 1 [[int_to_string (fresh_key d)]])) (row_of col ps)
      else if q = select_query then
        with_key bigint (hd ps) (\<lambda>m. Some (d, pg_reply Tuples_ok 6 (map snd (filter (\<lambda>(i, row). m i) d))))
      else if q = update_query then
        with_key bigint (last ps) (\<lambda>m. map_option (\<lambda>row.
          (map (\<lambda>(i, x). (i, if m i then row else x)) d, pg_reply Tuples_ok 1 (ids (filter (\<lambda>(i, x). m i) d))))
            (row_of col (butlast ps)))
      else if q = delete_query then
        with_key bigint (hd ps) (\<lambda>m.
          Some (filter (\<lambda>(i, x). \<not> m i) d, pg_reply Tuples_ok 1 (ids (filter (\<lambda>(i, x). m i) d))))
      else if q = list_query None None then list_reply None None d
      else if q = list_query (Some 0) None then list_reply (number_param (ps ! 0)) None d
      else if q = list_query None (Some 0) then list_reply None (number_param (ps ! 0)) d
      else if q = list_query (Some 0) (Some 0) then list_reply (number_param (ps ! 0)) (number_param (ps ! 1)) d
      else None)"

section \<open>The connection\<close>

definition ref_exec :: "ref_db \<Rightarrow> string \<Rightarrow> ref_db \<times> pg_result option" where
  "ref_exec s cmd =
     (if cmd = ''BEGIN;'' then
        (if rd_open s = None then s\<lparr>rd_open := Some (rd_table s), rd_failed := False\<rparr> else s, done_reply)
      else if cmd = ''COMMIT;'' then
        (case rd_open s of
           None \<Rightarrow> (s, done_reply)
         | Some d \<Rightarrow> (s\<lparr>rd_table := (if rd_failed s then rd_table s else d), rd_open := None, rd_failed := False\<rparr>, done_reply))
      else if cmd = ''ROLLBACK;'' then (s\<lparr>rd_open := None, rd_failed := False\<rparr>, done_reply)
      else if rd_failed s then (s, error_reply)
      else (s\<lparr>rd_prepared := filter (\<lambda>(n, q). ''DEALLOCATE '' @ n \<noteq> cmd) (rd_prepared s)\<rparr>, done_reply))"

definition ref_prepare :: "ref_db \<Rightarrow> string \<Rightarrow> string \<Rightarrow> ref_db \<times> pg_result option" where
  "ref_prepare s name q =
     (if rd_failed s then (s, error_reply) else (s\<lparr>rd_prepared := (name, q) # rd_prepared s\<rparr>, done_reply))"

text \<open>Outside of a transaction a statement commits on its own.\<close>

definition ref_execPrepared :: "table sql \<Rightarrow> ref_db \<Rightarrow> string \<Rightarrow> string option list \<Rightarrow> ref_db \<times> pg_result option" where
  "ref_execPrepared sql s name ps =
     (case (map_of (rd_prepared s) name, rd_failed s) of
        (Some q, False) \<Rightarrow>
          (case rd_open s of
             Some d \<Rightarrow>
               (case sql q ps d of
                  None \<Rightarrow> (s\<lparr>rd_failed := True\<rparr>, error_reply)
                | Some (d', r) \<Rightarrow> (s\<lparr>rd_open := Some d'\<rparr>, Some r))
           | None \<Rightarrow>
               (case sql q ps (rd_table s) of
                  None \<Rightarrow> (s, error_reply)
                | Some (d', r) \<Rightarrow> (s\<lparr>rd_table := d'\<rparr>, Some r)))
      | _ \<Rightarrow> (s, error_reply))"

definition ref_client :: "table sql \<Rightarrow> ref_db pg_client" where
  "ref_client sql =
     \<lparr>lib_exec = ref_exec, lib_prepare = ref_prepare, lib_execPrepared = ref_execPrepared sql,
      lib_errorMessage = (\<lambda>_. None), lib_uuid = (\<lambda>s. (s\<lparr>rd_uuid := Suc (rd_uuid s)\<rparr>, nat_to_string (rd_uuid s)))\<rparr>"

definition ref_view :: "(ref_db, table) db_view" where
  "ref_view =
     \<lparr>committed = rd_table,
      working = (\<lambda>s. if rd_failed s \<and> rd_open s \<noteq> None then Some (rd_table s) else rd_open s),
      aborted = rd_failed, prepared = (\<lambda>s. map_of (rd_prepared s))\<rparr>"

section \<open>The laws hold\<close>

lemma accepted_replies [simp]: "accepted done_reply" "\<not> accepted error_reply"
  by (simp_all add: accepted_def done_reply_def error_reply_def pg_reply_def)

lemma shows_reply: "(\<And>row. row \<in> set rows \<Longrightarrow> length row = n) \<Longrightarrow> shows_rows (pg_reply Tuples_ok n rows) n rows"
  by (simp add: shows_rows_def pg_reply_def)

lemmas ref_defs = ref_client_def ref_view_def

lemma ref_begin: "begin_law (ref_client sql) ref_view"
  by (auto simp: begin_law_def ref_defs ref_exec_def split: if_splits)

lemma ref_commit: "commit_law (ref_client sql) ref_view"
  by (auto simp: commit_law_def ref_defs ref_exec_def split: if_splits option.splits)

lemma ref_rollback: "rollback_law (ref_client sql) ref_view" "rolls_back (ref_client sql)"
  by (auto simp: rollback_law_def rolls_back_def ref_defs ref_exec_def)

lemma ref_deallocate: "deallocate_law (ref_client sql) ref_view"
  by (auto simp: deallocate_law_def ref_defs ref_exec_def Statement_destroy_def split: if_splits)

lemma ref_prepare_law: "prepare_law (ref_client sql) ref_view"
  by (auto simp: prepare_law_def ref_defs ref_prepare_def split: if_splits)

lemma ref_execute: "execute_law (ref_client sql) ref_view sql"
  by (auto simp: execute_law_def ref_defs ref_execPrepared_def error_reply_def pg_reply_def
      split: if_splits option.splits bool.splits prod.splits)

lemma ref_transactional: "transactional (ref_client sql) ref_view sql"
  by (simp add: transactional_def ref_begin ref_commit ref_rollback ref_deallocate ref_prepare_law ref_execute)

text \<open>The statements are told apart by their texts.\<close>

lemma list_query_text: "list_query offset limit = list_query (map_option (\<lambda>_. 0) offset) (map_option (\<lambda>_. 0) limit)"
  by (cases offset; cases limit) (simp_all add: list_query_def)

lemma queries_differ:
  "select_query \<noteq> insert_query" "update_query \<noteq> insert_query" "delete_query \<noteq> insert_query"
  "update_query \<noteq> select_query" "delete_query \<noteq> select_query" "delete_query \<noteq> update_query"
  "list_query offset limit \<noteq> insert_query" "list_query offset limit \<noteq> select_query"
  "list_query offset limit \<noteq> update_query" "list_query offset limit \<noteq> delete_query"
  by (simp_all add: insert_query_def select_query_def update_query_def delete_query_def list_query_def)

lemma list_queries_differ:
  "list_query (Some 0) None \<noteq> list_query None None" "list_query None (Some 0) \<noteq> list_query None None"
  "list_query (Some 0) (Some 0) \<noteq> list_query None None" "list_query None (Some 0) \<noteq> list_query (Some 0) None"
  "list_query (Some 0) (Some 0) \<noteq> list_query (Some 0) None" "list_query (Some 0) (Some 0) \<noteq> list_query None (Some 0)"
  by (simp_all add: list_query_def)

lemma number_param_printed: "number_param (Some (nat_to_string n)) = Some n"
  by (simp add: number_param_def)

lemma ref_sql_list: "ref_sql col bigint (list_query offset limit) (map Some (list_params offset limit)) d = list_reply offset limit d"
  by (subst list_query_text, cases offset; cases limit)
    (simp_all add: ref_sql_def queries_differ list_queries_differ list_params_def number_param_printed)

lemma fresh_key_new: "fresh_key d \<notin> fst ` set d"
proof
  assume m: "fresh_key d \<in> fst ` set d"
  then have "d \<noteq> []" by auto
  then have "Max (fst ` set d) + 1 \<le> Max (fst ` set d)"
    using m by (intro Max_ge) (simp_all add: fresh_key_def)
  then show False by simp
qed

lemma ref_insert: "(\<And>k. bigint (int_to_string k) = Some k) \<Longrightarrow> insert_means (ref_sql col bigint) col bigint"
proof -
  assume "\<And>k. bigint (int_to_string k) = Some k"
  then have "\<exists>k r. k \<notin> fst ` set d \<and> bigint (int_to_string k) = Some k \<and> shows_rows r 1 [[int_to_string k]] \<and> ref_sql col bigint insert_query ps d = Some (d @ [(k, row)], r)"
    if "row_of col ps = Some row" for ps d row
    using that fresh_key_new [of d]
    by (intro exI [of _ "fresh_key d"] exI [of _ "pg_reply Tuples_ok 1 [[int_to_string (fresh_key d)]]"])
      (auto simp: ref_sql_def intro: shows_reply)
  then show ?thesis
    by (auto simp: insert_means_def ref_sql_def split: option.splits)
qed

lemma shows_ids: "shows_rows (pg_reply Tuples_ok (Suc 0) (ids d)) (Suc 0) (ids d)"
  by (rule shows_reply) (auto simp: ids_def)

lemma ref_select: "select_means (ref_sql col bigint) bigint"
proof -
  have "shows_rows (pg_reply Tuples_ok 6 (map snd (filter P d))) 6 (map snd (filter P d))" if "table_inv d" for P d
    using that by (intro shows_reply) (auto simp: table_inv_def)
  then show ?thesis
    by (auto simp: select_means_def ref_sql_def queries_differ with_key_def split: option.splits)
qed

lemma ref_update: "update_means (ref_sql col bigint) col bigint"
  by (auto simp: update_means_def ref_sql_def queries_differ with_key_def shows_ids split: option.splits)

lemma ref_delete: "delete_means (ref_sql col bigint) bigint"
  by (auto simp: delete_means_def ref_sql_def queries_differ with_key_def shows_ids split: option.splits)

lemma ref_list: "list_means (ref_sql col bigint)"
proof -
  have "\<exists>xs ys zs. mset d = mset (xs @ ys @ zs) \<and>
      shows_rows (pg_reply Tuples_ok 7 (map (\<lambda>(i, row). row @ [int_to_string i]) (select_rows offset limit d))) 7
        (map (\<lambda>(i, row). row @ [int_to_string i]) ys) \<and>
      length xs = min (case offset of None \<Rightarrow> 0 | Some n \<Rightarrow> n) (length d) \<and>
      length ys = (case limit of None \<Rightarrow> length d - length xs | Some n \<Rightarrow> min n (length d - length xs))"
    if inv: "table_inv d" for offset limit d
  proof -
    let ?xs = "take (case offset of None \<Rightarrow> 0 | Some n \<Rightarrow> n) d" and ?ys = "select_rows offset limit d"
    let ?rest = "drop (case offset of None \<Rightarrow> 0 | Some n \<Rightarrow> n) d"
    let ?zs = "case limit of None \<Rightarrow> [] | Some n \<Rightarrow> drop n ?rest"
    have d: "d = ?xs @ ?ys @ ?zs"
      by (cases limit) (simp_all add: select_rows_def Let_def del: drop_drop)
    have "set ?ys \<subseteq> set d"
      by (subst (2) d) auto
    then have "shows_rows (pg_reply Tuples_ok 7 (map (\<lambda>(i, row). row @ [int_to_string i]) ?ys)) 7 (map (\<lambda>(i, row). row @ [int_to_string i]) ?ys)"
      using inv by (intro shows_reply) (force simp: table_inv_def)
    moreover have "length ?ys = (case limit of None \<Rightarrow> length d - length ?xs | Some n \<Rightarrow> min n (length d - length ?xs))"
      by (cases limit; cases offset) (auto simp: select_rows_def Let_def)
    ultimately show ?thesis
      using d by (intro exI [of _ ?xs] exI [of _ ?ys] exI [of _ ?zs]) (auto simp: min.commute)
  qed
  then show ?thesis
    unfolding list_means_def ref_sql_list list_reply_def by (fastforce split: if_splits)
qed

lemma ref_table: "(\<And>k. bigint (int_to_string k) = Some k) \<Longrightarrow> employees_table (ref_sql col bigint) col bigint"
  by (simp add: employees_table_def ref_insert ref_select ref_update ref_delete ref_list)

lemma ref_sql_status: "ref_sql col bigint q ps d = Some (d', x) \<Longrightarrow> PQresultStatus x \<noteq> Failed"
  by (auto simp: ref_sql_def with_key_def list_reply_def pg_reply_def bind_eq_Some_conv split: if_splits)

lemma ref_available: "available (ref_client (ref_sql col bigint)) ref_view (ref_sql col bigint)"
  using ref_sql_status
  by (auto simp: available_def ref_defs ref_exec_def ref_prepare_def ref_execPrepared_def split: option.splits)

section \<open>A sample\<close>

text \<open>Columns and keys of the schema; a rate is an integer here and is printed with two zeros.\<close>

definition sample_col :: "nat \<Rightarrow> string \<Rightarrow> string option" where
  "sample_col i x =
     (if i = 2 then (if digits_value x < 2 ^ 31 then Some x else None)
      else if i = 4 then (if x \<in> {''Unknown'', ''Developer'', ''Manager''} then Some x else None)
      else Some x)"

definition sample_bigint :: "string \<Rightarrow> int option" where
  "sample_bigint s = map_option (\<lambda>(neg, n). if neg then - int n else int n) (read_number s)"

definition sample_fp :: "int fp_env" where
  "sample_fp = \<lparr>fp_to_string = (\<lambda>x. int_to_string x @ ''.00''), fp_stod = sto_int ''stod'' 64\<rparr>"

definition sample_conns :: "ref_db connections" where
  "sample_conns s = (s, Inr (ref_client (ref_sql sample_col sample_bigint)))"

definition sample_db :: ref_db where
  "sample_db = \<lparr>rd_table = [(7, [''Ann'', ''Lee'', ''33'', ''a@x'', ''Manager'', ''5.00''])], rd_open = None,
     rd_failed = False, rd_prepared = [], rd_uuid = 0\<rparr>"

definition sample_employee :: "int Employee" where
  "sample_employee = \<lparr>e_name = ''Bob'', e_lastName = ''Ray'', e_age = 41, e_email = ''b@x'', e_position = 1, e_rate = 8\<rparr>"

lemma sample_bigint_printed: "sample_bigint (int_to_string k) = Some k"
  by (cases "k < 0") (simp_all add: sample_bigint_def int_to_string_def read_number_nat_to_string read_number_minus)

lemma sample_columns: "column_types sample_col"
  by (auto simp: column_types_def sample_col_def)

lemma sample_stod: "std_stod_throws_std sample_fp"
  by (auto simp: std_stod_throws_std_def sample_fp_def dest: sto_int_error)

lemma sample_inv: "table_inv (committed ref_view sample_db)" "working ref_view sample_db = None"
  by (simp_all add: table_inv_def ref_view_def sample_db_def)

end
