(* ===== verification/Example_Crud.thy ===== *)
theory Example_Crud
  imports Http_Members Reference_Database
begin

text \<open>
  The web service over a database (\<open>examples/http_crud\<close>): the class \<open>EmployeeService\<close> with its
  five handlers. Employees come as JSON contents and identifiers as parameters of the query; a
  handler takes a connection, works in a transaction and returns a response as JSON, and its
  exceptions become statuses. The clock, the name of the host, the printer and parser of JSON
  and the server of the database are arguments.
\<close>

section \<open>Responses\<close>

definition Employee_ty :: ty where
  "Employee_ty = Reflected [] [(''name'', Simple String_t), (''lastName'', Simple String_t), (''age'', Simple Uint32_t),
     (''email'', Simple String_t), (''position'', ReflectedEnum Position_meta), (''rate'', Simple Double_t)]"

definition Status_ty :: ty where
  "Status_ty = Reflected [] [(''code'', Simple Uint32_t), (''message'', Simple String_t)]"

definition Info_ty :: ty where
  "Info_ty = Reflected [] [(''timestamp'', Simple String_t), (''node'', Simple String_t), (''status'', Status_ty)]"

definition Void_ty :: ty where
  "Void_ty = Reflected [] [(''meta'', Info_ty)]"

definition Id_ty :: ty where
  "Id_ty = Reflected [] [(''meta'', Info_ty), (''data'', Simple String_t)]"

definition EmployeeResponse_ty :: ty where
  "EmployeeResponse_ty = Reflected [] [(''meta'', Info_ty), (''data'', Employee_ty)]"

definition EmployeesResponse_ty :: ty where
  "EmployeesResponse_ty = Reflected [] [(''meta'', Info_ty), (''data'', StdMap (Simple String_t) Employee_ty)]"

text \<open>An employee as a value of its reflected type and back.\<close>

definition employee_val :: "'d Employee \<Rightarrow> 'd val" where
  "employee_val e = V_object [] [V_string (e_name e), V_string (e_lastName e), V_int (uint (e_age e)), V_string (e_email e),
     V_int (e_position e), V_double (e_rate e)]"

definition val_employee :: "'d val \<Rightarrow> 'd Employee" where
  "val_employee v = (let ms = members v in
     \<lparr>e_name = the_string (ms ! 0), e_lastName = the_string (ms ! 1), e_age = word_of_int (the_int (ms ! 2)),
      e_email = the_string (ms ! 3), e_position = the_int (ms ! 4), e_rate = the_double (ms ! 5)\<rparr>)"

definition employees_val :: "(string \<times> 'd Employee) list \<Rightarrow> 'd val" where
  "employees_val es = V_list (map (\<lambda>(ID, e). V_pair (V_string ID) (employee_val e)) es)"

record 'd crud_env =
  cr_timestamp :: string
  cr_host_name :: "string result"
  cr_print :: "'d json \<Rightarrow> buffer"
  cr_parse :: "buffer \<Rightarrow> 'd json result"
  cr_json :: "'d json_env"
  cr_fp :: "'d fp_env"

definition CreateMeta :: "'d crud_env \<Rightarrow> 32 word \<Rightarrow> string \<Rightarrow> 'd val result" where
  "CreateMeta env code message =
     and_then (cr_host_name env) (\<lambda>node.
       Inr (V_object [] [V_string (cr_timestamp env), V_string node, V_object [] [V_int (uint code), V_string message]]))"

text \<open>A response becomes the result of a handler.\<close>

definition respond :: "'d crud_env \<Rightarrow> ty \<Rightarrow> 'd val \<Rightarrow> handler_result result" where
  "respond env t v = map_sum (\<lambda>e. e) (\<lambda>b. Result_new b Json_ContentType) (Json_Serialize (cr_print env) t v)"

text \<open>
  The text of a buffer read as a C string: the characters end with a zero, and behind the
  buffer there is none. The code \<open>-1\<close> is converted to an unsigned number.
\<close>

definition FormatExceptionMessage :: "'d crud_env \<Rightarrow> string \<Rightarrow> string result" where
  "FormatExceptionMessage env message =
     (case and_then (CreateMeta env (- 1) message) (\<lambda>meta. Json_Serialize (cr_print env) Void_ty (V_object [] [meta])) of
        Inl e \<Rightarrow> if is_std_exception e then Inr message else Inl e
      | Inr buffer \<Rightarrow> if CHR 0x00 \<in> set buffer then Inr (c_str buffer) else Inl Undefined_behaviour)"

section \<open>Handlers\<close>

definition no_data :: exn where
  "no_data = Invalid_argument ''No data.''"

definition no_id :: exn where
  "no_id = Invalid_argument ''Id must not be empty.''"

definition id_empty :: "'d val Prm \<Rightarrow> bool" where
  "id_empty ID \<longleftrightarrow> (case m_value ID of None \<Rightarrow> True | Some v \<Rightarrow> the_string v = [])"

definition id_text :: "'d val Prm \<Rightarrow> string" where
  "id_text ID = (case m_value ID of None \<Rightarrow> [] | Some v \<Rightarrow> the_string v)"

definition crud_error :: "string \<Rightarrow> string \<Rightarrow> string" where
  "crud_error fn text = ''[Service::EmployeeService::'' @ fn @ ''] '' @ text"

definition EmployeeService_Create :: "'d crud_env \<Rightarrow> 's connections \<Rightarrow> 'd val option \<Rightarrow> 's \<Rightarrow> 's \<times> handler_result result" where
  "EmployeeService_Create env connections employee s =
     (case employee of
        None \<Rightarrow> (s, Inl no_data)
      | Some data \<Rightarrow>
          on_connection connections (\<lambda>connection. in_transaction connection
            (on_statement connection insert_query (employee_params (cr_fp env) (val_employee data))
               (read_then_commit connection
                  (first_row (Runtime_error (crud_error ''Create'' ''Failed to create employee.'')) (\<lambda>result.
                     and_then (CreateMeta env 0 []) (\<lambda>meta.
                     and_then (Recordset_GetAsString result 0) (\<lambda>ID. Inr (V_object [] [meta, V_string ID])))))
                  (respond env Id_ty)))) s)"

definition EmployeeService_Read :: "'d crud_env \<Rightarrow> 's connections \<Rightarrow> 'd val Prm \<Rightarrow> 's \<Rightarrow> 's \<times> handler_result result" where
  "EmployeeService_Read env connections ID s =
     (if id_empty ID then (s, Inl no_id)
      else
        on_connection connections (\<lambda>connection. in_transaction connection
          (on_statement connection select_query (Inr [id_text ID])
             (read_only
                (first_row (Invalid_argument (crud_error ''Read'' (employee_not_found (id_text ID)))) (\<lambda>result.
                   and_then (CreateMeta env 0 []) (\<lambda>meta.
                   and_then (read_employee (cr_fp env) result) (\<lambda>employee.
                     respond env EmployeeResponse_ty (V_object [] [meta, employee_val employee])))))))) s)"

definition EmployeeService_Update :: "'d crud_env \<Rightarrow> 's connections \<Rightarrow> 'd val Prm \<Rightarrow> 'd val option \<Rightarrow> 's \<Rightarrow>
    's \<times> handler_result result" where
  "EmployeeService_Update env connections ID employee s =
     (if id_empty ID then (s, Inl no_id)
      else case employee of
        None \<Rightarrow> (s, Inl no_data)
      | Some data \<Rightarrow>
          on_connection connections (\<lambda>connection. in_transaction connection
            (on_statement connection update_query
               (map_sum (\<lambda>e. e) (\<lambda>ps. ps @ [id_text ID]) (employee_params (cr_fp env) (val_employee data)))
               (read_then_commit connection
                  (first_row (Invalid_argument (crud_error ''Update'' (employee_not_found (id_text ID)))) (\<lambda>result. Inr ()))
                  (\<lambda>_. and_then (CreateMeta env 0 []) (\<lambda>meta. respond env Void_ty (V_object [] [meta])))))) s)"

definition EmployeeService_Delete :: "'d crud_env \<Rightarrow> 's connections \<Rightarrow> 'd val Prm \<Rightarrow> 's \<Rightarrow> 's \<times> handler_result result" where
  "EmployeeService_Delete env connections ID s =
     (if id_empty ID then (s, Inl no_id)
      else
        on_connection connections (\<lambda>connection. in_transaction connection
          (on_statement connection delete_query (Inr [id_text ID])
             (read_then_commit connection
                (first_row (Invalid_argument (crud_error ''Delete'' (employee_not_found (id_text ID)))) (\<lambda>result. Inr ()))
                (\<lambda>_. and_then (CreateMeta env 0 []) (\<lambda>meta. respond env Void_ty (V_object [] [meta])))))) s)"

definition prm_number :: "'d val Prm \<Rightarrow> nat option" where
  "prm_number p = map_option (\<lambda>v. nat (the_int v)) (m_value p)"

definition EmployeeService_List :: "'d crud_env \<Rightarrow> 's connections \<Rightarrow> 'd val Prm \<Rightarrow> 'd val Prm \<Rightarrow> 's \<Rightarrow>
    's \<times> handler_result result" where
  "EmployeeService_List env connections offset limit s =
     on_connection connections (\<lambda>connection. in_transaction connection
       (on_statement connection (list_query (prm_number offset) (prm_number limit))
          (Inr (list_params (prm_number offset) (prm_number limit)))
          (read_only (\<lambda>result.
             and_then (CreateMeta env 0 []) (\<lambda>meta.
             and_then (read_employees (cr_fp env) result []) (\<lambda>employees.
               respond env EmployeesResponse_ty (V_object [] [meta, employees_val employees]))))))) s"

section \<open>The service\<close>

text \<open>The kinds of the arguments, and the member functions on them.\<close>

definition id_kind :: "'d arg_kind" where
  "id_kind = K_prm (Crc32str ''id'') (U_simple String_t)"

definition number_kind :: "string \<Rightarrow> 'd arg_kind" where
  "number_kind name = K_prm (Crc32str name) (U_simple Uint64_t)"

definition employee_kind :: "'d crud_env \<Rightarrow> 'd arg_kind" where
  "employee_kind env = K_content (Json_Convert (cr_parse env) (cr_json env) Employee_ty)"

text \<open>The members that the constructor registers, in its order.\<close>

definition EmployeeService_members :: "'d crud_env \<Rightarrow> 's connections \<Rightarrow> string \<Rightarrow> ('s, 'd) web_member list" where
  "EmployeeService_members env connections pathPrefix =
     [result_member (pathPrefix @ ''/create'') [employee_kind env]
        (\<lambda>args. EmployeeService_Create env connections (arg_content (args ! 0))),
      result_member (pathPrefix @ ''/read'') [id_kind]
        (\<lambda>args. EmployeeService_Read env connections (arg_prm (args ! 0))),
      result_member (pathPrefix @ ''/update'') [id_kind, employee_kind env]
        (\<lambda>args. EmployeeService_Update env connections (arg_prm (args ! 0)) (arg_content (args ! 1))),
      result_member (pathPrefix @ ''/delete'') [id_kind]
        (\<lambda>args. EmployeeService_Delete env connections (arg_prm (args ! 0))),
      result_member (pathPrefix @ ''/list'') [number_kind ''offset'', number_kind ''limit'']
        (\<lambda>args. EmployeeService_List env connections (arg_prm (args ! 0)) (arg_prm (args ! 1)))]"

text \<open>The constructor: the pool is created behind the handlers.\<close>

definition EmployeeService_new :: "('c \<Rightarrow> 's connections result) \<Rightarrow> 'd crud_env \<Rightarrow> string \<Rightarrow> 'c \<Rightarrow> ('s, 'd) web_member list result" where
  "EmployeeService_new create_pool env pathPrefix dbConfig =
     and_then (create_pool dbConfig) (\<lambda>connections. Inr (EmployeeService_members env connections pathPrefix))"

text \<open>\<open>Application::Init\<close>: the service is put under its location; \<open>create\<close> constructs it.\<close>

definition crud_Init :: "('c \<Rightarrow> string \<Rightarrow> 'c option result) \<Rightarrow> (string \<Rightarrow> 'c \<Rightarrow> 'h result) \<Rightarrow> 'c option \<Rightarrow> (string \<rightharpoonup> 'h) \<Rightarrow>
    (string \<rightharpoonup> 'h) result" where
  "crud_Init get_config create config hs =
     (case config of
        None \<Rightarrow> Inl (Runtime_error ''[Application::Init] No config.'')
      | Some cfg \<Rightarrow>
          and_then (get_config cfg ''database'') (\<lambda>dbConfig.
            case dbConfig of
              None \<Rightarrow> Inl (Runtime_error (''[Application::Init] No '' @ squote @ ''database'' @ squote @ '' node in the config.''))
            | Some db \<Rightarrow> and_then (create ''/employee'' db) (\<lambda>h. Inr (map_emplace hs ''/employee'' h))))"

section \<open>What the service promises\<close>

text \<open>The calls of the members by their positions, and the responses on a map from keys to rows.\<close>

datatype 'd crud_call = Crud_create "'d val option" | Crud_read "'d val Prm" | Crud_update "'d val Prm" "'d val option"
  | Crud_delete "'d val Prm" | Crud_list "'d val Prm" "'d val Prm"

fun crud_step :: "'d crud_env \<Rightarrow> 's connections \<Rightarrow> 'd crud_call \<Rightarrow> 's \<Rightarrow> 's \<times> handler_result result" where
  "crud_step env conns (Crud_create data) s = EmployeeService_Create env conns data s"
| "crud_step env conns (Crud_read ID) s = EmployeeService_Read env conns ID s"
| "crud_step env conns (Crud_update ID data) s = EmployeeService_Update env conns ID data s"
| "crud_step env conns (Crud_delete ID) s = EmployeeService_Delete env conns ID s"
| "crud_step env conns (Crud_list offset limit) s = EmployeeService_List env conns offset limit s"

definition crud_call :: "nat \<Rightarrow> 'd arg_value list \<Rightarrow> 'd crud_call" where
  "crud_call i args =
     [Crud_create (arg_content (args ! 0)), Crud_read (arg_prm (args ! 0)), Crud_update (arg_prm (args ! 0)) (arg_content (args ! 1)),
      Crud_delete (arg_prm (args ! 0)), Crud_list (arg_prm (args ! 0)) (arg_prm (args ! 1))] ! i"

fun crud_spec :: "'d crud_env \<Rightarrow> (nat \<Rightarrow> string \<Rightarrow> string option) \<Rightarrow> (string \<Rightarrow> int option) \<Rightarrow> 'd val \<Rightarrow> 'd crud_call \<Rightarrow>
    (int \<rightharpoonup> string list) \<Rightarrow> (int \<rightharpoonup> string list) \<Rightarrow> handler_result \<Rightarrow> bool" where
  "crud_spec env col bigint meta (Crud_create data) m m' res =
     (\<exists>v k row. data = Some v \<and> m k = None \<and> employee_row (cr_fp env) col (val_employee v) = Some row \<and> m' = m(k \<mapsto> row) \<and>
        respond env Id_ty (V_object [] [meta, V_string (int_to_string k)]) = Inr res)"
| "crud_spec env col bigint meta (Crud_read ID) m m' res =
     (m' = m \<and> (\<exists>k row employee. key_of bigint (id_text ID) = Some k \<and> m k = Some row \<and>
        row_employee (cr_fp env) row = Some employee \<and>
        respond env EmployeeResponse_ty (V_object [] [meta, employee_val employee]) = Inr res))"
| "crud_spec env col bigint meta (Crud_update ID data) m m' res =
     (\<exists>v k row. data = Some v \<and> key_of bigint (id_text ID) = Some k \<and> m k \<noteq> None \<and>
        employee_row (cr_fp env) col (val_employee v) = Some row \<and> m' = m(k \<mapsto> row) \<and>
        respond env Void_ty (V_object [] [meta]) = Inr res)"
| "crud_spec env col bigint meta (Crud_delete ID) m m' res =
     (\<exists>k. key_of bigint (id_text ID) = Some k \<and> m k \<noteq> None \<and> m' = m(k := None) \<and>
        respond env Void_ty (V_object [] [meta]) = Inr res)"
| "crud_spec env col bigint meta (Crud_list offset limit) m m' res =
     (m' = m \<and> (\<exists>employees. lists_rows (cr_fp env) (prm_number offset) (prm_number limit) m employees \<and>
        respond env EmployeesResponse_ty (V_object [] [meta, employees_val employees]) = Inr res))"

section \<open>Facts\<close>

lemmas response_defs = Void_ty_def Id_ty_def EmployeeResponse_ty_def EmployeesResponse_ty_def Info_ty_def Status_ty_def Employee_ty_def

lemma CreateMeta_val: "cr_host_name env = Inr node \<Longrightarrow> CreateMeta env code message =
    Inr (V_object [] [V_string (cr_timestamp env), V_string node, V_object [] [V_int (uint code), V_string message]])"
  by (simp add: CreateMeta_def)

text \<open>A response with a meta part made by the service can be written.\<close>

lemma respond_Void: "CreateMeta env code message = Inr meta \<Longrightarrow> \<exists>res. respond env Void_ty (V_object [] [meta]) = Inr res"
  by (auto simp: CreateMeta_def and_then_eq_Inr respond_def Json_Serialize_def Serialize_def response_defs ObjectToJson_def)

lemma respond_Id: "CreateMeta env code message = Inr meta \<Longrightarrow> \<exists>res. respond env Id_ty (V_object [] [meta, V_string ID]) = Inr res"
  by (auto simp: CreateMeta_def and_then_eq_Inr respond_def Json_Serialize_def Serialize_def response_defs ObjectToJson_def)

lemma Employee_to_json: "ValueToJson Employee_ty (employee_val e) =
    map_sum (\<lambda>e. e) (\<lambda>n. Object [(''name'', String (e_name e)), (''lastName'', String (e_lastName e)),
      (''age'', Uint64 (nat (uint (e_age e)))), (''email'', String (e_email e)), (''position'', String n),
      (''rate'', Double (e_rate e))]) (Enum_ToString Position_meta (e_position e))"
  by (cases "Enum_ToString Position_meta (e_position e)") (simp_all add: Employee_ty_def employee_val_def ObjectToJson_def)

lemma respond_Employee_error:
  assumes "CreateMeta env code message = Inr meta" and "respond env EmployeeResponse_ty (V_object [] [meta, employee_val employee]) = Inl e"
  shows "is_std_exception e"
  using assms
  by (cases "Enum_ToString Position_meta (e_position employee)")
    (auto simp: CreateMeta_def and_then_eq_Inr respond_def Json_Serialize_def Serialize_def EmployeeResponse_ty_def Info_ty_def
      Status_ty_def ObjectToJson_def Employee_to_json dest: Enum_ToString_error)

lemma employees_to_json_error:
  assumes "ArrayToJson (PairToJson (\<lambda>v. Inr (String (the_string v))) (ValueToJson Employee_ty))
    (map (\<lambda>(ID, e). V_pair (V_string ID) (employee_val e)) es) = Inl e"
  shows "is_std_exception e"
  using assms
proof (induction es)
  case (Cons p es)
  obtain ID em where "p = (ID, em)" by fastforce
  with Cons show ?case
    by (cases "Enum_ToString Position_meta (e_position em)")
      (auto simp: PairToJson_def Employee_to_json dest: Enum_ToString_error split: sum.splits)
qed simp

lemma respond_Employees_error:
  assumes "CreateMeta env code message = Inr meta" and "respond env EmployeesResponse_ty (V_object [] [meta, employees_val es]) = Inl e"
  shows "is_std_exception e"
  using assms
  by (cases "ArrayToJson (PairToJson (\<lambda>v. Inr (String (the_string v))) (ValueToJson Employee_ty))
      (map (\<lambda>(ID, e). V_pair (V_string ID) (employee_val e)) es)")
    (auto simp: CreateMeta_def and_then_eq_Inr respond_def Json_Serialize_def Serialize_def EmployeesResponse_ty_def Info_ty_def
      Status_ty_def ObjectToJson_def employees_val_def dest: employees_to_json_error)

lemma crud_create_on_table:
  assumes "conns s = (s1, Inr c)" and db: "transactional c v sql" and tab: "insert_means sql col bigint" "table_inv (committed v s1)"
    and w: "working v s1 = None" and meta: "CreateMeta env 0 [] = Inr meta"
    and run: "EmployeeService_Create env conns (Some data) s = (s', r)"
  shows "(case r of
      Inr res \<Rightarrow> \<exists>k row. k \<notin> fst ` set (committed v s1) \<and> bigint (int_to_string k) = Some k \<and>
        employee_row (cr_fp env) col (val_employee data) = Some row \<and> committed v s' = committed v s1 @ [(k, row)] \<and>
        respond env Id_ty (V_object [] [meta, V_string (int_to_string k)]) = Inr res
    | Inl e \<Rightarrow> is_std_exception e \<and> committed v s' = committed v s1) \<and> (rolls_back c \<longrightarrow> working v s' = None) \<and>
    (available c v sql \<and> employee_row (cr_fp env) col (val_employee data) \<noteq> None \<longrightarrow> \<not> isl r)"
proof -
  let ?f = "\<lambda>result. and_then (CreateMeta env 0 []) (\<lambda>meta. and_then (Recordset_GetAsString result 0) (\<lambda>ID. Inr (V_object [] [meta, V_string ID])))"
  have b: "in_transaction c (on_statement c insert_query (employee_params (cr_fp env) (val_employee data))
      (read_then_commit c (first_row (Runtime_error (crud_error ''Create'' ''Failed to create employee.'')) ?f) (respond env Id_ty))) s1 = (s', r)"
    using run assms(1) by (simp add: EmployeeService_Create_def on_connection_def)
  have ID: "?f (at_row x 0) = Inr (V_object [] [meta, V_string (int_to_string k)])" if "shows_rows x 1 [[int_to_string k]]" for x k
    using GetAsString_row [OF that, of 0 0] meta by simp
  from db tab w b show ?thesis
  proof (cases rule: insert_scope)
    case (failed e)
    have "is_std_exception e"
      using failed(4) GetAsString_error meta by (auto simp: and_then_eq_Inl)
    moreover have "\<forall>x k. shows_rows x 1 [[int_to_string k]] \<longrightarrow> (\<exists>y. ?f (at_row x 0) = Inr y)"
      using ID by blast
    ultimately show ?thesis
      using failed by auto
  next
    case (inserted k row x y)
    then show ?thesis
      using ID [OF inserted(4)] respond_Id [OF meta, of "int_to_string k"] by auto
  qed
qed

lemma crud_read_on_table:
  assumes "conns s = (s1, Inr c)" and db: "transactional c v sql" and tab: "select_means sql bigint" "table_inv (committed v s1)"
    and w: "working v s1 = None" and meta: "CreateMeta env 0 [] = Inr meta" and std: "std_stod_throws_std (cr_fp env)"
    and "\<not> id_empty ID" and run: "EmployeeService_Read env conns ID s = (s', r)"
  shows "(case r of
      Inr res \<Rightarrow> \<exists>k row employee. key_of bigint (id_text ID) = Some k \<and> map_of (committed v s1) k = Some row \<and>
        row_employee (cr_fp env) row = Some employee \<and>
        respond env EmployeeResponse_ty (V_object [] [meta, employee_val employee]) = Inr res
    | Inl e \<Rightarrow> is_std_exception e) \<and> committed v s' = committed v s1 \<and> (rolls_back c \<longrightarrow> working v s' = None) \<and>
    (\<forall>k row employee. available c v sql \<and> key_of bigint (id_text ID) = Some k \<and> map_of (committed v s1) k = Some row \<and>
       row_employee (cr_fp env) row = Some employee \<longrightarrow> r = respond env EmployeeResponse_ty (V_object [] [meta, employee_val employee]))"
proof -
  let ?f = "\<lambda>result. and_then (CreateMeta env 0 []) (\<lambda>meta. and_then (read_employee (cr_fp env) result) (\<lambda>employee.
    respond env EmployeeResponse_ty (V_object [] [meta, employee_val employee])))"
  have b: "in_transaction c (on_statement c select_query (Inr [id_text ID])
      (read_only (first_row (Invalid_argument (crud_error ''Read'' (employee_not_found (id_text ID)))) ?f))) s1 = (s', r)"
    using run assms(1) assms(8) by (simp add: EmployeeService_Read_def on_connection_def)
  from db tab w b show ?thesis
  proof (cases rule: select_scope)
    case (failed e)
    then show ?thesis by auto
  next
    case (found k row x)
    show ?thesis
    proof (cases "read_employee (cr_fp env) (at_row x 0)")
      case (Inl e)
      then show ?thesis
        using found read_employee_row [OF found(3), of 0 "cr_fp env"] read_employee_error [OF found(3) _ _ std Inl] meta by auto
    next
      case (Inr employee)
      then have e: "row_employee (cr_fp env) row = Some employee"
        using read_employee_row [OF found(3), of 0 "cr_fp env"] by simp
      have "r = respond env EmployeeResponse_ty (V_object [] [meta, employee_val employee])"
        using found(4) Inr meta by simp
      with e found show ?thesis
        using respond_Employee_error [OF meta, of employee] by (auto split: sum.splits)
    qed
  qed
qed

lemma crud_change_on_table:
  assumes "conns s = (s1, Inr c)" and db: "transactional c v sql" and tab: "employees_table sql col bigint" "table_inv (committed v s1)"
    and w: "working v s1 = None" and meta: "CreateMeta env 0 [] = Inr meta"
    and run: "crud_step env conns call s = (s', r)" and call: "(\<exists>ID v. call = Crud_update ID (Some v) \<and> \<not> id_empty ID) \<or>
      (\<exists>ID. call = Crud_delete ID \<and> \<not> id_empty ID)"
  shows "(case r of
      Inr res \<Rightarrow> crud_spec env col bigint meta call (map_of (committed v s1)) (map_of (committed v s')) res
    | Inl e \<Rightarrow> is_std_exception e \<and> committed v s' = committed v s1) \<and>
    (rolls_back c \<longrightarrow> working v s' = None) \<and> table_inv (committed v s')"
  using call
proof (elim disjE exE conjE)
  let ?done = "\<lambda>_. and_then (CreateMeta env 0 []) (\<lambda>meta. respond env Void_ty (V_object [] [meta]))"
  obtain res where res: "?done () = Inr res" "respond env Void_ty (V_object [] [meta]) = Inr res"
    using respond_Void [OF meta] meta by auto
  {
    fix ID data
    assume call: "call = Crud_update ID (Some data)" "\<not> id_empty ID"
    have means: "update_means sql col bigint"
      using tab(1) by (simp add: employees_table_def)
    have b: "in_transaction c (on_statement c update_query
        (map_sum (\<lambda>e. e) (\<lambda>ps. ps @ [id_text ID]) (employee_params (cr_fp env) (val_employee data)))
        (read_then_commit c (first_row (Invalid_argument (crud_error ''Update'' (employee_not_found (id_text ID)))) (\<lambda>result. Inr ())) ?done)) s1 = (s', r)"
      using run assms(1) call by (simp add: EmployeeService_Update_def on_connection_def)
    from db means tab(2) w b show ?thesis
    proof (cases rule: update_scope)
      case (failed e)
      with tab(2) show ?thesis by auto
    next
      case (updated k row)
      with tab(2) res call show ?thesis
        by (auto simp: map_of_update_key table_inv_update length_employee_row)
    qed
  next
    fix ID
    assume call: "call = Crud_delete ID" "\<not> id_empty ID"
    have means: "delete_means sql bigint"
      using tab(1) by (simp add: employees_table_def)
    have b: "in_transaction c (on_statement c delete_query (Inr [id_text ID])
        (read_then_commit c (first_row (Invalid_argument (crud_error ''Delete'' (employee_not_found (id_text ID)))) (\<lambda>result. Inr ())) ?done)) s1 = (s', r)"
      using run assms(1) call by (simp add: EmployeeService_Delete_def on_connection_def)
    from db means tab(2) w b show ?thesis
    proof (cases rule: delete_scope)
      case (failed e)
      with tab(2) show ?thesis by auto
    next
      case (deleted k)
      with tab(2) res call show ?thesis
        by (auto simp: map_of_delete_key table_inv_filter)
    qed
  }
qed

lemma crud_list_on_table:
  assumes "conns s = (s1, Inr c)" and db: "transactional c v sql" and tab: "list_means sql" "table_inv (committed v s1)"
    and w: "working v s1 = None" and meta: "CreateMeta env 0 [] = Inr meta" and std: "std_stod_throws_std (cr_fp env)"
    and run: "EmployeeService_List env conns offset limit s = (s', r)"
  shows "(case r of
      Inr res \<Rightarrow> \<exists>employees. lists_rows (cr_fp env) (prm_number offset) (prm_number limit) (map_of (committed v s1)) employees \<and>
        respond env EmployeesResponse_ty (V_object [] [meta, employees_val employees]) = Inr res
    | Inl e \<Rightarrow> is_std_exception e) \<and> committed v s' = committed v s1 \<and> (rolls_back c \<longrightarrow> working v s' = None)"
proof -
  let ?f = "\<lambda>result. and_then (CreateMeta env 0 []) (\<lambda>meta. and_then (read_employees (cr_fp env) result []) (\<lambda>employees.
    respond env EmployeesResponse_ty (V_object [] [meta, employees_val employees])))"
  have b: "in_transaction c (on_statement c (list_query (prm_number offset) (prm_number limit))
      (Inr (list_params (prm_number offset) (prm_number limit))) (read_only ?f)) s1 = (s', r)"
    using run assms(1) by (simp add: EmployeeService_List_def on_connection_def)
  from db tab w b show ?thesis
  proof (cases rule: list_scope [where fp = "cr_fp env"])
    case (failed e)
    then show ?thesis by simp
  next
    case (listed x)
    show ?thesis
    proof (cases "read_employees (cr_fp env) (opened x) []")
      case (Inl e)
      with listed std meta show ?thesis by auto
    next
      case (Inr employees)
      then have "r = respond env EmployeesResponse_ty (V_object [] [meta, employees_val employees])"
        using listed(1) meta by simp
      with Inr listed show ?thesis
        using respond_Employees_error [OF meta, of employees] by (auto split: sum.splits)
    qed
  qed
qed

text \<open>All members together.\<close>

lemma crud_on_table:
  assumes "conns s = (s1, Inr c)" and db: "transactional c v sql" and tab: "employees_table sql col bigint" "table_inv (committed v s1)"
    and w: "working v s1 = None" "working v s = None" and same: "committed v s1 = committed v s" and rb: "rolls_back c"
    and meta: "CreateMeta env 0 [] = Inr meta" and std: "std_stod_throws_std (cr_fp env)"
    and run: "crud_step env conns call s = (s', r)"
  shows "(case r of
      Inr res \<Rightarrow> crud_spec env col bigint meta call (map_of (committed v s)) (map_of (committed v s')) res
    | Inl e \<Rightarrow> is_std_exception e \<and> committed v s' = committed v s) \<and> working v s' = None \<and> table_inv (committed v s')"
proof -
  have means: "insert_means sql col bigint" "select_means sql bigint" "list_means sql"
    using tab(1) by (simp_all add: employees_table_def)
  note inv = tab(2) [unfolded same]
  show ?thesis
  proof (cases call)
    case (Crud_create data)
    show ?thesis
    proof (cases data)
      case None
      with run Crud_create w(2) inv show ?thesis by (auto simp: EmployeeService_Create_def no_data_def)
    next
      case (Some x)
      with run Crud_create have "EmployeeService_Create env conns (Some x) s = (s', r)" by simp
      from crud_create_on_table [of conns s s1 c, OF assms(1) db means(1) tab(2) w(1) meta this] Crud_create Some rb inv same
      show ?thesis
        by (cases r) (auto simp: map_of_append_new map_of_eq_None_iff table_inv_append length_employee_row simp del: map_of_append)
    qed
  next
    case (Crud_read ID)
    show ?thesis
    proof (cases "id_empty ID")
      case True
      with run Crud_read w(2) inv show ?thesis by (auto simp: EmployeeService_Read_def no_id_def)
    next
      case False
      have "EmployeeService_Read env conns ID s = (s', r)" using run Crud_read by simp
      from crud_read_on_table [of conns s s1 c, OF assms(1) db means(2) tab(2) w(1) meta std False this] Crud_read rb inv same
      show ?thesis
        by (cases r) auto
    qed
  next
    case (Crud_update ID data)
    show ?thesis
    proof (cases "id_empty ID \<or> data = None")
      case True
      with run Crud_update w(2) inv show ?thesis
        by (auto simp: EmployeeService_Update_def no_id_def no_data_def split: option.splits if_splits)
    next
      case False
      then have "\<exists>ID v. call = Crud_update ID (Some v) \<and> \<not> id_empty ID"
        using Crud_update by auto
      then show ?thesis
        using crud_change_on_table [of conns s s1 c, OF assms(1) db tab w(1) meta run, unfolded same] rb by simp
    qed
  next
    case (Crud_delete ID)
    show ?thesis
    proof (cases "id_empty ID")
      case True
      with run Crud_delete w(2) inv show ?thesis by (auto simp: EmployeeService_Delete_def no_id_def)
    next
      case False
      then show ?thesis
        using crud_change_on_table [of conns s s1 c, OF assms(1) db tab w(1) meta run, unfolded same] Crud_delete rb by simp
    qed
  next
    case (Crud_list offset limit)
    with run have "EmployeeService_List env conns offset limit s = (s', r)" by simp
    from crud_list_on_table [of conns s s1 c, OF assms(1) db means(3) tab(2) w(1) meta std this] Crud_list rb inv same
    show ?thesis
      by (cases r) auto
  qed
qed

lemma EmployeeService_paths: "distinct (map wm_path (EmployeeService_members env conns prefix))"
  by (simp add: EmployeeService_members_def result_member_def)

lemma EmployeeService_call:
  assumes "i < 5"
  shows "wm_call (EmployeeService_members env conns prefix ! i) args s out =
    (case crud_step env conns (crud_call i args) s of (s', r) \<Rightarrow> (s', out, map_sum (\<lambda>e. e) Some r))"
proof -
  consider "i = 0" | "i = 1" | "i = 2" | "i = 3" | "i = 4" using assms by force
  then show ?thesis
    by cases (simp_all add: EmployeeService_members_def result_member_def crud_call_def)
qed

text \<open>The arguments of a request with the JSON of an employee as body, and with an identifier as parameter.\<close>

lemma val_employee_val [simp]: "val_employee (employee_val e) = e"
  by (simp add: val_employee_def employee_val_def numeral_eq_Suc)

lemma employee_good:
  assumes "storable fp col e x"
  shows "good jenv Employee_ty (employee_val e)"
proof -
  have "NUL \<notin> set (e_name e)" "NUL \<notin> set (e_lastName e)" "NUL \<notin> set (e_email e)" "e_position e \<in> {0, 1, 2}"
    using assms by (simp_all add: storable_def sent_whole_def)
  then show ?thesis
    using uint_lt2p [of "e_age e"]
    by (auto simp: Employee_ty_def employee_val_def Position_meta_def MIF_REFLECT_FIELD_def MIF_REFLECT_BEGIN_def)
qed

lemma employee_content:
  assumes "fresh_defaults (cr_json env)" and "storable fp col e x" and "ValueToJson Employee_ty (employee_val e) = Inr doc"
    and "cr_parse env (cr_print env doc) = Inr (reparsed doc)" and "cr_print env doc \<noteq> []" and "InputPack_GetData req = cr_print env doc"
  shows "GetArg uenv (employee_kind env) req = Inr (Arg_content (Some (employee_val e)))"
proof -
  have "fresh Employee_ty (default_val (cr_json env) Employee_ty)"
    using assms(1) by (simp add: fresh_defaults_def)
  then obtain j where j: "ValueToJson Employee_ty (employee_val e) = Inr j"
      "JsonToValue (cr_json env) Employee_ty (reparsed j) (default_val (cr_json env) Employee_ty) = Inr (employee_val e)"
    using ValueToJson_survives [OF assms(1), of Employee_ty] employee_good [OF assms(2)] by (metis survivesE)
  have "Serialize (\<lambda>j. j) Employee_ty (employee_val e) [] = Inr doc"
    using assms(3) by (simp add: Serialize_def Employee_ty_def map_sum_def)
  then have "Deserialize (cr_parse env) (cr_json env) Employee_ty (cr_print env doc) [] = Inr (employee_val e)"
    using j assms(3,4) by (intro Deserialize_document [of "cr_json env" Employee_ty doc "employee_val e" "[]" doc]) simp_all
  then show ?thesis
    using assms(5,6) by (simp add: employee_kind_def Json_Convert_def Content_new_def)
qed

lemma id_parameter:
  assumes "InputPack_GetParams req = [''id'' \<mapsto> ID]"
  shows "GetArg uenv id_kind req = Inr (Arg_prm \<lparr>m_name = ''id'', m_value = Some (V_string ID)\<rparr>)"
  unfolding id_kind_def using assms by (rule text_parameter)

lemma members_nth:
  "EmployeeService_members env conns prefix ! 0 = result_member (prefix @ ''/create'') [employee_kind env]
     (\<lambda>args. EmployeeService_Create env conns (arg_content (args ! 0)))"
  "EmployeeService_members env conns prefix ! 1 = result_member (prefix @ ''/read'') [id_kind]
     (\<lambda>args. EmployeeService_Read env conns (arg_prm (args ! 0)))"
  "EmployeeService_members env conns prefix ! 0 \<in> set (EmployeeService_members env conns prefix)"
  "EmployeeService_members env conns prefix ! 1 \<in> set (EmployeeService_members env conns prefix)"
  by (simp_all add: EmployeeService_members_def)

section \<open>Properties\<close>

text \<open>
  Property C37: a request to the employee service is a transaction on the table. For each of its
  five members, when the arguments of the request can be formed and the server of the database
  keeps its promises, whatever it refuses: either the answer is the JSON of the response, and
  the rows have changed as the member says; or the answer is status 400 or 500 with the text of
  an exception, and no row has changed. No transaction stays open, and keys stay unique.
\<close>

theorem crud_request_is_transaction:
  assumes "i < 5" and "ms = EmployeeService_members env conns prefix" and "InputPack_GetPath req = wm_path (ms ! i)"
    and "evaluate_args order (map (\<lambda>k. GetArg uenv k req) (wm_kinds (ms ! i))) = Inr args" and "\<not> is_request out"
    and "conns s = (s1, Inr c)" and "transactional c v sql" and "employees_table sql col bigint" and "rolls_back c"
    and "committed v s1 = committed v s" and "working v s1 = None" and "working v s = None" and "table_inv (committed v s)"
    and "CreateMeta env 0 [] = Inr meta" and "std_stod_throws_std (cr_fp env)"
  shows "\<exists>w' s' out'. service_OnRequest order uenv ms (w, s) req out = ((w', s'), Inr out') \<and>
    ((\<exists>res. m_buffer out' = Some (r_value res) \<and>
        crud_spec env col bigint meta (crud_call i args) (map_of (committed v s)) (map_of (committed v s')) res) \<or>
     (\<exists>e. o_status out' = ConvertCode (exception_code e) \<and> m_buffer out' = Some (what e) \<and> committed v s' = committed v s)) \<and>
    working v s' = None \<and> table_inv (committed v s')"
proof -
  obtain s' r where run: "crud_step env conns (crud_call i args) s = (s', r)" by fastforce
  have "table_inv (committed v s1)"
    using assms(10,13) by simp
  note tab = crud_on_table [of conns s s1 c, OF assms(6,7,8) this assms(11,12,10,9,14,15) run]
  have call: "wm_call (ms ! i) args s out = (s', out, map_sum (\<lambda>e. e) Some r)"
    by (simp add: assms(2) EmployeeService_call [OF assms(1)] run)
  have "i < length ms"
    using assms(1) by (simp add: assms(2) EmployeeService_members_def)
  then have mem: "ms ! i \<in> set ms" by simp
  have dist: "distinct (map wm_path ms)"
    by (simp only: assms(2) EmployeeService_paths)
  have ub: "map_sum (\<lambda>e. e) Some r \<noteq> Inl Undefined_behaviour"
    using tab by (cases r) auto
  obtain w' out' where "service_OnRequest order uenv ms (w, s) req out = ((w', s'), Inr out')"
    and "case map_sum (\<lambda>e. e) Some r of
        Inl e \<Rightarrow> o_status out' = ConvertCode (exception_code e) \<and> m_buffer out' = Some (exception_text e)
      | Inr None \<Rightarrow> out' = out
      | Inr (Some res) \<Rightarrow> out' = ProcessRequest_result res out"
    using dist mem assms(3,4) call assms(5) ub by (rule service_calls_member)
  then show ?thesis
    using tab by (cases r) (auto simp: exception_text_def)
qed

definition sample_doc :: "int json" where
  "sample_doc = projr (ValueToJson Employee_ty (employee_val sample_employee))"

definition sample_crud_env :: "int crud_env" where
  "sample_crud_env = \<lparr>cr_timestamp = ''now'', cr_host_name = Inr ''host'', cr_print = (\<lambda>j. ''{}''),
     cr_parse = (\<lambda>b. Inr (reparsed sample_doc)), cr_json = sample_json_env, cr_fp = sample_fp\<rparr>"

definition sample_crud_url :: "int url_env" where
  "sample_crud_url = \<lparr>std_stod = (\<lambda>_. Inr 0), extract_time = (\<lambda>_ _ _. V_null), url_less = (\<lambda>_ _. False)\<rparr>"

definition sample_crud_request :: "string \<Rightarrow> string \<Rightarrow> buffer \<Rightarrow> InputPack" where
  "sample_crud_request path query body =
     \<lparr>m_data = sample_request\<lparr>msg_body := body\<rparr>, m_target = \<lparr>m_path = path, m_query = query\<rparr>\<rparr>"

definition sample_service :: "(ref_db, int) web_member list" where
  "sample_service = EmployeeService_members sample_crud_env sample_conns ''/employee''"

lemma sample_json_doc: "ValueToJson Employee_ty (employee_val sample_employee) = Inr sample_doc"
  by (simp add: sample_doc_def sample_employee_def Employee_to_json Position_names(1) [of 1])

lemma sample_meta: "CreateMeta sample_crud_env 0 [] =
    Inr (V_object [] [V_string ''now'', V_string ''host'', V_object [] [V_int 0, V_string []]])"
  by (simp add: CreateMeta_def sample_crud_env_def)

lemma sample_crud_fp: "std_stod_throws_std (cr_fp sample_crud_env)"
  using sample_stod by (simp add: sample_crud_env_def)

theorem crud_request_is_transaction_witness:
  "\<exists>w' s' out'. service_OnRequest left_to_right sample_crud_url sample_service (WebService_new, sample_db)
       (sample_crud_request ''/employee/create'' [] []) (OutputPack_new False 8) = ((w', s'), Inr out') \<and>
     table_inv (rd_table s')"
proof -
  let ?req = "sample_crud_request ''/employee/create'' [] []" and ?out = "OutputPack_new False 8"
  let ?ms = "EmployeeService_members sample_crud_env sample_conns ''/employee''"
  have path: "InputPack_GetPath ?req = wm_path (?ms ! 0)"
    by (simp add: InputPack_GetPath_def sample_crud_request_def members_nth result_member_def)
  have "GetArg sample_crud_url (employee_kind sample_crud_env) ?req = Inr (Arg_content None)"
    by (simp add: employee_kind_def Content_new_def InputPack_GetData_def sample_crud_request_def)
  then have args: "evaluate_args left_to_right (map (\<lambda>k. GetArg sample_crud_url k ?req) (wm_kinds (?ms ! 0))) = Inr [Arg_content None]"
    using single_argument [of left_to_right sample_crud_url "employee_kind sample_crud_env" ?req "Arg_content None"]
    by (simp add: members_nth result_member_def left_to_right_def)
  have "(0 :: nat) < 5" "\<not> is_request ?out" by (simp_all add: OutputPack_new_def)
  from crud_request_is_transaction [OF this(1) refl path args this(2) sample_conns_def ref_transactional
      ref_table [OF sample_bigint_printed] ref_rollback(2) refl sample_inv(2) sample_inv(2) sample_inv(1) sample_meta sample_crud_fp,
      where w = WebService_new]
  show ?thesis
    by (auto simp: sample_service_def ref_view_def)
qed

text \<open>A row of the table is served: a request to \<open>read\<close> with its key is answered with its employee.\<close>

lemma crud_row_is_served:
  assumes "ms = EmployeeService_members env conns prefix" and "\<And>s. conns s = (s, Inr c)" and "transactional c v sql"
    and "available c v sql" and "select_means sql bigint" and "std_stod_throws_std (cr_fp env)"
    and "working v s = None" and "table_inv (committed v s)" and "CreateMeta env 0 [] = Inr meta"
    and "map_of (committed v s) k = Some row" and "row_employee (cr_fp env) row = Some e" and "e_position e \<in> {0, 1, 2}"
    and "key_of bigint (int_to_string k) = Some k" and "InputPack_GetPath req = prefix @ ''/read''"
    and "InputPack_GetParams req = [''id'' \<mapsto> int_to_string k]" and "set (order (Suc 0)) = {0}" and "\<not> is_request out"
  shows "\<exists>w' s' out' res. service_OnRequest order uenv ms (w, s) req out = ((w', s'), Inr out') \<and>
    respond env EmployeeResponse_ty (V_object [] [meta, employee_val e]) = Inr res \<and> m_buffer out' = Some (r_value res)"
proof -
  let ?ID = "\<lparr>m_name = ''id'', m_value = Some (V_string (int_to_string k))\<rparr>"
  have ID: "\<not> id_empty ?ID"
    using param_value_int [of k] by (auto simp: id_empty_def param_value_def)
  obtain s' r where rd: "EmployeeService_Read env conns ?ID s = (s', r)" by fastforce
  have r: "r = respond env EmployeeResponse_ty (V_object [] [meta, employee_val e])"
    using crud_read_on_table [of conns s s c, OF assms(2,3,5,8,7,9,6) ID rd,
        THEN conjunct2, THEN conjunct2, THEN conjunct2, rule_format, of k row e] assms(4,10,11,13) by (simp add: id_text_def)
  obtain res where res: "r = Inr res"
    using Position_names(1) [of "e_position e"] assms(9,12) unfolding r
    by (auto simp: CreateMeta_def and_then_eq_Inr respond_def Json_Serialize_def Serialize_def EmployeeResponse_ty_def Info_ty_def
        Status_ty_def ObjectToJson_def Employee_to_json)
  have dist: "distinct (map wm_path ms)"
    by (simp only: assms(1) EmployeeService_paths)
  have "\<exists>w' out'. service_OnRequest order uenv ms (w, s) req out = ((w', s'), Inr out') \<and> m_buffer out' = Some (r_value res)"
    using members_nth(4) dist members_nth(2) assms(14,16) id_parameter [OF assms(15)] _ assms(17)
    unfolding assms(1) by (rule service_returns) (use rd res in simp)
  then show ?thesis
    using r res by metis
qed

text \<open>
  Property C15: an employee goes through the whole service and comes back. When the server is
  there, a request to \<open>create\<close> whose body is the JSON of an employee that the table can hold is
  answered with an identifier, and a later request to \<open>read\<close> with that identifier is answered
  with the JSON of the same employee, its rate as the column keeps it: through the HTTP pack,
  the conversion of the arguments, JSON, reflection, a transaction with a prepared statement,
  the rows of the result, and back.
\<close>

theorem crud_create_then_read:
  assumes "ms = EmployeeService_members env conns prefix" and "\<And>s. conns s = (s, Inr c)" and "transactional c v sql"
    and "available c v sql" and "employees_table sql col bigint" and "column_types col" and "std_stod_throws_std (cr_fp env)"
    and "working v s = None" and "table_inv (committed v s)" and "CreateMeta env 0 [] = Inr meta" and "fresh_defaults (cr_json env)"
    and "storable (cr_fp env) col e x" and "ValueToJson Employee_ty (employee_val e) = Inr doc"
    and "cr_parse env (cr_print env doc) = Inr (reparsed doc)" and "cr_print env doc \<noteq> []"
    and "InputPack_GetPath req = prefix @ ''/create''" and "InputPack_GetData req = cr_print env doc"
    and "set (order (Suc 0)) = {0}" and "\<not> is_request out"
  shows "\<exists>w1 s1 out1 ID res. service_OnRequest order uenv ms (w, s) req out = ((w1, s1), Inr out1) \<and>
    respond env Id_ty (V_object [] [meta, V_string ID]) = Inr res \<and> m_buffer out1 = Some (r_value res) \<and>
    (\<forall>req2. InputPack_GetPath req2 = prefix @ ''/read'' \<and> InputPack_GetParams req2 = [''id'' \<mapsto> ID] \<longrightarrow>
       (\<exists>w2 s2 out2 res2. service_OnRequest order uenv ms (w1, s1) req2 out = ((w2, s2), Inr out2) \<and>
          respond env EmployeeResponse_ty (V_object [] [meta, employee_val (e\<lparr>e_rate := x\<rparr>)]) = Inr res2 \<and>
          m_buffer out2 = Some (r_value res2)))"
proof -
  have means: "insert_means sql col bigint" "select_means sql bigint"
    using assms(5) by (simp_all add: employees_table_def)
  have rb: "rolls_back c"
    using assms(4) by (simp add: available_def rolls_back_def)
  have dist: "distinct (map wm_path ms)"
    by (simp only: assms(1) EmployeeService_paths)
  obtain row where row: "employee_row (cr_fp env) col e = Some row" "row_employee (cr_fp env) row = Some (e\<lparr>e_rate := x\<rparr>)"
    using employee_row_stored [OF assms(6,12)] by blast
  obtain s1 r where cr: "EmployeeService_Create env conns (Some (employee_val e)) s = (s1, r)" by fastforce
  note create = crud_create_on_table [of conns s s c, OF assms(2,3) means(1) assms(9,8,10) cr, simplified]
  obtain res k where k: "r = Inr res" "k \<notin> fst ` set (committed v s)" "bigint (int_to_string k) = Some k"
      "committed v s1 = committed v s @ [(k, row)]" "respond env Id_ty (V_object [] [meta, V_string (int_to_string k)]) = Inr res"
      "working v s1 = None"
    using create assms(4) row(1) rb by (cases r) auto
  have "\<exists>w1 out1. service_OnRequest order uenv ms (w, s) req out = ((w1, s1), Inr out1) \<and> m_buffer out1 = Some (r_value res)"
    using members_nth(3) dist members_nth(1) assms(16,18) employee_content [OF assms(11-15,17)] _ assms(19)
    unfolding assms(1) by (rule service_returns) (use cr k(1) in simp)
  then obtain w1 out1 where w1: "service_OnRequest order uenv ms (w, s) req out = ((w1, s1), Inr out1)"
      "m_buffer out1 = Some (r_value res)" by blast
  have inv: "table_inv (committed v s1)"
    using assms(9) k(2,4) length_employee_row [OF row(1)] by (simp add: table_inv_append)
  have key: "key_of bigint (int_to_string k) = Some k" "map_of (committed v s1) k = Some row"
    using k(2,3,4) by (simp_all add: key_of_def param_value_int map_of_append_new del: map_of_append)
  have "e_position (e\<lparr>e_rate := x\<rparr>) \<in> {0, 1, 2}"
    using assms(12) by (simp add: storable_def)
  note read = crud_row_is_served [where conns = conns and order = order and v = v, OF assms(1-4) means(2) assms(7) k(6) inv assms(10) key(2) row(2) this key(1) _ _ assms(18,19)]
  show ?thesis
    using w1 k(5) by (blast intro: read)
qed

theorem crud_create_then_read_witness:
  "\<exists>w1 s1 out1 ID. service_OnRequest left_to_right sample_crud_url sample_service (WebService_new, sample_db)
       (sample_crud_request ''/employee/create'' [] ''{}'') (OutputPack_new False 8) = ((w1, s1), Inr out1) \<and>
     respond sample_crud_env Id_ty
       (V_object [] [V_object [] [V_string ''now'', V_string ''host'', V_object [] [V_int 0, V_string []]], V_string ID]) =
       Inr (Result_new (the (m_buffer out1)) Json_ContentType)"
proof -
  let ?req = "sample_crud_request ''/employee/create'' [] ''{}''"
  have fresh: "fresh_defaults (cr_json sample_crud_env)"
    using fresh_defaults_sample by (simp add: sample_crud_env_def)
  have "int_to_string 8 = ''8''" "sto_int ''stod'' 64 ''8.00'' = Inr 8"
    by code_simp+
  then have st: "storable (cr_fp sample_crud_env) sample_col sample_employee 8"
    by (simp add: storable_def sent_whole_def sample_employee_def sample_fp_def sample_col_def sample_crud_env_def)
  have env: "cr_parse sample_crud_env (cr_print sample_crud_env sample_doc) = Inr (reparsed sample_doc)"
      "cr_print sample_crud_env sample_doc \<noteq> []" "InputPack_GetPath ?req = ''/employee'' @ ''/create''"
      "InputPack_GetData ?req = cr_print sample_crud_env sample_doc" "set (left_to_right (Suc 0)) = {0}" "\<not> is_request (OutputPack_new False 8)"
    by (simp_all add: sample_crud_env_def InputPack_GetPath_def InputPack_GetData_def sample_crud_request_def left_to_right_def OutputPack_new_def)
  from crud_create_then_read [where conns = sample_conns and prefix = "''/employee''" and req = ?req and uenv = sample_crud_url
      and w = WebService_new and c = "ref_client (ref_sql sample_col sample_bigint)" and v = ref_view
      and env = sample_crud_env and order = left_to_right and out = "OutputPack_new False 8", OF refl sample_conns_def ref_transactional ref_available ref_table [OF sample_bigint_printed]
      sample_columns sample_crud_fp sample_inv(2,1) sample_meta fresh st sample_json_doc env]
  obtain w1 s1 out1 ID res where run: "service_OnRequest left_to_right sample_crud_url sample_service (WebService_new, sample_db) ?req
        (OutputPack_new False 8) = ((w1, s1), Inr out1)"
      "respond sample_crud_env Id_ty (V_object [] [V_object [] [V_string ''now'', V_string ''host'', V_object [] [V_int 0, V_string []]],
         V_string ID]) = Inr res" "m_buffer out1 = Some (r_value res)"
    unfolding sample_service_def by blast
  have "res = Result_new (r_value res) Json_ContentType"
    using run(2) by (auto simp: respond_def Result_new_def map_sum_def split: sum.splits)
  with run show ?thesis by auto
qed

end
