(* ===== verification/Example_Storage.thy ===== *)
theory Example_Storage
  imports Reference_Database
begin

text \<open>
  The storage process of the microservice example (\<open>examples/microservices/storage\<close>): employees
  in a PostgreSQL table behind the interface \<open>IEmployeeStorage\<close>. Every operation takes a
  connection from the pool, opens a transaction, executes one prepared statement, reads its
  rows and commits if it changes data; a standard exception is logged and replaced by another
  one. The pool is an argument.
\<close>

section \<open>PGEmployeeStorage\<close>

text \<open>\<open>catch (std::exception const &e)\<close> that throws a \<open>std::runtime_error\<close>.\<close>

fun replaced_error :: "string \<Rightarrow> 'a result \<Rightarrow> 'a result" where
  "replaced_error message (Inl e) = Inl (if is_std_exception e then Runtime_error message else e)"
| "replaced_error message (Inr x) = Inr x"

definition replace_error :: "string \<Rightarrow> 's \<times> 'a result \<Rightarrow> 's \<times> 'a result" where
  "replace_error message r = (fst r, replaced_error message (snd r))"

text \<open>The constructor creates the pool by the configuration of the database.\<close>

definition PGEmployeeStorage_new :: "('c \<Rightarrow> 'p result) \<Rightarrow> 'c option \<Rightarrow> 'p result" where
  "PGEmployeeStorage_new create_pool config =
     (case config of
        None \<Rightarrow> Inl (Invalid_argument ''[Storage::Detail::PGEmployeeStorage] Empty config ptr.'')
      | Some cfg \<Rightarrow> create_pool cfg)"

definition PGEmployeeStorage_Create :: "'d fp_env \<Rightarrow> 's connections \<Rightarrow> 'd Employee \<Rightarrow> 's \<Rightarrow> 's \<times> string result" where
  "PGEmployeeStorage_Create fp connections employee s =
     replace_error ''Failed to create new record for employee.''
       (on_connection connections (\<lambda>connection. in_transaction connection
          (on_statement connection insert_query (employee_params fp employee)
             (read_then_commit connection
                (first_row (Runtime_error ''Failed to create employee.'') (\<lambda>result. Recordset_GetAsString result 0)) Inr))) s)"

definition PGEmployeeStorage_Read :: "'d fp_env \<Rightarrow> 's connections \<Rightarrow> string \<Rightarrow> 's \<Rightarrow> 's \<times> 'd Employee result" where
  "PGEmployeeStorage_Read fp connections ID s =
     replace_error (''Failed to read employee with id '' @ dquote @ ID @ dquote @ ''.'')
       (on_connection connections (\<lambda>connection. in_transaction connection
          (on_statement connection select_query (Inr [ID])
             (read_only (first_row (Invalid_argument (employee_not_found ID)) (read_employee fp))))) s)"

definition PGEmployeeStorage_Update :: "'d fp_env \<Rightarrow> 's connections \<Rightarrow> string \<Rightarrow> 'd Employee \<Rightarrow> 's \<Rightarrow> 's \<times> unit result" where
  "PGEmployeeStorage_Update fp connections ID employee s =
     replace_error (''Failed to update employee with id '' @ dquote @ ID @ dquote @ ''.'')
       (on_connection connections (\<lambda>connection. in_transaction connection
          (on_statement connection update_query (map_sum (\<lambda>e. e) (\<lambda>ps. ps @ [ID]) (employee_params fp employee))
             (read_then_commit connection (first_row (Invalid_argument (employee_not_found ID)) (\<lambda>result. Inr ())) Inr))) s)"

definition PGEmployeeStorage_Delete :: "'s connections \<Rightarrow> string \<Rightarrow> 's \<Rightarrow> 's \<times> unit result" where
  "PGEmployeeStorage_Delete connections ID s =
     replace_error (''Failed to delete employee with id '' @ dquote @ ID @ dquote @ ''.'')
       (on_connection connections (\<lambda>connection. in_transaction connection
          (on_statement connection delete_query (Inr [ID])
             (read_then_commit connection (first_row (Invalid_argument (employee_not_found ID)) (\<lambda>result. Inr ())) Inr))) s)"

text \<open>The largest \<open>std::size_t\<close> stands for a missing offset or limit.\<close>

definition unless_max :: "64 word \<Rightarrow> nat option" where
  "unless_max n = (if n = - 1 then None else Some (unat n))"

definition PGEmployeeStorage_List :: "'d fp_env \<Rightarrow> 's connections \<Rightarrow> 64 word \<Rightarrow> 64 word \<Rightarrow> 's \<Rightarrow>
    's \<times> (string \<times> 'd Employee) list result" where
  "PGEmployeeStorage_List fp connections offset limit s =
     replace_error ''Failed to get employees list.''
       (on_connection connections (\<lambda>connection. in_transaction connection
          (on_statement connection (list_query (unless_max offset) (unless_max limit))
             (Inr (list_params (unless_max offset) (unless_max limit)))
             (read_only (\<lambda>result. read_employees fp result [])))) s)"

section \<open>The abstract storage\<close>

text \<open>
  What the storage promises, on a map from keys to rows: the reply a call may give and the map
  after it.
\<close>

datatype 'd storage_call = Create_call "'d Employee" | Read_call string | Update_call string "'d Employee"
  | Delete_call string | List_call "64 word" "64 word"

datatype 'd storage_reply = Created string | Found "'d Employee" | Updated | Deleted
  | Listed "(string \<times> 'd Employee) list"

definition storage_step :: "'d fp_env \<Rightarrow> 's connections \<Rightarrow> 'd storage_call \<Rightarrow> 's \<Rightarrow> 's \<times> 'd storage_reply result" where
  "storage_step fp conns call s =
     (case call of
        Create_call employee \<Rightarrow> map_prod (\<lambda>s. s) (map_sum (\<lambda>e. e) Created) (PGEmployeeStorage_Create fp conns employee s)
      | Read_call ID \<Rightarrow> map_prod (\<lambda>s. s) (map_sum (\<lambda>e. e) Found) (PGEmployeeStorage_Read fp conns ID s)
      | Update_call ID employee \<Rightarrow>
          map_prod (\<lambda>s. s) (map_sum (\<lambda>e. e) (\<lambda>_. Updated)) (PGEmployeeStorage_Update fp conns ID employee s)
      | Delete_call ID \<Rightarrow> map_prod (\<lambda>s. s) (map_sum (\<lambda>e. e) (\<lambda>_. Deleted)) (PGEmployeeStorage_Delete conns ID s)
      | List_call offset limit \<Rightarrow>
          map_prod (\<lambda>s. s) (map_sum (\<lambda>e. e) Listed) (PGEmployeeStorage_List fp conns offset limit s))"

fun storage_message :: "'d storage_call \<Rightarrow> string" where
  "storage_message (Create_call employee) = ''Failed to create new record for employee.''"
| "storage_message (Read_call ID) = ''Failed to read employee with id '' @ dquote @ ID @ dquote @ ''.''"
| "storage_message (Update_call ID employee) = ''Failed to update employee with id '' @ dquote @ ID @ dquote @ ''.''"
| "storage_message (Delete_call ID) = ''Failed to delete employee with id '' @ dquote @ ID @ dquote @ ''.''"
| "storage_message (List_call offset limit) = ''Failed to get employees list.''"

declare storage_message.simps [simp del]

fun storage_spec :: "'d fp_env \<Rightarrow> (nat \<Rightarrow> string \<Rightarrow> string option) \<Rightarrow> (string \<Rightarrow> int option) \<Rightarrow> 'd storage_call \<Rightarrow>
    (int \<rightharpoonup> string list) \<Rightarrow> (int \<rightharpoonup> string list) \<Rightarrow> 'd storage_reply \<Rightarrow> bool" where
  "storage_spec fp col bigint (Create_call employee) m m' (Created ID) =
     (\<exists>k row. ID = int_to_string k \<and> m k = None \<and> employee_row fp col employee = Some row \<and> m' = m(k \<mapsto> row))"
| "storage_spec fp col bigint (Read_call ID) m m' (Found employee) =
     (m' = m \<and> (\<exists>k row. key_of bigint ID = Some k \<and> m k = Some row \<and> row_employee fp row = Some employee))"
| "storage_spec fp col bigint (Update_call ID employee) m m' Updated =
     (\<exists>k row. key_of bigint ID = Some k \<and> m k \<noteq> None \<and> employee_row fp col employee = Some row \<and> m' = m(k \<mapsto> row))"
| "storage_spec fp col bigint (Delete_call ID) m m' Deleted =
     (\<exists>k. key_of bigint ID = Some k \<and> m k \<noteq> None \<and> m' = m(k := None))"
| "storage_spec fp col bigint (List_call offset limit) m m' (Listed employees) =
     (m' = m \<and> lists_rows fp (unless_max offset) (unless_max limit) m employees)"
| "storage_spec fp col bigint call m m' reply = False"

section \<open>Facts\<close>

lemma replaced_run:
  assumes "replace_error msg (on_connection conns body s) = (s', r)" and "conns s = (s1, Inr c)"
  shows "\<exists>res. body c s1 = (s', res) \<and>
    r = replaced_error msg res"
  using assms by (auto simp: replace_error_def on_connection_def prod_eq_iff)

lemma create_on_table:
  assumes "conns s = (s1, Inr c)" and db: "transactional c v sql" and tab: "insert_means sql col bigint" "table_inv (committed v s1)"
    and w: "working v s1 = None" and run: "PGEmployeeStorage_Create fp conns employee s = (s', r)"
  shows "(case r of
      Inr ID \<Rightarrow> \<exists>k row. ID = int_to_string k \<and> k \<notin> fst ` set (committed v s1) \<and>
        bigint (int_to_string k) = Some k \<and> employee_row fp col employee = Some row \<and>
        committed v s' = committed v s1 @ [(k, row)]
    | Inl e \<Rightarrow> e = Runtime_error (storage_message (Create_call employee)) \<and> committed v s' = committed v s1) \<and>
    (rolls_back c \<longrightarrow> working v s' = None) \<and> (available c v sql \<and> employee_row fp col employee \<noteq> None \<longrightarrow> \<not> isl r)"
proof -
  obtain res where b: "in_transaction c (on_statement c insert_query (employee_params fp employee)
      (read_then_commit c (first_row (Runtime_error ''Failed to create employee.'') (\<lambda>result. Recordset_GetAsString result 0)) Inr)) s1 = (s', res)"
    and r: "r = replaced_error (storage_message (Create_call employee)) res"
    using replaced_run [OF run [unfolded PGEmployeeStorage_Create_def] assms(1)] by (auto simp: storage_message.simps)
  have ID: "Recordset_GetAsString (at_row x 0) 0 = Inr (int_to_string k)" if "shows_rows x 1 [[int_to_string k]]" for x k
    using GetAsString_row [OF that, of 0 0] by simp
  from db tab w b show ?thesis
  proof (cases rule: insert_scope)
    case (failed e)
    then have "is_std_exception e"
      using GetAsString_error by auto
    with failed r ID show ?thesis by auto
  next
    case (inserted k row x y)
    with r ID [of x k] show ?thesis by auto
  qed
qed

lemma read_on_table:
  assumes "conns s = (s1, Inr c)" and db: "transactional c v sql" and tab: "select_means sql bigint" "table_inv (committed v s1)"
    and w: "working v s1 = None" and std: "std_stod_throws_std fp"
    and run: "PGEmployeeStorage_Read fp conns ID s = (s', r)"
  shows "(case r of
      Inr employee \<Rightarrow> \<exists>k row. key_of bigint ID = Some k \<and> map_of (committed v s1) k = Some row \<and> row_employee fp row = Some employee
    | Inl e \<Rightarrow> e = Runtime_error (storage_message (Read_call ID :: 'd storage_call))) \<and> committed v s' = committed v s1 \<and>
    (rolls_back c \<longrightarrow> working v s' = None) \<and>
    (\<forall>k row employee. available c v sql \<and> key_of bigint ID = Some k \<and> map_of (committed v s1) k = Some row \<and>
       row_employee fp row = Some employee \<longrightarrow> r = Inr employee)"
proof -
  let ?msg = "storage_message (Read_call ID :: 'd storage_call)"
  obtain res where b: "in_transaction c (on_statement c select_query (Inr [ID])
      (read_only (first_row (Invalid_argument (employee_not_found ID)) (read_employee fp)))) s1 = (s', res)"
    and r: "r = replaced_error ?msg res"
    using replaced_run [OF run [unfolded PGEmployeeStorage_Read_def] assms(1)] by (auto simp: storage_message.simps)
  from db tab w b show ?thesis
  proof (cases rule: select_scope)
    case (failed e)
    then show ?thesis using r by auto
  next
    case (found k row x)
    then show ?thesis
      using read_employee_row [OF found(3), of 0 fp] read_employee_error [OF found(3), of 0 fp] std r
      by (cases "read_employee fp (at_row x 0)") auto
  qed
qed

lemma update_on_table:
  assumes "conns s = (s1, Inr c)" and db: "transactional c v sql" and tab: "update_means sql col bigint" "table_inv (committed v s1)"
    and w: "working v s1 = None" and run: "PGEmployeeStorage_Update fp conns ID employee s = (s', r)"
  shows "(case r of
      Inr _ \<Rightarrow> \<exists>k row. key_of bigint ID = Some k \<and> map_of (committed v s1) k \<noteq> None \<and> employee_row fp col employee = Some row \<and>
        committed v s' = map (\<lambda>(i, x). (i, if i = k then row else x)) (committed v s1)
    | Inl e \<Rightarrow> e = Runtime_error (storage_message (Update_call ID employee)) \<and> committed v s' = committed v s1) \<and>
    (rolls_back c \<longrightarrow> working v s' = None)"
proof -
  obtain res where b: "in_transaction c (on_statement c update_query (map_sum (\<lambda>e. e) (\<lambda>ps. ps @ [ID]) (employee_params fp employee))
      (read_then_commit c (first_row (Invalid_argument (employee_not_found ID)) (\<lambda>result. Inr ())) Inr)) s1 = (s', res)"
    and r: "r = replaced_error (storage_message (Update_call ID employee)) res"
    using replaced_run [OF run [unfolded PGEmployeeStorage_Update_def] assms(1)] by (auto simp: storage_message.simps)
  from db tab w b show ?thesis
    by (cases rule: update_scope) (use r in auto)
qed

lemma delete_on_table:
  assumes "conns s = (s1, Inr c)" and db: "transactional c v sql" and tab: "delete_means sql bigint" "table_inv (committed v s1)"
    and w: "working v s1 = None" and run: "PGEmployeeStorage_Delete conns ID s = (s', r)"
  shows "(case r of
      Inr _ \<Rightarrow> \<exists>k. key_of bigint ID = Some k \<and> map_of (committed v s1) k \<noteq> None \<and>
        committed v s' = filter (\<lambda>(i, x). i \<noteq> k) (committed v s1)
    | Inl e \<Rightarrow> e = Runtime_error (storage_message (Delete_call ID :: 'd storage_call)) \<and> committed v s' = committed v s1) \<and>
    (rolls_back c \<longrightarrow> working v s' = None)"
proof -
  obtain res where b: "in_transaction c (on_statement c delete_query (Inr [ID])
      (read_then_commit c (first_row (Invalid_argument (employee_not_found ID)) (\<lambda>result. Inr ())) Inr)) s1 = (s', res)"
    and r: "r = replaced_error (storage_message (Delete_call ID :: 'd storage_call)) res"
    using replaced_run [OF run [unfolded PGEmployeeStorage_Delete_def] assms(1)] by (auto simp: storage_message.simps)
  from db tab w b show ?thesis
    by (cases rule: delete_scope) (use r in auto)
qed

lemma list_on_table:
  assumes "conns s = (s1, Inr c)" and db: "transactional c v sql" and tab: "list_means sql" "table_inv (committed v s1)"
    and w: "working v s1 = None" and std: "std_stod_throws_std fp"
    and run: "PGEmployeeStorage_List fp conns offset limit s = (s', r)"
  shows "(case r of
      Inr employees \<Rightarrow> lists_rows fp (unless_max offset) (unless_max limit) (map_of (committed v s1)) employees
    | Inl e \<Rightarrow> e = Runtime_error (storage_message (List_call offset limit :: 'd storage_call))) \<and>
    committed v s' = committed v s1 \<and> (rolls_back c \<longrightarrow> working v s' = None)"
proof -
  let ?o = "unless_max offset" and ?l = "unless_max limit"
  obtain res where b: "in_transaction c (on_statement c (list_query ?o ?l) (Inr (list_params ?o ?l))
      (read_only (\<lambda>result. read_employees fp result []))) s1 = (s', res)"
    and r: "r = replaced_error (storage_message (List_call offset limit :: 'd storage_call)) res"
    using replaced_run [OF run [unfolded PGEmployeeStorage_List_def] assms(1)] by (auto simp: storage_message.simps)
  from db tab w b show ?thesis
  proof (cases rule: list_scope [where fp = fp])
    case (failed e)
    then show ?thesis using r by simp
  next
    case (listed x)
    then show ?thesis using r std by (cases "read_employees fp (opened x) []") auto
  qed
qed

text \<open>All operations together, with a connection and without one.\<close>

lemma storage_step_on_table:
  assumes "conns s = (s1, Inr c)" and "transactional c v sql" and "employees_table sql col bigint"
    and "working v s1 = None" and "rolls_back c" and "std_stod_throws_std fp" and "table_inv (committed v s1)"
    and "storage_step fp conns call s = (s', r)"
  shows "(case r of
      Inr reply \<Rightarrow> storage_spec fp col bigint call (map_of (committed v s1)) (map_of (committed v s')) reply
    | Inl e \<Rightarrow> e = Runtime_error (storage_message call) \<and> committed v s' = committed v s1) \<and>
    working v s' = None \<and> table_inv (committed v s')"
proof -
  have means: "insert_means sql col bigint" "select_means sql bigint" "update_means sql col bigint" "delete_means sql bigint" "list_means sql"
    using assms(3) by (simp_all add: employees_table_def)
  show ?thesis
  proof (cases call)
    case (Create_call employee)
    obtain r0 where r0: "PGEmployeeStorage_Create fp conns employee s = (s', r0)" "r = map_sum (\<lambda>e. e) Created r0"
      using assms(8) by (auto simp: storage_step_def Create_call map_prod_def split: prod.splits)
    from create_on_table [OF assms(1,2) means(1) assms(7,4) r0(1)] assms(5,7) r0(2) show ?thesis
      by (cases r0) (auto simp: Create_call map_of_append_new map_of_eq_None_iff table_inv_append length_employee_row simp del: map_of_append)
  next
    case (Read_call ID)
    obtain r0 where r0: "PGEmployeeStorage_Read fp conns ID s = (s', r0)" "r = map_sum (\<lambda>e. e) Found r0"
      using assms(8) by (auto simp: storage_step_def Read_call map_prod_def split: prod.splits)
    from read_on_table [OF assms(1,2) means(2) assms(7,4,6) r0(1)] assms(5,7) r0(2) show ?thesis
      by (cases r0) (auto simp: Read_call)
  next
    case (Update_call ID employee)
    obtain r0 where r0: "PGEmployeeStorage_Update fp conns ID employee s = (s', r0)" "r = map_sum (\<lambda>e. e) (\<lambda>_. Updated) r0"
      using assms(8) by (auto simp: storage_step_def Update_call map_prod_def split: prod.splits)
    from update_on_table [OF assms(1,2) means(3) assms(7,4) r0(1)] assms(5,7) r0(2) show ?thesis
      by (cases r0) (auto simp: Update_call map_of_update_key table_inv_update length_employee_row)
  next
    case (Delete_call ID)
    obtain r0 where r0: "PGEmployeeStorage_Delete conns ID s = (s', r0)" "r = map_sum (\<lambda>e. e) (\<lambda>_. Deleted) r0"
      using assms(8) by (auto simp: storage_step_def Delete_call map_prod_def split: prod.splits)
    from delete_on_table [OF assms(1,2) means(4) assms(7,4) r0(1), where 'd = 'b] assms(5,7) r0(2) show ?thesis
      by (cases r0) (auto simp: Delete_call map_of_delete_key table_inv_filter)
  next
    case (List_call offset limit)
    obtain r0 where r0: "PGEmployeeStorage_List fp conns offset limit s = (s', r0)" "r = map_sum (\<lambda>e. e) Listed r0"
      using assms(8) by (auto simp: storage_step_def List_call map_prod_def split: prod.splits)
    from list_on_table [OF assms(1,2) means(5) assms(7,4,6) r0(1)] assms(5,7) r0(2) show ?thesis
      by (cases r0) (auto simp: List_call)
  qed
qed

lemma storage_step_no_connection:
  assumes "conns s = (s1, Inl e)" and "is_std_exception e"
  shows "storage_step fp conns call s = (s1, Inl (Runtime_error (storage_message call)))"
  using assms
  by (cases call) (simp_all add: storage_step_def PGEmployeeStorage_Create_def PGEmployeeStorage_Read_def PGEmployeeStorage_Update_def
      PGEmployeeStorage_Delete_def PGEmployeeStorage_List_def replace_error_def on_connection_def storage_message.simps)

section \<open>Properties\<close>

text \<open>
  Property C14: the storage refines a map from keys to rows. On a server that keeps its promises
  on transactions and on the statements of the table, whatever it refuses, a call that returns
  has done to the committed rows what the abstract storage allows: a new key for a created
  employee, the row of the identifier for reading, replacing and removing, every row at most
  once and as many as asked for when listing. A call that throws has changed nothing, and the
  caller gets the message of the operation. No transaction stays open, and the table keeps unique keys.
\<close>

theorem storage_refines_table:
  assumes "conns s = (s1, Inr c)" and "transactional c v sql" and "employees_table sql col bigint"
    and "working v s1 = None" and "rolls_back c" and "std_stod_throws_std fp" and "table_inv (committed v s1)"
    and "storage_step fp conns call s = (s', r)"
  shows "(case r of
      Inr reply \<Rightarrow> storage_spec fp col bigint call (map_of (committed v s1)) (map_of (committed v s')) reply
    | Inl e \<Rightarrow> e = Runtime_error (storage_message call) \<and> committed v s' = committed v s1) \<and>
    working v s' = None \<and> table_inv (committed v s')"
  using assms by (rule storage_step_on_table)

theorem storage_refines_table_witness:
  "snd (storage_step sample_fp sample_conns (Update_call ''7'' sample_employee) sample_db) = Inr Updated \<and>
   storage_spec sample_fp sample_col sample_bigint (Update_call ''7'' sample_employee) (map_of (rd_table sample_db))
     (map_of (rd_table (fst (storage_step sample_fp sample_conns (Update_call ''7'' sample_employee) sample_db)))) Updated"
proof -
  have run: "snd (storage_step sample_fp sample_conns (Update_call ''7'' sample_employee) sample_db) = Inr Updated"
    by code_simp
  obtain s' r where s': "storage_step sample_fp sample_conns (Update_call ''7'' sample_employee) sample_db = (s', r)"
    by fastforce
  with run have "r = Inr Updated" by simp
  from storage_refines_table [OF sample_conns_def ref_transactional ref_table [OF sample_bigint_printed] sample_inv(2)
      ref_rollback(2) sample_stod sample_inv(1) s' [unfolded this]] s' run
  show ?thesis
    by (simp add: ref_view_def del: storage_spec.simps)
qed

text \<open>
  What is stored is read back. When the server is there, an employee with non-empty
  texts, an age below \<open>2 ^ 31\<close>, one of the three positions and a rate whose text the column
  takes is created, and reading the identifier that was returned gives the same employee with
  the rate as the column keeps it. An employee with an empty name, last name or e-mail, or with
  a greater age, is never stored: creating it throws and changes nothing.
\<close>

lemma storage_create_read:
  assumes "\<And>s. conns s = (s, Inr c)" and "transactional c v sql" and "available c v sql" and "employees_table sql col bigint"
    and "column_types col" and "std_stod_throws_std fp" and "working v s = None" and "table_inv (committed v s)"
  shows "(storable fp col e x \<longrightarrow>
      (\<exists>s1 s2 ID. PGEmployeeStorage_Create fp conns e s = (s1, Inr ID) \<and>
         PGEmployeeStorage_Read fp conns ID s1 = (s2, Inr (e\<lparr>e_rate := x\<rparr>)))) \<and>
    (e_name e = [] \<or> e_lastName e = [] \<or> e_email e = [] \<or> 2 ^ 31 \<le> unat (e_age e) \<longrightarrow>
      (\<exists>s1. PGEmployeeStorage_Create fp conns e s = (s1, Inl (Runtime_error ''Failed to create new record for employee.'')) \<and>
         committed v s1 = committed v s))"
proof (intro conjI impI)
  have means: "insert_means sql col bigint" "select_means sql bigint"
    using assms(4) by (simp_all add: employees_table_def)
  note create = create_on_table [of conns s s c, OF assms(1,2) means(1) assms(8,7)]
  {
    assume "storable fp col e x"
    then obtain row where row: "employee_row fp col e = Some row" "row_employee fp row = Some (e\<lparr>e_rate := x\<rparr>)"
      by (rule employee_row_stored [OF assms(5)])
    obtain s1 r where "PGEmployeeStorage_Create fp conns e s = (s1, r)" by fastforce
    then obtain ID where cr: "PGEmployeeStorage_Create fp conns e s = (s1, Inr ID)"
      using create assms(3) row(1) by (cases r) fastforce+
    have "rolls_back c"
      using assms(3) by (simp add: available_def rolls_back_def)
    then obtain k where k: "ID = int_to_string k" "k \<notin> fst ` set (committed v s)" "bigint ID = Some k"
        "committed v s1 = committed v s @ [(k, row)]" "working v s1 = None"
      using create [OF cr] row(1) by auto
    have inv: "table_inv (committed v s1)"
      using assms(8) k(2,4) length_employee_row [OF row(1)] by (simp add: table_inv_append)
    have "key_of bigint ID = Some k"
      using k(1,3) by (simp add: key_of_def param_value_int)
    moreover have "map_of (committed v s1) k = Some row"
      using k(2,4) by (simp add: map_of_append_new del: map_of_append)
    moreover obtain s2 r2 where rd: "PGEmployeeStorage_Read fp conns ID s1 = (s2, r2)" by fastforce
    ultimately have "r2 = Inr (e\<lparr>e_rate := x\<rparr>)"
      using read_on_table [of conns s1 s1 c, OF assms(1,2) means(2) inv k(5) assms(6) rd] assms(3) row(2) by blast
    with rd have "PGEmployeeStorage_Read fp conns ID s1 = (s2, Inr (e\<lparr>e_rate := x\<rparr>))" by simp
    with cr show "\<exists>s1 s2 ID. PGEmployeeStorage_Create fp conns e s = (s1, Inr ID) \<and>
        PGEmployeeStorage_Read fp conns ID s1 = (s2, Inr (e\<lparr>e_rate := x\<rparr>))" by blast
  next
    assume "e_name e = [] \<or> e_lastName e = [] \<or> e_email e = [] \<or> 2 ^ 31 \<le> unat (e_age e)"
    then have none: "employee_row fp col e = None"
      by (rule employee_row_refused [OF assms(5)])
    obtain s1 r where cr: "PGEmployeeStorage_Create fp conns e s = (s1, r)" by fastforce
    with create [OF cr] none show "\<exists>s1. PGEmployeeStorage_Create fp conns e s =
        (s1, Inl (Runtime_error ''Failed to create new record for employee.'')) \<and> committed v s1 = committed v s"
      by (cases r) (auto simp: storage_message.simps)
  }
qed

lemma storage_create_read_example:
  "\<exists>s1 s2 ID. PGEmployeeStorage_Create sample_fp sample_conns sample_employee sample_db = (s1, Inr ID) \<and>
     PGEmployeeStorage_Read sample_fp sample_conns ID s1 = (s2, Inr (sample_employee\<lparr>e_rate := 8\<rparr>))"
proof -
  have "int_to_string 8 = ''8''" "sto_int ''stod'' 64 ''8.00'' = Inr 8"
    by code_simp+
  then have "storable sample_fp sample_col sample_employee 8"
    by (simp add: storable_def sent_whole_def sample_employee_def sample_fp_def sample_col_def)
  with storage_create_read [OF sample_conns_def ref_transactional ref_available ref_table [OF sample_bigint_printed]
      sample_columns sample_stod sample_inv(2,1), of sample_employee 8] show ?thesis
    by blast
qed

text \<open>
  A statement that the server refuses stays prepared: its destructor runs before that of the
  transaction, and in the aborted transaction \<open>DEALLOCATE\<close> is refused as well.
\<close>

lemma refused_statement_stays_prepared:
  "map snd (rd_prepared (fst (PGEmployeeStorage_Create sample_fp sample_conns (sample_employee\<lparr>e_name := []\<rparr>) sample_db))) =
     [insert_query]"
  "rd_prepared (fst (PGEmployeeStorage_Create sample_fp sample_conns sample_employee sample_db)) = []"
  by code_simp+

end
