(* ===== verification/Example_Microservice.thy ===== *)
theory Example_Microservice
  imports Example_Crud Example_Storage Remote_Factory Remote_PS
begin

text \<open>
  The two processes of the microservice example (\<open>examples/microservices\<close>): the web service,
  whose handlers create a storage at the other process by the remote factory and call it, and
  the storage process, which registers its storage as an instance. The handlers see the storage
  through the interface \<open>IEmployeeStorage\<close>; what they rely on is a locale, and the PostgreSQL
  storage is an instance of it. The proxy, the clock and the name of the host are arguments;
  the types of the responses are those of \<open>examples/http_crud\<close>.
\<close>

section \<open>IEmployeeStorage\<close>

text \<open>The methods of the object behind a pointer, and what releasing the last reference does.\<close>

record ('s, 'd) employee_storage =
  st_Create :: "'d Employee \<Rightarrow> 's \<Rightarrow> 's \<times> string result"
  st_Read :: "string \<Rightarrow> 's \<Rightarrow> 's \<times> 'd Employee result"
  st_Update :: "string \<Rightarrow> 'd Employee \<Rightarrow> 's \<Rightarrow> 's \<times> unit result"
  st_Delete :: "string \<Rightarrow> 's \<Rightarrow> 's \<times> unit result"
  st_List :: "64 word \<Rightarrow> 64 word \<Rightarrow> 's \<Rightarrow> 's \<times> (string \<times> 'd Employee) list result"
  st_release :: "'s \<Rightarrow> 's"

type_synonym ('s, 'd) storages = "'s \<Rightarrow> 's \<times> ('s, 'd) employee_storage result"

definition with_storage :: "('s, 'd) storages \<Rightarrow> (('s, 'd) employee_storage \<Rightarrow> 's \<Rightarrow> 's \<times> 'a result) \<Rightarrow> 's \<Rightarrow> 's \<times> 'a result" where
  "with_storage storages body s =
     (case storages s of
        (s, Inl e) \<Rightarrow> (s, Inl e)
      | (s, Inr storage) \<Rightarrow> (case body storage s of (s, r) \<Rightarrow> (st_release storage s, r)))"

section \<open>The web service\<close>

text \<open>The meta part is made before the call of the storage where the response carries data.\<close>

definition with_meta :: "'d crud_env \<Rightarrow> ('s \<Rightarrow> 's \<times> 'a result) \<Rightarrow> ('d val \<Rightarrow> 'a \<Rightarrow> handler_result result) \<Rightarrow> 's \<Rightarrow>
    's \<times> handler_result result" where
  "with_meta env call response s =
     (case CreateMeta env 0 [] of
        Inl e \<Rightarrow> (s, Inl e)
      | Inr meta \<Rightarrow> (case call s of (s, r) \<Rightarrow> (s, and_then r (response meta))))"

definition MicroService_Create :: "'d crud_env \<Rightarrow> ('s, 'd) storages \<Rightarrow> 'd val option \<Rightarrow> 's \<Rightarrow> 's \<times> handler_result result" where
  "MicroService_Create env storages employee s =
     (case employee of
        None \<Rightarrow> (s, Inl no_data)
      | Some data \<Rightarrow>
          with_storage storages (\<lambda>storage. with_meta env (st_Create storage (val_employee data))
            (\<lambda>meta ID. respond env Id_ty (V_object [] [meta, V_string ID]))) s)"

definition MicroService_Read :: "'d crud_env \<Rightarrow> ('s, 'd) storages \<Rightarrow> 'd val Prm \<Rightarrow> 's \<Rightarrow> 's \<times> handler_result result" where
  "MicroService_Read env storages ID s =
     (if id_empty ID then (s, Inl no_id)
      else with_storage storages (\<lambda>storage. with_meta env (st_Read storage (id_text ID))
        (\<lambda>meta employee. respond env EmployeeResponse_ty (V_object [] [meta, employee_val employee]))) s)"

text \<open>Here the meta part comes behind the change.\<close>

definition then_meta :: "'d crud_env \<Rightarrow> ('s \<Rightarrow> 's \<times> unit result) \<Rightarrow> 's \<Rightarrow> 's \<times> handler_result result" where
  "then_meta env call s =
     (case call s of (s, r) \<Rightarrow>
        (s, and_then r (\<lambda>_. and_then (CreateMeta env 0 []) (\<lambda>meta. respond env Void_ty (V_object [] [meta])))))"

definition MicroService_Update :: "'d crud_env \<Rightarrow> ('s, 'd) storages \<Rightarrow> 'd val Prm \<Rightarrow> 'd val option \<Rightarrow> 's \<Rightarrow>
    's \<times> handler_result result" where
  "MicroService_Update env storages ID employee s =
     (if id_empty ID then (s, Inl no_id)
      else case employee of
        None \<Rightarrow> (s, Inl no_data)
      | Some data \<Rightarrow>
          with_storage storages (\<lambda>storage. then_meta env (st_Update storage (id_text ID) (val_employee data))) s)"

definition MicroService_Delete :: "'d crud_env \<Rightarrow> ('s, 'd) storages \<Rightarrow> 'd val Prm \<Rightarrow> 's \<Rightarrow> 's \<times> handler_result result" where
  "MicroService_Delete env storages ID s =
     (if id_empty ID then (s, Inl no_id)
      else with_storage storages (\<lambda>storage. then_meta env (st_Delete storage (id_text ID))) s)"

definition size_or_max :: "'d val Prm \<Rightarrow> 64 word" where
  "size_or_max p = (case m_value p of None \<Rightarrow> - 1 | Some v \<Rightarrow> word_of_int (the_int v))"

definition MicroService_List :: "'d crud_env \<Rightarrow> ('s, 'd) storages \<Rightarrow> 'd val Prm \<Rightarrow> 'd val Prm \<Rightarrow> 's \<Rightarrow>
    's \<times> handler_result result" where
  "MicroService_List env storages offset limit s =
     with_storage storages (\<lambda>storage. with_meta env (st_List storage (size_or_max offset) (size_or_max limit))
       (\<lambda>meta employees. respond env EmployeesResponse_ty (V_object [] [meta, employees_val employees]))) s"

text \<open>The members in the order of the constructor, which reads its configuration and makes the factory first.\<close>

definition MicroService_members :: "'d crud_env \<Rightarrow> ('s, 'd) storages \<Rightarrow> string \<Rightarrow> ('s, 'd) web_member list" where
  "MicroService_members env storages pathPrefix =
     [result_member (pathPrefix @ ''/create'') [employee_kind env]
        (\<lambda>args. MicroService_Create env storages (arg_content (args ! 0))),
      result_member (pathPrefix @ ''/read'') [id_kind]
        (\<lambda>args. MicroService_Read env storages (arg_prm (args ! 0))),
      result_member (pathPrefix @ ''/update'') [id_kind, employee_kind env]
        (\<lambda>args. MicroService_Update env storages (arg_prm (args ! 0)) (arg_content (args ! 1))),
      result_member (pathPrefix @ ''/delete'') [id_kind]
        (\<lambda>args. MicroService_Delete env storages (arg_prm (args ! 0))),
      result_member (pathPrefix @ ''/list'') [number_kind ''offset'', number_kind ''limit'']
        (\<lambda>args. MicroService_List env storages (arg_prm (args ! 0)) (arg_prm (args ! 1)))]"

record 'c iconfig =
  get_string :: "'c \<Rightarrow> string \<Rightarrow> string result"
  get_uint16 :: "'c \<Rightarrow> string \<Rightarrow> 16 word result"
  get_uint32 :: "'c \<Rightarrow> string \<Rightarrow> 32 word result"
  get_node :: "'c \<Rightarrow> string \<Rightarrow> 'c option result"

definition MicroService_new :: "'c iconfig \<Rightarrow> (string \<Rightarrow> string \<Rightarrow> nat \<Rightarrow> nat \<Rightarrow> ('s, 'd) storages result) \<Rightarrow> 'd crud_env \<Rightarrow>
    string \<Rightarrow> 'c option \<Rightarrow> ('s, 'd) web_member list result" where
  "MicroService_new api create_factory env pathPrefix config =
     (case config of
        None \<Rightarrow> Inl (Invalid_argument ''[Service::Detail::EmployeeService] No config.'')
      | Some cfg \<Rightarrow>
          and_then (get_string api cfg ''host'') (\<lambda>host.
          and_then (get_string api cfg ''port'') (\<lambda>port.
          and_then (get_uint16 api cfg ''workers'') (\<lambda>workers.
          and_then (get_uint32 api cfg ''timeout'') (\<lambda>timeout.
          and_then (create_factory host port (unat workers) (unat timeout)) (\<lambda>storages.
            Inr (MicroService_members env storages pathPrefix)))))))"

text \<open>\<open>Application::Init\<close> of the two processes.\<close>

definition Service_Init :: "'c iconfig \<Rightarrow> (string \<Rightarrow> 'c option \<Rightarrow> 'h result) \<Rightarrow> 'c option \<Rightarrow> (string \<rightharpoonup> 'h) \<Rightarrow> (string \<rightharpoonup> 'h) result" where
  "Service_Init api create config hs =
     (case config of
        None \<Rightarrow> Inl (Runtime_error ''[Service::Application::Init] No config.'')
      | Some cfg \<Rightarrow>
          and_then (get_node api cfg ''storage'') (\<lambda>node.
          and_then (create ''/employee'' node) (\<lambda>h. Inr (map_emplace hs ''/employee'' h))))"

definition PGEmployeeStorage_id :: ServiceId where
  "PGEmployeeStorage_id = Crc32_literal ''EmployeeStorage.PostgreSQL''"

definition Storage_Init :: "'c iconfig \<Rightarrow> ('c option \<Rightarrow> 'o result) \<Rightarrow> 'c option \<Rightarrow> 'o factory \<Rightarrow> 'o factory result" where
  "Storage_Init api create config factory =
     (case config of
        None \<Rightarrow> Inl (Runtime_error ''[Storage::Application::Init] No config.'')
      | Some cfg \<Rightarrow>
          and_then (get_node api cfg ''database'') (\<lambda>dbConfig.
            if dbConfig = None
            then Inl (Runtime_error (''[Storage::Application::Init] No '' @ squote @ ''database'' @ squote @ '' config node.''))
            else and_then (create dbConfig) (\<lambda>storage. Inr (Factory_AddInstance factory PGEmployeeStorage_id storage))))"

section \<open>What the web service relies on\<close>

fun on_storage :: "('s, 'd) employee_storage \<Rightarrow> 'd storage_call \<Rightarrow> 's \<Rightarrow> 's \<times> 'd storage_reply result" where
  "on_storage storage (Create_call employee) s = map_prod (\<lambda>s. s) (map_sum (\<lambda>e. e) Created) (st_Create storage employee s)"
| "on_storage storage (Read_call ID) s = map_prod (\<lambda>s. s) (map_sum (\<lambda>e. e) Found) (st_Read storage ID s)"
| "on_storage storage (Update_call ID employee) s =
     map_prod (\<lambda>s. s) (map_sum (\<lambda>e. e) (\<lambda>_. Updated)) (st_Update storage ID employee s)"
| "on_storage storage (Delete_call ID) s = map_prod (\<lambda>s. s) (map_sum (\<lambda>e. e) (\<lambda>_. Deleted)) (st_Delete storage ID s)"
| "on_storage storage (List_call offset limit) s = map_prod (\<lambda>s. s) (map_sum (\<lambda>e. e) Listed) (st_List storage offset limit s)"

fun micro_step :: "'d crud_env \<Rightarrow> ('s, 'd) storages \<Rightarrow> 'd crud_call \<Rightarrow> 's \<Rightarrow> 's \<times> handler_result result" where
  "micro_step env storages (Crud_create data) s = MicroService_Create env storages data s"
| "micro_step env storages (Crud_read ID) s = MicroService_Read env storages ID s"
| "micro_step env storages (Crud_update ID data) s = MicroService_Update env storages ID data s"
| "micro_step env storages (Crud_delete ID) s = MicroService_Delete env storages ID s"
| "micro_step env storages (Crud_list offset limit) s = MicroService_List env storages offset limit s"

text \<open>The call of the storage that a request stands for, and the response to its reply.\<close>

fun storage_call_of :: "'d crud_call \<Rightarrow> 'd storage_call result" where
  "storage_call_of (Crud_create data) = (case data of None \<Rightarrow> Inl no_data | Some v \<Rightarrow> Inr (Create_call (val_employee v)))"
| "storage_call_of (Crud_read ID) = (if id_empty ID then Inl no_id else Inr (Read_call (id_text ID)))"
| "storage_call_of (Crud_update ID data) =
     (if id_empty ID then Inl no_id
      else case data of None \<Rightarrow> Inl no_data | Some v \<Rightarrow> Inr (Update_call (id_text ID) (val_employee v)))"
| "storage_call_of (Crud_delete ID) = (if id_empty ID then Inl no_id else Inr (Delete_call (id_text ID)))"
| "storage_call_of (Crud_list offset limit) = Inr (List_call (size_or_max offset) (size_or_max limit))"

fun response_to :: "'d crud_env \<Rightarrow> 'd val \<Rightarrow> 'd storage_reply \<Rightarrow> handler_result result" where
  "response_to env meta (Created ID) = respond env Id_ty (V_object [] [meta, V_string ID])"
| "response_to env meta (Found employee) = respond env EmployeeResponse_ty (V_object [] [meta, employee_val employee])"
| "response_to env meta Updated = respond env Void_ty (V_object [] [meta])"
| "response_to env meta Deleted = respond env Void_ty (V_object [] [meta])"
| "response_to env meta (Listed employees) = respond env EmployeesResponse_ty (V_object [] [meta, employees_val employees])"

lemma micro_step_call:
  assumes "CreateMeta env 0 [] = Inr meta"
  shows "micro_step env storages call s =
    (case storage_call_of call of
       Inl e \<Rightarrow> (s, Inl e)
     | Inr c \<Rightarrow>
         (case storages s of
            (s, Inl e) \<Rightarrow> (s, Inl e)
          | (s, Inr storage) \<Rightarrow>
              (case on_storage storage c s of (s, r) \<Rightarrow> (st_release storage s, and_then r (response_to env meta)))))"
  using assms
  by (cases call)
    (auto simp: MicroService_Create_def MicroService_Read_def MicroService_Update_def MicroService_Delete_def MicroService_List_def
      with_storage_def with_meta_def then_meta_def and_then_def map_prod_def split: prod.splits sum.splits option.splits)

lemma response_error:
  assumes "CreateMeta env 0 [] = Inr meta" and "response_to env meta reply = Inl e"
  shows "is_std_exception e \<and> ((\<exists>x. reply = Found x) \<or> (\<exists>xs. reply = Listed xs))"
proof (cases reply)
  case (Created ID)
  with assms(2) respond_Id [OF assms(1), of ID] show ?thesis by auto
next
  case (Found employee)
  with assms(2) respond_Employee_error [OF assms(1), of employee e] show ?thesis by simp
next
  case (Listed employees)
  with assms(2) respond_Employees_error [OF assms(1), of employees e] show ?thesis by simp
qed (use assms(2) respond_Void [OF assms(1)] in auto)

text \<open>
  What a storage is seen through a proxy. Every call is an exchange with the other end; its
  request or its reply may be lost, and then \<open>Send\<close> throws when the connection is closed or
  the time is over. The exceptions of the method and of \<open>Send\<close> are wrapped by \<open>RemoteCall\<close>.
\<close>

datatype fate = Delivered | Request_lost exn | Reply_lost exn

fun fate_std :: "fate \<Rightarrow> bool" where
  "fate_std Delivered = True"
| "fate_std (Request_lost e) = is_std_exception e"
| "fate_std (Reply_lost e) = is_std_exception e"

abbreviation fates_std :: "fate list \<Rightarrow> bool" where
  "fates_std fs \<equiv> list_all fate_std fs"

definition remote_call :: "(exn \<Rightarrow> exn) \<Rightarrow> ('s \<Rightarrow> 's \<times> 'a result) \<Rightarrow> 's \<times> fate list \<Rightarrow> ('s \<times> fate list) \<times> 'a result" where
  "remote_call wrap f w =
     (case snd w of
        Request_lost e # fs \<Rightarrow> ((fst w, fs), Inl (wrap e))
      | Reply_lost e # fs \<Rightarrow> ((fst (f (fst w)), fs), Inl (wrap e))
      | fs \<Rightarrow> ((fst (f (fst w)), tl fs), map_sum wrap (\<lambda>x. x) (snd (f (fst w)))))"

definition remote_storage :: "string \<Rightarrow> string \<Rightarrow> ('s, 'd) employee_storage \<Rightarrow> ('s \<times> fate list, 'd) employee_storage" where
  "remote_storage iface inst st =
     \<lparr>st_Create = (\<lambda>employee. remote_call (wrap_call_error iface ''Create'' inst) (st_Create st employee)),
      st_Read = (\<lambda>ID. remote_call (wrap_call_error iface ''Read'' inst) (st_Read st ID)),
      st_Update = (\<lambda>ID employee. remote_call (wrap_call_error iface ''Update'' inst) (st_Update st ID employee)),
      st_Delete = (\<lambda>ID. remote_call (wrap_call_error iface ''Delete'' inst) (st_Delete st ID)),
      st_List = (\<lambda>offset limit. remote_call (wrap_call_error iface ''List'' inst) (st_List st offset limit)),
      st_release = (\<lambda>w. fst (remote_call (\<lambda>e. e) (\<lambda>s. (st_release st s, Inr ())) w))\<rparr>"

definition remote_storages :: "string \<Rightarrow> string \<Rightarrow> ('s, 'd) storages \<Rightarrow> ('s \<times> fate list, 'd) storages" where
  "remote_storages iface inst storages w =
     map_prod (\<lambda>w. w) (map_sum (\<lambda>e. e) (remote_storage iface inst)) (remote_call (\<lambda>e. e) storages w)"

fun storage_method :: "'d storage_call \<Rightarrow> string" where
  "storage_method (Create_call employee) = ''Create''"
| "storage_method (Read_call ID) = ''Read''"
| "storage_method (Update_call ID employee) = ''Update''"
| "storage_method (Delete_call ID) = ''Delete''"
| "storage_method (List_call offset limit) = ''List''"

lemma remote_call_map: "map_prod (\<lambda>w. w) (map_sum (\<lambda>e. e) g) (remote_call wrap f w) =
    remote_call wrap (\<lambda>s. map_prod (\<lambda>s. s) (map_sum (\<lambda>e. e) g) (f s)) w"
  by (simp add: remote_call_def map_prod_def map_sum_def split: list.splits fate.splits sum.splits prod.splits)

lemma on_remote_storage: "on_storage (remote_storage iface inst st) call w =
    remote_call (wrap_call_error iface (storage_method call) inst) (on_storage st call) w"
  by (cases call; simp add: remote_storage_def remote_call_map; simp add: remote_call_def split: list.split fate.split)

lemma eq_map_sum:
  "Inl e = map_sum f g x \<longleftrightarrow> (\<exists>y. x = Inl y \<and> e = f y)"
  "Inr z = map_sum f g x \<longleftrightarrow> (\<exists>y. x = Inr y \<and> z = g y)"
  by (cases x; auto)+

lemma remote_callE:
  assumes "remote_call wrap f w = (w', r)"
  obtains (lost) e where "fst w' = fst w" and "r = Inl (wrap e)" and "fates_std (snd w) \<longrightarrow> is_std_exception e \<and> fates_std (snd w')"
    | (made) s' x where "f (fst w) = (s', x)" and "fst w' = s'" and "fates_std (snd w) \<longrightarrow> fates_std (snd w')"
        and "r = map_sum wrap (\<lambda>x. x) x \<or> (\<exists>e. r = Inl (wrap e) \<and> (fates_std (snd w) \<longrightarrow> is_std_exception e))"
proof (cases "snd w")
  case Nil
  with assms show thesis by (intro made [of "fst (f (fst w))" "snd (f (fst w))"]) (auto simp: remote_call_def)
next
  case (Cons a fs)
  show thesis
  proof (cases a)
    case Delivered
    with assms Cons show thesis by (intro made [of "fst (f (fst w))" "snd (f (fst w))"]) (auto simp: remote_call_def)
  next
    case (Request_lost e)
    with assms Cons show thesis by (intro lost [of e]) (auto simp: remote_call_def)
  next
    case (Reply_lost e)
    with assms Cons show thesis by (intro made [of "fst (f (fst w))" "snd (f (fst w))"]) (auto simp: remote_call_def)
  qed
qed

lemma remote_storagesE:
  assumes "remote_storages iface inst storages w = (w', Inr storage)"
  obtains st s0 s1 where "storage = remote_storage iface inst st" and "storages s0 = (s1, Inr st)"
proof -
  obtain st where st: "remote_call (\<lambda>e. e) storages w = (w', Inr st)" "storage = remote_storage iface inst st"
    using assms by (auto simp: remote_storages_def map_prod_def map_sum_def split: prod.splits sum.splits)
  from st(1) show thesis
    by (cases rule: remote_callE) (use st(2) that in \<open>auto simp: map_sum_def split: sum.splits\<close>)
qed

lemma wrap_call_error_std [simp]: "is_std_exception (wrap_call_error iface name inst e) = is_std_exception e"
  by (simp add: wrap_call_error_def call_error_def)

text \<open>
  A place to create storages at: in a state that is \<open>ready\<close> creating, calling and releasing a
  storage keep it ready, only a call changes the table, as the storage promises, and all errors
  are standard exceptions. A call that throws has been done once or not at all.
\<close>

locale storage_place =
  fixes storages :: "('s, 'd) storages" and table :: "'s \<Rightarrow> int \<rightharpoonup> string list" and ready :: "'s \<Rightarrow> bool"
    and fp :: "'d fp_env" and col :: "nat \<Rightarrow> string \<Rightarrow> string option" and bigint :: "string \<Rightarrow> int option"
  assumes create_keeps: "ready s \<Longrightarrow> storages s = (s', made) \<Longrightarrow> ready s' \<and> table s' = table s"
    and create_error: "ready s \<Longrightarrow> storages s = (s', Inl e) \<Longrightarrow> is_std_exception e"
    and call_keeps: "storages s0 = (s1, Inr storage) \<Longrightarrow> ready s \<Longrightarrow> on_storage storage call s = (s', r) \<Longrightarrow> ready s'"
    and call_returns: "storages s0 = (s1, Inr storage) \<Longrightarrow> ready s \<Longrightarrow> on_storage storage call s = (s', Inr reply) \<Longrightarrow>
      storage_spec fp col bigint call (table s) (table s') reply"
    and call_throws: "storages s0 = (s1, Inr storage) \<Longrightarrow> ready s \<Longrightarrow> on_storage storage call s = (s', Inl e) \<Longrightarrow>
      is_std_exception e \<and> (table s' = table s \<or> (\<exists>reply. storage_spec fp col bigint call (table s) (table s') reply))"
    and release_keeps: "storages s0 = (s1, Inr storage) \<Longrightarrow> ready s \<Longrightarrow>
      ready (st_release storage s) \<and> table (st_release storage s) = table s"
begin

text \<open>A handler is one call at a new storage, released at the end, and the response to its reply.\<close>

lemma storage_used:
  assumes "ready s" and "storages s = (s1, Inr storage)" and "on_storage storage call s1 = (s2, r)"
  shows "(case r of
      Inr reply \<Rightarrow> storage_spec fp col bigint call (table s) (table (st_release storage s2)) reply
    | Inl e \<Rightarrow> is_std_exception e \<and> (table (st_release storage s2) = table s \<or>
        (\<exists>reply. storage_spec fp col bigint call (table s) (table (st_release storage s2)) reply))) \<and> ready (st_release storage s2)"
proof -
  have s1: "ready s1" "table s1 = table s"
    using create_keeps [OF assms(1,2)] by auto
  have s2: "ready s2"
    by (rule call_keeps [OF assms(2) s1(1) assms(3)])
  show ?thesis
    using call_returns [OF assms(2) s1(1)] call_throws [OF assms(2) s1(1)] release_keeps [OF assms(2) s2] assms(3) s1(2)
    by (cases r) auto
qed

lemma micro_step_refines:
  assumes "ready s" and "CreateMeta env 0 [] = Inr meta" and "micro_step env storages call s = (s', r)"
  shows "(case r of
      Inr res \<Rightarrow> (\<exists>c reply. storage_call_of call = Inr c \<and> storage_spec fp col bigint c (table s) (table s') reply \<and>
        response_to env meta reply = Inr res)
    | Inl e \<Rightarrow> is_std_exception e \<and> (table s' = table s \<or>
        (\<exists>c reply. storage_call_of call = Inr c \<and> storage_spec fp col bigint c (table s) (table s') reply))) \<and> ready s'"
proof (cases "storage_call_of call")
  case (Inl e)
  then have "is_std_exception e"
    by (cases call) (auto simp: no_data_def no_id_def split: if_splits option.splits)
  with Inl show ?thesis
    using assms by (auto simp: micro_step_call [OF assms(2)])
next
  case (Inr c)
  note run = assms(3) [unfolded micro_step_call [OF assms(2)] Inr sum.case]
  obtain s1 made where made: "storages s = (s1, made)" by fastforce
  show ?thesis
  proof (cases made)
    case (Inl e)
    with made run show ?thesis
      using create_keeps [OF assms(1) made] create_error [OF assms(1)] by auto
  next
    case (Inr storage)
    obtain s2 r2 where r2: "on_storage storage c s1 = (s2, r2)" by fastforce
    have s': "s' = st_release storage s2" "r = and_then r2 (response_to env meta)"
      using run made Inr r2 by auto
    have used: "(case r2 of
        Inr reply \<Rightarrow> storage_spec fp col bigint c (table s) (table s') reply
      | Inl e \<Rightarrow> is_std_exception e \<and> (table s' = table s \<or> (\<exists>reply. storage_spec fp col bigint c (table s) (table s') reply))) \<and> ready s'"
      unfolding s'(1) by (rule storage_used [OF assms(1) made [unfolded Inr] r2])
    show ?thesis
    proof (cases r2)
      case (Inl e)
      with used s'(2) \<open>storage_call_of call = Inr c\<close> show ?thesis by auto
    next
      case (Inr reply)
      with used have spec: "storage_spec fp col bigint c (table s) (table s') reply" "ready s'" by simp_all
      show ?thesis
      proof (cases "response_to env meta reply")
        case (Inl e)
        from response_error [OF assms(2) this] spec(1) have "is_std_exception e" "table s' = table s"
          by (cases c; auto)+
        with Inl Inr spec(2) s'(2) show ?thesis by simp
      next
        case res: (Inr res)
        with Inr spec s'(2) \<open>storage_call_of call = Inr c\<close> show ?thesis by auto
      qed
    qed
  qed
qed

text \<open>Seen through a proxy, it is such a place again, whatever is lost on the way.\<close>

lemma remote_is_place:
  "storage_place (remote_storages iface inst storages) (\<lambda>w. table (fst w)) (\<lambda>w. ready (fst w) \<and> fates_std (snd w)) fp col bigint"
proof
  fix w w' :: "'s \<times> fate list" and made
  assume w: "ready (fst w) \<and> fates_std (snd w)"
  {
    assume "remote_storages iface inst storages w = (w', made)"
    then obtain r where "remote_call (\<lambda>e. e) storages w = (w', r)"
      by (cases "remote_call (\<lambda>e. e) storages w") (auto simp: remote_storages_def)
    from this w show "(ready (fst w') \<and> fates_std (snd w')) \<and> table (fst w') = table (fst w)"
      by (cases rule: remote_callE) (auto dest: create_keeps)
  next
    fix e
    assume "remote_storages iface inst storages w = (w', Inl e)"
    then have "remote_call (\<lambda>e. e) storages w = (w', Inl e)"
      by (cases "remote_call (\<lambda>e. e) storages w") (auto simp: remote_storages_def map_sum_def split: sum.splits)
    from this w show "is_std_exception e"
      by (cases rule: remote_callE) (auto simp: eq_map_sum dest: create_error)
  }
next
  fix w0 w1 w w' :: "'s \<times> fate list" and storage call r reply e
  assume made: "remote_storages iface inst storages w0 = (w1, Inr storage)" and w: "ready (fst w) \<and> fates_std (snd w)"
  from made obtain st s0 s1 where st: "storage = remote_storage iface inst st" "storages s0 = (s1, Inr st)"
    by (rule remote_storagesE)
  note keeps = call_keeps [OF st(2)] and returns = call_returns [OF st(2)] and throws = call_throws [OF st(2)]
  {
    assume "on_storage storage call w = (w', r)"
    then have "remote_call (wrap_call_error iface (storage_method call) inst) (on_storage st call) w = (w', r)"
      by (simp add: st(1) on_remote_storage)
    from this w show "ready (fst w') \<and> fates_std (snd w')"
      by (cases rule: remote_callE) (auto dest: keeps)
  next
    assume "on_storage storage call w = (w', Inr reply)"
    then have "remote_call (wrap_call_error iface (storage_method call) inst) (on_storage st call) w = (w', Inr reply)"
      by (simp add: st(1) on_remote_storage)
    from this w show "storage_spec fp col bigint call (table (fst w)) (table (fst w')) reply"
      by (cases rule: remote_callE) (auto simp: eq_map_sum dest: returns)
  next
    assume "on_storage storage call w = (w', Inl e)"
    then have "remote_call (wrap_call_error iface (storage_method call) inst) (on_storage st call) w = (w', Inl e)"
      by (simp add: st(1) on_remote_storage)
    from this w show "is_std_exception e \<and> (table (fst w') = table (fst w) \<or>
        (\<exists>reply. storage_spec fp col bigint call (table (fst w)) (table (fst w')) reply))"
    proof (cases rule: remote_callE)
      case (made s' x)
      then show ?thesis
        using w throws [of "fst w" call s'] returns [of "fst w" call s'] by (cases x) auto
    qed auto
  next
    show "(ready (fst (st_release storage w)) \<and> fates_std (snd (st_release storage w))) \<and>
        table (fst (st_release storage w)) = table (fst w)"
      using w release_keeps [OF st(2)]
      by (cases "remote_call (\<lambda>e. e) (\<lambda>s. (st_release st s, Inr ())) w")
        (auto simp: st(1) remote_storage_def elim!: remote_callE)
  }
qed

end

text \<open>Where nothing is lost, a call that throws has not been done.\<close>

locale reliable_place = storage_place +
  assumes call_atomic: "storages s0 = (s1, Inr storage) \<Longrightarrow> ready s \<Longrightarrow> on_storage storage call s = (s', Inl e) \<Longrightarrow> table s' = table s"
begin

lemma micro_step_atomic:
  assumes "ready s" and "CreateMeta env 0 [] = Inr meta" and "micro_step env storages call s = (s', Inl e)"
  shows "table s' = table s"
proof (cases "storage_call_of call")
  case (Inl e)
  with assms(3) show ?thesis by (simp add: micro_step_call [OF assms(2)])
next
  case (Inr c)
  note run = assms(3) [unfolded micro_step_call [OF assms(2)] Inr sum.case]
  obtain s1 made where made: "storages s = (s1, made)" by fastforce
  note s1 = create_keeps [OF assms(1) made]
  show ?thesis
  proof (cases made)
    case (Inl e)
    with made run s1 show ?thesis by simp
  next
    case (Inr storage)
    note st = made [unfolded Inr]
    obtain s2 r2 where r2: "on_storage storage c s1 = (s2, r2)" by fastforce
    have s': "s' = st_release storage s2" "and_then r2 (response_to env meta) = Inl e"
      using run st r2 by auto
    have "ready s2" using call_keeps [OF st] s1 r2 by blast
    then have rel: "table s' = table s2" using release_keeps [OF st] s'(1) by simp
    show ?thesis
    proof (cases r2)
      case (Inl e)
      with rel s1 r2 call_atomic [OF st, of s1] show ?thesis by auto
    next
      case (Inr reply)
      with call_returns [OF st, of s1] s1 r2 have "storage_spec fp col bigint c (table s1) (table s2) reply" by blast
      with response_error [OF assms(2), of reply e] Inr s'(2) have "table s2 = table s1"
        by (cases c) auto
      with rel s1 show ?thesis by simp
    qed
  qed
qed

end

text \<open>
  The PostgreSQL storage: the object that the storage process has registered, over a pool whose
  connections reach a server that keeps its promises; the pool itself may fail.
\<close>

definition pg_storage :: "'d fp_env \<Rightarrow> 's connections \<Rightarrow> ('s, 'd) employee_storage" where
  "pg_storage fp conns =
     \<lparr>st_Create = PGEmployeeStorage_Create fp conns, st_Read = PGEmployeeStorage_Read fp conns,
      st_Update = PGEmployeeStorage_Update fp conns, st_Delete = PGEmployeeStorage_Delete conns,
      st_List = PGEmployeeStorage_List fp conns, st_release = (\<lambda>s. s)\<rparr>"

definition pg_storages :: "'d fp_env \<Rightarrow> 's connections \<Rightarrow> ('s, 'd) storages" where
  "pg_storages fp conns s = (s, Inr (pg_storage fp conns))"

definition serves :: "'s connections \<Rightarrow> 's pg_client \<Rightarrow> ('s, 'r) db_view \<Rightarrow> bool" where
  "serves conns c v \<longleftrightarrow> (\<forall>s. case conns s of (s', r) \<Rightarrow>
     committed v s' = committed v s \<and> working v s' = working v s \<and> (r = Inr c \<or> (\<exists>e. r = Inl e \<and> is_std_exception e)))"

definition pg_ready :: "'d fp_env \<Rightarrow> 's connections \<Rightarrow> 's pg_client \<Rightarrow> ('s, table) db_view \<Rightarrow> table sql \<Rightarrow>
    (nat \<Rightarrow> string \<Rightarrow> string option) \<Rightarrow> (string \<Rightarrow> int option) \<Rightarrow> 's \<Rightarrow> bool" where
  "pg_ready fp conns c v sql col bigint s \<longleftrightarrow> serves conns c v \<and> transactional c v sql \<and> employees_table sql col bigint \<and>
     rolls_back c \<and> std_stod_throws_std fp \<and> working v s = None \<and> table_inv (committed v s)"

lemma servesD:
  assumes "serves conns c v" and "conns s = (s', r)"
  shows "committed v s' = committed v s \<and> working v s' = working v s \<and> (r = Inr c \<or> (\<exists>e. r = Inl e \<and> is_std_exception e))"
  using assms(1) [unfolded serves_def, rule_format, of s] assms(2) by simp

lemma st_release_pg [simp]: "st_release (pg_storage fp conns) s = s"
  by (simp add: pg_storage_def)

lemma on_pg_storage: "on_storage (pg_storage fp conns) call s = storage_step fp conns call s"
  by (cases call) (simp_all add: pg_storage_def storage_step_def)

lemma pg_storage_step:
  assumes "pg_ready fp conns c v sql col bigint s" and "storage_step fp conns call s = (s', r)"
  shows "pg_ready fp conns c v sql col bigint s' \<and>
    (case r of
       Inr reply \<Rightarrow> storage_spec fp col bigint call (map_of (committed v s)) (map_of (committed v s')) reply
     | Inl e \<Rightarrow> is_std_exception e \<and> committed v s' = committed v s)"
proof -
  obtain s1 made where made: "conns s = (s1, made)" by fastforce
  have s1: "committed v s1 = committed v s" "working v s1 = None" "made = Inr c \<or> (\<exists>e. made = Inl e \<and> is_std_exception e)"
    using servesD [of conns c v s, OF _ made] assms(1) by (auto simp: pg_ready_def)
  have inv: "table_inv (committed v s1)"
    using assms(1) s1(1) by (simp add: pg_ready_def)
  from s1(3) show ?thesis
  proof
    assume "made = Inr c"
    with assms made s1 inv storage_step_on_table [of conns s s1 c v sql col bigint fp call s' r] show ?thesis
      by (cases r) (simp_all add: pg_ready_def)
  next
    assume "\<exists>e. made = Inl e \<and> is_std_exception e"
    with made storage_step_no_connection [of conns s s1 _ fp call] assms(2)
    have "s' = s1 \<and> r = Inl (Runtime_error (storage_message call))" by fastforce
    with assms(1) s1 show ?thesis by (simp add: pg_ready_def)
  qed
qed

interpretation pg: reliable_place "pg_storages fp conns" "\<lambda>s. map_of (committed v s)" "pg_ready fp conns c v sql col bigint" fp col bigint
  for fp conns c v sql col bigint
  by unfold_locales (auto simp: pg_storages_def on_pg_storage dest: pg_storage_step)

interpretation remote_pg: storage_place "remote_storages iface inst (pg_storages fp conns)" "\<lambda>w. map_of (committed v (fst w))"
  "\<lambda>w. pg_ready fp conns c v sql col bigint (fst w) \<and> fates_std (snd w)" fp col bigint
  for iface inst fp conns c v sql col bigint
  by (rule pg.remote_is_place)

lemma MicroService_paths: "distinct (map wm_path (MicroService_members env storages prefix))"
  by (simp add: MicroService_members_def result_member_def)

lemma MicroService_call:
  assumes "i < 5"
  shows "wm_call (MicroService_members env storages prefix ! i) args s out =
    (case micro_step env storages (crud_call i args) s of (s', r) \<Rightarrow> (s', out, map_sum (\<lambda>e. e) Some r))"
proof -
  consider "i = 0" | "i = 1" | "i = 2" | "i = 3" | "i = 4" using assms by force
  then show ?thesis
    by cases (simp_all add: MicroService_members_def result_member_def crud_call_def)
qed

text \<open>A request to a member, as far as the web service is concerned.\<close>

lemma MicroService_request:
  assumes "i < 5" and "ms = MicroService_members env storages prefix" and "InputPack_GetPath req = wm_path (ms ! i)"
    and "evaluate_args order (map (\<lambda>k. GetArg uenv k req) (wm_kinds (ms ! i))) = Inr args" and "\<not> is_request out"
    and "micro_step env storages (crud_call i args) s = (s', r)" and "r \<noteq> Inl Undefined_behaviour"
  obtains w' out' where "service_OnRequest order uenv ms (w, s) req out = ((w', s'), Inr out')"
    and "case r of
        Inl e \<Rightarrow> o_status out' = ConvertCode (exception_code e) \<and> m_buffer out' = Some (Http_WebService.exception_text e)
      | Inr res \<Rightarrow> m_buffer out' = Some (r_value res)"
proof -
  have "i < length ms"
    using assms(1) by (simp add: assms(2) MicroService_members_def)
  then have mem: "ms ! i \<in> set ms" by simp
  have dist: "distinct (map wm_path ms)"
    by (simp only: assms(2) MicroService_paths)
  have call: "wm_call (ms ! i) args s out = (s', out, map_sum (\<lambda>e. e) Some r)"
    by (simp add: assms(2) MicroService_call [OF assms(1)] assms(6))
  have ub: "map_sum (\<lambda>e. e) Some r \<noteq> Inl Undefined_behaviour"
    using assms(7) by (cases r) auto
  obtain w' out' where "service_OnRequest order uenv ms (w, s) req out = ((w', s'), Inr out')"
    and "case map_sum (\<lambda>e. e) Some r of
        Inl e \<Rightarrow> o_status out' = ConvertCode (exception_code e) \<and> m_buffer out' = Some (Http_WebService.exception_text e)
      | Inr None \<Rightarrow> out' = out
      | Inr (Some res) \<Rightarrow> out' = ProcessRequest_result res out"
    using dist mem assms(3,4) call assms(5) ub by (rule service_calls_member)
  with that show thesis by (cases r) auto
qed

section \<open>Properties\<close>


lemma sample_serves: "serves sample_conns (ref_client (ref_sql sample_col sample_bigint)) ref_view"
  by (simp add: serves_def sample_conns_def)

lemma sample_ready: "pg_ready (cr_fp sample_crud_env) sample_conns (ref_client (ref_sql sample_col sample_bigint)) ref_view
    (ref_sql sample_col sample_bigint) sample_col sample_bigint sample_db"
  using sample_serves ref_transactional ref_table [OF sample_bigint_printed] ref_rollback(2) sample_crud_fp sample_inv
  by (simp add: pg_ready_def)

definition sample_micro :: "(ref_db \<times> fate list, int) web_member list" where
  "sample_micro = MicroService_members sample_crud_env
     (remote_storages ''IEmployeeStorage'' ''1'' (pg_storages (cr_fp sample_crud_env) sample_conns)) ''/employee''"


text \<open>With that loss, the row is gone, although the answer is an exception.\<close>

lemma lost_reply_example:
  assumes "micro_step env (remote_storages ''IEmployeeStorage'' ''1'' (pg_storages sample_fp sample_conns))
    (Crud_delete \<lparr>m_name = ''id'', m_value = Some (V_string ''7'')\<rparr>)
    (sample_db, [Delivered, Reply_lost (Proxy_stub_exception ''timeout'')]) = ((s', fs), r)"
  shows "r = Inl (wrap_call_error ''IEmployeeStorage'' ''Delete'' ''1'' (Proxy_stub_exception ''timeout''))"
    and "map_of (rd_table sample_db) 7 \<noteq> None" and "map_of (rd_table s') 7 = None"
proof -
  have "map_of (rd_table sample_db) 7 \<noteq> None \<and> map_of (rd_table (fst (PGEmployeeStorage_Delete sample_conns ''7'' sample_db))) 7 = None"
    by code_simp
  then show "r = Inl (wrap_call_error ''IEmployeeStorage'' ''Delete'' ''1'' (Proxy_stub_exception ''timeout''))"
    and "map_of (rd_table sample_db) 7 \<noteq> None" and "map_of (rd_table s') 7 = None"
    using assms
    by (auto simp: MicroService_Delete_def id_empty_def id_text_def with_storage_def then_meta_def remote_storages_def remote_storage_def
        remote_call_def pg_storages_def pg_storage_def)
qed

end
