(* ===== verification/Example_Services.thy ===== *)
theory Example_Services
  imports Remote_PS Http_Session Text_Stream
begin

text \<open>
  The small services of the examples: a company that keeps its employees in a map
  (\<open>complex_type\<close>), a collector of words (\<open>hello_world\<close>), a viewer that sends a message to the
  visitor it is given (\<open>visitor\<close>), an object with a diamond of interfaces (\<open>inheritance\<close>) and the
  handler that echoes (\<open>http_echo_server\<close>), with the clients that use them. A service is called
  under its lock, so a call is one step on its state. A line of the log is a text; writing
  it can only throw where the line is put together.
\<close>

section \<open>complex_type\<close>

definition Company_Position :: "(unit, int) meta_info" where
  "Company_Position =
     MIF_REFLECT_FIELD ''Manager'' 2 (MIF_REFLECT_FIELD ''Developer'' 1 (MIF_REFLECT_FIELD ''Unknown'' 0
       (MIF_REFLECT_BEGIN ''Position'' [])))"

record company_employee =
  c_name :: string
  c_lastName :: string
  c_age :: "32 word"
  c_position :: int

text \<open>\<open>m_employees\<close> is a \<open>std::map\<close>: entries in the order of their keys; \<open>operator []\<close> assigns.\<close>

type_synonym company = "(string \<times> company_employee) list"

text \<open>The employee's part of a line of the log.\<close>

definition employee_line :: "company_employee \<Rightarrow> string result" where
  "employee_line e =
     and_then (Enum_ToString Company_Position (c_position e)) (\<lambda>position.
       Inr (''Name: '' @ c_name e @ '' LastName: '' @ c_lastName e @ '' Age: '' @ nat_to_string (unat (c_age e)) @
         '' Position: '' @ position))"

definition AddEmployee :: "company_employee \<Rightarrow> company \<Rightarrow> company \<times> string result" where
  "AddEmployee employee m_employees =
     (let ID = nat_to_string (length m_employees)
      in (ordered_assign m_employees ID employee, and_then (employee_line employee) (\<lambda>_. Inr ID)))"

definition RemoveAccount :: "string \<Rightarrow> company \<Rightarrow> company \<times> unit result" where
  "RemoveAccount ID m_employees =
     (case map_of m_employees ID of
        None \<Rightarrow> (m_employees, Inl (Runtime_error (''RemoveAccount. Employee with id '' @ ID @ '' not found.'')))
      | Some employee \<Rightarrow>
          (case employee_line employee of
             Inl e \<Rightarrow> (m_employees, Inl e)
           | Inr _ \<Rightarrow> (filter (\<lambda>(i, x). i \<noteq> ID) m_employees, Inr ())))"

fun employee_lines :: "company \<Rightarrow> string list result" where
  "employee_lines [] = Inr []"
| "employee_lines ((ID, e) # es) =
     and_then (employee_line e) (\<lambda>line. and_then (employee_lines es) (\<lambda>lines. Inr ((''Id: '' @ ID @ '' '' @ line) # lines)))"

definition GetEmployees :: "company \<Rightarrow> company result" where
  "GetEmployees m_employees = and_then (employee_lines m_employees) (\<lambda>_. Inr m_employees)"

text \<open>The client, on the service behind its proxy: what it logs of the service's answers.\<close>

definition company_client :: "company \<Rightarrow> company \<times> string list result" where
  "company_client m =
     (case AddEmployee \<lparr>c_name = ''Ivan'', c_lastName = ''Ivanov'', c_age = 25, c_position = 2\<rparr> m of
        (m, Inl e) \<Rightarrow> (m, Inl e)
      | (m, Inr id1) \<Rightarrow>
     (case AddEmployee \<lparr>c_name = ''Petr'', c_lastName = ''Petrov'', c_age = 30, c_position = 1\<rparr> m of
        (m, Inl e) \<Rightarrow> (m, Inl e)
      | (m, Inr id2) \<Rightarrow>
     (case and_then (GetEmployees m) (\<lambda>employees. and_then (employee_lines employees) (\<lambda>shown. Inr (employees, shown))) of
        Inl e \<Rightarrow> (m, Inl e)
      | Inr (employees, shown) \<Rightarrow>
          (case employees of
             [] \<Rightarrow> (m, Inr ([id1, id2] @ shown))
           | (ID, _) # _ \<Rightarrow>
     (case RemoveAccount ID m of
        (m, Inl e) \<Rightarrow> (m, Inl e)
      | (m, Inr _) \<Rightarrow>
     (case and_then (GetEmployees m) employee_lines of
        Inl e \<Rightarrow> (m, Inl e)
      | Inr shown2 \<Rightarrow>
     (case RemoveAccount ID m of
        (m, Inr _) \<Rightarrow> (m, Inr ([id1, id2] @ shown @ [ID] @ shown2))
      | (m, Inl e) \<Rightarrow>
          (m, if is_std_exception e then Inr ([id1, id2] @ shown @ [ID] @ shown2 @ [''Error: '' @ what e]) else Inl e))))))))"

section \<open>hello_world\<close>

definition AddWord :: "string \<Rightarrow> string list \<Rightarrow> string list" where
  "AddWord word m_words = m_words @ [word]"

definition GetText :: "string list \<Rightarrow> string" where
  "GetText m_words = foldl (\<lambda>text word. (if text \<noteq> [] then text @ '' '' else text) @ word) [] m_words"

definition Clean :: "string list \<Rightarrow> string list" where
  "Clean m_words = []"

definition hello_client :: "string list \<Rightarrow> string list \<times> string list" where
  "hello_client m_words =
     (let m_words = AddWord ''!!!'' (AddWord ''World'' (AddWord ''Hello'' m_words)); first = GetText m_words;
          m_words = Clean m_words; second = GetText m_words
      in (m_words, [''Add words.'', ''Result from server: '' @ dquote @ first @ dquote, ''Clean.'',
            ''Result from server: '' @ dquote @ second @ dquote]))"

section \<open>visitor\<close>

text \<open>A message is what its \<open>GetText\<close> returns; a visitor is its \<open>Visit\<close> on a state.\<close>

definition Message_new :: "string \<Rightarrow> string result" where
  "Message_new message = Inr message"

definition Viewer_Accept :: "(string result option \<Rightarrow> 's \<Rightarrow> 's \<times> unit result) option \<Rightarrow> 's \<Rightarrow> 's \<times> unit result" where
  "Viewer_Accept visitor s =
     (case visitor of
        None \<Rightarrow> (s, Inl (Invalid_argument ''Empty pointer on IMessageVisitor''))
      | Some visit \<Rightarrow> visit (Some (Message_new ''Message from remote service.'')) s)"

definition MessageVisitor_Visit :: "string result option \<Rightarrow> string list \<Rightarrow> string list \<times> unit result" where
  "MessageVisitor_Visit message lines =
     (case message of
        None \<Rightarrow> (lines, Inl (Invalid_argument ''Empty message pointer.''))
      | Some (Inl e) \<Rightarrow> (lines, Inl e)
      | Some (Inr text) \<Rightarrow> (lines @ [''Message: '' @ text], Inr ()))"

section \<open>inheritance\<close>

definition IHuman_methods :: "ps_method list" where
  "IHuman_methods = [\<lparr>pm_name = ''GetName'', pm_params = [], pm_result = R_value (Simple String_t)\<rparr>,
     \<lparr>pm_name = ''GetAge'', pm_params = [], pm_result = R_value (Simple Uint64_t)\<rparr>]"

definition IDeveloper_methods :: "ps_method list" where
  "IDeveloper_methods = [\<lparr>pm_name = ''Development'', pm_params = [], pm_result = R_void\<rparr>,
     \<lparr>pm_name = ''BugFixes'', pm_params = [], pm_result = R_void\<rparr>]"

definition IManager_methods :: "ps_method list" where
  "IManager_methods = [\<lparr>pm_name = ''Planning'', pm_params = [], pm_result = R_void\<rparr>,
     \<lparr>pm_name = ''Monitoring'', pm_params = [], pm_result = R_void\<rparr>]"

definition IEmployee_PS :: ps_type where
  "IEmployee_PS = \<lparr>InterfaceId = ''IEmployee'',
     own_methods = [\<lparr>pm_name = ''GetRate'', pm_params = [], pm_result = R_value (Simple Double_t)\<rparr>],
     inherited = [(''IDeveloper'', IDeveloper_methods), (''IManager'', IManager_methods), (''IHuman'', IHuman_methods)]\<rparr>"

definition employee_call :: "'d \<Rightarrow> 'o inst \<Rightarrow> string \<Rightarrow> string \<Rightarrow> ('d, 'o) arg list \<Rightarrow> string list \<Rightarrow> string list \<times> ('d, 'o) arg result" where
  "employee_call rate i iface name args lines =
     (if name = ''GetName'' then (lines @ [''GetName''], Inr (A_val (V_string ''Ivan'')))
      else if name = ''GetAge'' then (lines @ [''GetAge''], Inr (A_val (V_int 33)))
      else if name = ''GetRate'' then (lines @ [''GetRate''], Inr (A_val (V_double rate)))
      else (lines @ [name], Inr (A_service None)))"

section \<open>http_echo_server\<close>

definition EchoServer_handler :: handler where
  "EchoServer_handler request response =
     and_then (OutputPack_SetCode response Ok) (\<lambda>response. Inr (OutputPack_SetData response (Some (InputPack_GetData request))))"

section \<open>Facts\<close>

definition known_position :: "company_employee \<Rightarrow> bool" where
  "known_position e \<longleftrightarrow> c_position e \<in> {0, 1, 2}"

lemma Company_Position_values: "snd ` set (field_infos Company_Position) = {0, 1, 2}"
  by (auto simp: Company_Position_def MIF_REFLECT_FIELD_def MIF_REFLECT_BEGIN_def)

lemma employee_line_known: "known_position e \<Longrightarrow> \<exists>line. employee_line e = Inr line"
  using Enum_ToString_spec(2) [of "c_position e" Company_Position]
  by (auto simp: known_position_def Company_Position_values employee_line_def)

lemma employee_line_unknown: "\<not> known_position e \<Longrightarrow> \<exists>x. employee_line e = Inl x \<and> is_std_exception x"
  using Enum_ToString_spec(3) [of "c_position e" Company_Position] Enum_ToString_error [of Company_Position "c_position e"]
  by (cases "Enum_ToString Company_Position (c_position e)") (auto simp: known_position_def Company_Position_values employee_line_def)

text \<open>A company is sorted by its keys; employees who only come are all there, under their numbers.\<close>

definition company_inv :: "company \<Rightarrow> bool" where
  "company_inv m \<longleftrightarrow> sorted_wrt (<) (map fst m)"

definition joined :: "company_employee list \<Rightarrow> company" where
  "joined es = foldl (\<lambda>m e. fst (AddEmployee e m)) [] es"

lemma AddEmployee_map:
  assumes "company_inv m" and "AddEmployee e m = (m', r)"
  shows "company_inv m'" and "map_of m' = (map_of m)(nat_to_string (length m) \<mapsto> e)"
    and "length m' = (if nat_to_string (length m) \<in> fst ` set m then length m else Suc (length m))"
    and "known_position e \<Longrightarrow> r = Inr (nat_to_string (length m))"
    and "\<not> known_position e \<Longrightarrow> \<exists>x. r = Inl x \<and> is_std_exception x"
proof -
  have m': "m' = ordered_assign m (nat_to_string (length m)) e"
    and r: "r = and_then (employee_line e) (\<lambda>_. Inr (nat_to_string (length m)))"
    using assms(2) by (auto simp: AddEmployee_def Let_def)
  show "company_inv m'" "map_of m' = (map_of m)(nat_to_string (length m) \<mapsto> e)"
    "length m' = (if nat_to_string (length m) \<in> fst ` set m then length m else Suc (length m))"
    using assms(1) by (simp_all add: m' company_inv_def ordered_assign_sorted ordered_assign_map length_ordered_assign)
  show "known_position e \<Longrightarrow> r = Inr (nat_to_string (length m))" "\<not> known_position e \<Longrightarrow> \<exists>x. r = Inl x \<and> is_std_exception x"
    using employee_line_known [of e] employee_line_unknown [of e] by (auto simp: r)
qed

lemma RemoveAccount_map:
  assumes "company_inv m" and "RemoveAccount ID m = (m', r)"
  shows "company_inv m'"
    and "map_of m ID = Some e \<Longrightarrow> known_position e \<Longrightarrow> r = Inr () \<and> map_of m' = (map_of m)(ID := None) \<and> Suc (length m') = length m"
    and "map_of m ID = Some e \<Longrightarrow> \<not> known_position e \<Longrightarrow> (\<exists>x. r = Inl x \<and> is_std_exception x) \<and> m' = m"
    and "map_of m ID = None \<Longrightarrow> (\<exists>x. r = Inl (Runtime_error x)) \<and> m' = m"
proof -
  have "sorted_wrt (<) (map fst (filter (\<lambda>(i, x). i \<noteq> ID) m))"
    using assms(1) unfolding company_inv_def by (induction m) auto
  then show "company_inv m'"
    using assms by (auto simp: company_inv_def RemoveAccount_def split: option.splits sum.splits)
  have len: "Suc (length (filter (\<lambda>(i, x). i \<noteq> ID) m)) = length m" if "map_of m ID = Some e"
    using that assms(1) unfolding company_inv_def
  proof (induction m)
    case (Cons p m)
    show ?case
    proof (cases "fst p = ID")
      case True
      with Cons.prems(2) have "filter (\<lambda>p. fst p \<noteq> ID) m = m" by (intro filter_True) auto
      with True show ?thesis by (simp add: case_prod_beta)
    qed (use Cons in \<open>auto simp: case_prod_beta\<close>)
  qed simp
  show "r = Inr () \<and> map_of m' = (map_of m)(ID := None) \<and> Suc (length m') = length m" if "map_of m ID = Some e" "known_position e"
    using that assms(2) len employee_line_known [of e] by (auto simp: RemoveAccount_def map_of_delete_key)
  show "(\<exists>x. r = Inl x \<and> is_std_exception x) \<and> m' = m" if "map_of m ID = Some e" "\<not> known_position e"
    using that assms(2) employee_line_unknown [of e] by (auto simp: RemoveAccount_def)
  show "(\<exists>x. r = Inl (Runtime_error x)) \<and> m' = m" if "map_of m ID = None"
    using that assms(2) by (auto simp: RemoveAccount_def)
qed

lemma joined_company:
  "company_inv (joined es) \<and> length (joined es) = length es \<and> fst ` set (joined es) = nat_to_string ` {..<length es} \<and>
   (\<forall>i < length es. map_of (joined es) (nat_to_string i) = Some (es ! i))"
proof (induction es rule: rev_induct)
  case (snoc e es)
  obtain m' r where add: "AddEmployee e (joined es) = (m', r)" by fastforce
  have new: "nat_to_string (length es) \<notin> nat_to_string ` {..<length es}"
    by (auto dest: nat_to_string_inj)
  have keys: "fst ` set m' = insert (nat_to_string (length es)) (fst ` set (joined es))"
    using add snoc ordered_assign_keys [of "joined es" "nat_to_string (length es)" e] by (simp add: AddEmployee_def Let_def)
  have "joined (es @ [e]) = m'"
    using add by (simp add: joined_def)
  with snoc AddEmployee_map(1-3) [OF _ add] keys new show ?case
    by (auto simp: nth_append lessThan_Suc less_Suc_eq dest: nat_to_string_inj)
qed (simp add: joined_def company_inv_def)

text \<open>An employee with a position that has no name stays for ever, and nobody is listed.\<close>

lemma unknown_position_stays:
  assumes "company_inv m" and "map_of m ID = Some e" and "\<not> known_position e"
  shows "fst (RemoveAccount ID m) = m" and "isl (snd (RemoveAccount ID m))" and "isl (GetEmployees m)"
proof -
  obtain m' r where rm: "RemoveAccount ID m = (m', r)" by fastforce
  from RemoveAccount_map(3) [OF assms(1) rm assms(2,3)] rm
  show "fst (RemoveAccount ID m) = m" "isl (snd (RemoveAccount ID m))" by auto
  have lines: "isl (employee_lines m)" if "(ID, e) \<in> set m" for m
    using that employee_line_unknown [OF assms(3)]
  proof (induction m rule: employee_lines.induct)
    case (2 i x es)
    then show ?case by (cases "employee_line x"; cases "employee_lines es") auto
  qed simp
  show "isl (GetEmployees m)"
    using lines [OF map_of_SomeD [OF assms(2)]] by (cases "employee_lines m") (auto simp: GetEmployees_def)
qed

text \<open>The words are joined by single spaces, empty words at the front left out.\<close>

fun joined_words :: "string list \<Rightarrow> string" where
  "joined_words [] = []"
| "joined_words (w # ws) = w @ concat (map (\<lambda>x. CHR '' '' # x) ws)"

lemma GetText_words: "GetText ws = joined_words (dropWhile (\<lambda>w. w = []) ws)"
proof -
  have step: "foldl (\<lambda>text word. (if text \<noteq> [] then text @ '' '' else text) @ word) t ws = t @ concat (map (\<lambda>x. CHR '' '' # x) ws)"
    if "t \<noteq> []" for t ws
    using that by (induction ws arbitrary: t) auto
  show ?thesis
    unfolding GetText_def by (induction ws) (simp_all add: step)
qed

lemma hello_client_lines:
  "hello_client [] = ([], [''Add words.'', ''Result from server: '' @ dquote @ ''Hello World !!!'' @ dquote, ''Clean.'',
     ''Result from server: '' @ dquote @ dquote])"
  by (simp add: hello_client_def AddWord_def Clean_def GetText_def Let_def)

lemma company_client_runs:
  "snd (company_client []) = Inr [''0'', ''1'',
     ''Id: 0 Name: Ivan LastName: Ivanov Age: 25 Position: Manager'', ''Id: 1 Name: Petr LastName: Petrov Age: 30 Position: Developer'',
     ''0'', ''Id: 1 Name: Petr LastName: Petrov Age: 30 Position: Developer'',
     ''Error: RemoveAccount. Employee with id 0 not found.'']"
  by code_simp

text \<open>The visitor gets the message of the viewer; both refuse a null pointer.\<close>

lemma viewer_visits:
  "Viewer_Accept (Some MessageVisitor_Visit) lines = (lines @ [''Message: Message from remote service.''], Inr ())"
  "isl (snd (Viewer_Accept None s))" "isl (snd (MessageVisitor_Visit None lines))"
  by (simp_all add: Viewer_Accept_def MessageVisitor_Visit_def Message_new_def)

text \<open>The inherited interfaces of the diamond, each once, and the methods the stub of \<open>IEmployee\<close> finds.\<close>

definition IHuman_iface :: iface where
  "IHuman_iface = Iface ''IHuman'' [IService]"

definition IEmployee_iface :: iface where
  "IEmployee_iface = Iface ''IEmployee'' [Iface ''IDeveloper'' [IHuman_iface], Iface ''IManager'' [IHuman_iface]]"

lemma diamond_methods:
  "MakeInheritedIist IEmployee_iface = [Iface ''IDeveloper'' [IHuman_iface], Iface ''IManager'' [IHuman_iface], IHuman_iface]"
  "map_option fst (InvokeMethod_find IEmployee_PS ''GetName'') = Some ''IHuman''"
  "map_option fst (InvokeMethod_find IEmployee_PS ''BugFixes'') = Some ''IDeveloper''"
  "map_option fst (InvokeMethod_find IEmployee_PS ''Planning'') = Some ''IManager''"
  "map_option fst (InvokeMethod_find IEmployee_PS ''GetRate'') = Some ''IEmployee''"
  by code_simp+

text \<open>The echo server answers a response with the body of the request and the status of success.\<close>

lemma EchoServer_echoes:
  "\<not> is_request out \<Longrightarrow> \<exists>out'. EchoServer_handler req out = Inr out' \<and> m_buffer out' = Some (InputPack_GetData req) \<and>
     o_status out' = ConvertCode Ok"
  by (simp add: EchoServer_handler_def OutputPack_SetCode_def OutputPack_SetData_def Let_def split: list.splits)

section \<open>Properties\<close>

text \<open>
  Property C38: the numbers of the company. As long as nobody leaves, the employees are kept under
  the numbers in which they came, nobody is lost, and the entries stay ordered. As soon as one
  but the last of them has left, the next employee who comes takes the number of the last and
  the last one is lost: two are gone after one removal.
\<close>

theorem company_numbers:
  assumes "list_all known_position es" and "Suc k < length es" and "known_position e"
  shows "company_inv (joined es) \<and> length (joined es) = length es \<and>
    (\<forall>i < length es. map_of (joined es) (nat_to_string i) = Some (es ! i)) \<and>
    (\<exists>m m'. RemoveAccount (nat_to_string k) (joined es) = (m, Inr ()) \<and>
       AddEmployee e m = (m', Inr (nat_to_string (length es - 1))) \<and>
       map_of m (nat_to_string (length es - 1)) = Some (last es) \<and>
       map_of m' (nat_to_string (length es - 1)) = Some e \<and> length m' = length es - 1)"
proof -
  note all = joined_company [of es]
  have k: "map_of (joined es) (nat_to_string k) = Some (es ! k)" "known_position (es ! k)"
    using all assms(1,2) by (simp_all add: list_all_length)
  obtain m r where rm: "RemoveAccount (nat_to_string k) (joined es) = (m, r)" by fastforce
  have m: "company_inv m" "r = Inr ()" "map_of m = (map_of (joined es))(nat_to_string k := None)" "length m = length es - 1"
    using RemoveAccount_map(1) [OF _ rm] RemoveAccount_map(2) [OF _ rm k] all by auto
  have last: "map_of m (nat_to_string (length m)) = Some (last es)"
    using m(3,4) all assms(2) nat_to_string_inj [of k "length es - 1"] last_conv_nth [of es] by (cases es) auto
  then have used: "nat_to_string (length m) \<in> fst ` set m"
    by (metis map_of_eq_None_iff option.distinct(1))
  obtain m' r' where add: "AddEmployee e m = (m', r')" by fastforce
  show ?thesis
    using all rm m last add AddEmployee_map(2-4) [OF m(1) add] assms(3) used by simp
qed

definition sample_staff :: "company_employee list" where
  "sample_staff = [\<lparr>c_name = ''Ivan'', c_lastName = ''Ivanov'', c_age = 25, c_position = 2\<rparr>,
     \<lparr>c_name = ''Petr'', c_lastName = ''Petrov'', c_age = 30, c_position = 1\<rparr>]"

theorem company_numbers_witness:
  "\<exists>m m'. RemoveAccount ''0'' (joined sample_staff) = (m, Inr ()) \<and>
     AddEmployee (sample_staff ! 0) m = (m', Inr ''1'') \<and> map_of m ''1'' = Some (sample_staff ! 1) \<and>
     map_of m' ''1'' = Some (sample_staff ! 0) \<and> length m' = 1"
proof -
  have "list_all known_position sample_staff" "Suc 0 < length sample_staff" "known_position (sample_staff ! 0)"
    by (simp_all add: sample_staff_def known_position_def)
  from company_numbers [OF this] show ?thesis
    by (simp add: sample_staff_def sample_digits [simplified])
qed

end
