(* ===== verification/Example_Page.thy ===== *)
theory Example_Page
  imports Http_Members Remote_PS Service_Locator
begin

text \<open>
  The page of the HTTP example (\<open>examples/http\<close>): one object that is a web service, whose
  members show a page and the statistics, and at the same time a remote object, through which an
  administrator changes the page. The remote calls are packs of JSON that come in requests to a
  servlet; both kinds of requests work on the same object.
\<close>

section \<open>The service\<close>

record page =
  p_title :: string
  p_body :: string

definition Page_new :: page where
  "Page_new = \<lparr>p_title = ''Test page'', p_body = ''Test page data''\<rparr>"

text \<open>\<open>IAdmin\<close>.\<close>

definition Page_SetTitle :: "string \<Rightarrow> page \<Rightarrow> page" where
  "Page_SetTitle title p = p\<lparr>p_title := title\<rparr>"

definition Page_SetBody :: "string \<Rightarrow> page \<Rightarrow> page" where
  "Page_SetBody body p = p\<lparr>p_body := body\<rparr>"

definition Page_GetPage :: "page \<Rightarrow> string" where
  "Page_GetPage p = ''Titlt:'' @ newline @ p_title p @ newline @ newline @ ''Body:'' @ newline @ p_body p @ newline"

text \<open>
  The statistics as the handler sees them: the counters of the service and those of its paths in
  their order. Counters are converted to signed numbers.
\<close>

type_synonym statistics = "ItemCounter \<times> (string \<times> ItemCounter) list"

definition counter_val :: "nat \<Rightarrow> int" where
  "counter_val n = sint (word_of_nat n :: 64 word)"

fun resource_entries :: "(string \<times> ItemCounter) list \<Rightarrow> (string \<times> int) list \<Rightarrow> (string \<times> int) list" where
  "resource_entries [] resp = resp"
| "resource_entries ((path, c) # cs) resp =
     resource_entries cs
       (ordered_assign (ordered_assign resp (''Total requests for '' @ squote @ path @ squote @ '' '') (counter_val (total c)))
          (''Bad requests for '' @ squote @ path @ squote @ '' '') (counter_val (bad c)))"

definition stat_entries :: "statistics \<Rightarrow> (string \<times> int) list" where
  "stat_entries st =
     resource_entries (snd st)
       (ordered_assign (ordered_assign [] ''Total requests '' (counter_val (total (fst st))))
          ''Bad requests '' (counter_val (bad (fst st))))"

definition Stat_ty :: ty where
  "Stat_ty = StdMap (Simple String_t) (Simple Int64_t)"

definition stat_val :: "(string \<times> int) list \<Rightarrow> 'd val" where
  "stat_val es = V_list (map (\<lambda>(k, n). V_pair (V_string k) (V_int n)) es)"

definition Page_Stat :: "('d json \<Rightarrow> buffer) \<Rightarrow> statistics \<Rightarrow> handler_result result" where
  "Page_Stat print_json st =
     map_sum (\<lambda>e. e) (\<lambda>b. Result_new b Json_ContentType) (Json_Serialize print_json Stat_ty (stat_val (stat_entries st)))"

definition html_page :: "string \<Rightarrow> string \<Rightarrow> string" where
  "html_page title body =
     ''<!DOCTYPE html>'' @ ''<html>'' @ ''<head>'' @ ''<title>'' @ title @ ''</title>'' @
     ''<meta http-equiv='' @ dquote @ ''Content-Type'' @ dquote @ '' content='' @ dquote @ ''text/html; charset=utf-8'' @ dquote @ ''>'' @
     ''<meta name='' @ dquote @ ''resourse-type'' @ dquote @ '' content='' @ dquote @ ''document'' @ dquote @ ''>'' @
     ''</head>'' @ ''<body>'' @ body @ ''</body>'' @ newline"

definition text_page :: "string \<Rightarrow> string \<Rightarrow> string" where
  "text_page title body =
     ''Title:'' @ newline @ title @ newline @ newline @ ''Body:'' @ newline @ body @ newline @ newline"

definition Page_MainPage :: "('d json \<Rightarrow> buffer) \<Rightarrow> 'd val Prm \<Rightarrow> page \<Rightarrow> handler_result result" where
  "Page_MainPage print_json format p =
     (case m_value format of
        None \<Rightarrow> Inl (Invalid_argument (''No '' @ squote @ ''format'' @ squote))
      | Some f \<Rightarrow>
          if the_string f = ''json'' then
            map_sum (\<lambda>e. e) (\<lambda>b. Result_new b ''application/json;charset=UTF-8'')
              (Json_Serialize print_json (Pair (Simple String_t) (Simple String_t)) (V_pair (V_string (p_title p)) (V_string (p_body p))))
          else if the_string f = ''html'' then Inr (Result_new (html_page (p_title p) (p_body p)) ''text/html'')
          else if the_string f = ''text'' then Inr (Result_new (text_page (p_title p) (p_body p)) ''text/plain; charset=utf-8'')
          else Inl (Invalid_argument (''Format '' @ squote @ the_string f @ squote @ '' not supported.'')))"

definition format_kind :: "'d arg_kind" where
  "format_kind = K_prm (Crc32str ''format'') (U_simple String_t)"

definition Page_members :: "('d json \<Rightarrow> buffer) \<Rightarrow> statistics \<Rightarrow> string \<Rightarrow> (page, 'd) web_member list" where
  "Page_members print_json st pathPrefix =
     [result_member (pathPrefix @ ''/stat'') [] (\<lambda>args p. (p, Page_Stat print_json st)),
      result_member (pathPrefix @ ''/main-page'') [format_kind] (\<lambda>args p. (p, Page_MainPage print_json (arg_prm (args ! 0)) p))]"

section \<open>The remote object\<close>

definition SetTitle_method :: ps_method where
  "SetTitle_method = \<lparr>pm_name = ''SetTitle'', pm_params = [P_value (Simple String_t)], pm_result = R_void\<rparr>"

definition SetBody_method :: ps_method where
  "SetBody_method = \<lparr>pm_name = ''SetBody'', pm_params = [P_value (Simple String_t)], pm_result = R_void\<rparr>"

definition GetPage_method :: ps_method where
  "GetPage_method = \<lparr>pm_name = ''GetPage'', pm_params = [], pm_result = R_value (Simple String_t)\<rparr>"

definition IAdmin_PS :: ps_type where
  "IAdmin_PS = \<lparr>InterfaceId = ''IAdmin'', own_methods = [SetTitle_method, SetBody_method, GetPage_method], inherited = []\<rparr>"

definition admin_call :: "'o inst \<Rightarrow> string \<Rightarrow> string \<Rightarrow> ('d, 'o) arg list \<Rightarrow> page \<Rightarrow> page \<times> ('d, 'o) arg result" where
  "admin_call i iface name args p =
     (if name = ''SetTitle'' then (Page_SetTitle (the_string (arg_val (args ! 0))) p, Inr (A_service None))
      else if name = ''SetBody'' then (Page_SetBody (the_string (arg_val (args ! 0))) p, Inr (A_service None))
      else (p, Inr (A_val (V_string (Page_GetPage p)))))"

text \<open>
  \<open>Application::Init\<close> of the server: the one object is the instance of the servlet's factory and
  the web service; the time-out of the remote calls is ten seconds.
\<close>

definition Page_Init :: "ServiceId \<Rightarrow> (string \<Rightarrow> 'o result) \<Rightarrow> ('o factory \<Rightarrow> nat \<Rightarrow> 'h) \<Rightarrow> ('o \<Rightarrow> 'h result) \<Rightarrow> (string \<rightharpoonup> 'h) \<Rightarrow>
    (string \<rightharpoonup> 'h) result" where
  "Page_Init service_id create make_servlet make_web hs =
     and_then (create ''/view'') (\<lambda>service.
     and_then (make_web service) (\<lambda>web.
       let factory = Factory_AddInstance Factory_new service_id service
       in Inr (map_emplace (map_emplace hs ''/admin'' (make_servlet factory (10 * 1000 * 1000))) ''/view'' web)))"

text \<open>The client: the administrator sets both texts and asks for a preview.\<close>

definition admin_client :: "(string \<Rightarrow> ('d, 'o) arg list \<Rightarrow> 'w \<Rightarrow> 'w \<times> ('d, 'o) arg result) \<Rightarrow> 'w \<Rightarrow> 'w \<times> string result" where
  "admin_client call w =
     (case call ''SetTitle'' [A_val (V_string ''Client title'')] w of
        (w, Inl e) \<Rightarrow> (w, Inl e)
      | (w, Inr _) \<Rightarrow>
     (case call ''SetBody'' [A_val (V_string ''Client body'')] w of
        (w, Inl e) \<Rightarrow> (w, Inl e)
      | (w, Inr _) \<Rightarrow>
     (case call ''GetPage'' [] w of
        (w, Inl e) \<Rightarrow> (w, Inl e)
      | (w, Inr r) \<Rightarrow> (w, Inr (''Page preview: '' @ newline @ the_string (arg_val r))))))"

section \<open>Facts\<close>

lemma admin_client_preview:
  "admin_client (\<lambda>name args. admin_call (Service ()) ''IAdmin'' name args) p =
     (\<lparr>p_title = ''Client title'', p_body = ''Client body''\<rparr>,
      Inr (''Page preview: '' @ newline @ Page_GetPage \<lparr>p_title = ''Client title'', p_body = ''Client body''\<rparr>))"
  by (cases p) (simp add: admin_client_def admin_call_def Page_SetTitle_def Page_SetBody_def)

lemma Page_paths: "distinct (map wm_path (Page_members print_json st prefix))"
  by (simp add: Page_members_def result_member_def)

text \<open>The statistics list every path with its own counters.\<close>

definition total_key :: "string \<Rightarrow> string" where
  "total_key path = ''Total requests for '' @ squote @ path @ squote @ '' ''"

definition bad_key :: "string \<Rightarrow> string" where
  "bad_key path = ''Bad requests for '' @ squote @ path @ squote @ '' ''"

lemma stat_keys [simp]:
  "total_key p = total_key q \<longleftrightarrow> p = q" "bad_key p = bad_key q \<longleftrightarrow> p = q" "total_key p \<noteq> bad_key q" "bad_key p \<noteq> total_key q"
  "total_key p \<noteq> ''Total requests ''" "total_key p \<noteq> ''Bad requests ''" "bad_key p \<noteq> ''Total requests ''" "bad_key p \<noteq> ''Bad requests ''"
  by (simp_all add: total_key_def bad_key_def)

lemma resource_entries_map:
  assumes "sorted_wrt (<) (map fst resp)" and "distinct (map fst cs)"
  shows "sorted_wrt (<) (map fst (resource_entries cs resp)) \<and>
    (\<forall>(p, c) \<in> set cs. map_of (resource_entries cs resp) (total_key p) = Some (counter_val (total c)) \<and>
       map_of (resource_entries cs resp) (bad_key p) = Some (counter_val (bad c))) \<and>
    (\<forall>k. (\<forall>p \<in> fst ` set cs. k \<noteq> total_key p \<and> k \<noteq> bad_key p) \<longrightarrow> map_of (resource_entries cs resp) k = map_of resp k)"
  using assms
proof (induction cs resp rule: resource_entries.induct)
  case (2 path c cs resp)
  let ?r = "ordered_assign (ordered_assign resp (total_key path) (counter_val (total c))) (bad_key path) (counter_val (bad c))"
  have r: "sorted_wrt (<) (map fst ?r)" "map_of ?r = (map_of resp)(total_key path \<mapsto> counter_val (total c), bad_key path \<mapsto> counter_val (bad c))"
    using "2.prems"(1) by (simp_all add: ordered_assign_sorted ordered_assign_map)
  have "resource_entries ((path, c) # cs) resp = resource_entries cs ?r"
    by (simp add: total_key_def bad_key_def)
  moreover note "2.IH" [folded total_key_def bad_key_def, OF r(1)]
  ultimately show ?case
    using "2.prems"(2) r(2) by (auto simp: image_iff)
qed simp

lemma stat_reports:
  assumes "distinct (map fst (snd st))"
  shows "sorted_wrt (<) (map fst (stat_entries st))" and "map_of (stat_entries st) ''Total requests '' = Some (counter_val (total (fst st)))"
    and "map_of (stat_entries st) ''Bad requests '' = Some (counter_val (bad (fst st)))"
    and "(p, c) \<in> set (snd st) \<Longrightarrow> map_of (stat_entries st) (total_key p) = Some (counter_val (total c)) \<and>
      map_of (stat_entries st) (bad_key p) = Some (counter_val (bad c))"
proof -
  let ?r = "ordered_assign (ordered_assign [] ''Total requests '' (counter_val (total (fst st)))) ''Bad requests '' (counter_val (bad (fst st)))"
  have r: "sorted_wrt (<) (map fst ?r)" "map_of ?r = [''Total requests '' \<mapsto> counter_val (total (fst st)), ''Bad requests '' \<mapsto> counter_val (bad (fst st))]"
    by (simp_all add: ordered_assign_sorted ordered_assign_map)
  note all = resource_entries_map [OF r(1) assms, folded stat_entries_def]
  show "sorted_wrt (<) (map fst (stat_entries st))"
    "map_of (stat_entries st) ''Total requests '' = Some (counter_val (total (fst st)))"
    "map_of (stat_entries st) ''Bad requests '' = Some (counter_val (bad (fst st)))"
    using all r(2) stat_keys(5-8) [symmetric] by simp_all
  show "(p, c) \<in> set (snd st) \<Longrightarrow> map_of (stat_entries st) (total_key p) = Some (counter_val (total c)) \<and>
      map_of (stat_entries st) (bad_key p) = Some (counter_val (bad c))"
    using all by blast
qed

section \<open>Properties\<close>

text \<open>
  Property C39: what the administrator sets is what the page shows. When the object behind the
  servlet and the web service are one, and both ends of the connection are open, a remote call of
  \<open>SetTitle\<close> or \<open>SetBody\<close> with a text without zero characters returns, and every request for the
  page in HTML behind it is answered with a page that has this title or body and the other text
  as it was. The packs are assumed to come through printing and parsing.
\<close>

theorem admin_text_is_served:
  assumes "m \<in> {SetTitle_method, SetBody_method}" and "can_call envA envB A B inst ''IAdmin'' s ''IAdmin'' m [Simple String_t]"
    and "call_method envB = admin_call" and "u = new_uuid envA (generated A)" and "NUL \<notin> set txt"
    and "\<forall>req. Serializer_new True u inst ''IAdmin'' (pm_name m) [Simple String_t] [V_string txt] = Inr req \<longrightarrow> text_ok (pk envA) req"
    and "text_ok (pk envA) (Serializer_head False u inst ''IAdmin'' (pm_name m))"
    and "p = (if m = SetTitle_method then Page_SetTitle txt (app_state B) else Page_SetBody txt (app_state B))"
    and "InputPack_GetPath req = prefix @ ''/main-page''" and "InputPack_GetParams req = [''format'' \<mapsto> ''html'']"
    and "set (order (Suc 0)) = {0}" and "\<not> is_request out"
  shows "\<exists>A' B' w' out'. RemoteCall (pk envA) (direct_links envA envB now) \<lparr>px_manager = True, px_instance = inst\<rparr> ''IAdmin'' m
      [A_val (V_string txt)] (A, B) = ((A', B'), Inr (A_service None)) \<and> app_state B' = p \<and>
    service_OnRequest order uenv (Page_members print_json st prefix) (w, app_state B') req out = ((w', p), Inr out') \<and>
    m_buffer out' = Some (html_page (p_title p) (p_body p))"
proof -
  have m: "pm_result m = R_void" "good (js (pk envA)) (Tuple [Simple String_t]) (V_list [V_string txt])"
    using assms(1,5) by (auto simp: SetTitle_method_def SetBody_method_def)
  have "call_method envB (Service s) ''IAdmin'' (pm_name m) (map A_val [V_string txt]) (app_state B) = (p, Inr (A_service None))"
    using assms(1,3,8) by (auto simp: admin_call_def SetTitle_method_def SetBody_method_def)
  note call = RemoteCall_void [OF assms(2,4) m this assms(6,7), of now, simplified list.map]
  let ?ms = "Page_members print_json st prefix"
  have member: "?ms ! 1 \<in> set ?ms" "?ms ! 1 = result_member (prefix @ ''/main-page'') [format_kind]
      (\<lambda>args p. (p, Page_MainPage print_json (arg_prm (args ! 0)) p))"
    by (simp_all add: Page_members_def)
  have arg: "GetArg uenv format_kind req = Inr (Arg_prm \<lparr>m_name = ''format'', m_value = Some (V_string ''html'')\<rparr>)"
    unfolding format_kind_def using assms(10) by (rule text_parameter)
  have "\<exists>w' out'. service_OnRequest order uenv ?ms (w, p) req out = ((w', p), Inr out') \<and>
      m_buffer out' = Some (r_value (Result_new (html_page (p_title p) (p_body p)) ''text/html''))"
    using member(1) Page_paths member(2) assms(9,11) arg _ assms(12)
    by (rule service_returns) (simp add: Page_MainPage_def)
  with call show ?thesis
    by (fastforce simp: Result_new_def)
qed

definition page_env :: "int pack_env \<Rightarrow> (int, unit, page) ps_env" where
  "page_env wire = \<lparr>pk = wire, registry = [IAdmin_PS], new_uuid = (\<lambda>n. ''id-'' @ nat_to_string n),
     create_service = (\<lambda>s a. (a, Inr (Some (Service ())))), query_service = (\<lambda>i f s a. (a, Inr None)),
     cast_service = (\<lambda>i f. None), call_method = admin_call, remote_clone = (\<lambda>s f p. (p, Inl Unknown_exn))\<rparr>"

definition page_peer :: "(int, unit, page) peer" where
  "page_peer = (PSClient_new sample_client 1000 Page_new)\<lparr>m_stubs := [''7'' \<mapsto>
     Some \<lparr>stub_instance = Service (), stub_id = ''7'', stub_type = IAdmin_PS\<rparr>]\<rparr>"

definition title_req :: "int pack" where
  "title_req = projr (Serializer_new True ''id-0'' ''7'' ''IAdmin'' ''SetTitle'' [Simple String_t] [V_string ''News''])"

definition title_wire :: "int pack_env" where
  "title_wire = sample_wire title_req (Serializer_head False ''id-0'' ''7'' ''IAdmin'' ''SetTitle'')"

definition page_url :: "int url_env" where
  "page_url = \<lparr>std_stod = (\<lambda>_. Inr 0), extract_time = (\<lambda>_ _ _. V_null), url_less = (\<lambda>_ _. False)\<rparr>"

definition page_request :: InputPack where
  "page_request = \<lparr>m_data = \<lparr>msg_verb = None, msg_target = [], msg_headers = [], msg_body = []\<rparr>,
     m_target = \<lparr>m_path = ''/view/main-page'', m_query = ''format=html''\<rparr>\<rparr>"

theorem admin_text_is_served_witness:
  "\<exists>A' B' w' out'. RemoteCall title_wire (direct_links (page_env title_wire) (page_env title_wire) 5) \<lparr>px_manager = True, px_instance = ''7''\<rparr>
      ''IAdmin'' SetTitle_method [A_val (V_string ''News'')] (PSClient_new sample_client 1000 Page_new, page_peer) =
      ((A', B'), Inr (A_service None)) \<and> p_title (app_state B') = ''News'' \<and>
    service_OnRequest left_to_right page_url (Page_members (\<lambda>j. []) (zero_counter, []) ''/view'') (WebService_new, app_state B') page_request
      (OutputPack_new False 8) = ((w', app_state B'), Inr out') \<and>
    m_buffer out' = Some (html_page ''News'' ''Test page data'')"
proof -
  let ?A = "PSClient_new sample_client 1000 Page_new :: (int, unit, page) peer" and ?e = "page_env title_wire"
  have can: "can_call ?e ?e ?A page_peer ''7'' ''IAdmin'' () ''IAdmin'' SetTitle_method [Simple String_t]"
    by (simp add: can_call_def page_env_def title_wire_def sample_wire_def page_peer_def PSClient_new_def sample_client_def Client_Post_def
        fresh_defaults_sample ContainInterfaceId_def InvokeMethod_find_def method_chain_def IAdmin_PS_def SetTitle_method_def
        SetBody_method_def GetPage_method_def name_ok_def sample_digits)
  have req: "\<forall>req. Serializer_new True ''id-0'' ''7'' ''IAdmin'' (pm_name SetTitle_method) [Simple String_t] [V_string ''News''] = Inr req \<longrightarrow>
      text_ok (pk ?e) req"
    by (simp add: page_env_def title_wire_def title_req_def SetTitle_method_def sample_wire_defs)
  have resp: "text_ok (pk ?e) (Serializer_head False ''id-0'' ''7'' ''IAdmin'' (pm_name SetTitle_method))"
    by (simp add: page_env_def title_wire_def title_req_def SetTitle_method_def sample_wire_defs)
  have "params_list ''format=html'' = [(''format'', ''html'')]"
    by code_simp
  then have params: "InputPack_GetParams page_request = [''format'' \<mapsto> ''html'']"
    using params_list_map [of "InputPack_GetQuery page_request", folded InputPack_GetParams_def]
    by (simp add: InputPack_GetQuery_def page_request_def)
  have rest: "SetTitle_method \<in> {SetTitle_method, SetBody_method}" "call_method ?e = admin_call" "''id-0'' = new_uuid ?e (generated ?A)"
    "NUL \<notin> set ''News''" "InputPack_GetPath page_request = ''/view'' @ ''/main-page''" "set (left_to_right (Suc 0)) = {0}"
    "\<not> is_request (OutputPack_new False 8)" "pk ?e = title_wire"
    by (simp_all add: page_env_def PSClient_new_def sample_digits [simplified] InputPack_GetPath_def page_request_def left_to_right_def OutputPack_new_def)
  from admin_text_is_served [where order = left_to_right and prefix = "''/view''" and out = "OutputPack_new False 8" and now = 5
      and uenv = page_url and print_json = "\<lambda>j. []" and st = "(zero_counter, [])" and w = WebService_new and req = page_request,
      OF rest(1) can rest(2,3,4) req resp refl rest(5) params rest(6,7)]
  show ?thesis
    unfolding rest(8) by (auto simp: Page_SetTitle_def page_peer_def PSClient_new_def Page_new_def)
qed

end
