(* ===== verification/Spec2Isabelle.thy ===== *)
theory Spec2Isabelle
  imports Net_Chain Service_Locator Service_Pool Service_Object Http_Server Http_Handler Http_Servlet Http_Clients Tcp_Transport
    Db_Transaction Db_Pool App_Config App_Config_Xml App_Run App_Net Logging Remote_PS Remote_Boost Remote_Xml Remote_Factory
    Serialization_Boost Serialization_Xml Serialization_Types Json_Writer Hash_Calc Example_Microservice
    Example_Services Example_Page
begin

text \<open>
  Verification development of Mif, a C++ framework for services that talk over TCP and HTTP.

  \<^bold>\<open>The program.\<close> A program registers its classes with the reflection macros and its services with
  their interfaces. An application reads its command line and configuration, starts the log and
  then one of the servers. Over TCP, a session gives the bytes it reads to a chain of clients,
  which split them into frames, uncompress them, queue them for a worker and hand them to the
  proxy/stub client; that one turns them into calls of objects and sends the results back the same
  way. Over HTTP, a session routes each request to a handler: a web service, whose member functions
  get their arguments from the request, or a servlet, which feeds the body to a chain of clients,
  so that remote calls also work through requests. Database connections are services from a pool.

  \<^bold>\<open>Theories and sources.\<close> Paths are below \<open>include/mif\<close> and \<open>src/mif\<close>. Definitions carry the names
  of the functions they model, with the class in front where a name occurs twice; the state of a
  class is a record, an exception is a value of type \<open>exn\<close>, and a call that may throw has a value of
  type \<open>'a result\<close>. Behaviour that C++ leaves undefined is the exception \<open>Undefined_behaviour\<close>,
  which nothing catches.

  \<^item> \<open>Prelude\<close>: exceptions, buffers, string and map helpers of the standard library and Boost, the
    order in which arguments are evaluated, and the locales \<open>codec\<close>, \<open>machine\<close> and \<open>keyed_store\<close>.
    \<open>Text_Stream\<close>: reading numbers from text. \<open>Json_Value\<close>, \<open>Property_Tree\<close>: documents.
  \<^item> \<open>Crc32\<close> (\<open>common/crc32.h\<close>): the table and both routines are the bit-serial checksum.
    \<open>Hash_Calc\<close> (\<open>common/hash_calc.cpp\<close>): the texts of hashes.
    \<open>Meta\<close> (\<open>common/detail\<close>, \<open>common/static_string.h\<close>, \<open>service/inherited_list.h\<close>): the
    compile-time lists and the interface search find each inherited interface once.
  \<^item> \<open>Framing\<close>, \<open>Net_Chain\<close> (\<open>net/clients\<close>, \<open>net/client.cpp\<close>, \<open>net/clients_chain.h\<close>,
    \<open>remote/predefined/protocol\<close>): frames survive any cutting of the stream, chains deliver in
    order, requests and replies pass the archived protocol unchanged.
    \<open>Tcp_Transport\<close> (\<open>net/tcp\<close>, \<open>common/thread_pool.cpp\<close>): what is on the wire after any
    interleaving of events.
  \<^item> \<open>Service_Locator\<close>, \<open>Service_Pool\<close>, \<open>Service_Object\<close> (\<open>service\<close>): the last service put under an
    identifier wins, holders of a pool never share a service, objects die with their last pointer.
  \<^item> \<open>Http_Url\<close>, \<open>Http_Pack\<close>, \<open>Http_Session\<close>, \<open>Http_Server\<close> (\<open>net/http/detail\<close>,
    \<open>net/http/server.cpp\<close>): encodings, the views of a message, routing, the session as a machine
    over completions, and the server that keeps its sessions apart.
    \<open>Http_WebService\<close>, \<open>Http_Handler\<close> (\<open>net/http/web_service.cpp\<close>, \<open>net/http/converter\<close>,
    \<open>net/http/serializer\<close>): dispatch, arguments and results of member functions.
    \<open>Http_Servlet\<close>, \<open>Http_Connection\<close>, \<open>Http_Clients\<close> (\<open>net/http/servlet.cpp\<close>,
    \<open>connection.cpp\<close>, \<open>clients.cpp\<close>): both ends of a tunnel through requests.
  \<^item> \<open>Db_Transaction\<close>, \<open>Db_Postgres\<close>, \<open>Db_Pool\<close> (\<open>db\<close>): transactions are always closed,
    recordsets read every row, threads keep their connections.
  \<^item> \<open>Config_Interface\<close>, \<open>App_Config\<close>, \<open>App_Config_Xml\<close>, \<open>Logging\<close>, \<open>App_Run\<close>, \<open>App_Net\<close>
    (\<open>application\<close>, \<open>common/log.cpp\<close>): paths of configurations, the one logger of a process, exit
    codes and settings of an application, the limits of a started server.
  \<^item> \<open>Reflection\<close>, \<open>Serialization_Json\<close>, \<open>Serialization_Types\<close>, \<open>Serialization_Xml\<close>,
    \<open>Serialization_Boost\<close>, \<open>Json_Writer\<close> (\<open>reflection\<close>, \<open>serialization\<close>): values come back from their documents,
    what the formats lose, and type safety of reading.
  \<^item> \<open>Remote_Message\<close>, \<open>Remote_Boost\<close>, \<open>Remote_Xml\<close>, \<open>Remote_PS\<close>, \<open>Remote_Factory\<close> (\<open>remote\<close>): packs, and remote
    calls that return the value or the exception of the method; the life of remote objects.
  \<^item> \<open>Db_Session\<close>, \<open>Http_Members\<close>: what programs over the framework are made of, transactions with
    prepared statements on a stateful connection and web services with a state.
    \<open>Example_Employees\<close>, \<open>Example_Storage\<close>, \<open>Example_Crud\<close>, \<open>Example_Microservice\<close> (\<open>examples/http_crud\<close>,
    \<open>examples/microservices\<close>): employees in a table, behind HTTP and behind a second process; calls
    refine a map, requests are transactions, and a request through the storage process changes the
    table at most once. \<open>Example_Page\<close> (\<open>examples/http\<close>): what a remote call sets, the web service shows.
    \<open>Example_Services\<close>: the other example services.
    \<open>Reference_Database\<close>: a server that keeps the laws, on which the theorems are instantiated.

  \<^bold>\<open>Interfaces.\<close> \<open>codec\<close> (writing and reading are inverse) is interpreted for frames, methods, codes,
  URLs, names of enumerations, JSON values and packs; \<open>machine\<close> (a step relation with an invariant)
  for chains, HTTP sessions, transactions, object managers, the logger and the sessions of HTTP
  clients; \<open>keyed_store\<close> for the locator; \<open>path_config\<close> and \<open>cursor\<close> for the JSON and the XML
  configuration; \<open>storage_place\<close> (where storages of employees are created) for the PostgreSQL storage and
  for one behind a connection that loses messages, and its extension \<open>reliable_place\<close> for the former.

  \<^bold>\<open>Bounds and fuel.\<close> \<open>std::size_t\<close> has 64 bits, \<open>int\<close> 32. \<open>write_portions\<close> takes fuel, and the length
  of the body plus two is shown to be enough. The walk over a collection takes its length as fuel,
  which is shown to visit every item. A call that waits for its answer takes the list of wake-ups of
  its condition variable; that it returns is proved from a wake-up after the answer came.
  All other recursions end by themselves.

  \<^bold>\<open>Arguments of the model.\<close> Code that is not in the repository is an argument of the definitions that
  call it: gzip and sockets, the parsers and printers of JSON and XML, Boost archives, the client
  library of PostgreSQL, the option parser, the file system, clocks and generated identifiers,
  floating-point numbers and times, and what a program overrides or registers. Events of the
  network and of other threads are the elements of a list, and theorems hold for all lists.

  \<^bold>\<open>Not modelled.\<close> The parameters of packs over XML documents (\<open>remote/serialization/xml.h\<close>) pass nodes
  of one library to functions of another and cannot be compiled when they are used; readers of tuples
  and arrays from XML likewise. The generator of identifiers is a single call of Boost, and
  the reflection example only prints. Destructors that stop an event loop and join its threads, and
  the macros that only declare classes, have no behaviour of their own.

  Properties of one component are in its theory; the section below holds the one that needs the
  client and the server of the HTTP tunnel.
\<close>

section \<open>Clients over HTTP: both ends\<close>

lemma client_steps_completions:
  "foldl (client_step calls sf) st (map Completes xs) = conn_run (OnRequestDone calls) Client_session_OnClose sf xs st"
  by (induction xs arbitrary: st) simp_all

lemma header_names [simp]:
  "lower session_header \<noteq> ''content-length''" "lower session_header \<noteq> ''transfer-encoding''"
  by code_simp+

lemma serializer_set: "m_serializer (OutputPack_SetData p (Some d))"
  by (simp add: OutputPack_SetData_def Let_def split: list.splits)

text \<open>What a published buffer is sent as.\<close>

lemma published_request:
  assumes "q = prepare_request Post target (publish_request s b)"
  shows "q_target q = target \<and> q_verb q = Some verb_post \<and> m_buffer (q_pack q) = Some b \<and>
    o_headers (q_pack q) (lower session_header) = Some (hc_sessionId s) \<and> is_request (q_pack (publish_request s b))"
  unfolding assms
  by (simp add: prepare_request_def publish_request_def Connection_CreateRequest_def OutputPack_GetData_def serializer_set
      OutputPack_SetHeader_def OutputPack_new_def Let_def)

text \<open>
  Property C3: a client and a servlet talk through HTTP requests. When an open client session
  publishes a buffer, the servlet gets it for the session of the same identifier, and its client
  there handles it once; the first buffer that this client publishes in turn comes back in the
  response and is given, once, to the client that published the first one. Both sessions are kept,
  and the connection is closed with nothing pending. The messages are assumed to carry the header
  and the body of the packs they are made from, and the resource to be a well-formed URL.
\<close>

theorem http_tunnel:
  assumes "\<And>q. msg_target (sends q) = q_target q"
    and "\<And>q i. o_headers (q_pack q) (lower session_header) = Some i \<Longrightarrow> emplace_all (msg_headers (sends q)) session_header = Some i"
    and "\<And>q d. m_buffer (q_pack q) = Some d \<Longrightarrow> msg_body (sends q) = d"
    and "\<And>p i. o_headers p (lower session_header) = Some i \<Longrightarrow> emplace_all (msg_headers (replies p)) session_header = Some i"
    and "\<And>p d. m_buffer p = Some d \<Longrightarrow> msg_body (replies p) = d"
    and "\<And>m. InputPack_of m (hc_resource s) = Inr \<lparr>m_data = m, m_target = tgt\<rparr>"
    and "conn_current c = None" and "\<not> conn_aborted c" and "\<not> hc_needForClose s" and "hc_sessionId s \<noteq> []" and "b \<noteq> []"
    and "q = prepare_request Post (hc_resource s) (publish_request s b)" and "next_portions n (q_pack q) = Inr p"
    and "ses = session_of k0 now v (hc_sessionId s)" and "\<not> ss_needForClose ses"
    and "served (ss_client ses) b = \<lparr>oc_client = k', oc_published = d # ds, oc_close = False, oc_error = None\<rparr>" and "d \<noteq> []"
    and "call_OnData calls (hc_client s) d = \<lparr>oc_client = k, oc_published = [], oc_close = False, oc_error = None\<rparr>"
  shows "\<exists>req v' ses' res c'.
    Client_session_Publish calls False (c, s) b = (conn_opened c False [Op_connect q], s) \<and>
    InputPack_new (sends q) = Inr req \<and>
    Servlet_OnRequest served (Inr k0) now t v req out = (v', Inr res) \<and>
    m_sessions v' = (m_sessions v)(hc_sessionId s \<mapsto> ses') \<and> ss_client ses' = k' \<and>
    foldl (client_step calls sf) (conn_opened c False [Op_connect q], s)
      (map Completes ((length (conn_sessions c), 0, Connected None) #
        replicate n (length (conn_sessions c), 0, Written Write_need_buffer) @
        [(length (conn_sessions c), 0, Written Write_ok), (length (conn_sessions c), 0, Received (Some (replies res)))])) =
      (c', s\<lparr>hc_client := k\<rparr>) \<and>
    Connection_IsClosed c' \<and> cs_ops (conn_session_at c' (length (conn_sessions c))) = []"
proof -
  note q = published_request [OF assms(12)]
  let ?req = "\<lparr>m_data = sends q, m_target = tgt\<rparr>"
  obtain v' res where run: "Servlet_OnRequest served (Inr k0) now t v ?req out = (v', res)" by force
  have h: "InputPack_GetHeaders ?req session_header = Some (hc_sessionId s)" and d: "InputPack_GetData ?req = b"
    using assms(2,3) q by (simp_all add: InputPack_GetHeaders_def InputPack_GetData_def)
  let ?out = "OutputPack_SetHeader (OutputPack_SetData out (Some d)) session_header (hc_sessionId s)"
  obtain ses' where ses': "m_sessions v' = (m_sessions v)(hc_sessionId s \<mapsto> ses')" "ss_client ses' = k'" and res: "res = Inr ?out"
    using servlet_answers [OF h assms(10) d assms(11,14) refl _ run refl] assms(15,16) by auto
  let ?pack = "\<lparr>m_data = replies ?out, m_target = tgt\<rparr>"
  have "check_session_response (hc_sessionId s) ?pack = Inr d"
    using assms(4) [of ?out "hc_sessionId s"] assms(5) [of ?out d] assms(10,17)
    by (simp add: check_session_response_def InputPack_GetHeaders_def InputPack_GetData_def OutputPack_SetHeader_def)
  then have "OnRequestDone calls ?pack (conn_opened c False [], s) = ((conn_opened c False [], s\<lparr>hc_client := k\<rparr>), Inr ())"
    using assms(18) by (simp add: OnRequestDone_def)
  then have resp: "Conn_OnResponse (OnRequestDone calls) (replies ?out) (hc_resource s) (conn_opened c False [], s) =
      (conn_opened c False [], s\<lparr>hc_client := k\<rparr>)"
    by (simp add: Conn_OnResponse_def assms(6))
  have make: "Connection_MakeRequest Post (hc_resource s) (publish_request s b) c = (conn_opened c False [Op_connect q], Inr ())"
    using MakeRequest_opens [of "publish_request s b" c Post "hc_resource s"] q assms(7,12) by simp
  then have "Client_session_Publish calls False (c, s) b = (conn_opened c False [Op_connect q], s)"
    using assms(7,9) by (simp add: Client_session_Publish_def GetConnection_def Connection_IsClosed_def)
  moreover have "InputPack_new (sends q) = Inr ?req"
    using assms(1,6) q by (simp add: InputPack_new_def)
  moreover obtain c' where "Conn_Close Client_session_OnClose sf (length (conn_sessions c)) (conn_opened c False [], s\<lparr>hc_client := k\<rparr>) =
      (c', s\<lparr>hc_client := k\<rparr>)" and "Connection_IsClosed c'" and ops: "conn_sessions c' = conn_sessions (conn_opened c True [])"
    using Conn_Close_opened [of Client_session_OnClose sf c False "[]" "s\<lparr>hc_client := k\<rparr>"] by (auto simp: Client_session_OnClose_def)
  moreover have "cs_ops (conn_session_at c' (length (conn_sessions c))) = []"
    using ops by (simp add: conn_opened_def conn_session_at_def)
  ultimately show ?thesis
    using request_exchange [of "publish_request s b" c n Post "hc_resource s" p "OnRequestDone calls" Client_session_OnClose sf "replies ?out" s]
      q make resp run res ses' assms(7,8,12,13)
    unfolding client_steps_completions by auto
qed

text \<open>Messages that carry just the session header and the body.\<close>

definition session_message :: "verb option \<Rightarrow> string \<Rightarrow> OutputPack \<Rightarrow> message" where
  "session_message vb target p =
     \<lparr>msg_verb = vb, msg_target = target,
      msg_headers = (case o_headers p (lower session_header) of None \<Rightarrow> [] | Some i \<Rightarrow> [(session_header, i)]),
      msg_body = (case m_buffer p of None \<Rightarrow> [] | Some d \<Rightarrow> d)\<rparr>"

lemma session_message_carries:
  "msg_target (session_message vb target p) = target"
  "o_headers p (lower session_header) = Some i \<Longrightarrow> emplace_all (msg_headers (session_message vb target p)) session_header = Some i"
  "m_buffer p = Some d \<Longrightarrow> msg_body (session_message vb target p) = d"
  by (simp_all add: session_message_def emplace_all_eq)

theorem http_tunnel_witness:
  "\<exists>v' res ses' c'.
     Servlet_OnRequest sample_served (Inr 0) 7 True sample_servlet
       \<lparr>m_data = session_message (Some verb_post) ''/x'' (q_pack (prepare_request Post ''/x'' (publish_request sample_http_client ''ping''))),
        m_target = \<lparr>m_path = ''/x'', m_query = []\<rparr>\<rparr> (OutputPack_new False 9) = (v', Inr res) \<and>
     m_sessions v' ''id1'' = Some ses' \<and> ss_client ses' = 1 \<and>
     foldl (client_step counting_client None) (Client_session_Publish counting_client False (sample_connection, sample_http_client) ''ping'')
       (map Completes [(0, 0, Connected None), (0, 0, Written Write_ok), (0, 0, Received (Some (session_message None [] res)))]) =
       (c', sample_http_client\<lparr>hc_client := 4\<rparr>)"
proof -
  have url: "InputPack_of m (hc_resource sample_http_client) = Inr \<lparr>m_data = m, m_target = \<lparr>m_path = ''/x'', m_query = []\<rparr>\<rparr>" for m
  proof -
    have "DecodeUrl ''/x'' = Inr ''/x''" and "Target_new ''/x'' = Inr \<lparr>m_path = ''/x'', m_query = []\<rparr>"
      by code_simp+
    then show ?thesis by (simp add: InputPack_of_def sample_http_client_def)
  qed
  let ?q = "prepare_request Post (hc_resource sample_http_client) (publish_request sample_http_client ''ping'')"
  let ?sends = "\<lambda>q. session_message (q_verb q) (q_target q) (q_pack q)"
  have c: "conn_current sample_connection = None" "\<not> conn_aborted sample_connection" "conn_sessions sample_connection = []"
    by (simp_all add: sample_connection_def)
  have s: "\<not> hc_needForClose sample_http_client" "hc_sessionId sample_http_client = ''id1''" "hc_client sample_http_client = 0"
    "hc_resource sample_http_client = ''/x''"
    by (simp_all add: sample_http_client_def)
  have ses: "\<not> ss_needForClose (session_of 0 7 sample_servlet ''id1'')" "ss_client (session_of 0 7 sample_servlet ''id1'') = 0"
    by (simp_all add: session_of_def sample_servlet_def Session_Init_def)
  have served: "sample_served 0 ''ping'' = \<lparr>oc_client = 1, oc_published = [''ping'', ''x''], oc_close = False, oc_error = None\<rparr>"
    by (simp add: sample_served_def)
  have call: "call_OnData counting_client 0 ''ping'' = \<lparr>oc_client = 4, oc_published = [], oc_close = False, oc_error = None\<rparr>"
    by (simp add: counting_client_def)
  have verb: "q_verb ?q = Some verb_post" "q_target ?q = ''/x''"
    using published_request [OF refl, of "hc_resource sample_http_client" sample_http_client "''ping''"] s by simp_all
  from http_tunnel [of ?sends "session_message None []" sample_http_client "\<lparr>m_path = ''/x'', m_query = []\<rparr>" sample_connection "''ping''"
      ?q 0 "q_pack ?q" "session_of 0 7 sample_servlet ''id1''" 0 7 sample_servlet sample_served 1 "''ping''" "[''x'']" counting_client 4
      True "OutputPack_new False 9" None]
  obtain req v' ses' res c' where "Client_session_Publish counting_client False (sample_connection, sample_http_client) ''ping'' =
      (conn_opened sample_connection False [Op_connect ?q], sample_http_client)"
    and "InputPack_new (?sends ?q) = Inr req"
    and "Servlet_OnRequest sample_served (Inr 0) 7 True sample_servlet req (OutputPack_new False 9) = (v', Inr res)"
    and "m_sessions v' = (m_sessions sample_servlet)(''id1'' \<mapsto> ses')" and "ss_client ses' = 1"
    and "foldl (client_step counting_client None) (conn_opened sample_connection False [Op_connect ?q], sample_http_client)
      (map Completes [(0, 0, Connected None), (0, 0, Written Write_ok), (0, 0, Received (Some (session_message None [] res)))]) =
      (c', sample_http_client\<lparr>hc_client := 4\<rparr>)"
    using session_message_carries url c s ses served call by auto
  moreover have "InputPack_new (?sends ?q) = Inr \<lparr>m_data = ?sends ?q, m_target = \<lparr>m_path = ''/x'', m_query = []\<rparr>\<rparr>"
    using url [of "?sends ?q"] verb s by (simp add: InputPack_new_def session_message_carries)
  ultimately show ?thesis
    using verb s by (intro exI [of _ v'] exI [of _ res] exI [of _ ses'] exI [of _ c']) simp
qed

end
